(* ===== verification/Prelude.thy ===== *)
theory Prelude
  imports Main "HOL-Library.Char_ord" "HOL-Library.List_Lexorder" "HOL-Library.Multiset"
    "HOL-Library.Sublist" "HOL-Library.Word"
begin

text \<open>
  Shared vocabulary of the development: the fragment of Go's standard library
  that the modelled packages use (strings, strconv, sort, encoding/hex), list and
  option helpers, and the interface of a sorting routine.

  A Go string is a list of bytes, one \<^typ>\<open>char\<close> per byte, compared bytewise
  (the lexicographic order of List_Lexorder over Char_ord).  A slice of pointers
  is a list of options, \<^const>\<open>None\<close> being a nil pointer.
\<close>

named_theorems norm_simps \<open>simplification rules for nil-dropping normalisation\<close>
named_theorems inv_intros \<open>preservation rules for component invariants\<close>

type_synonym gostring = string
type_synonym labels = "(string \<times> string) list"


section \<open>Slices of pointers\<close>

text \<open>Dropping the nil entries of a slice of pointers.\<close>

fun somes :: "'a option list \<Rightarrow> 'a list" where
  "somes [] = []"
| "somes (None # xs) = somes xs"
| "somes (Some x # xs) = x # somes xs"

lemma somes_map_Some [simp, norm_simps]: "somes (map Some xs) = xs"
  by (induction xs) auto

lemma set_somes [simp]: "set (somes xs) = {x. Some x \<in> set xs}"
  by (induction xs rule: somes.induct) auto

lemma somes_append [simp]: "somes (xs @ ys) = somes xs @ somes ys"
  by (induction xs rule: somes.induct) auto

lemma somes_filter: "somes (filter P xs) = filter (\<lambda>x. P (Some x)) (somes xs)"
  by (induction xs rule: somes.induct) auto

lemma mset_somes_cong: "mset xs = mset ys \<Longrightarrow> mset (somes xs) = mset (somes ys)"
proof -
  have *: "mset (somes zs) = image_mset the (filter_mset (\<lambda>z. z \<noteq> None) (mset zs))" for zs :: "'a option list"
    by (induction zs rule: somes.induct) auto
  assume "mset xs = mset ys"
  then show ?thesis by (simp add: *)
qed


section \<open>strings\<close>

definition HasPrefix :: "string \<Rightarrow> string \<Rightarrow> bool" where
  "HasPrefix s p = prefix p s"

definition HasSuffix :: "string \<Rightarrow> string \<Rightarrow> bool" where
  "HasSuffix s p = suffix p s"

definition Contains :: "string \<Rightarrow> string \<Rightarrow> bool" where
  "Contains s p = sublist p s"

text \<open>\<open>strings.Join\<close>.\<close>

fun Join :: "string list \<Rightarrow> string \<Rightarrow> string" where
  "Join [] sep = []"
| "Join [s] sep = s"
| "Join (s # t # ss) sep = s @ sep @ Join (t # ss) sep"

text \<open>\<open>strings.TrimSpace\<close>: the UTF-8 encodings of the white-space runes are removed
  from both ends.\<close>

definition space_runes :: "string list" where
  "space_runes =
     [[CHR 0x09], [CHR 0x0A], [CHR 0x0B], [CHR 0x0C], [CHR 0x0D], [CHR 0x20],
      [CHR 0xC2, CHR 0x85], [CHR 0xC2, CHR 0xA0], [CHR 0xE1, CHR 0x9A, CHR 0x80]] @
     map (\<lambda>b. [CHR 0xE2, CHR 0x80, b])
      [CHR 0x80, CHR 0x81, CHR 0x82, CHR 0x83, CHR 0x84, CHR 0x85, CHR 0x86, CHR 0x87, CHR 0x88,
       CHR 0x89, CHR 0x8A, CHR 0xA8, CHR 0xA9, CHR 0xAF] @
     [[CHR 0xE2, CHR 0x81, CHR 0x9F], [CHR 0xE3, CHR 0x80, CHR 0x80]]"

function trim_with :: "string list \<Rightarrow> string \<Rightarrow> string" where
  "trim_with ps s =
     (case find (\<lambda>p. p \<noteq> [] \<and> prefix p s) ps of
        None \<Rightarrow> s
      | Some p \<Rightarrow> trim_with ps (drop (length p) s))"
  by pat_completeness auto
termination
  by (relation "measure (length \<circ> snd)")
    (auto simp: find_Some_iff prefix_def)

declare trim_with.simps [simp del]

definition TrimSpace :: "string \<Rightarrow> string" where
  "TrimSpace s = rev (trim_with (map rev space_runes) (rev (trim_with space_runes s)))"

lemma trim_with_None: "find (\<lambda>p. p \<noteq> [] \<and> prefix p s) ps = None \<Longrightarrow> trim_with ps s = s"
  by (subst trim_with.simps) simp

lemma trim_with_done: "find (\<lambda>p. p \<noteq> [] \<and> prefix p (trim_with ps s)) ps = None"
proof (induction ps s rule: trim_with.induct)
  case (1 ps s)
  then show ?case
    by (cases "find (\<lambda>p. p \<noteq> [] \<and> prefix p s) ps") (auto simp: trim_with.simps [of ps s])
qed

lemma trim_with_suffix: "suffix (trim_with ps s) s"
proof (induction ps s rule: trim_with.induct)
  case (1 ps s)
  then show ?case
    by (subst trim_with.simps) (auto split: option.split intro: suffix_order.trans suffix_drop)
qed

lemma trim_with_idem [simp]: "trim_with ps (trim_with ps s) = trim_with ps s"
  by (rule trim_with_None) (rule trim_with_done)

lemma trim_with_Nil [simp]: "trim_with ps [] = []"
  by (rule trim_with_None) (auto simp: find_None_iff)

lemma TrimSpace_Nil [simp]: "TrimSpace [] = []"
  by (simp add: TrimSpace_def)


text \<open>Splitting at a separator that does not occur on one side.\<close>

lemma sep_left_inj:
  assumes "c \<notin> set a" "c \<notin> set b"
  shows "a @ c # x = b @ c # y \<longleftrightarrow> a = b \<and> x = y"
  using assms by (auto simp: append_eq_append_conv2 Cons_eq_append_conv append_eq_Cons_conv)

lemma sep_right_inj:
  assumes "c \<notin> set x" "c \<notin> set y"
  shows "a @ c # x = b @ c # y \<longleftrightarrow> a = b \<and> x = y"
proof -
  have "rev x @ c # rev a = rev y @ c # rev b \<longleftrightarrow> rev x = rev y \<and> rev a = rev b"
    using assms by (intro sep_left_inj) auto
  moreover have "rev x @ c # rev a = rev y @ c # rev b \<longleftrightarrow> a @ c # x = b @ c # y"
    by (metis append_Cons append_Nil append_assoc rev.simps(2) rev_append rev_rev_ident)
  ultimately show ?thesis by auto
qed

lemma sep_right2_inj:
  assumes "c \<notin> set p" "c \<notin> set q" "c \<notin> set x" "c \<notin> set y"
  shows "a @ c # p @ c # x = b @ c # q @ c # y \<longleftrightarrow> a = b \<and> p = q \<and> x = y"
  using sep_right_inj [OF assms(3,4), of "a @ c # p" "b @ c # q"] sep_right_inj [OF assms(1,2), of a b]
  by auto

lemma sep_right3_inj:
  assumes "c \<notin> set p" "c \<notin> set q" "c \<notin> set r" "c \<notin> set s" "c \<notin> set x" "c \<notin> set y"
  shows "a @ c # p @ c # r @ c # x = b @ c # q @ c # s @ c # y \<longleftrightarrow> a = b \<and> p = q \<and> r = s \<and> x = y"
  using sep_right_inj [OF assms(5,6), of "a @ c # p @ c # r" "b @ c # q @ c # s"]
    sep_right2_inj [OF assms(1-4), of a b]
  by auto


section \<open>strconv\<close>

definition digit :: "nat \<Rightarrow> char" where
  "digit n = char_of (48 + n)"

definition digit_val :: "char \<Rightarrow> nat option" where
  "digit_val c = (let n = of_char c :: nat in if 48 \<le> n \<and> n \<le> 57 then Some (n - 48) else None)"

lemma digit_val_digit [simp]: "n < 10 \<Longrightarrow> digit_val (digit n) = Some n"
  by (simp add: digit_val_def digit_def of_char_of take_bit_nat_def)

fun Utoa :: "nat \<Rightarrow> string" where
  "Utoa n = (if n < 10 then [digit n] else Utoa (n div 10) @ [digit (n mod 10)])"

declare Utoa.simps [simp del]

text \<open>\<open>strconv.Itoa\<close> and \<open>strconv.FormatInt(_, 10)\<close>.\<close>

definition Itoa :: "int \<Rightarrow> string" where
  "Itoa i = (if i < 0 then CHR ''-'' # Utoa (nat (- i)) else Utoa (nat i))"

fun parse_digits :: "nat \<Rightarrow> string \<Rightarrow> nat option" where
  "parse_digits acc [] = Some acc"
| "parse_digits acc (c # cs) =
     (case digit_val c of None \<Rightarrow> None | Some d \<Rightarrow> parse_digits (acc * 10 + d) cs)"

text \<open>\<open>strconv.Atoi\<close> on a 64-bit platform: an optional sign, at least one digit, and
  a value in the range of int64; \<^const>\<open>None\<close> is the error.\<close>

definition Atoi :: "string \<Rightarrow> int option" where
  "Atoi s =
     (let (neg, ds) = (case s of
            c # cs \<Rightarrow> if c = CHR ''-'' then (True, cs) else if c = CHR ''+'' then (False, cs) else (False, s)
          | [] \<Rightarrow> (False, []))
      in if ds = [] then None
         else case parse_digits 0 ds of
           None \<Rightarrow> None
         | Some n \<Rightarrow> let i = (if neg then - int n else int n) in
             if - (2 ^ 63) \<le> i \<and> i < 2 ^ 63 then Some i else None)"

lemma parse_digits_append:
  "parse_digits acc (xs @ ys) =
     (case parse_digits acc xs of None \<Rightarrow> None | Some a \<Rightarrow> parse_digits a ys)"
  by (induction acc xs rule: parse_digits.induct) (auto split: option.split)

lemma parse_Utoa [simp]: "parse_digits 0 (Utoa n) = Some n"
  by (induction n rule: Utoa.induct)
    (subst Utoa.simps, auto simp: parse_digits_append split: option.split)

lemma Utoa_not_Nil [simp]: "Utoa n \<noteq> []"
  by (subst Utoa.simps) auto

lemma digit_neq: "n < 10 \<Longrightarrow> digit_val c = None \<Longrightarrow> digit n \<noteq> c"
  by auto

lemma Utoa_digits: "c \<in> set (Utoa n) \<Longrightarrow> digit_val c \<noteq> None"
  by (induction n rule: Utoa.induct) (subst (asm) (2) Utoa.simps, auto split: if_splits)

lemma digit_val_sep [simp]:
  "digit_val CHR ''-'' = None" "digit_val CHR ''+'' = None" "digit_val CHR ''|'' = None"
  by (simp_all add: digit_val_def)

lemma bar_notin_Itoa [simp]: "CHR ''|'' \<notin> set (Itoa i)"
  using Utoa_digits [of "CHR ''|''"] by (auto simp: Itoa_def)

lemma hd_Utoa: "Utoa n = c # cs \<Longrightarrow> digit_val c \<noteq> None"
  using Utoa_digits [of c n] by simp

lemma Atoi_Itoa: "- (2 ^ 63) \<le> i \<Longrightarrow> i < 2 ^ 63 \<Longrightarrow> Atoi (Itoa i) = Some i"
proof (cases "i < 0")
  case False
  obtain c cs where u: "Utoa (nat i) = c # cs" by (cases "Utoa (nat i)") auto
  then have "c \<noteq> CHR ''-''" "c \<noteq> CHR ''+''" using hd_Utoa [OF u] by auto
  moreover have "parse_digits 0 (c # cs) = Some (nat i)" using u by (metis parse_Utoa)
  moreover assume "i < 2 ^ 63"
  ultimately show ?thesis using False u
    by (simp add: Atoi_def Itoa_def Let_def del: parse_digits.simps)
qed (simp add: Atoi_def Itoa_def Let_def)

lemma Utoa_inj [simp]: "Utoa m = Utoa n \<longleftrightarrow> m = n"
  by (metis option.inject parse_Utoa)

lemma Itoa_inj [simp]: "Itoa i = Itoa j \<longleftrightarrow> i = j"
  using Utoa_digits [of "CHR ''-''"]
  by (auto simp: Itoa_def split: if_splits) (metis list.set_intros(1) digit_val_sep(1))+


section \<open>encoding/hex\<close>

definition hex_digit :: "nat \<Rightarrow> char" where
  "hex_digit n = (if n < 10 then char_of (48 + n) else char_of (87 + n))"

definition unhex_digit :: "char \<Rightarrow> nat option" where
  "unhex_digit c =
     (let n = of_char c :: nat in
      if 48 \<le> n \<and> n \<le> 57 then Some (n - 48)
      else if 97 \<le> n \<and> n \<le> 102 then Some (n - 87)
      else if 65 \<le> n \<and> n \<le> 70 then Some (n - 55)
      else None)"

text \<open>\<open>hex.EncodeToString\<close>.\<close>

fun hex_encode :: "string \<Rightarrow> string" where
  "hex_encode [] = []"
| "hex_encode (b # bs) = (let n = of_char b :: nat in
     hex_digit (n div 16) # hex_digit (n mod 16) # hex_encode bs)"

text \<open>\<open>hex.DecodeString\<close>: an odd length or a byte that is no hex digit is an error.\<close>

fun hex_decode :: "string \<Rightarrow> string option" where
  "hex_decode [] = Some []"
| "hex_decode [c] = None"
| "hex_decode (h # l # cs) =
     (case (unhex_digit h, unhex_digit l, hex_decode cs) of
        (Some x, Some y, Some bs) \<Rightarrow> Some (char_of (16 * x + y) # bs)
      | _ \<Rightarrow> None)"

lemma unhex_hex_digit [simp]: "n < 16 \<Longrightarrow> unhex_digit (hex_digit n) = Some n"
  by (auto simp: unhex_digit_def hex_digit_def Let_def of_char_of take_bit_nat_def)

lemma of_char_less_256 [simp]: "(of_char c :: nat) < 256"
  using of_char_mod_256 [of c] by (metis mod_less_divisor zero_less_numeral)

lemma hex_decode_encode [simp]: "hex_decode (hex_encode bs) = Some bs"
proof (induction bs)
  case (Cons b bs)
  have "(of_char b :: nat) div 16 < 16"
    using of_char_less_256 [of b] by (simp add: less_mult_imp_div_less)
  then show ?case using Cons by (simp add: Let_def)
qed simp

lemma length_hex_encode [simp]: "length (hex_encode bs) = 2 * length bs"
  by (induction bs) (auto simp: Let_def)

lemma hex_encode_inj [simp]: "hex_encode a = hex_encode b \<longleftrightarrow> a = b"
  by (metis hex_decode_encode option.inject)


section \<open>sort.Slice\<close>

text \<open>What the code may rely on after \<open>sort.Slice\<close> with a less function that
  compares keys: the result is a permutation in ascending key order.  The order of
  elements with equal keys is not promised, so every client lemma that compares two
  results asks for the key to separate the elements.\<close>

locale key_sorter =
  fixes key :: "'a \<Rightarrow> 'k::linorder"
    and srt :: "'a list \<Rightarrow> 'a list"
  assumes srt_mset: "mset (srt xs) = mset xs"
    and srt_sorted: "sorted (map key (srt xs))"
begin

lemma srt_set [simp]: "set (srt xs) = set xs"
  using srt_mset [of xs] by (metis set_mset_mset)

lemma srt_length [simp]: "length (srt xs) = length xs"
  using srt_mset [of xs] by (metis size_mset)

lemma srt_Nil [simp]: "srt [] = []"
  using srt_mset [of "[]"] by simp

lemma srt_keys: "mset xs = mset ys \<Longrightarrow> map key (srt xs) = map key (srt ys)"
  by (metis mset_map properties_for_sort srt_mset srt_sorted)

text \<open>Whatever is computed from the elements and determined by their keys does not
  depend on how the input was arranged.\<close>

lemma srt_map_det:
  assumes "\<forall>x \<in> set xs. \<forall>y \<in> set xs. key x = key y \<longrightarrow> f x = f y" and "mset xs = mset ys"
  shows "map f (srt xs) = map f (srt ys)"
proof -
  define g where "g k = f (SOME x. x \<in> set xs \<and> key x = k)" for k
  have g: "f x = g (key x)" if "x \<in> set xs" for x
  proof -
    define z where "z = (SOME z. z \<in> set xs \<and> key z = key x)"
    have "z \<in> set xs \<and> key z = key x" unfolding z_def by (rule someI [of _ x]) (use that in simp)
    then have "f z = f x" using assms(1) that by blast
    then show ?thesis by (simp add: g_def z_def)
  qed
  have s: "set ys = set xs" using assms(2) by (metis set_mset_mset)
  have "map f (srt xs) = map g (map key (srt xs))" by (simp add: g)
  also have "\<dots> = map g (map key (srt ys))" using srt_keys [OF assms(2)] by simp
  also have "\<dots> = map f (srt ys)" by (simp add: g s)
  finally show ?thesis .
qed

lemma srt_unique:
  assumes "inj_on key (set xs)" "mset ys = mset xs" "sorted (map key ys)"
  shows "srt xs = ys"
proof -
  have s: "set ys = set xs" using assms(2) by (metis set_mset_mset)
  have "mset (map key (srt xs)) = mset (map key ys)"
    using assms(2) srt_mset [of xs] by simp
  then have "map key (srt xs) = map key ys"
    using assms(3) srt_sorted [of xs] by (metis properties_for_sort)
  then show ?thesis using assms(1) s
    by (metis (no_types, lifting) inj_on_map_eq_map srt_set sup.idem)
qed

lemma srt_perm:
  assumes "inj_on key (set xs)" "mset xs = mset ys"
  shows "srt xs = srt ys"
  using assms by (intro srt_unique) (auto simp: srt_mset srt_sorted)

end

lemma sort_key_sorter: "key_sorter f (sort_key f)"
  by unfold_locales auto


section \<open>Folds\<close>

lemma fold_cong_inv:
  assumes "\<And>d s. d \<in> set ds \<Longrightarrow> P s \<Longrightarrow> f d s = g d s \<and> P (g d s)"
  shows "P s \<Longrightarrow> fold f ds s = fold g ds s"
  using assms by (induction ds arbitrary: s) auto

lemma fold_filter: "fold (\<lambda>d s. if Q d then f d s else s) ds s = fold f (filter Q ds) s"
  by (induction ds arbitrary: s) auto

lemma fold_keeps: "(\<And>d s. F (g d s) = F s) \<Longrightarrow> F (fold g ds s) = F s"
  by (induction ds arbitrary: s) auto

lemma map_filter_full:
  "length (filter P (List.map_filter f xs)) = length xs \<Longrightarrow> \<forall>x \<in> set xs. \<exists>y. f x = Some y \<and> P y"
proof (induction xs)
  case (Cons x xs)
  have l: "length (filter P (List.map_filter f xs)) \<le> length xs" for xs
  proof -
    have "length (List.map_filter f xs) \<le> length xs" by (simp add: List.map_filter_def)
    then show ?thesis by (meson length_filter_le le_trans)
  qed
  from Cons l [of xs] show ?case
    by (cases "f x") (auto simp: map_filter_simps split: if_splits)
qed simp

lemma map_enumerate_snd: "map (\<lambda>x. f (snd x)) (enumerate k ps) = map f ps"
  by (induction ps arbitrary: k) auto

end
