(* ===== verification/Merkle.thy ===== *)
theory Merkle
  imports Prelude
begin

text \<open>
  \<open>src/api/pkg/util/merkle.go\<close>: the Merkle tree over leaf hashes that the manager
  and the decision maker each build to detect drift.  The digest of
  \<open>crypto/sha256\<close> is the parameter \<open>sha\<close> of every definition, from byte strings to
  byte strings; no lemma depends on more than the hypotheses it states.
  The theory shows that the level loop ends in one root, the shape of the tree
  built (complete, logarithmic depth, leaves in order, inner hashes correct), that a
  root hash determines the leaf sequence of a given length unless a hash collision
  was met, and how search and truncation act on trees.
\<close>

section \<open>Definitions\<close>

datatype MerkleNode =
  MerkleNode (Hash: string) (Left: "MerkleNode option") (Right: "MerkleNode option")

definition HashSHA256Hex :: "(string \<Rightarrow> string) \<Rightarrow> string \<Rightarrow> string" where
  "HashSHA256Hex sha data = hex_encode (sha data)"

definition HashStringSHA256Hex :: "(string \<Rightarrow> string) \<Rightarrow> string \<Rightarrow> string" where
  "HashStringSHA256Hex sha v = HashSHA256Hex sha v"

definition hashMerklePair :: "(string \<Rightarrow> string) \<Rightarrow> string \<Rightarrow> string \<Rightarrow> string" where
  "hashMerklePair sha leftHash rightHash =
     (case (hex_decode leftHash, hex_decode rightHash) of
        (Some leftBytes, Some rightBytes) \<Rightarrow> HashSHA256Hex sha (leftBytes @ rightBytes)
      | _ \<Rightarrow> HashStringSHA256Hex sha (leftHash @ rightHash))"

text \<open>One pass of the inner loop of \<open>BuildMerkleTree\<close>: neighbours are paired, a last
  node without neighbour is paired with itself.\<close>

fun nextLevel :: "(string \<Rightarrow> string) \<Rightarrow> MerkleNode list \<Rightarrow> MerkleNode list" where
  "nextLevel sha [] = []"
| "nextLevel sha [left] =
     [MerkleNode (hashMerklePair sha (Hash left) (Hash left)) (Some left) (Some left)]"
| "nextLevel sha (left # right # nodes) =
     MerkleNode (hashMerklePair sha (Hash left) (Hash right)) (Some left) (Some right)
       # nextLevel sha nodes"

lemma length_nextLevel [simp]: "length (nextLevel sha ns) = (length ns + 1) div 2"
  by (induction sha ns rule: nextLevel.induct) auto

text \<open>The outer loop.\<close>

function mergeLevels :: "(string \<Rightarrow> string) \<Rightarrow> MerkleNode list \<Rightarrow> MerkleNode list" where
  "mergeLevels sha nodes =
     (if 1 < length nodes then mergeLevels sha (nextLevel sha nodes) else nodes)"
  by pat_completeness auto
termination
  by (relation "measure (length \<circ> snd)") auto

declare mergeLevels.simps [simp del]

definition leafNode :: "string \<Rightarrow> MerkleNode" where
  "leafNode h = MerkleNode h None None"

definition BuildMerkleTree :: "(string \<Rightarrow> string) \<Rightarrow> string list \<Rightarrow> MerkleNode" where
  "BuildMerkleTree sha leafHashes =
     (if leafHashes = [] then leafNode (HashStringSHA256Hex sha [])
      else hd (mergeLevels sha (map leafNode leafHashes)))"

fun FindMerkleNode :: "MerkleNode option \<Rightarrow> string \<Rightarrow> MerkleNode option" where
  "FindMerkleNode None h = None"
| "FindMerkleNode (Some (MerkleNode x l r)) h =
     (if x = h then Some (MerkleNode x l r)
      else case FindMerkleNode l h of
             Some n \<Rightarrow> Some n
           | None \<Rightarrow> FindMerkleNode r h)"

text \<open>\<open>depth\<close> is an int64; only its sign and predecessor are used.\<close>

fun TruncateMerkleTree :: "MerkleNode option \<Rightarrow> int \<Rightarrow> MerkleNode option" where
  "TruncateMerkleTree None depth = None"
| "TruncateMerkleTree (Some (MerkleNode x l r)) depth =
     (if depth \<le> 0 then Some (MerkleNode x None None)
      else Some (MerkleNode x (TruncateMerkleTree l (depth - 1)) (TruncateMerkleTree r (depth - 1))))"


section \<open>Specification vocabulary\<close>

text \<open>Every inner node has two children and the hash of the pair.\<close>

fun wfNode :: "(string \<Rightarrow> string) \<Rightarrow> MerkleNode \<Rightarrow> bool" where
  "wfNode sha (MerkleNode h None None) = True"
| "wfNode sha (MerkleNode h (Some l) (Some r)) =
     (h = hashMerklePair sha (Hash l) (Hash r) \<and> wfNode sha l \<and> wfNode sha r)"
| "wfNode sha (MerkleNode h _ _) = False"

text \<open>All leaves at depth \<open>d\<close>.\<close>

fun perfect :: "nat \<Rightarrow> MerkleNode \<Rightarrow> bool" where
  "perfect 0 (MerkleNode h l r) = (l = None \<and> r = None)"
| "perfect (Suc d) (MerkleNode h (Some l) (Some r)) = (perfect d l \<and> perfect d r)"
| "perfect (Suc d) (MerkleNode h _ _) = False"

fun leafHashesOf :: "MerkleNode option \<Rightarrow> string list" where
  "leafHashesOf None = []"
| "leafHashesOf (Some (MerkleNode h l r)) =
     (if l = None \<and> r = None then [h] else leafHashesOf l @ leafHashesOf r)"

fun subnodes :: "MerkleNode option \<Rightarrow> MerkleNode list" where
  "subnodes None = []"
| "subnodes (Some (MerkleNode h l r)) = MerkleNode h l r # subnodes l @ subnodes r"

text \<open>The byte string that is hashed for a pair of hashes, for one level, and for the
  whole tree over given leaf hashes.\<close>

definition pairInput :: "string \<Rightarrow> string \<Rightarrow> string" where
  "pairInput l r = (case (hex_decode l, hex_decode r) of (Some a, Some b) \<Rightarrow> a @ b | _ \<Rightarrow> l @ r)"

fun pairInputs :: "string list \<Rightarrow> string list" where
  "pairInputs [] = []"
| "pairInputs [l] = [pairInput l l]"
| "pairInputs (l # r # hs) = pairInput l r # pairInputs hs"

lemma length_pairInputs [simp]: "length (pairInputs hs) = (length hs + 1) div 2"
  by (induction hs rule: pairInputs.induct) auto

definition hashLevel :: "(string \<Rightarrow> string) \<Rightarrow> string list \<Rightarrow> string list" where
  "hashLevel sha hs = map (HashSHA256Hex sha) (pairInputs hs)"

function merkleInputs :: "(string \<Rightarrow> string) \<Rightarrow> string list \<Rightarrow> string list" where
  "merkleInputs sha hs =
     (if 1 < length hs then pairInputs hs @ merkleInputs sha (hashLevel sha hs) else [])"
  by pat_completeness auto
termination
  by (relation "measure (length \<circ> snd)") (auto simp: hashLevel_def)

declare merkleInputs.simps [simp del]

text \<open>Everything that is hashed when the leaves are the hashes of given strings.\<close>

definition digestInputs :: "(string \<Rightarrow> string) \<Rightarrow> string list \<Rightarrow> string set" where
  "digestInputs sha sers = set sers \<union> set (merkleInputs sha (map (HashStringSHA256Hex sha) sers))"

text \<open>The root hash computed on the hash strings alone.\<close>

function merkleRootHash :: "(string \<Rightarrow> string) \<Rightarrow> string list \<Rightarrow> string" where
  "merkleRootHash sha hs =
     (if 1 < length hs then merkleRootHash sha (hashLevel sha hs)
      else if hs = [] then HashSHA256Hex sha [] else hd hs)"
  by pat_completeness auto
termination
  by (relation "measure (length \<circ> snd)") (auto simp: hashLevel_def)

declare merkleRootHash.simps [simp del]

text \<open>A leaf hash is the hex form of a \<open>k\<close>-byte digest.\<close>

definition digestHex :: "nat \<Rightarrow> string \<Rightarrow> bool" where
  "digestHex k h = (case hex_decode h of Some d \<Rightarrow> length d = k \<and> h = hex_encode d | None \<Rightarrow> False)"


section \<open>The tree that is built\<close>

lemma hashMerklePair_input: "hashMerklePair sha l r = HashSHA256Hex sha (pairInput l r)"
  by (auto simp: hashMerklePair_def pairInput_def HashStringSHA256Hex_def split: option.split)

lemma Hash_nextLevel: "map Hash (nextLevel sha ns) = hashLevel sha (map Hash ns)"
  by (induction sha ns rule: nextLevel.induct) (auto simp: hashLevel_def hashMerklePair_input)

lemma length_hashLevel [simp]: "length (hashLevel sha hs) = (length hs + 1) div 2"
  by (simp add: hashLevel_def)

lemma mergeLevels_single [simp]: "length (mergeLevels sha ns) = min 1 (length ns)"
  by (induction sha ns rule: mergeLevels.induct) (subst mergeLevels.simps, auto)

lemma mergeLevels_one [simp]: "mergeLevels sha [n] = [n]"
  by (simp add: mergeLevels.simps)

lemma merkleRootHash_simps [simp]:
  "merkleRootHash sha [] = HashSHA256Hex sha []"
  "merkleRootHash sha [h] = h"
  "merkleRootHash sha (h # h' # hs) = merkleRootHash sha (hashLevel sha (h # h' # hs))"
  by (simp_all add: merkleRootHash.simps)

lemma nextLevel_nonempty [simp]: "nextLevel sha ns = [] \<longleftrightarrow> ns = []"
  by (cases "(sha, ns)" rule: nextLevel.cases) auto

lemma mergeLevels_root:
  "ns \<noteq> [] \<Longrightarrow> Hash (hd (mergeLevels sha ns)) = merkleRootHash sha (map Hash ns)"
proof (induction sha ns rule: mergeLevels.induct)
  case (1 sha ns)
  show ?case
  proof (cases "1 < length ns")
    case True
    with 1 have "nextLevel sha ns \<noteq> []" by simp
    with 1 True show ?thesis
      by (simp add: mergeLevels.simps [of sha ns] merkleRootHash.simps [of sha "map Hash ns"] Hash_nextLevel)
  next
    case False
    with 1 show ?thesis
      by (cases ns) auto
  qed
qed

lemma Hash_leafNode [simp]: "Hash (leafNode h) = h"
  by (simp add: leafNode_def)

lemma map_Hash_leafNode [simp]: "map (Hash \<circ> leafNode) hs = hs"
  by (induction hs) auto

lemma Hash_BuildMerkleTree: "Hash (BuildMerkleTree sha hs) = merkleRootHash sha hs"
  using mergeLevels_root [of "map leafNode hs" sha]
  by (auto simp: BuildMerkleTree_def HashStringSHA256Hex_def)


lemma leafHashes_nextLevel:
  "\<forall>n \<in> set ns. perfect d n \<Longrightarrow>
   concat (map (leafHashesOf \<circ> Some) (nextLevel sha ns)) =
     concat (map (leafHashesOf \<circ> Some) ns)
       @ (if odd (length ns) then leafHashesOf (Some (last ns)) else [])"
  by (induction sha ns rule: nextLevel.induct) auto

lemma perfect_nextLevel:
  "\<forall>n \<in> set ns. perfect d n \<and> wfNode sha n \<Longrightarrow>
   \<forall>n \<in> set (nextLevel sha ns). perfect (Suc d) n \<and> wfNode sha n"
  by (induction sha ns rule: nextLevel.induct) auto

text \<open>What holds of every level \<open>ns\<close> at distance \<open>d\<close> from the leaves \<open>hs\<close>.\<close>

definition levelInv :: "(string \<Rightarrow> string) \<Rightarrow> string list \<Rightarrow> nat \<Rightarrow> MerkleNode list \<Rightarrow> bool" where
  "levelInv sha hs d ns \<longleftrightarrow>
     ns \<noteq> [] \<and> (\<forall>n \<in> set ns. perfect d n \<and> wfNode sha n) \<and>
     prefix hs (concat (map (leafHashesOf \<circ> Some) ns)) \<and>
     (length ns - 1) * 2 ^ d < length hs \<and> length hs \<le> length ns * 2 ^ d \<and>
     (d = 0 \<or> 2 ^ (d - 1) < length hs)"

lemma levelInv_nextLevel:
  assumes "levelInv sha hs d ns" "1 < length ns"
  shows "levelInv sha hs (Suc d) (nextLevel sha ns)"
proof -
  from assms have lower: "(length ns - 1) * 2 ^ d < length hs"
    and upper: "length hs \<le> length ns * 2 ^ d" by (auto simp: levelInv_def)
  have "((length ns + 1) div 2 - 1) * 2 \<le> length ns - 1" by auto
  then have "((length ns + 1) div 2 - 1) * 2 * 2 ^ d \<le> (length ns - 1) * 2 ^ d"
    by (rule mult_right_mono) simp
  then have l: "((length ns + 1) div 2 - 1) * 2 ^ Suc d < length hs"
    using lower by (simp add: algebra_simps)
  have "length ns * 2 ^ d \<le> ((length ns + 1) div 2 * 2) * 2 ^ d"
    by (rule mult_right_mono) auto
  with upper have "length hs \<le> ((length ns + 1) div 2 * 2) * 2 ^ d" by (rule order_trans)
  then have u: "length hs \<le> (length ns + 1) div 2 * 2 ^ Suc d"
    by (simp add: mult.assoc)
  have "1 * 2 ^ d \<le> (length ns - 1) * 2 ^ d"
    using assms(2) by (intro mult_right_mono) auto
  from order_le_less_trans [OF this lower] have g: "2 ^ d < length hs" by simp
  have p: "prefix hs (concat (map (leafHashesOf \<circ> Some) (nextLevel sha ns)))"
    using assms leafHashes_nextLevel [of ns d sha]
    by (auto simp: levelInv_def simp del: map_map intro: prefix_prefix)
  show ?thesis using assms l u g p perfect_nextLevel [of ns d sha]
    by (auto simp: levelInv_def)
qed

lemma mergeLevels_inv:
  "levelInv sha hs d ns \<Longrightarrow> \<exists>d'. levelInv sha hs d' (mergeLevels sha ns)"
proof (induction sha ns arbitrary: d rule: mergeLevels.induct)
  case (1 sha ns)
  then show ?case
    by (cases "1 < length ns")
      (auto simp: mergeLevels.simps [of sha ns] dest: levelInv_nextLevel)
qed

lemma levelInv_leaves: "hs \<noteq> [] \<Longrightarrow> levelInv sha hs 0 (map leafNode hs)"
proof -
  have "concat (map (leafHashesOf \<circ> Some \<circ> leafNode) hs) = hs"
    by (induction hs) (auto simp: leafNode_def)
  moreover assume "hs \<noteq> []"
  ultimately show ?thesis by (auto simp: levelInv_def leafNode_def)
qed

lemma BuildMerkleTree_shape:
  assumes "hs \<noteq> []"
  shows "\<exists>d. perfect d (BuildMerkleTree sha hs) \<and> wfNode sha (BuildMerkleTree sha hs) \<and>
           prefix hs (leafHashesOf (Some (BuildMerkleTree sha hs))) \<and>
           length hs \<le> 2 ^ d \<and> (d = 0 \<or> 2 ^ (d - 1) < length hs)"
proof -
  obtain d where d: "levelInv sha hs d (mergeLevels sha (map leafNode hs))"
    using mergeLevels_inv [OF levelInv_leaves [OF assms]] by blast
  obtain n where n: "mergeLevels sha (map leafNode hs) = [n]"
    using mergeLevels_single [of sha "map leafNode hs"] assms
    by (cases "mergeLevels sha (map leafNode hs)") (auto simp: min_def split: if_splits)
  show ?thesis using d n assms by (auto simp: BuildMerkleTree_def levelInv_def)
qed


section \<open>Binding\<close>

lemma digestHex_decode: "digestHex k h \<Longrightarrow> \<exists>d. hex_decode h = Some d \<and> length d = k \<and> h = hex_encode d"
  by (auto simp: digestHex_def split: option.splits)

lemma digestHex_sha [simp]: "length (sha x) = k \<Longrightarrow> digestHex k (HashSHA256Hex sha x)"
  by (simp add: digestHex_def HashSHA256Hex_def)

lemma pairInput_inj:
  assumes "digestHex k a" "digestHex k b" "digestHex k a'" "digestHex k b'"
  shows "pairInput a b = pairInput a' b' \<longleftrightarrow> a = a' \<and> b = b'"
proof -
  from assms [THEN digestHex_decode] obtain x y x' y'
    where "a = hex_encode x" "b = hex_encode y" "a' = hex_encode x'" "b' = hex_encode y'"
      and "length x = k" "length y = k" "length x' = k" "length y' = k" by blast
  then show ?thesis by (simp add: pairInput_def)
qed

lemma pairInputs_inj:
  "length hs = length hs' \<Longrightarrow> \<forall>h \<in> set hs \<union> set hs'. digestHex k h \<Longrightarrow>
   pairInputs hs = pairInputs hs' \<Longrightarrow> hs = hs'"
proof (induction hs arbitrary: hs' rule: pairInputs.induct)
  case (2 l)
  then show ?case
    by (cases hs' rule: pairInputs.cases) (auto simp: pairInput_inj [of k])
next
  case (3 l r hs)
  then show ?case
    by (cases hs' rule: pairInputs.cases) (auto simp: pairInput_inj [of k])
qed simp

lemma HashSHA256Hex_fun: "HashSHA256Hex sha = (\<lambda>x. hex_encode (sha x))"
  by (rule ext) (simp add: HashSHA256Hex_def)

lemma HashStringSHA256Hex_fun: "HashStringSHA256Hex sha = (\<lambda>x. hex_encode (sha x))"
  by (rule ext) (simp add: HashStringSHA256Hex_def HashSHA256Hex_def)

lemma hashLevel_inj:
  assumes "length hs = length hs'" "\<forall>h \<in> set hs \<union> set hs'. digestHex k h"
    and "inj_on sha (set (pairInputs hs) \<union> set (pairInputs hs'))"
    and "hashLevel sha hs = hashLevel sha hs'"
  shows "hs = hs'"
proof -
  have "map sha (pairInputs hs) = map sha (pairInputs hs')"
    using assms(4) map_injective [of hex_encode "map sha (pairInputs hs)" "map sha (pairInputs hs')"]
    by (simp add: hashLevel_def HashSHA256Hex_fun inj_def comp_def)
  then have "pairInputs hs = pairInputs hs'"
    using assms(3) by (simp add: inj_on_map_eq_map)
  then show ?thesis by (rule pairInputs_inj [OF assms(1,2)])
qed

lemma merkleRootHash_binding:
  "length hs = length hs' \<Longrightarrow> \<forall>h \<in> set hs \<union> set hs'. digestHex k h \<Longrightarrow> \<forall>x. length (sha x) = k \<Longrightarrow>
   inj_on sha (set (merkleInputs sha hs) \<union> set (merkleInputs sha hs')) \<Longrightarrow>
   merkleRootHash sha hs = merkleRootHash sha hs' \<Longrightarrow> hs = hs'"
proof (induction sha hs arbitrary: hs' rule: merkleRootHash.induct)
  case (1 sha hs)
  show ?case
  proof (cases "1 < length hs")
    case True
    then have len': "1 < length hs'" using "1.prems"(1) by simp
    have ins: "merkleInputs sha hs = pairInputs hs @ merkleInputs sha (hashLevel sha hs)"
      "merkleInputs sha hs' = pairInputs hs' @ merkleInputs sha (hashLevel sha hs')"
      using True len' by (simp_all add: merkleInputs.simps [of sha hs] merkleInputs.simps [of sha hs'])
    have "hashLevel sha hs = hashLevel sha hs'"
    proof (rule "1.IH" [OF True])
      show "length (hashLevel sha hs) = length (hashLevel sha hs')" using "1.prems"(1) by simp
      show "\<forall>h \<in> set (hashLevel sha hs) \<union> set (hashLevel sha hs'). digestHex k h"
        using "1.prems"(3) by (auto simp: hashLevel_def)
      show "\<forall>x. length (sha x) = k" by (rule "1.prems"(3))
      show "inj_on sha (set (merkleInputs sha (hashLevel sha hs)) \<union> set (merkleInputs sha (hashLevel sha hs')))"
        using "1.prems"(4) ins by (auto intro: inj_on_subset)
      show "merkleRootHash sha (hashLevel sha hs) = merkleRootHash sha (hashLevel sha hs')"
        using "1.prems"(5) True len'
        by (simp add: merkleRootHash.simps [of sha hs] merkleRootHash.simps [of sha hs'])
    qed
    moreover have "inj_on sha (set (pairInputs hs) \<union> set (pairInputs hs'))"
      using "1.prems"(4) ins by (auto intro: inj_on_subset)
    ultimately show ?thesis by (intro hashLevel_inj [OF "1.prems"(1,2)])
  next
    case False
    then show ?thesis using "1.prems"(1,5) by (cases hs; cases hs') auto
  qed
qed

lemma digest_binding:
  assumes len: "length ss = length ts" and k: "\<forall>x. length (sha x) = k"
    and inj: "inj_on sha (digestInputs sha ss \<union> digestInputs sha ts)"
    and eq: "merkleRootHash sha (map (HashStringSHA256Hex sha) ss) =
             merkleRootHash sha (map (HashStringSHA256Hex sha) ts)"
  shows "ss = ts"
proof -
  let ?h = "HashStringSHA256Hex sha"
  have "map ?h ss = map ?h ts"
  proof (rule merkleRootHash_binding [OF _ _ k _ eq])
    show "length (map ?h ss) = length (map ?h ts)" using len by simp
    show "\<forall>h \<in> set (map ?h ss) \<union> set (map ?h ts). digestHex k h"
      using k by (auto simp: HashStringSHA256Hex_def)
    show "inj_on sha (set (merkleInputs sha (map ?h ss)) \<union> set (merkleInputs sha (map ?h ts)))"
      using inj by (rule inj_on_subset) (auto simp: digestInputs_def)
  qed
  then have "map sha ss = map sha ts"
    using map_injective [of hex_encode "map sha ss" "map sha ts"]
    by (simp add: HashStringSHA256Hex_fun inj_def comp_def)
  moreover have "inj_on sha (set ss \<union> set ts)"
    using inj by (rule inj_on_subset) (auto simp: digestInputs_def)
  ultimately show ?thesis by (simp add: inj_on_map_eq_map)
qed


section \<open>Search and truncation\<close>

lemma FindMerkleNode_spec:
  "FindMerkleNode t h = find (\<lambda>n. Hash n = h) (subnodes t)"
proof (induction t h rule: FindMerkleNode.induct)
  case (2 x l r h)
  have "find P (xs @ ys) = (case find P xs of Some n \<Rightarrow> Some n | None \<Rightarrow> find P ys)" for P :: "MerkleNode \<Rightarrow> bool" and xs ys
    by (induction xs) auto
  with 2 show ?case by (auto split: option.split)
qed simp

fun height :: "MerkleNode option \<Rightarrow> nat" where
  "height None = 0"
| "height (Some (MerkleNode h l r)) = Suc (max (height l) (height r))"

lemma height_Truncate: "height (TruncateMerkleTree t d) \<le> Suc (nat d)"
proof (induction t d rule: TruncateMerkleTree.induct)
  case (2 x l r d)
  then show ?case by (cases "d \<le> 0") auto
qed simp

lemma height_0 [simp]: "height t = 0 \<longleftrightarrow> t = None"
  by (cases t rule: height.cases) auto

lemma Truncate_id: "int (height t) \<le> d + 1 \<Longrightarrow> TruncateMerkleTree t d = t"
proof (induction t d rule: TruncateMerkleTree.induct)
  case (2 x l r d)
  from "2.prems" have "int (height l) \<le> d" "int (height r) \<le> d" by simp_all
  moreover from this have "d \<le> 0 \<Longrightarrow> height l = 0 \<and> height r = 0" by linarith
  ultimately show ?case using 2
    by (cases "d \<le> 0") simp_all
qed simp

lemma Truncate_None [simp]: "TruncateMerkleTree t d = None \<longleftrightarrow> t = None"
  by (cases "(t, d)" rule: TruncateMerkleTree.cases) auto

lemma Hash_Truncate: "map_option Hash (TruncateMerkleTree t d) = map_option Hash t"
  by (cases "(t, d)" rule: TruncateMerkleTree.cases) auto

lemma merkleRootHash_not_Nil:
  "\<forall>x. sha x \<noteq> [] \<Longrightarrow> [] \<notin> set hs \<Longrightarrow> merkleRootHash sha hs \<noteq> []"
proof (induction sha hs rule: merkleRootHash.induct)
  case (1 sha hs)
  have hex: "HashSHA256Hex sha x \<noteq> []" for x
    using "1.prems"(1) by (metis HashSHA256Hex_def length_hex_encode length_0_conv mult_eq_0_iff zero_neq_numeral)
  then have "[] \<notin> set (hashLevel sha hs)"
    unfolding hashLevel_def set_map by (metis imageE)
  with 1 hex show ?case
    by (cases hs; cases "tl hs") (auto simp: merkleRootHash.simps [of sha hs])
qed

end
