(* ===== verification/Generic_Map.thy ===== *)
theory Generic_Map
  imports Prelude "HOL-Library.AList"
begin

text \<open>
  \<open>src/api/pkg/util/generic_map.go\<close>: the typed wrapper of \<open>sync.Map\<close>.  A map is the
  list of its entries in the order in which \<open>Range\<close> meets them, with distinct keys;
  \<open>sync.Map\<close> promises no order, and no lemma used by a client depends on it.
  The locale \<open>entry_store\<close> is the contract the decision maker relies on.
\<close>

type_synonym ('k, 'v) GenericMap = "('k \<times> 'v) list"

section \<open>Operations\<close>

definition NewGenericMap :: "('k, 'v) GenericMap" where
  "NewGenericMap = []"

definition Load :: "('k, 'v) GenericMap \<Rightarrow> 'k \<Rightarrow> 'v option" where
  "Load m k = map_of m k"

definition Store :: "'k \<Rightarrow> 'v \<Rightarrow> ('k, 'v) GenericMap \<Rightarrow> ('k, 'v) GenericMap" where
  "Store k v m = AList.update k v m"

definition Clear :: "('k, 'v) GenericMap \<Rightarrow> ('k, 'v) GenericMap" where
  "Clear m = []"

definition Delete :: "'k \<Rightarrow> ('k, 'v) GenericMap \<Rightarrow> ('k, 'v) GenericMap" where
  "Delete k m = AList.delete k m"

definition LoadOrStore :: "'k \<Rightarrow> 'v \<Rightarrow> ('k, 'v) GenericMap \<Rightarrow> ('v \<times> bool) \<times> ('k, 'v) GenericMap" where
  "LoadOrStore k v m = (case map_of m k of Some a \<Rightarrow> ((a, True), m) | None \<Rightarrow> ((v, False), AList.update k v m))"

definition LoadAndDelete :: "'k \<Rightarrow> ('k, 'v) GenericMap \<Rightarrow> 'v option \<times> ('k, 'v) GenericMap" where
  "LoadAndDelete k m = (map_of m k, AList.delete k m)"

definition Swap :: "'k \<Rightarrow> 'v \<Rightarrow> ('k, 'v) GenericMap \<Rightarrow> 'v option \<times> ('k, 'v) GenericMap" where
  "Swap k v m = (map_of m k, AList.update k v m)"

definition CompareAndSwap :: "'k \<Rightarrow> 'v \<Rightarrow> 'v \<Rightarrow> ('k, 'v) GenericMap \<Rightarrow> bool \<times> ('k, 'v) GenericMap" where
  "CompareAndSwap k old new m =
     (if map_of m k = Some old then (True, AList.update k new m) else (False, m))"

definition CompareAndDelete :: "'k \<Rightarrow> 'v \<Rightarrow> ('k, 'v) GenericMap \<Rightarrow> bool \<times> ('k, 'v) GenericMap" where
  "CompareAndDelete k old m =
     (if map_of m k = Some old then (True, AList.delete k m) else (False, m))"

text \<open>\<open>Range\<close> with a callback that threads a state and never stops early, the way the
  sources call it.\<close>

definition Range :: "('k \<Rightarrow> 'v \<Rightarrow> 's \<Rightarrow> 's) \<Rightarrow> ('k, 'v) GenericMap \<Rightarrow> 's \<Rightarrow> 's" where
  "Range f m s = fold (\<lambda>(k, v). f k v) m s"

definition wfMap :: "('k, 'v) GenericMap \<Rightarrow> bool" where
  "wfMap m = distinct (map fst m)"


section \<open>The contract\<close>

locale entry_store =
  fixes load :: "'m \<Rightarrow> 'k \<Rightarrow> 'v option"
    and store :: "'k \<Rightarrow> 'v \<Rightarrow> 'm \<Rightarrow> 'm"
    and del :: "'k \<Rightarrow> 'm \<Rightarrow> 'm"
    and clear :: "'m \<Rightarrow> 'm"
    and keys :: "'m \<Rightarrow> 'k list"
    and inv :: "'m \<Rightarrow> bool"
  assumes load_store: "inv m \<Longrightarrow> load (store k v m) = (load m)(k \<mapsto> v)"
    and load_del: "inv m \<Longrightarrow> load (del k m) = (load m)(k := None)"
    and load_clear: "load (clear m) = (\<lambda>_. None)"
    and keys_dom: "inv m \<Longrightarrow> set (keys m) = dom (load m)"
    and inv_store [simp, intro]: "inv m \<Longrightarrow> inv (store k v m)"
    and inv_del [simp, intro]: "inv m \<Longrightarrow> inv (del k m)"
    and inv_clear [simp, intro]: "inv (clear m)"
begin

lemma inv_fold_del: "inv m \<Longrightarrow> inv (fold del ks m)"
  by (induction ks arbitrary: m) auto

lemma load_fold_del: "inv m \<Longrightarrow> load (fold del ks m) k = (if k \<in> set ks then None else load m k)"
  by (induction ks arbitrary: m) (auto simp: load_del)

text \<open>Collecting the keys that satisfy a predicate and deleting them one by one is a
  restriction of the map.\<close>

lemma load_sweep:
  assumes "inv m"
  shows "load (fold del (filter P (keys m)) m) k = (if P k then None else load m k)"
  using load_fold_del [OF assms, of "filter P (keys m)" k] keys_dom [OF assms] by auto

lemma inv_fold_store: "inv m \<Longrightarrow> inv (fold (\<lambda>x. store (f x) (g x)) xs m)"
  by (induction xs arbitrary: m) auto

lemma load_fold_store:
  "inv m \<Longrightarrow> load (fold (\<lambda>x. store (f x) (g x)) xs m) k =
     (case find (\<lambda>x. f x = k) (rev xs) of Some x \<Rightarrow> Some (g x) | None \<Rightarrow> load m k)"
proof (induction xs rule: rev_induct)
  case (snoc x xs)
  then show ?case by (auto simp: load_store inv_fold_store)
qed simp

end

lemma Range_keys: "Range (\<lambda>k v ks. ks @ [k]) m ks = ks @ map fst m"
  by (induction m arbitrary: ks) (auto simp: Range_def)

lemma Range_filter_keys:
  "Range (\<lambda>k v ks. if P k then ks @ [k] else ks) m ks = ks @ filter P (map fst m)"
  by (induction m arbitrary: ks) (auto simp: Range_def)

interpretation gmap: entry_store Load Store Delete Clear "\<lambda>m. Range (\<lambda>k v ks. ks @ [k]) m []" wfMap
  by unfold_locales
    (auto simp: Load_def Store_def Delete_def Clear_def wfMap_def Range_keys update_conv'
      delete_conv' distinct_update distinct_delete dom_map_of_conv_image_fst intro: rev_image_eqI)

lemma Load_New [simp]: "Load NewGenericMap = Map.empty"
  by (rule ext) (simp add: NewGenericMap_def Load_def)

lemma wfMap_New [simp]: "wfMap NewGenericMap"
  by (simp add: wfMap_def NewGenericMap_def)

text \<open>The compound operations in terms of the basic ones.\<close>

lemma LoadOrStore_spec:
  "LoadOrStore k v m =
     (case Load m k of Some a \<Rightarrow> ((a, True), m) | None \<Rightarrow> ((v, False), Store k v m))"
  unfolding LoadOrStore_def Load_def Store_def by (rule refl)

lemma Swap_load: "wfMap m \<Longrightarrow> Swap k v m = (p, m') \<Longrightarrow> p = Load m k \<and> Load m' = (Load m)(k \<mapsto> v)"
  by (auto simp: Swap_def Load_def update_conv')

lemma LoadAndDelete_load:
  "wfMap m \<Longrightarrow> LoadAndDelete k m = (p, m') \<Longrightarrow> p = Load m k \<and> Load m' = (Load m)(k := None)"
  by (auto simp: LoadAndDelete_def Load_def delete_conv')

section \<open>Refinement of partial functions\<close>

text \<open>Calls of a map, their effect on the map, and the replies to a sequence of calls.\<close>

datatype ('k, 'v) mapOp =
    OpLoad 'k | OpStore 'k 'v | OpDelete 'k | OpClear | OpLoadOrStore 'k 'v | OpLoadAndDelete 'k
  | OpSwap 'k 'v | OpCompareAndSwap 'k 'v 'v | OpCompareAndDelete 'k 'v

fun gmStep :: "('k, 'v) mapOp \<Rightarrow> ('k, 'v) GenericMap \<Rightarrow> ('v option \<times> bool) \<times> ('k, 'v) GenericMap" where
  "gmStep (OpLoad k) m = ((Load m k, Load m k \<noteq> None), m)"
| "gmStep (OpStore k v) m = ((None, True), Store k v m)"
| "gmStep (OpDelete k) m = ((None, True), Delete k m)"
| "gmStep OpClear m = ((None, True), Clear m)"
| "gmStep (OpLoadOrStore k v) m = (case LoadOrStore k v m of ((a, loaded), m') \<Rightarrow> ((Some a, loaded), m'))"
| "gmStep (OpLoadAndDelete k) m = (case LoadAndDelete k m of (a, m') \<Rightarrow> ((a, a \<noteq> None), m'))"
| "gmStep (OpSwap k v) m = (case Swap k v m of (a, m') \<Rightarrow> ((a, a \<noteq> None), m'))"
| "gmStep (OpCompareAndSwap k old new) m = (case CompareAndSwap k old new m of (b, m') \<Rightarrow> ((None, b), m'))"
| "gmStep (OpCompareAndDelete k old) m = (case CompareAndDelete k old m of (b, m') \<Rightarrow> ((None, b), m'))"

text \<open>The same operations on a partial function.\<close>

fun specStep :: "('k, 'v) mapOp \<Rightarrow> ('k \<rightharpoonup> 'v) \<Rightarrow> ('v option \<times> bool) \<times> ('k \<rightharpoonup> 'v)" where
  "specStep (OpLoad k) f = ((f k, f k \<noteq> None), f)"
| "specStep (OpStore k v) f = ((None, True), f(k \<mapsto> v))"
| "specStep (OpDelete k) f = ((None, True), f(k := None))"
| "specStep OpClear f = ((None, True), Map.empty)"
| "specStep (OpLoadOrStore k v) f =
     (case f k of Some a \<Rightarrow> ((Some a, True), f) | None \<Rightarrow> ((Some v, False), f(k \<mapsto> v)))"
| "specStep (OpLoadAndDelete k) f = ((f k, f k \<noteq> None), f(k := None))"
| "specStep (OpSwap k v) f = ((f k, f k \<noteq> None), f(k \<mapsto> v))"
| "specStep (OpCompareAndSwap k old new) f = (if f k = Some old then ((None, True), f(k \<mapsto> new)) else ((None, False), f))"
| "specStep (OpCompareAndDelete k old) f = (if f k = Some old then ((None, True), f(k := None)) else ((None, False), f))"

fun runOps :: "('op \<Rightarrow> 's \<Rightarrow> 'r \<times> 's) \<Rightarrow> 'op list \<Rightarrow> 's \<Rightarrow> 'r list \<times> 's" where
  "runOps step [] s = ([], s)"
| "runOps step (op # ops) s = (let (r, s1) = step op s; (rs, s2) = runOps step ops s1 in (r # rs, s2))"

lemma gmStep_refines:
  "wfMap m \<Longrightarrow> specStep op (Load m) = (fst (gmStep op m), Load (snd (gmStep op m))) \<and> wfMap (snd (gmStep op m))"
  by (cases op)
    (auto simp: LoadOrStore_def LoadAndDelete_def Swap_def CompareAndSwap_def CompareAndDelete_def
      gmap.load_store gmap.load_del gmap.load_clear Store_def [symmetric] Delete_def [symmetric] Load_def [symmetric]
      split: option.splits)

lemma gmRun_refines:
  "wfMap m \<Longrightarrow> runOps specStep ops (Load m) = (fst (runOps gmStep ops m), Load (snd (runOps gmStep ops m))) \<and>
     wfMap (snd (runOps gmStep ops m))"
proof (induction ops arbitrary: m)
  case (Cons op ops)
  show ?case using gmStep_refines [OF Cons.prems, of op] Cons.IH [of "snd (gmStep op m)"]
    by (auto simp: case_prod_beta Let_def)
qed simp

end
