(* ===== verification/Go_Strings.thy ===== *)
theory Go_Strings
  imports Prelude
begin

text \<open>
  The string routines of Go's standard library that the /proc and cgroup parsers
  call: \<open>strings.Split\<close>, \<open>strings.Fields\<close>, \<open>strings.TrimPrefix\<close>, \<open>strings.TrimSuffix\<close>,
  \<open>strings.ReplaceAll\<close> on single bytes, \<open>strings.TrimRight\<close>, \<open>bufio.Scanner\<close> over
  lines and \<open>strconv.ParseUint\<close>.
\<close>

section \<open>Definitions\<close>

text \<open>\<open>strings.Split(s, sep)\<close> for a one-byte separator.\<close>

fun Split :: "string \<Rightarrow> char \<Rightarrow> string list" where
  "Split [] sep = [[]]"
| "Split (c # cs) sep =
     (if c = sep then [] # Split cs sep
      else case Split cs sep of
             p # ps \<Rightarrow> (c # p) # ps
           | [] \<Rightarrow> [[c]])"

text \<open>\<open>strings.SplitN(s, sep, 2)\<close> for a one-byte separator.\<close>

fun SplitN2 :: "string \<Rightarrow> char \<Rightarrow> string list" where
  "SplitN2 [] sep = [[]]"
| "SplitN2 (c # cs) sep =
     (if c = sep then [[], cs]
      else case SplitN2 cs sep of
             p # ps \<Rightarrow> (c # p) # ps
           | [] \<Rightarrow> [[c]])"

definition TrimPrefix :: "string \<Rightarrow> string \<Rightarrow> string" where
  "TrimPrefix s p = (if prefix p s then drop (length p) s else s)"

definition TrimSuffix :: "string \<Rightarrow> string \<Rightarrow> string" where
  "TrimSuffix s p = (if suffix p s then take (length s - length p) s else s)"

definition TrimRightByte :: "string \<Rightarrow> char \<Rightarrow> string" where
  "TrimRightByte s c = rev (dropWhile (\<lambda>x. x = c) (rev s))"

definition ReplaceByte :: "string \<Rightarrow> char \<Rightarrow> char \<Rightarrow> string" where
  "ReplaceByte s old new = map (\<lambda>c. if c = old then new else c) s"

text \<open>\<open>strings.Fields\<close>: the maximal runs without white space.\<close>

function mark_spaces :: "string \<Rightarrow> char option list" where
  "mark_spaces s =
     (case s of
        [] \<Rightarrow> []
      | c # cs \<Rightarrow>
          (case find (\<lambda>p. p \<noteq> [] \<and> prefix p s) space_runes of
             Some p \<Rightarrow> None # mark_spaces (drop (length p) s)
           | None \<Rightarrow> Some c # mark_spaces cs))"
  by pat_completeness auto
termination
  by (relation "measure length") (auto simp: find_Some_iff prefix_def)

declare mark_spaces.simps [simp del]

fun marked_fields :: "char option list \<Rightarrow> string \<Rightarrow> string list" where
  "marked_fields [] cur = (if cur = [] then [] else [rev cur])"
| "marked_fields (Some c # ms) cur = marked_fields ms (c # cur)"
| "marked_fields (None # ms) cur = (if cur = [] then [] else [rev cur]) @ marked_fields ms []"

definition Fields :: "string \<Rightarrow> string list" where
  "Fields s = marked_fields (mark_spaces s) []"

text \<open>\<open>bufio.Scanner\<close> with its default split function: the lines without their end
  marker; scanning stops at a line that does not fit the 64 KiB buffer.\<close>

definition dropCR :: "string \<Rightarrow> string" where
  "dropCR l = (if l \<noteq> [] \<and> last l = CHR 0x0D then butlast l else l)"

definition ScanLines :: "string \<Rightarrow> string list" where
  "ScanLines content =
     (let ls = Split content (CHR 0x0A);
          ls' = (if last ls = [] then butlast ls else ls)
      in map dropCR (takeWhile (\<lambda>l. length l < 65536) ls'))"

text \<open>\<open>v, _ = strconv.ParseUint(s, 10, 64)\<close> with the error dropped: 0 on a syntax
  error and the largest value when out of range.\<close>

definition ParseUint :: "string \<Rightarrow> 64 word" where
  "ParseUint s =
     (if s = [] then 0
      else case parse_digits 0 s of
             None \<Rightarrow> 0
           | Some n \<Rightarrow> if n < 2 ^ 64 then word_of_nat n else - 1)"


section \<open>Facts\<close>

lemma Split_not_Nil [simp]: "Split s c \<noteq> []"
  by (cases s) (auto split: list.split)

lemma Split_Join: "Join (Split s c) [c] = s"
proof (induction s c rule: Split.induct)
  case (2 a cs c)
  obtain p ps where p: "Split cs c = p # ps" using Split_not_Nil by (metis list.exhaust)
  have "Join (x # Split cs c) [c] = x @ c # Join (Split cs c) [c]" for x
    by (simp add: p)
  moreover have "Join ((a # p) # ps) [c] = a # Join (p # ps) [c]"
    by (cases ps) auto
  ultimately show ?case using 2 p by (cases "a = c") auto
qed simp

lemma Split_no_sep: "p \<in> set (Split s c) \<Longrightarrow> c \<notin> set p"
proof (induction s c arbitrary: p rule: Split.induct)
  case (2 a cs c)
  then show ?case
    by (cases "Split cs c") (auto split: if_splits)
qed simp

lemma Split_append: "Split (a @ c # b) c = Split a c @ Split b c"
proof (induction a)
  case (Cons x a)
  then show ?case by (cases "Split a c") auto
qed simp

lemma Split_plain: "c \<notin> set t \<Longrightarrow> Split t c = [t]"
  by (induction t) auto

lemma Split_Join_id: "ts \<noteq> [] \<Longrightarrow> \<forall>t \<in> set ts. c \<notin> set t \<Longrightarrow> Split (Join ts [c]) c = ts"
proof (induction ts)
  case (Cons t ts)
  then show ?case by (cases ts) (simp_all add: Split_append Split_plain)
qed simp

lemma ParseUint_Utoa: "n < 2 ^ 64 \<Longrightarrow> unat (ParseUint (Utoa n)) = n"
  by (simp add: ParseUint_def unat_of_nat take_bit_nat_eq_self)

lemma set_ReplaceByte: "old \<noteq> new \<Longrightarrow> old \<notin> set (ReplaceByte s old new)"
  by (auto simp: ReplaceByte_def)

lemma length_ReplaceByte [simp]: "length (ReplaceByte s old new) = length s"
  by (simp add: ReplaceByte_def)

lemma take_ReplaceByte [simp]: "take n (ReplaceByte s old new) = ReplaceByte (take n s) old new"
  by (simp add: ReplaceByte_def take_map)

lemma drop_ReplaceByte [simp]: "drop n (ReplaceByte s old new) = ReplaceByte (drop n s) old new"
  by (simp add: ReplaceByte_def drop_map)

lemma nth_ReplaceByte [simp]:
  "n < length s \<Longrightarrow> ReplaceByte s old new ! n = (if s ! n = old then new else s ! n)"
  by (simp add: ReplaceByte_def)

lemma TrimPrefix_append [simp]: "TrimPrefix (p @ s) p = s"
  by (simp add: TrimPrefix_def)

lemma TrimSuffix_append [simp]: "TrimSuffix (s @ p) p = s"
  by (simp add: TrimSuffix_def suffix_def)

end
