(* ===== verification/DM_Proc.thy ===== *)
theory DM_Proc
  imports Go_Strings
begin

text \<open>
  The /proc readers of the decision maker: \<open>FindPodInfoFrom\<close> with its cgroup parser
  (\<open>src/api/decisionmaker/service/service.go\<close>), the thread snapshot of
  \<open>procmonitor.go\<close>, and the scheduling statistics of \<open>pod_metric_collector.go\<close>.

  The file system is an argument: \<open>readDir\<close> lists a directory as (name, is-directory)
  pairs and \<open>readFile\<close> gives a file's bytes, each with its error.  The lemmas show
  that a successful snapshot holds exactly the readable threads in TID order and that
  every error other than a vanished task fails the snapshot, and what the cgroup
  parser extracts.
\<close>

section \<open>Data\<close>

datatype io_error = ENOENT | ESRCH | EACCES | EIO

record file_system =
  readDir :: "string \<Rightarrow> io_error + (string \<times> bool) list"
  readFile :: "string \<Rightarrow> io_error + string"

record PodProcess =
  pp_PID :: int
  pp_Command :: string
  pp_PPID :: int
  pp_ContainerID :: string

record PodInfo =
  pi_PodUID :: string
  pi_PodID :: string
  pi_Processes :: "PodProcess list"

record TaskInfo =
  ti_TGID :: int
  ti_TID :: int
  ti_Comm :: string

datatype scan_error =
    ContextDone
  | ReadRoot io_error
  | ReadTaskDir int io_error
  | ReadComm int io_error


section \<open>Threads: procmonitor.go\<close>

definition isTransientProcError :: "io_error \<Rightarrow> bool" where
  "isTransientProcError e = (e = ENOENT \<or> e = ESRCH)"

definition taskDirOf :: "string \<Rightarrow> int \<Rightarrow> string" where
  "taskDirOf rootDir tgid = rootDir @ ''/'' @ Itoa tgid @ ''/task''"

definition commPathOf :: "string \<Rightarrow> int \<Rightarrow> int \<Rightarrow> string" where
  "commPathOf rootDir tgid tid = rootDir @ ''/'' @ Itoa tgid @ ''/task/'' @ Itoa tid @ ''/comm''"

text \<open>\<open>ctxErr p\<close>: the context is done when the scan reaches the entry at path \<open>p\<close>.\<close>

fun snapshotThreads ::
  "file_system \<Rightarrow> (string \<Rightarrow> bool) \<Rightarrow> string \<Rightarrow> int \<Rightarrow> (string \<times> bool) list \<Rightarrow> TaskInfo list
     \<Rightarrow> scan_error + TaskInfo list" where
  "snapshotThreads fs ctxErr rootDir tgid [] tasks = Inr tasks"
| "snapshotThreads fs ctxErr rootDir tgid ((name, isDir) # es) tasks =
     (if ctxErr (taskDirOf rootDir tgid @ ''/'' @ name) then Inl ContextDone
      else if \<not> isDir then snapshotThreads fs ctxErr rootDir tgid es tasks
      else case Atoi name of
        None \<Rightarrow> snapshotThreads fs ctxErr rootDir tgid es tasks
      | Some tid \<Rightarrow>
          (case readFile fs (commPathOf rootDir tgid tid) of
             Inl e \<Rightarrow>
               if isTransientProcError e then snapshotThreads fs ctxErr rootDir tgid es tasks
               else Inl (ReadComm tid e)
           | Inr data \<Rightarrow>
               snapshotThreads fs ctxErr rootDir tgid es
                 (tasks @ [\<lparr>ti_TGID = tgid, ti_TID = tid, ti_Comm = TrimSpace data\<rparr>])))"

fun snapshotGroups ::
  "file_system \<Rightarrow> (string \<Rightarrow> bool) \<Rightarrow> string \<Rightarrow> (string \<times> bool) list \<Rightarrow> TaskInfo list
     \<Rightarrow> scan_error + TaskInfo list" where
  "snapshotGroups fs ctxErr rootDir [] tasks = Inr tasks"
| "snapshotGroups fs ctxErr rootDir ((name, isDir) # es) tasks =
     (if ctxErr (rootDir @ ''/'' @ name) then Inl ContextDone
      else if \<not> isDir then snapshotGroups fs ctxErr rootDir es tasks
      else case Atoi name of
        None \<Rightarrow> snapshotGroups fs ctxErr rootDir es tasks
      | Some tgid \<Rightarrow>
          (case readDir fs (taskDirOf rootDir tgid) of
             Inl e \<Rightarrow>
               if isTransientProcError e then snapshotGroups fs ctxErr rootDir es tasks
               else Inl (ReadTaskDir tgid e)
           | Inr tidEntries \<Rightarrow>
               (case snapshotThreads fs ctxErr rootDir tgid tidEntries tasks of
                  Inl e \<Rightarrow> Inl e
                | Inr tasks' \<Rightarrow> snapshotGroups fs ctxErr rootDir es tasks')))"

definition sortTasksByTID :: "TaskInfo list \<Rightarrow> TaskInfo list" where
  "sortTasksByTID tasks = sort_key ti_TID tasks"

definition Snapshot ::
  "file_system \<Rightarrow> (string \<Rightarrow> bool) \<Rightarrow> string \<Rightarrow> scan_error + TaskInfo list" where
  "Snapshot fs ctxErr rootDir =
     (case readDir fs rootDir of
        Inl e \<Rightarrow> Inl (ReadRoot e)
      | Inr tgidEntries \<Rightarrow>
          (case snapshotGroups fs ctxErr rootDir tgidEntries [] of
             Inl e \<Rightarrow> Inl e
           | Inr tasks \<Rightarrow> Inr (sortTasksByTID tasks)))"

definition NewProcTaskSource :: "string \<Rightarrow> string" where
  "NewProcTaskSource rootDir = (if rootDir = [] then ''/proc'' else rootDir)"


section \<open>Pods: service.go\<close>

text \<open>The regular expression \<open>podRegex\<close>: \<open>pod\<close> followed by hex groups of 8, 4, 4, 4 and
  12 digits, separated by a dash or an underscore.  \<open>podRegexAt\<close> matches at the front
  and gives the submatch, \<open>podRegexFind\<close> is the leftmost match.\<close>

definition isHexDigit :: "char \<Rightarrow> bool" where
  "isHexDigit c = (unhex_digit c \<noteq> None)"

fun uuidShape :: "nat list \<Rightarrow> string \<Rightarrow> bool" where
  "uuidShape [] s = (s = [])"
| "uuidShape [n] s = (length s = n \<and> list_all isHexDigit s)"
| "uuidShape (n # m # ns) s =
     (n < length s \<and> list_all isHexDigit (take n s) \<and>
      (s ! n = CHR ''-'' \<or> s ! n = CHR ''_'') \<and> uuidShape (m # ns) (drop (Suc n) s))"

definition podRegexAt :: "string \<Rightarrow> string option" where
  "podRegexAt s =
     (let uid = take 36 (drop 3 s) in
      if prefix ''pod'' s \<and> uuidShape [8, 4, 4, 4, 12] uid then Some uid else None)"

fun podRegexFind :: "string \<Rightarrow> string option" where
  "podRegexFind [] = podRegexAt []"
| "podRegexFind (c # cs) = (case podRegexAt (c # cs) of Some u \<Rightarrow> Some u | None \<Rightarrow> podRegexFind cs)"

definition cgroupPart :: "string \<Rightarrow> string \<times> string \<Rightarrow> string \<times> string" where
  "cgroupPart part = (\<lambda>(podUID, containerID).
     (case podRegexFind part of
        Some u \<Rightarrow> ReplaceByte u (CHR ''_'') (CHR ''-'')
      | None \<Rightarrow> podUID,
      if HasPrefix part ''cri-containerd-'' \<and> HasSuffix part ''.scope''
      then TrimSuffix (TrimPrefix part ''cri-containerd-'') ''.scope''
      else containerID))"

text \<open>\<^const>\<open>None\<close> is the error that no pod UID was found.\<close>

definition getPodInfoFromCgroup :: "string \<Rightarrow> (string \<times> string) option" where
  "getPodInfoFromCgroup cgroupPath =
     (let (podUID, containerID) = fold cgroupPart (Split cgroupPath (CHR ''/'')) ([], []) in
      if podUID = [] then None else Some (podUID, containerID))"

definition getProcessInfo :: "file_system \<Rightarrow> string \<Rightarrow> int \<Rightarrow> PodProcess" where
  "getProcessInfo fs rootDir pid =
     \<lparr>pp_PID = pid,
      pp_Command =
        (case readFile fs (''/'' @ rootDir @ ''/'' @ Itoa pid @ ''/comm'') of
           Inr data \<Rightarrow> TrimSpace data | Inl _ \<Rightarrow> []),
      pp_PPID =
        (case readFile fs (''/'' @ rootDir @ ''/'' @ Itoa pid @ ''/stat'') of
           Inr data \<Rightarrow>
             (let fields = Fields data in
              if 4 \<le> length fields
              then (case Atoi (fields ! 3) of Some ppid \<Rightarrow> ppid | None \<Rightarrow> 0) else 0)
         | Inl _ \<Rightarrow> 0),
      pp_ContainerID = []\<rparr>"

text \<open>\<^const>\<open>None\<close> is the error of \<open>parseCgroupToPodInfo\<close>.\<close>

definition parseCgroupToPodInfo ::
  "file_system \<Rightarrow> string \<Rightarrow> string \<Rightarrow> int \<Rightarrow> (string \<rightharpoonup> PodInfo) \<Rightarrow> (string \<rightharpoonup> PodInfo) option" where
  "parseCgroupToPodInfo fs rootDir line pid podInfoMap =
     (let parts = Split line (CHR '':'') in
      if 3 \<le> length parts then
        (case getPodInfoFromCgroup (parts ! 2) of
           None \<Rightarrow> None
         | Some (podUID, containerID) \<Rightarrow>
             (let process = (getProcessInfo fs rootDir pid)\<lparr>pp_ContainerID := containerID\<rparr> in
              (case podInfoMap podUID of
                 Some podInfo \<Rightarrow>
                   Some (podInfoMap(podUID \<mapsto>
                     podInfo\<lparr>pi_Processes := pi_Processes podInfo @ [process]\<rparr>))
               | None \<Rightarrow>
                   Some (podInfoMap(podUID \<mapsto>
                     \<lparr>pi_PodUID = podUID, pi_PodID = [], pi_Processes = [process]\<rparr>)))))
      else Some podInfoMap)"

text \<open>The line loop: a line whose parse fails ends the loop for this process and keeps
  what earlier lines added.\<close>

fun scanCgroup ::
  "file_system \<Rightarrow> string \<Rightarrow> int \<Rightarrow> string list \<Rightarrow> (string \<rightharpoonup> PodInfo) \<Rightarrow> (string \<rightharpoonup> PodInfo)" where
  "scanCgroup fs rootDir pid [] podMap = podMap"
| "scanCgroup fs rootDir pid (line # ls) podMap =
     (if Contains line ''kubepods'' then
        (case parseCgroupToPodInfo fs rootDir line pid podMap of
           None \<Rightarrow> podMap
         | Some podMap' \<Rightarrow> scanCgroup fs rootDir pid ls podMap')
      else scanCgroup fs rootDir pid ls podMap)"

fun findPods ::
  "file_system \<Rightarrow> string \<Rightarrow> (string \<times> bool) list \<Rightarrow> (string \<rightharpoonup> PodInfo) \<Rightarrow> (string \<rightharpoonup> PodInfo)" where
  "findPods fs rootDir [] podMap = podMap"
| "findPods fs rootDir ((name, isDir) # es) podMap =
     (if \<not> isDir then findPods fs rootDir es podMap
      else case Atoi name of
        None \<Rightarrow> findPods fs rootDir es podMap
      | Some pid \<Rightarrow>
          (case readFile fs (rootDir @ ''/'' @ Itoa pid @ ''/cgroup'') of
             Inl _ \<Rightarrow> findPods fs rootDir es podMap
           | Inr content \<Rightarrow>
               findPods fs rootDir es (scanCgroup fs rootDir pid (ScanLines content) podMap)))"

definition FindPodInfoFrom :: "file_system \<Rightarrow> string \<Rightarrow> io_error + (string \<rightharpoonup> PodInfo)" where
  "FindPodInfoFrom fs rootDir =
     (case readDir fs rootDir of
        Inl e \<Rightarrow> Inl e
      | Inr entries \<Rightarrow> Inr (findPods fs rootDir entries Map.empty))"

definition GetAllPodInfos :: "file_system \<Rightarrow> io_error + (string \<rightharpoonup> PodInfo)" where
  "GetAllPodInfos fs = FindPodInfoFrom fs ''/proc''"


section \<open>Scheduling statistics: pod\_metric\_collector.go\<close>

record procSchedStats =
  VoluntaryCtxSwitches :: "64 word"
  InvoluntaryCtxSwitches :: "64 word"
  CPUTimeNs :: "64 word"
  WaitTimeNs :: "64 word"
  RunCount :: "64 word"
  CPUMigrations :: "64 word"

definition zeroStats :: procSchedStats where
  "zeroStats = \<lparr>VoluntaryCtxSwitches = 0, InvoluntaryCtxSwitches = 0, CPUTimeNs = 0,
     WaitTimeNs = 0, RunCount = 0, CPUMigrations = 0\<rparr>"

definition schedstatFields :: "string \<Rightarrow> procSchedStats \<Rightarrow> procSchedStats" where
  "schedstatFields data st =
     (let fields = Fields (TrimSpace data) in
      if 3 \<le> length fields
      then st\<lparr>CPUTimeNs := ParseUint (fields ! 0), WaitTimeNs := ParseUint (fields ! 1),
              RunCount := ParseUint (fields ! 2)\<rparr>
      else st)"

definition schedLine :: "string \<Rightarrow> procSchedStats \<Rightarrow> procSchedStats" where
  "schedLine line st =
     (case SplitN2 line (CHR '':'') of
        [k, v] \<Rightarrow>
          (let key = TrimSpace k; valStr = TrimSpace v in
           if key = ''nr_voluntary_switches'' then st\<lparr>VoluntaryCtxSwitches := ParseUint valStr\<rparr>
           else if key = ''nr_involuntary_switches'' then st\<lparr>InvoluntaryCtxSwitches := ParseUint valStr\<rparr>
           else if key = ''se.nr_migrations'' then st\<lparr>CPUMigrations := ParseUint valStr\<rparr>
           else st)
      | _ \<Rightarrow> st)"

definition statusLine :: "string \<Rightarrow> procSchedStats \<Rightarrow> procSchedStats" where
  "statusLine line st =
     (if HasPrefix line ''voluntary_ctxt_switches:''
      then st\<lparr>VoluntaryCtxSwitches :=
             ParseUint (TrimSpace (TrimPrefix line ''voluntary_ctxt_switches:''))\<rparr>
      else if HasPrefix line ''nonvoluntary_ctxt_switches:''
      then st\<lparr>InvoluntaryCtxSwitches :=
             ParseUint (TrimSpace (TrimPrefix line ''nonvoluntary_ctxt_switches:''))\<rparr>
      else st)"

definition readProcSchedStats :: "file_system \<Rightarrow> int \<Rightarrow> procSchedStats" where
  "readProcSchedStats fs pid =
     (let st1 = (case readFile fs (''/proc/'' @ Itoa pid @ ''/schedstat'') of
                   Inr data \<Rightarrow> schedstatFields data zeroStats | Inl _ \<Rightarrow> zeroStats);
          st2 = (case readFile fs (''/proc/'' @ Itoa pid @ ''/sched'') of
                   Inr data \<Rightarrow> fold schedLine (ScanLines data) st1 | Inl _ \<Rightarrow> st1)
      in if VoluntaryCtxSwitches st2 = 0 \<and> InvoluntaryCtxSwitches st2 = 0
         then (case readFile fs (''/proc/'' @ Itoa pid @ ''/status'') of
                 Inr data \<Rightarrow> fold statusLine (ScanLines data) st2 | Inl _ \<Rightarrow> st2)
         else st2)"


section \<open>Facts about the snapshot\<close>

interpretation tids: key_sorter ti_TID sortTasksByTID
  by unfold_locales (auto simp: sortTasksByTID_def)

text \<open>A thread that the scan can see: numeric directory names at both levels and a
  readable \<open>comm\<close>.\<close>

definition groupEntry :: "file_system \<Rightarrow> string \<Rightarrow> int \<Rightarrow> bool" where
  "groupEntry fs rootDir tgid \<longleftrightarrow>
     (\<exists>es name. readDir fs rootDir = Inr es \<and> (name, True) \<in> set es \<and> Atoi name = Some tgid)"

definition threadEntry :: "file_system \<Rightarrow> string \<Rightarrow> int \<Rightarrow> int \<Rightarrow> bool" where
  "threadEntry fs rootDir tgid tid \<longleftrightarrow> groupEntry fs rootDir tgid \<and>
     (\<exists>es name. readDir fs (taskDirOf rootDir tgid) = Inr es \<and> (name, True) \<in> set es \<and> Atoi name = Some tid)"

definition liveThread :: "file_system \<Rightarrow> string \<Rightarrow> TaskInfo \<Rightarrow> bool" where
  "liveThread fs rootDir t \<longleftrightarrow> threadEntry fs rootDir (ti_TGID t) (ti_TID t) \<and>
     (\<exists>data. readFile fs (commPathOf rootDir (ti_TGID t) (ti_TID t)) = Inr data \<and> ti_Comm t = TrimSpace data)"

text \<open>The same, relative to given directory listings, by recursion on them.\<close>

fun threadIn :: "file_system \<Rightarrow> string \<Rightarrow> int \<Rightarrow> (string \<times> bool) list \<Rightarrow> TaskInfo \<Rightarrow> bool" where
  "threadIn fs rootDir tgid [] t = False"
| "threadIn fs rootDir tgid ((name, isDir) # es) t =
     (isDir \<and> Atoi name = Some (ti_TID t) \<and> ti_TGID t = tgid \<and>
        (case readFile fs (commPathOf rootDir tgid (ti_TID t)) of
           Inr data \<Rightarrow> ti_Comm t = TrimSpace data | Inl _ \<Rightarrow> False)
      \<or> threadIn fs rootDir tgid es t)"

fun threadsReadable :: "file_system \<Rightarrow> string \<Rightarrow> int \<Rightarrow> (string \<times> bool) list \<Rightarrow> bool" where
  "threadsReadable fs rootDir tgid [] = True"
| "threadsReadable fs rootDir tgid ((name, isDir) # es) =
     ((isDir \<longrightarrow> (case Atoi name of None \<Rightarrow> True | Some tid \<Rightarrow>
         (case readFile fs (commPathOf rootDir tgid tid) of Inr _ \<Rightarrow> True | Inl e \<Rightarrow> isTransientProcError e)))
      \<and> threadsReadable fs rootDir tgid es)"

fun groupIn :: "file_system \<Rightarrow> string \<Rightarrow> (string \<times> bool) list \<Rightarrow> TaskInfo \<Rightarrow> bool" where
  "groupIn fs rootDir [] t = False"
| "groupIn fs rootDir ((name, isDir) # es) t =
     (isDir \<and> (case Atoi name of None \<Rightarrow> False | Some tgid \<Rightarrow>
         (case readDir fs (taskDirOf rootDir tgid) of
            Inr tes \<Rightarrow> threadIn fs rootDir tgid tes t | Inl _ \<Rightarrow> False))
      \<or> groupIn fs rootDir es t)"

fun groupsReadable :: "file_system \<Rightarrow> string \<Rightarrow> (string \<times> bool) list \<Rightarrow> bool" where
  "groupsReadable fs rootDir [] = True"
| "groupsReadable fs rootDir ((name, isDir) # es) =
     ((isDir \<longrightarrow> (case Atoi name of None \<Rightarrow> True | Some tgid \<Rightarrow>
         (case readDir fs (taskDirOf rootDir tgid) of
            Inr tes \<Rightarrow> threadsReadable fs rootDir tgid tes | Inl e \<Rightarrow> isTransientProcError e)))
      \<and> groupsReadable fs rootDir es)"

lemma threadIn_iff:
  "threadIn fs rootDir tgid es t \<longleftrightarrow>
     ti_TGID t = tgid \<and> (\<exists>name. (name, True) \<in> set es \<and> Atoi name = Some (ti_TID t)) \<and>
     (\<exists>data. readFile fs (commPathOf rootDir tgid (ti_TID t)) = Inr data \<and> ti_Comm t = TrimSpace data)"
  by (induction fs rootDir tgid es t rule: threadIn.induct) (auto split: sum.splits)

lemma threadsReadable_iff:
  "threadsReadable fs rootDir tgid es \<longleftrightarrow>
     (\<forall>name tid e. (name, True) \<in> set es \<longrightarrow> Atoi name = Some tid \<longrightarrow>
        readFile fs (commPathOf rootDir tgid tid) = Inl e \<longrightarrow> isTransientProcError e)"
  by (induction fs rootDir tgid es rule: threadsReadable.induct) (auto split: sum.splits option.splits)

lemma groupIn_iff:
  "groupIn fs rootDir es t \<longleftrightarrow>
     (\<exists>name tgid tes. (name, True) \<in> set es \<and> Atoi name = Some tgid \<and>
        readDir fs (taskDirOf rootDir tgid) = Inr tes \<and> threadIn fs rootDir tgid tes t)"
proof (induction fs rootDir es t rule: groupIn.induct)
  case (2 fs rootDir name isDir es t)
  show ?case
    unfolding groupIn.simps 2
    by (cases isDir; cases "Atoi name"; cases "readDir fs (taskDirOf rootDir (the (Atoi name)))") auto
qed simp

lemma groupsReadable_iff:
  "groupsReadable fs rootDir es \<longleftrightarrow>
     (\<forall>name tgid. (name, True) \<in> set es \<longrightarrow> Atoi name = Some tgid \<longrightarrow>
        (case readDir fs (taskDirOf rootDir tgid) of
            Inr tes \<Rightarrow> threadsReadable fs rootDir tgid tes | Inl e \<Rightarrow> isTransientProcError e))"
  by (induction fs rootDir es rule: groupsReadable.induct) (auto split: option.splits)

lemma snapshotThreads_Inr:
  "snapshotThreads fs ctxErr rootDir tgid es tasks = Inr ts \<Longrightarrow>
     (t \<in> set ts \<longleftrightarrow> t \<in> set tasks \<or> threadIn fs rootDir tgid es t) \<and> threadsReadable fs rootDir tgid es"
proof (induction fs ctxErr rootDir tgid es tasks rule: snapshotThreads.induct)
  case (2 fs ctxErr rootDir tgid name isDir es tasks)
  have eq: "t = \<lparr>ti_TGID = tgid, ti_TID = tid, ti_Comm = c\<rparr> \<longleftrightarrow>
              ti_TGID t = tgid \<and> ti_TID t = tid \<and> ti_Comm t = c" for tid c
    by (cases t) auto
  from 2 show ?case
    by (auto simp: eq split: if_splits option.splits sum.splits)
qed simp

lemma snapshotGroups_Inr:
  "snapshotGroups fs ctxErr rootDir es tasks = Inr ts \<Longrightarrow>
     (t \<in> set ts \<longleftrightarrow> t \<in> set tasks \<or> groupIn fs rootDir es t) \<and> groupsReadable fs rootDir es"
proof (induction fs ctxErr rootDir es tasks rule: snapshotGroups.induct)
  case (2 fs ctxErr rootDir name isDir es tasks)
  then show ?case
    by (auto split: if_splits option.splits sum.splits dest: snapshotThreads_Inr [where t = t])
qed simp

lemma Snapshot_Inr:
  assumes "Snapshot fs ctxErr rootDir = Inr ts"
  obtains es where "readDir fs rootDir = Inr es" "sorted (map ti_TID ts)"
    "\<And>t. t \<in> set ts \<longleftrightarrow> groupIn fs rootDir es t" "groupsReadable fs rootDir es"
proof -
  from assms obtain es us where es: "readDir fs rootDir = Inr es"
    "snapshotGroups fs ctxErr rootDir es [] = Inr us" "ts = sortTasksByTID us"
    by (auto simp: Snapshot_def split: sum.splits)
  show ?thesis using that [OF es(1)] snapshotGroups_Inr [OF es(2)] es(3) tids.srt_sorted by simp
qed

lemma Snapshot_sorted: "Snapshot fs ctxErr rootDir = Inr ts \<Longrightarrow> sorted (map ti_TID ts)"
  by (erule Snapshot_Inr)

lemma Snapshot_live:
  "Snapshot fs ctxErr rootDir = Inr ts \<Longrightarrow> t \<in> set ts \<longleftrightarrow> liveThread fs rootDir t"
  by (erule Snapshot_Inr)
    (auto simp: groupIn_iff threadIn_iff liveThread_def threadEntry_def groupEntry_def)

lemma Snapshot_no_error:
  assumes "Snapshot fs ctxErr rootDir = Inr ts" "threadEntry fs rootDir tgid tid"
    "readFile fs (commPathOf rootDir tgid tid) = Inl e"
  shows "isTransientProcError e"
  using assms(1)
proof (rule Snapshot_Inr)
  fix es assume "readDir fs rootDir = Inr es" "groupsReadable fs rootDir es"
  with assms(2,3) show ?thesis
    by (fastforce simp: groupsReadable_iff threadsReadable_iff threadEntry_def groupEntry_def)
qed

lemma Snapshot_no_dir_error:
  assumes "Snapshot fs ctxErr rootDir = Inr ts" "groupEntry fs rootDir tgid"
    "readDir fs (taskDirOf rootDir tgid) = Inl e"
  shows "isTransientProcError e"
  using assms(1)
proof (rule Snapshot_Inr)
  fix es assume "readDir fs rootDir = Inr es" "groupsReadable fs rootDir es"
  with assms(2,3) show ?thesis
    by (fastforce simp: groupsReadable_iff groupEntry_def)
qed


section \<open>Facts about pod discovery\<close>

text \<open>A pod UID as Kubernetes writes it: dashes, never underscores.\<close>

definition canonicalUID :: "string \<Rightarrow> bool" where
  "canonicalUID u \<longleftrightarrow> uuidShape [8, 4, 4, 4, 12] u \<and> CHR ''_'' \<notin> set u"

lemma Replace_hex: "list_all isHexDigit s \<Longrightarrow> ReplaceByte s (CHR ''_'') (CHR ''-'') = s"
  by (induction s) (auto simp: ReplaceByte_def isHexDigit_def unhex_digit_def)

lemma uuidShape_Replace:
  "uuidShape ns s \<Longrightarrow> uuidShape ns (ReplaceByte s (CHR ''_'') (CHR ''-''))"
  by (induction ns s rule: uuidShape.induct) (auto simp: Replace_hex)

declare uuidShape.simps [simp del]

lemma podRegexAt_shape: "podRegexAt s = Some u \<Longrightarrow> uuidShape [8, 4, 4, 4, 12] u"
  by (auto simp: podRegexAt_def Let_def split: if_splits)

lemma podRegexFind_shape: "podRegexFind s = Some u \<Longrightarrow> uuidShape [8, 4, 4, 4, 12] u"
  by (induction s) (auto dest: podRegexAt_shape split: option.splits)

lemma canonicalUID_not_Nil: "canonicalUID u \<Longrightarrow> u \<noteq> []"
  by (auto simp: canonicalUID_def uuidShape.simps)

lemma cgroupPart_uid:
  "fst acc = [] \<or> canonicalUID (fst acc) \<Longrightarrow>
   fst (cgroupPart p acc) = [] \<or> canonicalUID (fst (cgroupPart p acc))"
  by (cases acc)
    (auto simp: cgroupPart_def canonicalUID_def uuidShape_Replace set_ReplaceByte
      dest: podRegexFind_shape split: option.split)

lemma cgroupParts_uid:
  "fst acc = [] \<or> canonicalUID (fst acc) \<Longrightarrow>
   fst (fold cgroupPart ps acc) = [] \<or> canonicalUID (fst (fold cgroupPart ps acc))"
proof (induction ps arbitrary: acc)
  case (Cons p ps)
  show ?case using Cons.IH [OF cgroupPart_uid [OF Cons.prems]] by simp
qed simp

lemma getPodInfo_uid: "getPodInfoFromCgroup p = Some (uid, cid) \<Longrightarrow> canonicalUID uid"
  using cgroupParts_uid [of "([], [])" "Split p (CHR ''/'')"]
  by (auto simp: getPodInfoFromCgroup_def split: prod.splits if_splits)

text \<open>What every discovered pod satisfies: it is filed under its own canonical UID and
  has at least one process, and each process is a numeric directory of the scan.\<close>

definition podOk :: "int set \<Rightarrow> string \<Rightarrow> PodInfo \<Rightarrow> bool" where
  "podOk pids uid p \<longleftrightarrow> pi_PodUID p = uid \<and> canonicalUID uid \<and> pi_Processes p \<noteq> [] \<and>
     (\<forall>q \<in> set (pi_Processes p). pp_PID q \<in> pids)"

definition podMapInv :: "int set \<Rightarrow> (string \<rightharpoonup> PodInfo) \<Rightarrow> bool" where
  "podMapInv pids m \<longleftrightarrow> (\<forall>uid p. m uid = Some p \<longrightarrow> podOk pids uid p)"

lemma podMapInv_mono: "podMapInv A m \<Longrightarrow> A \<subseteq> B \<Longrightarrow> podMapInv B m"
  unfolding podMapInv_def podOk_def by blast

lemma podMapInv_upd: "podMapInv A m \<Longrightarrow> podOk A uid p \<Longrightarrow> podMapInv A (m(uid \<mapsto> p))"
  by (simp add: podMapInv_def)

lemma pp_PID_getProcessInfo [simp]: "pp_PID (getProcessInfo fs rootDir pid) = pid"
  by (simp add: getProcessInfo_def)

lemma parseCgroup_inv:
  assumes "podMapInv A m" "pid \<in> A" "parseCgroupToPodInfo fs rootDir line pid m = Some m'"
  shows "podMapInv A m'"
proof (cases "3 \<le> length (Split line (CHR '':''))")
  case True
  with assms(3) obtain uid cid where
    g: "getPodInfoFromCgroup (Split line (CHR '':'') ! 2) = Some (uid, cid)"
    by (auto simp: parseCgroupToPodInfo_def Let_def split: option.splits)
  from assms(1) have ok: "m uid = Some p \<Longrightarrow> podOk A uid p" for p by (simp add: podMapInv_def)
  show ?thesis
    using assms True g getPodInfo_uid [OF g]
    by (cases "m uid") (auto simp: parseCgroupToPodInfo_def Let_def podOk_def dest: ok intro!: podMapInv_upd)
qed (use assms in \<open>simp add: parseCgroupToPodInfo_def\<close>)

lemma scanCgroup_inv: "podMapInv A m \<Longrightarrow> pid \<in> A \<Longrightarrow> podMapInv A (scanCgroup fs rootDir pid ls m)"
  by (induction fs rootDir pid ls m rule: scanCgroup.induct)
    (auto split: option.splits dest: parseCgroup_inv)

definition numericDirs :: "(string \<times> bool) list \<Rightarrow> int set" where
  "numericDirs es = {pid. \<exists>name. (name, True) \<in> set es \<and> Atoi name = Some pid}"

lemma numericDirs_Cons:
  "numericDirs ((name, isDir) # es) =
     (case Atoi name of Some pid \<Rightarrow> if isDir then {pid} else {} | None \<Rightarrow> {}) \<union> numericDirs es"
  by (auto simp: numericDirs_def split: option.splits)

lemma findPods_inv: "podMapInv A m \<Longrightarrow> podMapInv (A \<union> numericDirs es) (findPods fs rootDir es m)"
proof (induction fs rootDir es m arbitrary: A rule: findPods.induct)
  case (2 fs rootDir name isDir es m)
  show ?case
  proof (cases "isDir \<and> (\<exists>pid. Atoi name = Some pid)")
    case False
    then show ?thesis using 2
      by (cases "Atoi name") (auto simp: numericDirs_Cons)
  next
    case True
    then obtain pid where pid: "isDir" "Atoi name = Some pid" by blast
    show ?thesis
    proof (cases "readFile fs (rootDir @ ''/'' @ Itoa pid @ ''/cgroup'')")
      case (Inl e)
      have "podMapInv (A \<union> numericDirs es) (findPods fs rootDir es m)"
        using "2.IH"(3) [of pid e A] "2.prems" pid Inl by simp
      then show ?thesis using pid Inl
        by (auto simp: numericDirs_Cons elim: podMapInv_mono)
    next
      case (Inr content)
      let ?m = "scanCgroup fs rootDir pid (ScanLines content) m"
      have "podMapInv (insert pid A) ?m"
        using "2.prems" by (intro scanCgroup_inv) (auto elim: podMapInv_mono)
      then have "podMapInv (insert pid A \<union> numericDirs es) (findPods fs rootDir es ?m)"
        using "2.IH"(4) [of pid content "insert pid A"] pid Inr by simp
      then show ?thesis using pid Inr by (simp add: numericDirs_Cons)
    qed
  qed
qed (simp add: numericDirs_def)

lemma FindPodInfoFrom_inv:
  assumes "readDir fs rootDir = Inr es" "FindPodInfoFrom fs rootDir = Inr m"
  shows "podMapInv (numericDirs es) m"
  using assms findPods_inv [of "{}" Map.empty es fs rootDir]
  by (simp add: FindPodInfoFrom_def podMapInv_def)

end
