(* ===== verification/DM_Domain.thy ===== *)
theory DM_Domain
  imports Merkle Generic_Map DM_Proc
begin

text \<open>
  The decision maker's data (\<open>src/api/decisionmaker/domain\<close>), its service state
  (\<open>Service\<close> of \<open>service.go\<close>), and the canonical order and serialisation of intents
  and node policies from which their Merkle leaves are computed.  The locale
  \<open>drift_digest\<close> is the contract of such a digest: the root depends on the multiset
  of elements only, and two sets of the same size with the same root have the same
  serialised elements unless a hash collision was met.
\<close>

section \<open>Data\<close>

record Intent =
  int_IntentID :: string
  int_PodName :: string
  int_PodID :: string
  int_NodeID :: string
  int_K8sNamespace :: string
  int_CommandRegex :: string
  int_Priority :: int
  int_ExecutionTime :: int
  int_PodLabels :: labels

record NodePolicy =
  np_PolicyID :: string
  np_NodeID :: string
  np_CommandRegex :: string
  np_Priority :: int
  np_ExecutionTime :: int

record SchedulingIntents =
  sch_Priority :: int
  sch_ExecutionTime :: "64 word"
  sch_PID :: int
  sch_Selectors :: labels
  sch_CommandRegex :: string

record podTarget =
  pt_PodName :: string
  pt_PodUID :: string
  pt_Namespace :: string
  pt_NodeName :: string
  pt_PIDs :: "int list"

text \<open>\<open>svc_nodeName\<close> and \<open>svc_intentPods\<close> are the fields of \<open>podSchedCollector\<close>.\<close>

record Service =
  svc_schedulingIntentsMap :: "(string, SchedulingIntents list) GenericMap"
  svc_nodeName :: string
  svc_intentPods :: "podTarget list"
  svc_intentCache :: "Intent option list"
  svc_intentMerkleRoot :: "MerkleNode option"
  svc_intentMerkleRootHash :: string
  svc_nodePolicyCache :: "NodePolicy option list"
  svc_nodePolicyMerkleRoot :: "MerkleNode option"
  svc_nodePolicyMerkleRootHash :: string

datatype dm_error = PodScan io_error | NodeScan scan_error | NilDereference

text \<open>\<open>NewService\<close>: everything empty.\<close>

definition newService :: "string \<Rightarrow> Service" where
  "newService machineID =
     \<lparr>svc_schedulingIntentsMap = NewGenericMap, svc_nodeName = machineID, svc_intentPods = [],
      svc_intentCache = [], svc_intentMerkleRoot = None, svc_intentMerkleRootHash = [],
      svc_nodePolicyCache = [], svc_nodePolicyMerkleRoot = None, svc_nodePolicyMerkleRootHash = []\<rparr>"


section \<open>Canonical order and serialisation\<close>

text \<open>The sorted \<open>key=value\<close> strings of a label map; the list gives the map's entries in
  iteration order.\<close>

definition sortedLabels :: "labels \<Rightarrow> string list" where
  "sortedLabels ls = sort (map (\<lambda>(k, v). k @ ''='' @ v) ls)"

definition intentSortKey :: "Intent \<Rightarrow> string" where
  "intentSortKey i = Join
     [int_PodName i, int_PodID i, int_NodeID i, int_K8sNamespace i, int_CommandRegex i,
      Itoa (int_Priority i), Itoa (int_ExecutionTime i), Join (sortedLabels (int_PodLabels i)) '',''] ''|''"

definition serializeIntent :: "Intent \<Rightarrow> string" where
  "serializeIntent i = Join
     [''podName='' @ int_PodName i, ''podID='' @ int_PodID i, ''nodeID='' @ int_NodeID i,
      ''k8sNamespace='' @ int_K8sNamespace i, ''commandRegex='' @ int_CommandRegex i,
      ''priority='' @ Itoa (int_Priority i), ''executionTime='' @ Itoa (int_ExecutionTime i),
      ''podLabels='' @ Join (sortedLabels (int_PodLabels i)) '',''] ''|''"

definition hashIntent :: "(string \<Rightarrow> string) \<Rightarrow> Intent \<Rightarrow> string" where
  "hashIntent sha i = HashStringSHA256Hex sha (serializeIntent i)"

definition normalizeIntentInputs :: "Intent option list \<Rightarrow> Intent list" where
  "normalizeIntentInputs intents = somes intents"

definition sortIntentsByKey :: "Intent list \<Rightarrow> Intent list" where
  "sortIntentsByKey intents = sort_key intentSortKey intents"

definition nodePolicySortKey :: "NodePolicy \<Rightarrow> string" where
  "nodePolicySortKey p = Join
     [np_PolicyID p, np_NodeID p, np_CommandRegex p, Itoa (np_Priority p), Itoa (np_ExecutionTime p)] ''|''"

definition serializeNodePolicy :: "NodePolicy \<Rightarrow> string" where
  "serializeNodePolicy p = Join
     [''policyID='' @ np_PolicyID p, ''nodeID='' @ np_NodeID p, ''commandRegex='' @ np_CommandRegex p,
      ''priority='' @ Itoa (np_Priority p), ''executionTime='' @ Itoa (np_ExecutionTime p)] ''|''"

definition hashNodePolicy :: "(string \<Rightarrow> string) \<Rightarrow> NodePolicy \<Rightarrow> string" where
  "hashNodePolicy sha p = HashStringSHA256Hex sha (serializeNodePolicy p)"

definition normalizeNodePolicyInputs :: "NodePolicy option list \<Rightarrow> NodePolicy list" where
  "normalizeNodePolicyInputs policies = somes policies"

definition sortNodePoliciesByKey :: "NodePolicy list \<Rightarrow> NodePolicy list" where
  "sortNodePoliciesByKey policies = sort_key nodePolicySortKey policies"


section \<open>The contract of a drift digest\<close>

locale drift_digest = key_sorter key srt
  for key :: "'a \<Rightarrow> string" and srt :: "'a list \<Rightarrow> 'a list" +
  fixes hash :: "(string \<Rightarrow> string) \<Rightarrow> 'a \<Rightarrow> string"
    and ser :: "'a \<Rightarrow> string"
  assumes hash_ser: "hash sha x = HashStringSHA256Hex sha (ser x)"
begin

lemma hash_map: "map (hash sha) xs = map (HashStringSHA256Hex sha) (map ser xs)"
  by (simp add: hash_ser)

lemma root_perm:
  assumes "\<forall>x \<in> set xs. \<forall>y \<in> set xs. key x = key y \<longrightarrow> ser x = ser y" "mset xs = mset ys"
  shows "BuildMerkleTree sha (map (hash sha) (srt xs)) = BuildMerkleTree sha (map (hash sha) (srt ys))"
  unfolding hash_map srt_map_det [OF assms] ..

lemma root_binding:
  assumes "length xs = length ys" "\<forall>x. length (sha x) = k"
    and "inj_on sha (digestInputs sha (map ser (srt xs)) \<union> digestInputs sha (map ser (srt ys)))"
    and "Hash (BuildMerkleTree sha (map (hash sha) (srt xs))) =
         Hash (BuildMerkleTree sha (map (hash sha) (srt ys)))"
  shows "mset (map ser xs) = mset (map ser ys)"
proof -
  have "map ser (srt xs) = map ser (srt ys)"
    using assms by (intro digest_binding [of _ _ sha k]) (simp_all add: Hash_BuildMerkleTree hash_map [symmetric] del: map_map)
  then have "mset (map ser (srt xs)) = mset (map ser (srt ys))" by (rule arg_cong)
  then show ?thesis by (simp add: srt_mset)
qed

end

interpretation dmi: drift_digest intentSortKey sortIntentsByKey hashIntent serializeIntent
  by unfold_locales (auto simp: sortIntentsByKey_def hashIntent_def)

interpretation dmp: drift_digest nodePolicySortKey sortNodePoliciesByKey hashNodePolicy serializeNodePolicy
  by unfold_locales (auto simp: sortNodePoliciesByKey_def hashNodePolicy_def)


section \<open>When keys separate\<close>

text \<open>Pod, pod UID, node and namespace names contain no bar, and neither do labels; the
  command pattern may.\<close>

definition barFreeIntent :: "Intent \<Rightarrow> bool" where
  "barFreeIntent i \<longleftrightarrow>
     CHR ''|'' \<notin> set (int_PodName i) \<union> set (int_PodID i) \<union> set (int_NodeID i) \<union> set (int_K8sNamespace i) \<and>
     CHR ''|'' \<notin> set (Join (sortedLabels (int_PodLabels i)) '','')"

definition barFreePolicy :: "NodePolicy \<Rightarrow> bool" where
  "barFreePolicy p \<longleftrightarrow> CHR ''|'' \<notin> set (np_PolicyID p) \<union> set (np_NodeID p)"

lemma intentSortKey_det:
  assumes "barFreeIntent x" "barFreeIntent y" "intentSortKey x = intentSortKey y"
  shows "serializeIntent x = serializeIntent y"
  using assms
  by (simp add: intentSortKey_def serializeIntent_def barFreeIntent_def sep_left_inj sep_right3_inj)

lemma nodePolicySortKey_inj:
  assumes "barFreePolicy x" "barFreePolicy y" "nodePolicySortKey x = nodePolicySortKey y"
  shows "x = y"
  using assms
  by (simp add: nodePolicySortKey_def barFreePolicy_def sep_left_inj sep_right2_inj)

end
