(* ===== verification/DM_NodePolicy.thy ===== *)
theory DM_NodePolicy
  imports DM_Domain
begin

text \<open>
  \<open>src/api/decisionmaker/service/node_policy_svc.go\<close>: node-level policies, their cache
  with its Merkle root, and their resolution against a snapshot of all threads.
  The regular expressions of package \<open>regexp\<close> are the parameter \<open>compile\<close>, which gives
  the matcher of a pattern or \<^const>\<open>None\<close> for an invalid one.
\<close>

section \<open>Operations\<close>

definition nodePolicyLeaves :: "(string \<Rightarrow> string) \<Rightarrow> NodePolicy option list \<Rightarrow> string list" where
  "nodePolicyLeaves sha policies =
     map (hashNodePolicy sha) (sortNodePoliciesByKey (normalizeNodePolicyInputs policies))"

definition ProcessNodePolicies ::
  "(string \<Rightarrow> string) \<Rightarrow> NodePolicy option list \<Rightarrow> Service \<Rightarrow> Service" where
  "ProcessNodePolicies sha policies svc =
     (let normalized = normalizeNodePolicyInputs policies;
          leafHashes = map (hashNodePolicy sha) (sortNodePoliciesByKey normalized);
          root = BuildMerkleTree sha leafHashes
      in svc\<lparr>svc_nodePolicyCache := map Some normalized,
             svc_nodePolicyMerkleRoot := Some root,
             svc_nodePolicyMerkleRootHash := Hash root\<rparr>)"

definition rebuildNodePolicyMerkleRootLocked :: "(string \<Rightarrow> string) \<Rightarrow> Service \<Rightarrow> Service" where
  "rebuildNodePolicyMerkleRootLocked sha svc =
     (let root = BuildMerkleTree sha (nodePolicyLeaves sha (svc_nodePolicyCache svc)) in
      svc\<lparr>svc_nodePolicyMerkleRoot := Some root, svc_nodePolicyMerkleRootHash := Hash root\<rparr>)"

definition DeleteNodePolicyByID :: "(string \<Rightarrow> string) \<Rightarrow> string \<Rightarrow> Service \<Rightarrow> Service" where
  "DeleteNodePolicyByID sha policyID svc =
     rebuildNodePolicyMerkleRootLocked sha
       (svc\<lparr>svc_nodePolicyCache :=
          filter (\<lambda>policy. \<not> (case policy of Some p \<Rightarrow> np_PolicyID p = policyID | None \<Rightarrow> False))
            (svc_nodePolicyCache svc)\<rparr>)"

definition DeleteAllNodePolicies :: "(string \<Rightarrow> string) \<Rightarrow> Service \<Rightarrow> Service" where
  "DeleteAllNodePolicies sha svc =
     rebuildNodePolicyMerkleRootLocked sha (svc\<lparr>svc_nodePolicyCache := []\<rparr>)"

definition GetNodePolicyMerkleRootHash :: "Service \<Rightarrow> string" where
  "GetNodePolicyMerkleRootHash svc = svc_nodePolicyMerkleRootHash svc"

definition pauseCommand :: string where
  "pauseCommand = ''pause''"

text \<open>The threads a policy applies to.\<close>

definition nodePolicyTasks ::
  "(string \<Rightarrow> (string \<Rightarrow> bool) option) \<Rightarrow> TaskInfo list \<Rightarrow> NodePolicy \<Rightarrow> TaskInfo list" where
  "nodePolicyTasks compile tasks policy =
     (if np_CommandRegex policy = [] then []
      else case compile (np_CommandRegex policy) of
             None \<Rightarrow> []
           | Some re \<Rightarrow> filter (\<lambda>t. ti_Comm t \<noteq> pauseCommand \<and> re (ti_Comm t)) tasks)"

definition nodeIntentFor :: "NodePolicy \<Rightarrow> int \<Rightarrow> SchedulingIntents" where
  "nodeIntentFor policy tid =
     \<lparr>sch_Priority = np_Priority policy, sch_ExecutionTime = word_of_int (np_ExecutionTime policy),
      sch_PID = tid, sch_Selectors = [], sch_CommandRegex = np_CommandRegex policy\<rparr>"

text \<open>One round of the policy loop: every matching thread is set to this policy, over
  whatever an earlier policy set.\<close>

definition applyNodePolicy ::
  "(string \<Rightarrow> (string \<Rightarrow> bool) option) \<Rightarrow> TaskInfo list \<Rightarrow> NodePolicy
     \<Rightarrow> (int \<times> SchedulingIntents) list \<Rightarrow> (int \<times> SchedulingIntents) list" where
  "applyNodePolicy compile tasks policy byTID =
     fold (\<lambda>t. AList.update (ti_TID t) (nodeIntentFor policy (ti_TID t)))
       (nodePolicyTasks compile tasks policy) byTID"

definition nodeIntentsByTID ::
  "(string \<Rightarrow> (string \<Rightarrow> bool) option) \<Rightarrow> TaskInfo list \<Rightarrow> NodePolicy option list
     \<Rightarrow> (int \<times> SchedulingIntents) list" where
  "nodeIntentsByTID compile tasks policies =
     fold (applyNodePolicy compile tasks) (sortNodePoliciesByKey (normalizeNodePolicyInputs policies)) []"

text \<open>\<open>snapshot\<close> is what \<open>taskSource.Snapshot\<close> returns, \<^const>\<open>None\<close> a nil task source.\<close>

definition resolveNodeSchedulingIntents ::
  "(string \<Rightarrow> (string \<Rightarrow> bool) option) \<Rightarrow> (scan_error + TaskInfo list) option \<Rightarrow> Service
     \<Rightarrow> scan_error + SchedulingIntents list" where
  "resolveNodeSchedulingIntents compile snapshot svc =
     (if svc_nodePolicyCache svc = [] then Inr []
      else case snapshot of
        None \<Rightarrow> Inr []
      | Some (Inl e) \<Rightarrow> Inl e
      | Some (Inr tasks) \<Rightarrow>
          (let byTID = nodeIntentsByTID compile tasks (svc_nodePolicyCache svc) in
           Inr (map (\<lambda>tid. the (map_of byTID tid)) (sort (map fst byTID)))))"


lemma resolveNode_cong:
  "svc_nodePolicyCache s = svc_nodePolicyCache s' \<Longrightarrow>
   resolveNodeSchedulingIntents compile snapshot s = resolveNodeSchedulingIntents compile snapshot s'"
  unfolding resolveNodeSchedulingIntents_def by (simp only:)


section \<open>Which policy wins\<close>

text \<open>Specification: the last policy in canonical order among those that match a thread
  with this TID.\<close>

definition policyMatches ::
  "(string \<Rightarrow> (string \<Rightarrow> bool) option) \<Rightarrow> TaskInfo list \<Rightarrow> int \<Rightarrow> NodePolicy \<Rightarrow> bool" where
  "policyMatches compile tasks tid policy \<longleftrightarrow>
     (\<exists>t \<in> set tasks. ti_TID t = tid \<and> ti_Comm t \<noteq> pauseCommand \<and> np_CommandRegex policy \<noteq> [] \<and>
        (case compile (np_CommandRegex policy) of None \<Rightarrow> False | Some re \<Rightarrow> re (ti_Comm t)))"

definition winningPolicy ::
  "(string \<Rightarrow> (string \<Rightarrow> bool) option) \<Rightarrow> TaskInfo list \<Rightarrow> NodePolicy option list \<Rightarrow> int \<Rightarrow> NodePolicy option" where
  "winningPolicy compile tasks policies tid =
     find (policyMatches compile tasks tid)
       (rev (sortNodePoliciesByKey (normalizeNodePolicyInputs policies)))"

lemma policyMatches_tasks:
  "policyMatches compile tasks tid policy \<longleftrightarrow> tid \<in> ti_TID ` set (nodePolicyTasks compile tasks policy)"
  by (cases "compile (np_CommandRegex policy)") (auto simp: policyMatches_def nodePolicyTasks_def)

lemma map_of_fold_update:
  "map_of (fold (\<lambda>t. AList.update (f t) (g (f t))) ts m) k =
     (if k \<in> f ` set ts then Some (g k) else map_of m k)"
  by (induction ts arbitrary: m) (auto simp: update_conv')

lemma map_of_applyNodePolicy:
  "map_of (applyNodePolicy compile tasks policy byTID) tid =
     (if policyMatches compile tasks tid policy then Some (nodeIntentFor policy tid) else map_of byTID tid)"
  by (simp add: applyNodePolicy_def policyMatches_tasks map_of_fold_update)

lemma distinct_fold_update:
  "distinct (map fst m) \<Longrightarrow> distinct (map fst (fold (\<lambda>t. AList.update (f t) (g t)) ts m))"
  by (induction ts arbitrary: m) (auto simp: distinct_update)

lemma distinct_nodeIntents:
  "distinct (map fst m) \<Longrightarrow> distinct (map fst (fold (applyNodePolicy compile tasks) ps m))"
  by (induction ps arbitrary: m) (auto simp: applyNodePolicy_def distinct_fold_update)

lemma map_of_fold_policies:
  "map_of (fold (applyNodePolicy compile tasks) ps m) tid =
     (case find (policyMatches compile tasks tid) (rev ps) of
        Some p \<Rightarrow> Some (nodeIntentFor p tid) | None \<Rightarrow> map_of m tid)"
  by (induction ps arbitrary: m rule: rev_induct) (auto simp: map_of_applyNodePolicy)

lemma map_of_nodeIntents:
  "map_of (nodeIntentsByTID compile tasks policies) tid =
     map_option (\<lambda>p. nodeIntentFor p tid) (winningPolicy compile tasks policies tid)"
  by (auto simp: nodeIntentsByTID_def winningPolicy_def map_of_fold_policies split: option.split)

lemma dom_nodeIntents:
  "set (map fst (nodeIntentsByTID compile tasks policies)) =
     {tid. winningPolicy compile tasks policies tid \<noteq> None}"
proof -
  have "set (map fst m) = {k. map_of m k \<noteq> None}" for m :: "(int \<times> SchedulingIntents) list"
    by (auto simp: map_of_eq_None_iff)
  then show ?thesis by (simp only: map_of_nodeIntents) simp
qed

lemma resolveNode_eq:
  assumes "svc_nodePolicyCache svc \<noteq> []"
  shows "resolveNodeSchedulingIntents compile (Some (Inr tasks)) svc =
     Inr (map (\<lambda>tid. nodeIntentFor (the (winningPolicy compile tasks (svc_nodePolicyCache svc) tid)) tid)
            (sort (map fst (nodeIntentsByTID compile tasks (svc_nodePolicyCache svc)))))"
proof -
  have "the (map_of (nodeIntentsByTID compile tasks ps) tid) = nodeIntentFor (the (winningPolicy compile tasks ps tid)) tid"
    if "tid \<in> set (map fst (nodeIntentsByTID compile tasks ps))" for ps tid
    using that unfolding dom_nodeIntents map_of_nodeIntents by auto
  then show ?thesis using assms
    by (auto simp: resolveNodeSchedulingIntents_def Let_def)
qed

lemma resolveNode_spec:
  assumes "resolveNodeSchedulingIntents compile (Some (Inr tasks)) svc = Inr rs"
  shows "r \<in> set rs \<longleftrightarrow>
           (\<exists>p. winningPolicy compile tasks (svc_nodePolicyCache svc) (sch_PID r) = Some p \<and>
                r = nodeIntentFor p (sch_PID r))"
    and "sorted_wrt (<) (map sch_PID rs)"
proof -
  let ?c = "svc_nodePolicyCache svc"
  have pid [simp]: "sch_PID (nodeIntentFor p t) = t" for p t by (simp add: nodeIntentFor_def)
  have nil: "?c = [] \<Longrightarrow> winningPolicy compile tasks ?c t = None" for t
    by (simp add: winningPolicy_def normalizeNodePolicyInputs_def sortNodePoliciesByKey_def)
  have dist: "distinct (map fst (nodeIntentsByTID compile tasks ?c))"
    unfolding nodeIntentsByTID_def by (rule distinct_nodeIntents) simp
  have dom: "t \<in> fst ` set (nodeIntentsByTID compile tasks ?c) \<longleftrightarrow> winningPolicy compile tasks ?c t \<noteq> None" for t
    using dom_nodeIntents [of compile tasks ?c] by auto
  show "r \<in> set rs \<longleftrightarrow> (\<exists>p. winningPolicy compile tasks ?c (sch_PID r) = Some p \<and> r = nodeIntentFor p (sch_PID r))"
  proof (cases "?c = []")
    case True
    then show ?thesis using assms nil by (auto simp: resolveNodeSchedulingIntents_def)
  next
    case False
    then show ?thesis using assms dom by (force simp: resolveNode_eq)
  qed
  show "sorted_wrt (<) (map sch_PID rs)"
  proof (cases "?c = []")
    case True
    then show ?thesis using assms by (auto simp: resolveNodeSchedulingIntents_def)
  next
    case False
    then have "map sch_PID rs = sort (map fst (nodeIntentsByTID compile tasks ?c))"
      using assms by (auto simp: resolveNode_eq comp_def)
    then show ?thesis using dist by (simp add: strict_sorted_iff)
  qed
qed


section \<open>Independence of the push order\<close>

lemma sortedPolicies_perm:
  assumes "mset ps = mset qs" "\<forall>p. Some p \<in> set ps \<longrightarrow> barFreePolicy p"
  shows "sortNodePoliciesByKey (normalizeNodePolicyInputs ps) = sortNodePoliciesByKey (normalizeNodePolicyInputs qs)"
proof (rule dmp.srt_perm)
  show "inj_on nodePolicySortKey (set (normalizeNodePolicyInputs ps))"
    using assms(2) by (auto simp: normalizeNodePolicyInputs_def intro!: inj_onI dest: nodePolicySortKey_inj)
  show "mset (normalizeNodePolicyInputs ps) = mset (normalizeNodePolicyInputs qs)"
    unfolding normalizeNodePolicyInputs_def by (rule mset_somes_cong [OF assms(1)])
qed

lemma resolveNode_perm:
  assumes "mset (svc_nodePolicyCache s) = mset (svc_nodePolicyCache s')"
    and "\<forall>p. Some p \<in> set (svc_nodePolicyCache s) \<longrightarrow> barFreePolicy p"
  shows "resolveNodeSchedulingIntents compile snapshot s = resolveNodeSchedulingIntents compile snapshot s'"
proof -
  have "svc_nodePolicyCache s = [] \<longleftrightarrow> svc_nodePolicyCache s' = []"
    using assms(1) by (metis mset_zero_iff)
  moreover have "nodeIntentsByTID compile tasks (svc_nodePolicyCache s) =
      nodeIntentsByTID compile tasks (svc_nodePolicyCache s')" for tasks
    unfolding nodeIntentsByTID_def sortedPolicies_perm [OF assms] ..
  ultimately show ?thesis
    by (auto simp: resolveNodeSchedulingIntents_def split: option.split sum.split)
qed

lemma nodePolicyLeaves_perm:
  assumes "mset ps = mset qs" "\<forall>p. Some p \<in> set ps \<longrightarrow> barFreePolicy p"
  shows "nodePolicyLeaves sha ps = nodePolicyLeaves sha qs"
  unfolding nodePolicyLeaves_def sortedPolicies_perm [OF assms] ..

lemma resolveNode_perm_somes:
  assumes "mset ps = mset qs" "\<forall>p. Some p \<in> set ps \<longrightarrow> barFreePolicy p"
  shows "resolveNodeSchedulingIntents compile snapshot (ProcessNodePolicies sha ps s) =
         resolveNodeSchedulingIntents compile snapshot (ProcessNodePolicies sha qs s)"
proof (rule resolveNode_perm)
  have "mset (somes ps) = mset (somes qs)" using assms(1) by (rule mset_somes_cong)
  then show "mset (svc_nodePolicyCache (ProcessNodePolicies sha ps s)) = mset (svc_nodePolicyCache (ProcessNodePolicies sha qs s))"
    by (simp add: ProcessNodePolicies_def normalizeNodePolicyInputs_def Let_def)
  show "\<forall>p. Some p \<in> set (svc_nodePolicyCache (ProcessNodePolicies sha ps s)) \<longrightarrow> barFreePolicy p"
    using assms(2) by (auto simp: ProcessNodePolicies_def normalizeNodePolicyInputs_def Let_def)
qed

end
