(* ===== verification/DM_Intents.thy ===== *)
theory DM_Intents
  imports DM_NodePolicy
begin

text \<open>
  \<open>src/api/decisionmaker/service/service.go\<close> and \<open>intents_svc.go\<close>: the intent cache with
  its Merkle tree, the resolution of intents to scheduling intents per process, the
  deletion operations, and the combined listing the scheduler polls.
  Operations take the file system and the regular-expression compiler as arguments and
  return the new state with an error if the Go function returns one.  A nil entry in the
  cache would make \<open>resolveSchedulingIntents\<close> panic; this is the value
  \<^const>\<open>NilDereference\<close>, and the invariant shows that it does not occur.
\<close>

section \<open>Operations\<close>

definition firstNonEmptyStr :: "string list \<Rightarrow> string" where
  "firstNonEmptyStr vals = (case find (\<lambda>v. v \<noteq> []) vals of Some v \<Rightarrow> v | None \<Rightarrow> [])"

text \<open>One round of \<open>UpdatePodTargets\<close>.\<close>

definition podTargetFor :: "string \<Rightarrow> (string \<rightharpoonup> PodInfo) \<Rightarrow> Intent \<Rightarrow> podTarget list" where
  "podTargetFor nodeName podInfos i =
     (case podInfos (int_PodID i) of
        None \<Rightarrow> []
      | Some podInfo \<Rightarrow>
          (let pids = map pp_PID (filter (\<lambda>p. pp_Command p \<noteq> ''pause'') (pi_Processes podInfo)) in
           if pids = [] then []
           else [\<lparr>pt_PodName = int_PodName i, pt_PodUID = int_PodID i, pt_Namespace = int_K8sNamespace i,
                  pt_NodeName = firstNonEmptyStr [int_NodeID i, nodeName], pt_PIDs = pids\<rparr>]))"

definition UpdatePodTargets :: "Intent option list \<Rightarrow> (string \<rightharpoonup> PodInfo) \<Rightarrow> Service \<Rightarrow> Service" where
  "UpdatePodTargets intents podInfos svc =
     svc\<lparr>svc_intentPods := concat (map (podTargetFor (svc_nodeName svc) podInfos) (somes intents))\<rparr>"

definition schedulingIntentFor :: "Intent \<Rightarrow> PodProcess \<Rightarrow> SchedulingIntents" where
  "schedulingIntentFor i process =
     \<lparr>sch_Priority = int_Priority i, sch_ExecutionTime = word_of_int (int_ExecutionTime i),
      sch_PID = pp_PID process, sch_Selectors = int_PodLabels i, sch_CommandRegex = int_CommandRegex i\<rparr>"

definition intentProcesses ::
  "(string \<Rightarrow> (string \<Rightarrow> bool) option) \<Rightarrow> (string \<rightharpoonup> PodInfo) \<Rightarrow> Intent \<Rightarrow> PodProcess list" where
  "intentProcesses compile podInfos i =
     (case compile (int_CommandRegex i) of
        None \<Rightarrow> []
      | Some re \<Rightarrow>
          (case podInfos (int_PodID i) of
             None \<Rightarrow> []
           | Some podInfo \<Rightarrow>
               filter (\<lambda>p. pp_Command p \<noteq> pauseCommand \<and> re (pp_Command p)) (pi_Processes podInfo)))"

definition intentMapKey :: "string \<Rightarrow> int \<Rightarrow> string" where
  "intentMapKey podID pid = podID @ ''-'' @ Itoa pid"

text \<open>The loop of \<open>resolveSchedulingIntents\<close> over the intents; the accumulator is the map
  and the list of scheduling intents built so far.\<close>

fun resolveLoop ::
  "(string \<Rightarrow> (string \<Rightarrow> bool) option) \<Rightarrow> (string \<rightharpoonup> PodInfo) \<Rightarrow> Intent option list
     \<Rightarrow> (string, SchedulingIntents list) GenericMap \<times> SchedulingIntents list
     \<Rightarrow> dm_error + ((string, SchedulingIntents list) GenericMap \<times> SchedulingIntents list)" where
  "resolveLoop compile podInfos [] acc = Inr acc"
| "resolveLoop compile podInfos (None # intents) acc = Inl NilDereference"
| "resolveLoop compile podInfos (Some i # intents) (m, allIntents) =
     (let processes = intentProcesses compile podInfos i in
      resolveLoop compile podInfos intents
        (fold (\<lambda>p. Store (intentMapKey (int_PodID i) (pp_PID p)) [schedulingIntentFor i p]) processes m,
         allIntents @ map (schedulingIntentFor i) processes))"

definition resolveSchedulingIntents ::
  "(string \<Rightarrow> (string \<Rightarrow> bool) option) \<Rightarrow> Intent option list \<Rightarrow> (string \<rightharpoonup> PodInfo) \<Rightarrow> Service
     \<Rightarrow> (dm_error + SchedulingIntents list) \<times> Service" where
  "resolveSchedulingIntents compile intents podInfos svc =
     (let cleared = svc\<lparr>svc_schedulingIntentsMap := Clear (svc_schedulingIntentsMap svc)\<rparr> in
      case resolveLoop compile podInfos intents (svc_schedulingIntentsMap cleared, []) of
        Inl e \<Rightarrow> (Inl e, cleared)
      | Inr (m, allIntents) \<Rightarrow> (Inr allIntents, cleared\<lparr>svc_schedulingIntentsMap := m\<rparr>))"

definition intentLeaves :: "(string \<Rightarrow> string) \<Rightarrow> Intent option list \<Rightarrow> string list" where
  "intentLeaves sha intents = map (hashIntent sha) (sortIntentsByKey (normalizeIntentInputs intents))"

definition ProcessIntents ::
  "(string \<Rightarrow> string) \<Rightarrow> (string \<Rightarrow> (string \<Rightarrow> bool) option) \<Rightarrow> file_system \<Rightarrow> Intent option list \<Rightarrow> Service
     \<Rightarrow> dm_error option \<times> Service" where
  "ProcessIntents sha compile fs intents svc =
     (case GetAllPodInfos fs of
        Inl e \<Rightarrow> (Some (PodScan e), svc)
      | Inr podInfos \<Rightarrow>
          (let normalizedIntents = normalizeIntentInputs intents;
               sortedIntents = sortIntentsByKey normalizedIntents;
               root = BuildMerkleTree sha (map (hashIntent sha) sortedIntents);
               svc1 = svc\<lparr>svc_intentCache := map Some normalizedIntents,
                          svc_intentMerkleRoot := Some root,
                          svc_intentMerkleRootHash := Hash root\<rparr>
           in case resolveSchedulingIntents compile (map Some normalizedIntents) podInfos svc1 of
                (Inl e, svc2) \<Rightarrow> (Some e, svc2)
              | (Inr _, svc2) \<Rightarrow> (None, UpdatePodTargets (map Some normalizedIntents) podInfos svc2)))"

definition ListAllSchedulingIntents ::
  "(string \<Rightarrow> (string \<Rightarrow> bool) option) \<Rightarrow> file_system \<Rightarrow> (scan_error + TaskInfo list) option \<Rightarrow> Service
     \<Rightarrow> (dm_error + SchedulingIntents list) \<times> Service" where
  "ListAllSchedulingIntents compile fs snapshot svc =
     (let cachedIntents = svc_intentCache svc;
          podPart =
            (if cachedIntents \<noteq> [] then
               (case GetAllPodInfos fs of
                  Inl e \<Rightarrow> (Inl (PodScan e), svc)
                | Inr podInfos \<Rightarrow>
                    resolveSchedulingIntents compile cachedIntents podInfos
                      (UpdatePodTargets cachedIntents podInfos svc))
             else
               (Inr [], let svc1 = UpdatePodTargets [] Map.empty svc in
                  svc1\<lparr>svc_schedulingIntentsMap := Clear (svc_schedulingIntentsMap svc1)\<rparr>))
      in case podPart of
           (Inl e, svc') \<Rightarrow> (Inl e, svc')
         | (Inr podSchedulingIntents, svc') \<Rightarrow>
             (case resolveNodeSchedulingIntents compile snapshot svc' of
                Inl e \<Rightarrow> (Inl (NodeScan e), svc')
              | Inr nodeSchedulingIntents \<Rightarrow> (Inr (podSchedulingIntents @ nodeSchedulingIntents), svc')))"

definition refreshIntentMerkleTreeIfNeeded :: "(string \<Rightarrow> string) \<Rightarrow> Service \<Rightarrow> Service" where
  "refreshIntentMerkleTreeIfNeeded sha svc =
     (if svc_intentMerkleRoot svc \<noteq> None then svc
      else let root = BuildMerkleTree sha (intentLeaves sha (svc_intentCache svc)) in
        svc\<lparr>svc_intentMerkleRoot := Some root, svc_intentMerkleRootHash := Hash root\<rparr>)"

definition rebuildIntentMerkleTreeLocked :: "(string \<Rightarrow> string) \<Rightarrow> Service \<Rightarrow> Service" where
  "rebuildIntentMerkleTreeLocked sha svc =
     (let root = BuildMerkleTree sha (intentLeaves sha (svc_intentCache svc)) in
      svc\<lparr>svc_intentMerkleRoot := Some root, svc_intentMerkleRootHash := Hash root\<rparr>)"

definition removePodMetricTarget :: "string \<Rightarrow> Service \<Rightarrow> Service" where
  "removePodMetricTarget podID svc =
     svc\<lparr>svc_intentPods := filter (\<lambda>target. pt_PodUID target \<noteq> podID) (svc_intentPods svc)\<rparr>"

definition DeleteIntentByPodID :: "(string \<Rightarrow> string) \<Rightarrow> string \<Rightarrow> Service \<Rightarrow> Service" where
  "DeleteIntentByPodID sha podID svc =
     (let remaining = filter (\<lambda>intent. case intent of Some i \<Rightarrow> int_PodID i \<noteq> podID | None \<Rightarrow> False)
            (svc_intentCache svc);
          svc1 = rebuildIntentMerkleTreeLocked sha (svc\<lparr>svc_intentCache := remaining\<rparr>);
          keysToDelete = Range (\<lambda>key v ks. if HasPrefix key (podID @ ''-'') then ks @ [key] else ks)
            (svc_schedulingIntentsMap svc1) [];
          svc2 = svc1\<lparr>svc_schedulingIntentsMap := fold Delete keysToDelete (svc_schedulingIntentsMap svc1)\<rparr>
      in removePodMetricTarget podID svc2)"

definition DeleteIntentByPID :: "string \<Rightarrow> int \<Rightarrow> Service \<Rightarrow> Service" where
  "DeleteIntentByPID podID pid svc =
     svc\<lparr>svc_schedulingIntentsMap := Delete (intentMapKey podID pid) (svc_schedulingIntentsMap svc)\<rparr>"

definition DeleteAllIntents :: "(string \<Rightarrow> string) \<Rightarrow> Service \<Rightarrow> Service" where
  "DeleteAllIntents sha svc =
     (let svc1 = rebuildIntentMerkleTreeLocked sha (svc\<lparr>svc_intentCache := []\<rparr>);
          keysToDelete = Range (\<lambda>key v ks. ks @ [key]) (svc_schedulingIntentsMap svc1) [];
          svc2 = svc1\<lparr>svc_schedulingIntentsMap := fold Delete keysToDelete (svc_schedulingIntentsMap svc1)\<rparr>
      in UpdatePodTargets [] Map.empty svc2)"

text \<open>\<open>TraverseIntentMerkleTree\<close>; the first component is \<^const>\<open>None\<close> for a nil request.
  \<open>convertMerkleNode\<close> copies a node to the response type and is the identity here.\<close>

definition TraverseIntentMerkleTree ::
  "(string \<Rightarrow> string) \<Rightarrow> (string \<times> int) option \<Rightarrow> Service \<Rightarrow> MerkleNode option option \<times> Service" where
  "TraverseIntentMerkleTree sha req svc =
     (case req of
        None \<Rightarrow> (None, svc)
      | Some (rootHash, depth) \<Rightarrow>
          (let svc' = refreshIntentMerkleTreeIfNeeded sha svc;
               root = svc_intentMerkleRoot svc'
           in if rootHash \<noteq> [] \<and> root \<noteq> None then
                (case FindMerkleNode root rootHash of
                   None \<Rightarrow> (Some None, svc')
                 | Some found \<Rightarrow> (Some (TruncateMerkleTree (Some found) depth), svc'))
              else (Some (TruncateMerkleTree root depth), svc')))"


section \<open>What resolution returns\<close>

definition resolvedIntents ::
  "(string \<Rightarrow> (string \<Rightarrow> bool) option) \<Rightarrow> (string \<rightharpoonup> PodInfo) \<Rightarrow> Intent list \<Rightarrow> SchedulingIntents list" where
  "resolvedIntents compile podInfos intents =
     concat (map (\<lambda>i. map (schedulingIntentFor i) (intentProcesses compile podInfos i)) intents)"

lemma resolveLoop_Inr:
  "None \<notin> set intents \<Longrightarrow> wfMap m \<Longrightarrow>
   \<exists>m'. resolveLoop compile podInfos intents (m, acc) =
          Inr (m', acc @ resolvedIntents compile podInfos (somes intents)) \<and> wfMap m'"
proof (induction compile podInfos intents "(m, acc)" arbitrary: m acc rule: resolveLoop.induct)
  case (3 compile podInfos i intents m acc)
  then show ?case
    by (auto simp: Let_def resolvedIntents_def gmap.inv_fold_store)
qed (auto simp: resolvedIntents_def)

lemma resolve_ok:
  assumes "None \<notin> set intents"
  obtains m where "wfMap m" "resolveSchedulingIntents compile intents podInfos svc =
    (Inr (resolvedIntents compile podInfos (somes intents)), svc\<lparr>svc_schedulingIntentsMap := m\<rparr>)"
proof -
  have "wfMap (Clear (svc_schedulingIntentsMap svc))" by simp
  from resolveLoop_Inr [OF assms this, of compile podInfos "[]"] obtain m where
    "resolveLoop compile podInfos intents (Clear (svc_schedulingIntentsMap svc), []) =
       Inr (m, resolvedIntents compile podInfos (somes intents))" "wfMap m" by auto
  then show ?thesis by (intro that [of m]) (simp_all add: resolveSchedulingIntents_def Let_def)
qed

lemma set_intentProcesses:
  "p \<in> set (intentProcesses compile podInfos i) \<longleftrightarrow>
     (\<exists>re podInfo. p \<in> set (pi_Processes podInfo) \<and> compile (int_CommandRegex i) = Some re \<and>
        podInfos (int_PodID i) = Some podInfo \<and> pp_Command p \<noteq> pauseCommand \<and> re (pp_Command p))"
  by (cases "compile (int_CommandRegex i)"; cases "podInfos (int_PodID i)")
    (auto simp: intentProcesses_def)

lemma set_resolvedIntents:
  "r \<in> set (resolvedIntents compile podInfos intents) \<longleftrightarrow>
     (\<exists>i \<in> set intents. \<exists>re podInfo. \<exists>p \<in> set (pi_Processes podInfo).
        compile (int_CommandRegex i) = Some re \<and> podInfos (int_PodID i) = Some podInfo \<and>
        pp_Command p \<noteq> pauseCommand \<and> re (pp_Command p) \<and> r = schedulingIntentFor i p)"
proof -
  have "r \<in> set (resolvedIntents compile podInfos intents) \<longleftrightarrow>
      (\<exists>i \<in> set intents. \<exists>p. p \<in> set (intentProcesses compile podInfos i) \<and> r = schedulingIntentFor i p)"
    by (auto simp: resolvedIntents_def)
  then show ?thesis unfolding set_intentProcesses by blast
qed


section \<open>The service invariant\<close>

definition rootConsistent :: "(string \<Rightarrow> string) \<Rightarrow> string list \<Rightarrow> bool \<Rightarrow> MerkleNode option \<Rightarrow> string \<Rightarrow> bool" where
  "rootConsistent sha leaves cacheEmpty root rootHash \<longleftrightarrow>
     (case root of
        None \<Rightarrow> cacheEmpty \<and> rootHash = []
      | Some r \<Rightarrow> r = BuildMerkleTree sha leaves \<and> rootHash = Hash r)"

definition dmInv :: "(string \<Rightarrow> string) \<Rightarrow> Service \<Rightarrow> bool" where
  "dmInv sha svc \<longleftrightarrow>
     None \<notin> set (svc_intentCache svc) \<and> None \<notin> set (svc_nodePolicyCache svc) \<and>
     wfMap (svc_schedulingIntentsMap svc) \<and>
     rootConsistent sha (intentLeaves sha (svc_intentCache svc)) (svc_intentCache svc = [])
       (svc_intentMerkleRoot svc) (svc_intentMerkleRootHash svc) \<and>
     rootConsistent sha (nodePolicyLeaves sha (svc_nodePolicyCache svc)) (svc_nodePolicyCache svc = [])
       (svc_nodePolicyMerkleRoot svc) (svc_nodePolicyMerkleRootHash svc)"

lemma dmInv_new: "dmInv sha (newService machineID)"
  by (simp add: dmInv_def newService_def rootConsistent_def)

lemma dmInv_targets [simp]: "dmInv sha (svc\<lparr>svc_intentPods := ts\<rparr>) = dmInv sha svc"
  by (simp add: dmInv_def)

lemma dmInv_map [simp]: "wfMap m \<Longrightarrow> dmInv sha svc \<Longrightarrow> dmInv sha (svc\<lparr>svc_schedulingIntentsMap := m\<rparr>)"
  by (simp add: dmInv_def)

lemma dmInv_wfMap: "dmInv sha svc \<Longrightarrow> wfMap (svc_schedulingIntentsMap svc)"
  by (simp add: dmInv_def)

lemma dmInv_UpdatePodTargets [inv_intros]: "dmInv sha svc \<Longrightarrow> dmInv sha (UpdatePodTargets is ps svc)"
  by (simp add: UpdatePodTargets_def)

lemma dmInv_rebuild:
  assumes "dmInv sha svc" "None \<notin> set c"
  shows "dmInv sha (rebuildIntentMerkleTreeLocked sha (svc\<lparr>svc_intentCache := c\<rparr>))"
  using assms by (auto simp: dmInv_def rebuildIntentMerkleTreeLocked_def rootConsistent_def Let_def)

lemma dmInv_resolve:
  assumes "dmInv sha svc" "None \<notin> set intents"
  shows "dmInv sha (snd (resolveSchedulingIntents compile intents podInfos svc))"
  using assms(2)
proof (rule resolve_ok [where compile = compile and podInfos = podInfos and svc = svc])
  fix m assume "wfMap m" "resolveSchedulingIntents compile intents podInfos svc =
    (Inr (resolvedIntents compile podInfos (somes intents)), svc\<lparr>svc_schedulingIntentsMap := m\<rparr>)"
  then show ?thesis using assms(1) by simp
qed

lemma None_map_Some [simp]: "None \<notin> set (map Some xs)" by auto

lemma dmInv_ProcessIntents [inv_intros]:
  assumes "dmInv sha svc"
  shows "dmInv sha (snd (ProcessIntents sha compile fs intents svc))"
proof (cases "GetAllPodInfos fs")
  case (Inl e)
  then show ?thesis using assms by (simp add: ProcessIntents_def)
next
  case (Inr podInfos)
  let ?n = "normalizeIntentInputs intents"
  let ?r = "BuildMerkleTree sha (map (hashIntent sha) (sortIntentsByKey ?n))"
  let ?s = "svc\<lparr>svc_intentCache := map Some ?n, svc_intentMerkleRoot := Some ?r, svc_intentMerkleRootHash := Hash ?r\<rparr>"
  have "dmInv sha ?s"
    using assms by (auto simp: dmInv_def rootConsistent_def intentLeaves_def normalizeIntentInputs_def)
  then have "dmInv sha (snd (resolveSchedulingIntents compile (map Some ?n) podInfos ?s))"
    by (rule dmInv_resolve) simp
  then show ?thesis using Inr
    by (auto simp: ProcessIntents_def Let_def split: prod.splits sum.splits intro: dmInv_UpdatePodTargets)
qed

lemma dmInv_ListAll [inv_intros]:
  assumes "dmInv sha svc"
  shows "dmInv sha (snd (ListAllSchedulingIntents compile fs snapshot svc))"
proof -
  have c: "None \<notin> set (svc_intentCache svc)" using assms by (simp add: dmInv_def)
  have "dmInv sha (snd (resolveSchedulingIntents compile (svc_intentCache svc) ps
          (UpdatePodTargets (svc_intentCache svc) ps svc)))" for ps
    using assms c by (intro dmInv_resolve dmInv_UpdatePodTargets)
  moreover have "dmInv sha (let svc1 = UpdatePodTargets [] Map.empty svc in
                  svc1\<lparr>svc_schedulingIntentsMap := Clear (svc_schedulingIntentsMap svc1)\<rparr>)"
    using assms by (simp add: Let_def dmInv_UpdatePodTargets)
  ultimately show ?thesis using assms
    by (auto simp: ListAllSchedulingIntents_def Let_def split: prod.splits sum.splits)
      (metis snd_conv)+
qed


lemma dmInv_refresh [inv_intros]:
  assumes "dmInv sha svc"
  shows "dmInv sha (refreshIntentMerkleTreeIfNeeded sha svc)"
proof -
  have "None \<notin> set (svc_intentCache svc)" using assms by (simp add: dmInv_def)
  from dmInv_rebuild [OF assms this] have "dmInv sha (rebuildIntentMerkleTreeLocked sha svc)" by simp
  then show ?thesis using assms
    by (simp add: refreshIntentMerkleTreeIfNeeded_def rebuildIntentMerkleTreeLocked_def)
qed

lemma dmInv_DeleteIntentByPodID [inv_intros]:
  assumes "dmInv sha svc"
  shows "dmInv sha (DeleteIntentByPodID sha podID svc)"
proof -
  let ?c = "filter (\<lambda>intent. case intent of Some i \<Rightarrow> int_PodID i \<noteq> podID | None \<Rightarrow> False) (svc_intentCache svc)"
  let ?s = "rebuildIntentMerkleTreeLocked sha (svc\<lparr>svc_intentCache := ?c\<rparr>)"
  have s: "dmInv sha ?s" using assms by (rule dmInv_rebuild) simp
  then have "wfMap (fold Delete ks (svc_schedulingIntentsMap ?s))" for ks
    by (intro gmap.inv_fold_del) (rule dmInv_wfMap)
  with s show ?thesis
    by (simp add: DeleteIntentByPodID_def removePodMetricTarget_def Let_def)
qed

lemma dmInv_DeleteIntentByPID [inv_intros]:
  "dmInv sha svc \<Longrightarrow> dmInv sha (DeleteIntentByPID podID pid svc)"
  by (simp add: DeleteIntentByPID_def dmInv_wfMap)

lemma dmInv_DeleteAllIntents [inv_intros]:
  assumes "dmInv sha svc"
  shows "dmInv sha (DeleteAllIntents sha svc)"
proof -
  let ?s = "rebuildIntentMerkleTreeLocked sha (svc\<lparr>svc_intentCache := []\<rparr>)"
  have s: "dmInv sha ?s" using assms by (rule dmInv_rebuild) simp
  then have "wfMap (fold Delete ks (svc_schedulingIntentsMap ?s))" for ks
    by (intro gmap.inv_fold_del) (rule dmInv_wfMap)
  with s show ?thesis by (simp add: DeleteAllIntents_def Let_def dmInv_UpdatePodTargets)
qed

lemma dmInv_ProcessNodePolicies [inv_intros]:
  "dmInv sha svc \<Longrightarrow> dmInv sha (ProcessNodePolicies sha policies svc)"
  by (auto simp: dmInv_def ProcessNodePolicies_def rootConsistent_def nodePolicyLeaves_def
      normalizeNodePolicyInputs_def Let_def)

lemma dmInv_DeleteNodePolicyByID [inv_intros]:
  "dmInv sha svc \<Longrightarrow> dmInv sha (DeleteNodePolicyByID sha policyID svc)"
  by (auto simp: dmInv_def DeleteNodePolicyByID_def rebuildNodePolicyMerkleRootLocked_def rootConsistent_def Let_def)

lemma dmInv_DeleteAllNodePolicies [inv_intros]:
  "dmInv sha svc \<Longrightarrow> dmInv sha (DeleteAllNodePolicies sha svc)"
  by (auto simp: dmInv_def DeleteAllNodePolicies_def rebuildNodePolicyMerkleRootLocked_def rootConsistent_def Let_def)

lemma dmInv_Traverse [inv_intros]:
  assumes "dmInv sha svc"
  shows "dmInv sha (snd (TraverseIntentMerkleTree sha req svc))"
  using assms dmInv_refresh [OF assms]
  by (auto simp: TraverseIntentMerkleTree_def Let_def split: option.split)

text \<open>The states the service can reach: every call its handlers make, in any order.\<close>

inductive dmReach ::
  "(string \<Rightarrow> string) \<Rightarrow> (string \<Rightarrow> (string \<Rightarrow> bool) option) \<Rightarrow> string \<Rightarrow> Service \<Rightarrow> bool"
  for sha compile machineID where
  dm_new: "dmReach sha compile machineID (newService machineID)"
| dm_process: "dmReach sha compile machineID s \<Longrightarrow>
    dmReach sha compile machineID (snd (ProcessIntents sha compile fs intents s))"
| dm_list: "dmReach sha compile machineID s \<Longrightarrow>
    dmReach sha compile machineID (snd (ListAllSchedulingIntents compile fs snapshot s))"
| dm_del_pod: "dmReach sha compile machineID s \<Longrightarrow>
    dmReach sha compile machineID (DeleteIntentByPodID sha podID s)"
| dm_del_pid: "dmReach sha compile machineID s \<Longrightarrow>
    dmReach sha compile machineID (DeleteIntentByPID podID pid s)"
| dm_del_all: "dmReach sha compile machineID s \<Longrightarrow>
    dmReach sha compile machineID (DeleteAllIntents sha s)"
| dm_traverse: "dmReach sha compile machineID s \<Longrightarrow>
    dmReach sha compile machineID (snd (TraverseIntentMerkleTree sha req s))"
| dm_policies: "dmReach sha compile machineID s \<Longrightarrow>
    dmReach sha compile machineID (ProcessNodePolicies sha policies s)"
| dm_del_policy: "dmReach sha compile machineID s \<Longrightarrow>
    dmReach sha compile machineID (DeleteNodePolicyByID sha policyID s)"
| dm_del_policies: "dmReach sha compile machineID s \<Longrightarrow>
    dmReach sha compile machineID (DeleteAllNodePolicies sha s)"

lemma dmReach_inv: "dmReach sha compile machineID s \<Longrightarrow> dmInv sha s"
  by (induction rule: dmReach.induct) (auto intro: inv_intros dmInv_new)


section \<open>Listing and deletion\<close>

lemma ListAll_ok:
  assumes "None \<notin> set (svc_intentCache svc)" "GetAllPodInfos fs = Inr podInfos"
  shows "fst (ListAllSchedulingIntents compile fs snapshot svc) =
    (case resolveNodeSchedulingIntents compile snapshot svc of
       Inl e \<Rightarrow> Inl (NodeScan e)
     | Inr ns \<Rightarrow> Inr (resolvedIntents compile podInfos (somes (svc_intentCache svc)) @ ns))"
proof -
  have np: "resolveNodeSchedulingIntents compile snapshot (svc\<lparr>svc_intentPods := ts, svc_schedulingIntentsMap := m\<rparr>)
      = resolveNodeSchedulingIntents compile snapshot svc" for ts m
    by (rule resolveNode_cong) simp
  let ?u = "UpdatePodTargets (svc_intentCache svc) podInfos svc"
  obtain m where m: "resolveSchedulingIntents compile (svc_intentCache svc) podInfos ?u =
      (Inr (resolvedIntents compile podInfos (somes (svc_intentCache svc))), ?u\<lparr>svc_schedulingIntentsMap := m\<rparr>)"
    using assms(1) by (rule resolve_ok)
  show ?thesis
    using assms(2) m np
    by (auto simp: ListAllSchedulingIntents_def Let_def UpdatePodTargets_def resolvedIntents_def split: sum.split)
qed

lemma ListAll_pod_scan_error:
  "svc_intentCache svc \<noteq> [] \<Longrightarrow> GetAllPodInfos fs = Inl e \<Longrightarrow>
   ListAllSchedulingIntents compile fs snapshot svc = (Inl (PodScan e), svc)"
  by (simp add: ListAllSchedulingIntents_def)

lemma ListAll_no_panic:
  assumes "dmInv sha svc"
  shows "fst (ListAllSchedulingIntents compile fs snapshot svc) \<noteq> Inl NilDereference"
proof (cases "GetAllPodInfos fs")
  case (Inl e)
  then show ?thesis
    by (cases "svc_intentCache svc = []")
      (auto simp: ListAllSchedulingIntents_def Let_def split: sum.split)
next
  case (Inr podInfos)
  from assms have "None \<notin> set (svc_intentCache svc)" by (simp add: dmInv_def)
  from ListAll_ok [OF this Inr] show ?thesis by (auto split: sum.split)
qed

lemma DeleteIntentByPodID_cache:
  "somes (svc_intentCache (DeleteIntentByPodID sha podID svc)) =
     filter (\<lambda>i. int_PodID i \<noteq> podID) (somes (svc_intentCache svc))"
  by (simp add: DeleteIntentByPodID_def removePodMetricTarget_def rebuildIntentMerkleTreeLocked_def
      Let_def somes_filter)

lemma DeleteIntentByPodID_map:
  assumes "wfMap (svc_schedulingIntentsMap svc)"
  shows "Load (svc_schedulingIntentsMap (DeleteIntentByPodID sha podID svc)) key =
     (if HasPrefix key (podID @ ''-'') then None else Load (svc_schedulingIntentsMap svc) key)"
  using gmap.load_sweep [OF assms, of "\<lambda>k. HasPrefix k (podID @ ''-'')" key]
  by (simp add: DeleteIntentByPodID_def removePodMetricTarget_def rebuildIntentMerkleTreeLocked_def
      Let_def Range_filter_keys Range_keys)

lemma ListAll_no_cache:
  assumes "svc_intentCache s = []"
  shows "fst (ListAllSchedulingIntents compile fs snapshot s) =
    (case resolveNodeSchedulingIntents compile snapshot s of Inl e \<Rightarrow> Inl (NodeScan e) | Inr ns \<Rightarrow> Inr ns)"
  using assms resolveNode_cong [of "UpdatePodTargets [] Map.empty s\<lparr>svc_schedulingIntentsMap := m\<rparr>" s compile snapshot for m]
  by (auto simp: ListAllSchedulingIntents_def Let_def UpdatePodTargets_def split: sum.splits)

lemma ListAll_ignores_map:
  "fst (ListAllSchedulingIntents compile fs snapshot (DeleteIntentByPID podID pid s)) =
     fst (ListAllSchedulingIntents compile fs snapshot s)"
proof -
  have r: "resolveNodeSchedulingIntents compile snapshot (s'\<lparr>svc_schedulingIntentsMap := m\<rparr>) =
      resolveNodeSchedulingIntents compile snapshot s'" for s' m by (rule resolveNode_cong) simp
  show ?thesis
    by (simp add: ListAllSchedulingIntents_def DeleteIntentByPID_def Let_def UpdatePodTargets_def
        resolveSchedulingIntents_def Clear_def r split: sum.splits)
qed

end
