(* ===== verification/Mgr_Domain.thy ===== *)
theory Mgr_Domain
  imports DM_Domain
begin

text \<open>
  The manager's data (\<open>src/api/manager/domain\<close>) and its half of the drift digest
  (\<open>src/api/manager/service/cron_svc.go\<close>): canonical order, serialisation, and the
  expected Merkle root per node.  Embedding of \<open>BaseEntity\<close> is record extension, an object
  ID is its hex form, and the zero ID is \<open>zeroOID\<close>.
\<close>

section \<open>Data\<close>

type_synonym oid = string

definition zeroOID :: oid where
  "zeroOID = replicate 24 (CHR ''0'')"

record BaseEntity =
  be_ID :: oid
  be_CreatedTime :: int
  be_UpdatedTime :: int
  be_DeletedTime :: int
  be_CreatorID :: oid
  be_UpdaterID :: oid

record ScheduleStrategy = BaseEntity +
  st_StrategyNamespace :: string
  st_LabelSelectors :: labels
  st_K8sNamespace :: "string list"
  st_CommandRegex :: string
  st_Priority :: int
  st_ExecutionTime :: int

record ScheduleIntent = BaseEntity +
  si_StrategyID :: oid
  si_PodID :: string
  si_PodName :: string
  si_NodeID :: string
  si_K8sNamespace :: string
  si_CommandRegex :: string
  si_Priority :: int
  si_ExecutionTime :: int
  si_PodLabels :: labels
  si_State :: int

record DRASelector =
  dra_DeviceClass :: string
  dra_Attributes :: labels

record NodeSchedulingPolicy = BaseEntity +
  nsp_NodeSelectors :: labels
  nsp_NodeNames :: "string list"
  nsp_DRASelectors :: "DRASelector list"
  nsp_CommandRegex :: string
  nsp_Priority :: int
  nsp_ExecutionTime :: int

record NodeSchedulingIntent = BaseEntity +
  nsi_PolicyID :: oid
  nsi_NodeID :: string
  nsi_CommandRegex :: string
  nsi_Priority :: int
  nsi_ExecutionTime :: int
  nsi_State :: int

record Pod =
  pod_Name :: string
  pod_K8SNamespace :: string
  pod_Labels :: labels
  pod_PodID :: string
  pod_NodeID :: string

record Node =
  node_Name :: string
  node_Labels :: labels
  node_Status :: string

datatype NodeState = NodeStateUnknown | NodeStateOnline | NodeStateOffline

record DecisionMakerPod =
  dmp_NodeID :: string
  dmp_Port :: int
  dmp_Host :: string
  dmp_State :: NodeState

definition IntentStateUnknown :: int where "IntentStateUnknown = 0"
definition IntentStateInitialized :: int where "IntentStateInitialized = 1"
definition IntentStateSent :: int where "IntentStateSent = 2"

text \<open>\<open>NewBaseEntity\<close> with both IDs given; \<open>now\<close> is the current time in milliseconds.\<close>

definition NewBaseEntity :: "int \<Rightarrow> oid \<Rightarrow> oid \<Rightarrow> BaseEntity" where
  "NewBaseEntity now creatorID updaterID =
     \<lparr>be_ID = zeroOID, be_CreatedTime = now, be_UpdatedTime = now, be_DeletedTime = 0,
      be_CreatorID = creatorID, be_UpdaterID = updaterID\<rparr>"

definition NewScheduleIntent :: "int \<Rightarrow> ScheduleStrategy \<Rightarrow> Pod \<Rightarrow> ScheduleIntent" where
  "NewScheduleIntent now strategy pod =
     BaseEntity.extend (NewBaseEntity now (be_CreatorID strategy) (be_UpdaterID strategy))
       (ScheduleIntent.fields (be_ID strategy) (pod_PodID pod) (pod_Name pod) (pod_NodeID pod)
          (pod_K8SNamespace pod) (st_CommandRegex strategy) (st_Priority strategy)
          (st_ExecutionTime strategy) (pod_Labels pod) IntentStateInitialized)"

definition NewNodeSchedulingIntent :: "int \<Rightarrow> NodeSchedulingPolicy \<Rightarrow> Node \<Rightarrow> NodeSchedulingIntent" where
  "NewNodeSchedulingIntent now policy node =
     BaseEntity.extend (NewBaseEntity now (be_CreatorID policy) (be_UpdaterID policy))
       (NodeSchedulingIntent.fields (be_ID policy) (node_Name node) (nsp_CommandRegex policy)
          (nsp_Priority policy) (nsp_ExecutionTime policy) IntentStateInitialized)"


section \<open>Digest of pod intents\<close>

definition scheduleIntentSortKey :: "ScheduleIntent \<Rightarrow> string" where
  "scheduleIntentSortKey i = Join
     [si_PodName i, si_PodID i, si_NodeID i, si_K8sNamespace i, si_CommandRegex i,
      Itoa (si_Priority i), Itoa (si_ExecutionTime i), Join (sortedLabels (si_PodLabels i)) '',''] ''|''"

definition serializeScheduleIntent :: "ScheduleIntent \<Rightarrow> string" where
  "serializeScheduleIntent i = Join
     [''podName='' @ si_PodName i, ''podID='' @ si_PodID i, ''nodeID='' @ si_NodeID i,
      ''k8sNamespace='' @ si_K8sNamespace i, ''commandRegex='' @ si_CommandRegex i,
      ''priority='' @ Itoa (si_Priority i), ''executionTime='' @ Itoa (si_ExecutionTime i),
      ''podLabels='' @ Join (sortedLabels (si_PodLabels i)) '',''] ''|''"

definition hashScheduleIntent :: "(string \<Rightarrow> string) \<Rightarrow> ScheduleIntent \<Rightarrow> string" where
  "hashScheduleIntent sha i = HashStringSHA256Hex sha (serializeScheduleIntent i)"

definition normalizeScheduleIntents :: "ScheduleIntent option list \<Rightarrow> ScheduleIntent list" where
  "normalizeScheduleIntents intents = somes intents"

definition sortScheduleIntentsByKey :: "ScheduleIntent option list \<Rightarrow> ScheduleIntent list" where
  "sortScheduleIntentsByKey intents = sort_key scheduleIntentSortKey (normalizeScheduleIntents intents)"

definition buildScheduleIntentMerkleRoot :: "(string \<Rightarrow> string) \<Rightarrow> ScheduleIntent option list \<Rightarrow> string" where
  "buildScheduleIntentMerkleRoot sha intents =
     Hash (BuildMerkleTree sha (map (hashScheduleIntent sha) (sortScheduleIntentsByKey intents)))"

text \<open>The map from node to root; a node without intents has no entry.\<close>

definition buildExpectedIntentRootsByNode ::
  "(string \<Rightarrow> string) \<Rightarrow> ScheduleIntent option list \<Rightarrow> string \<rightharpoonup> string" where
  "buildExpectedIntentRootsByNode sha intents nodeID =
     (let nodeIntents = filter (\<lambda>i. si_NodeID i = nodeID) (normalizeScheduleIntents intents) in
      if nodeIntents = [] then None else Some (buildScheduleIntentMerkleRoot sha (map Some nodeIntents)))"


section \<open>Digest of node intents\<close>

definition nodeIntentSortKey :: "NodeSchedulingIntent \<Rightarrow> string" where
  "nodeIntentSortKey i = Join
     [nsi_NodeID i, nsi_PolicyID i, nsi_CommandRegex i, Itoa (nsi_Priority i), Itoa (nsi_ExecutionTime i)] ''|''"

definition serializeNodeSchedulingIntent :: "NodeSchedulingIntent \<Rightarrow> string" where
  "serializeNodeSchedulingIntent i = Join
     [''nodeID='' @ nsi_NodeID i, ''policyID='' @ nsi_PolicyID i, ''commandRegex='' @ nsi_CommandRegex i,
      ''priority='' @ Itoa (nsi_Priority i), ''executionTime='' @ Itoa (nsi_ExecutionTime i)] ''|''"

definition hashNodeSchedulingIntent :: "(string \<Rightarrow> string) \<Rightarrow> NodeSchedulingIntent \<Rightarrow> string" where
  "hashNodeSchedulingIntent sha i = HashStringSHA256Hex sha (serializeNodeSchedulingIntent i)"

definition sortNodeIntentsByKey :: "NodeSchedulingIntent option list \<Rightarrow> NodeSchedulingIntent list" where
  "sortNodeIntentsByKey intents = sort_key nodeIntentSortKey (somes intents)"

definition buildNodeSchedulingIntentMerkleRoot ::
  "(string \<Rightarrow> string) \<Rightarrow> NodeSchedulingIntent option list \<Rightarrow> string" where
  "buildNodeSchedulingIntentMerkleRoot sha intents =
     Hash (BuildMerkleTree sha (map (hashNodeSchedulingIntent sha) (sortNodeIntentsByKey intents)))"

definition buildExpectedNodeIntentRootsByNode ::
  "(string \<Rightarrow> string) \<Rightarrow> NodeSchedulingIntent option list \<Rightarrow> string \<rightharpoonup> string" where
  "buildExpectedNodeIntentRootsByNode sha intents nodeID =
     (let nodeIntents = filter (\<lambda>i. nsi_NodeID i = nodeID) (somes intents) in
      if nodeIntents = [] then None else Some (buildNodeSchedulingIntentMerkleRoot sha (map Some nodeIntents)))"

interpretation mgi: drift_digest scheduleIntentSortKey "\<lambda>xs. sortScheduleIntentsByKey (map Some xs)"
  hashScheduleIntent serializeScheduleIntent
  by unfold_locales
    (auto simp: sortScheduleIntentsByKey_def normalizeScheduleIntents_def hashScheduleIntent_def)

interpretation mgn: drift_digest nodeIntentSortKey "\<lambda>xs. sortNodeIntentsByKey (map Some xs)"
  hashNodeSchedulingIntent serializeNodeSchedulingIntent
  by unfold_locales (auto simp: sortNodeIntentsByKey_def hashNodeSchedulingIntent_def)


section \<open>What the manager sends\<close>

text \<open>\<open>SendSchedulingIntent\<close> and \<open>SendNodeSchedulingPolicies\<close> of the decision-maker client
  build the request entries from the stored intents.\<close>

definition wireIntent :: "ScheduleIntent \<Rightarrow> Intent" where
  "wireIntent i =
     \<lparr>int_IntentID = [], int_PodName = si_PodName i, int_PodID = si_PodID i, int_NodeID = si_NodeID i,
      int_K8sNamespace = si_K8sNamespace i, int_CommandRegex = si_CommandRegex i,
      int_Priority = si_Priority i, int_ExecutionTime = si_ExecutionTime i, int_PodLabels = si_PodLabels i\<rparr>"

definition wireNodePolicy :: "NodeSchedulingIntent \<Rightarrow> NodePolicy" where
  "wireNodePolicy i =
     \<lparr>np_PolicyID = nsi_PolicyID i, np_NodeID = nsi_NodeID i, np_CommandRegex = nsi_CommandRegex i,
      np_Priority = nsi_Priority i, np_ExecutionTime = nsi_ExecutionTime i\<rparr>"

lemma wireIntent_key [simp]: "intentSortKey (wireIntent i) = scheduleIntentSortKey i"
  by (simp add: intentSortKey_def scheduleIntentSortKey_def wireIntent_def)

lemma wireIntent_ser [simp]: "serializeIntent (wireIntent i) = serializeScheduleIntent i"
  by (simp add: serializeIntent_def serializeScheduleIntent_def wireIntent_def)

lemma sort_key_map: "sort_key f (map g xs) = map g (sort_key (\<lambda>x. f (g x)) xs)"
proof (induction xs)
  case (Cons x xs)
  have "insort_key f (g x) (map g ys) = map g (insort_key (\<lambda>x. f (g x)) x ys)" for ys
    by (induction ys) auto
  with Cons show ?case by simp
qed simp

text \<open>The decision maker sorts and hashes what it receives exactly as the manager does.\<close>

lemma wire_leaves:
  "map (hashIntent sha) (sortIntentsByKey (map wireIntent is)) =
     map (hashScheduleIntent sha) (sortScheduleIntentsByKey (map Some is))"
  by (simp add: sortIntentsByKey_def sortScheduleIntentsByKey_def normalizeScheduleIntents_def
      sort_key_map hashIntent_def hashScheduleIntent_def)

lemma wire_root:
  "Hash (BuildMerkleTree sha (map (hashIntent sha) (sortIntentsByKey (map wireIntent is)))) =
     buildScheduleIntentMerkleRoot sha (map Some is)"
  unfolding buildScheduleIntentMerkleRoot_def wire_leaves ..

text \<open>For node policies it does not: the two serialise the fields in a different order.\<close>

lemma node_roots_mismatch:
  assumes "intents \<noteq> []" "\<forall>x. length (sha x) = k"
    and "inj_on sha (digestInputs sha (map serializeNodeSchedulingIntent (sortNodeIntentsByKey (map Some intents))) \<union>
           digestInputs sha (map serializeNodePolicy (sortNodePoliciesByKey (map wireNodePolicy intents))))"
  shows "buildNodeSchedulingIntentMerkleRoot sha (map Some intents) \<noteq>
    Hash (BuildMerkleTree sha (map (hashNodePolicy sha) (sortNodePoliciesByKey (map wireNodePolicy intents))))"
proof
  let ?ss = "map serializeNodeSchedulingIntent (sortNodeIntentsByKey (map Some intents))"
  let ?ts = "map serializeNodePolicy (sortNodePoliciesByKey (map wireNodePolicy intents))"
  assume "buildNodeSchedulingIntentMerkleRoot sha (map Some intents) =
    Hash (BuildMerkleTree sha (map (hashNodePolicy sha) (sortNodePoliciesByKey (map wireNodePolicy intents))))"
  then have "merkleRootHash sha (map (HashStringSHA256Hex sha) ?ss) = merkleRootHash sha (map (HashStringSHA256Hex sha) ?ts)"
    by (simp add: buildNodeSchedulingIntentMerkleRoot_def Hash_BuildMerkleTree mgn.hash_map dmp.hash_map del: map_map)
  moreover have "length ?ss = length ?ts" by (simp add: sortNodeIntentsByKey_def sortNodePoliciesByKey_def)
  ultimately have eq: "?ss = ?ts" using digest_binding [OF _ assms(2,3)] by blast
  have "?ss \<noteq> []" using assms(1) by (simp add: sortNodeIntentsByKey_def flip: length_greater_0_conv)
  then obtain s where s: "s \<in> set ?ss" by (meson list.set_sel(1))
  then have "hd s = CHR ''n''" by (auto simp: serializeNodeSchedulingIntent_def)
  moreover from s eq have "s \<in> set ?ts" by (simp only:)
  then have "hd s = CHR ''p''" by (auto simp: serializeNodePolicy_def)
  ultimately show False by simp
qed

end
