(* ===== verification/DM_Api.thy ===== *)
theory DM_Api
  imports DM_Intents Mgr_Domain
begin

text \<open>
  The HTTP boundary between manager and decision maker:
  the handlers of \<open>src/api/decisionmaker/rest\<close> (\<open>intent_handler.go\<close>, \<open>node_policy_hdl.go\<close>)
  and the calls of \<open>src/api/manager/client/deicison_maker.go\<close>.

  A handler takes the decoded body (\<^const>\<open>None\<close> for a body that does not decode) and
  returns the status code.  The network is the record \<open>dm_net\<close>: the decision-maker state
  behind each host and port.  What happens to a request is decided by \<open>delivery\<close>: it is
  delivered, lost before it arrives, or processed with its reply lost; \<open>tokenOk\<close> tells
  whether \<open>GetToken\<close> obtains a token for the pod.
\<close>

section \<open>Handlers\<close>

record dm_env =
  env_sha :: "string \<Rightarrow> string"
  env_compile :: "string \<Rightarrow> (string \<Rightarrow> bool) option"

text \<open>\<open>HandleIntents\<close>: the entries are copied to domain intents, which leaves the intent ID
  empty.\<close>

definition HandleIntents ::
  "dm_env \<Rightarrow> file_system \<Rightarrow> Intent list option \<Rightarrow> Service \<Rightarrow> nat \<times> Service" where
  "HandleIntents env fs body svc =
     (case body of
        None \<Rightarrow> (400, svc)
      | Some entries \<Rightarrow>
          (let intents = map (\<lambda>i. Some (i\<lparr>int_IntentID := []\<rparr>)) entries in
           case ProcessIntents (env_sha env) (env_compile env) fs intents svc of
             (Some e, svc') \<Rightarrow> (500, svc')
           | (None, svc') \<Rightarrow> (200, svc')))"

definition ListIntents ::
  "dm_env \<Rightarrow> file_system \<Rightarrow> (scan_error + TaskInfo list) option \<Rightarrow> Service
     \<Rightarrow> (nat \<times> SchedulingIntents list) \<times> Service" where
  "ListIntents env fs snapshot svc =
     (case ListAllSchedulingIntents (env_compile env) fs snapshot svc of
        (Inl e, svc') \<Rightarrow> ((500, []), svc')
      | (Inr intents, svc') \<Rightarrow> ((200, intents), svc'))"

definition HandleGetIntentMerkleRoot :: "dm_env \<Rightarrow> Service \<Rightarrow> (nat \<times> string) \<times> Service" where
  "HandleGetIntentMerkleRoot env svc =
     (case TraverseIntentMerkleTree (env_sha env) (Some ([], 0)) svc of
        (None, svc') \<Rightarrow> ((500, []), svc')
      | (Some None, svc') \<Rightarrow> ((200, []), svc')
      | (Some (Some node), svc') \<Rightarrow> ((200, Hash node), svc'))"

record DeleteIntentRequest =
  dir_PodID :: string
  dir_PID :: "int option"
  dir_All :: bool

definition DeleteIntent :: "dm_env \<Rightarrow> DeleteIntentRequest option \<Rightarrow> Service \<Rightarrow> nat \<times> Service" where
  "DeleteIntent env body svc =
     (case body of
        None \<Rightarrow> (400, svc)
      | Some req \<Rightarrow>
          if dir_All req then (200, DeleteAllIntents (env_sha env) svc)
          else if dir_PodID req = [] then (400, svc)
          else case dir_PID req of
                 Some pid \<Rightarrow> (200, DeleteIntentByPID (dir_PodID req) pid svc)
               | None \<Rightarrow> (200, DeleteIntentByPodID (env_sha env) (dir_PodID req) svc))"

definition HandleNodePolicies :: "dm_env \<Rightarrow> NodePolicy list option \<Rightarrow> Service \<Rightarrow> nat \<times> Service" where
  "HandleNodePolicies env body svc =
     (case body of
        None \<Rightarrow> (400, svc)
      | Some policies \<Rightarrow> (200, ProcessNodePolicies (env_sha env) (map Some policies) svc))"

definition HandleGetNodePolicyMerkleRoot :: "Service \<Rightarrow> nat \<times> string" where
  "HandleGetNodePolicyMerkleRoot svc = (200, GetNodePolicyMerkleRootHash svc)"

definition DeleteNodePolicy :: "dm_env \<Rightarrow> (string \<times> bool) option \<Rightarrow> Service \<Rightarrow> nat \<times> Service" where
  "DeleteNodePolicy env body svc =
     (case body of
        None \<Rightarrow> (400, svc)
      | Some (policyID, allFlag) \<Rightarrow>
          if allFlag then (200, DeleteAllNodePolicies (env_sha env) svc)
          else if policyID \<noteq> [] then (200, DeleteNodePolicyByID (env_sha env) policyID svc)
          else (400, svc))"


section \<open>The client\<close>

datatype delivery = Delivered | NotDelivered | ReplyLost

datatype dm_call = CallSend | CallRoot | CallDelete string | CallDeleteAll
  | CallSendNode | CallNodeRoot | CallDeleteNode string | CallDeleteAllNode

type_synonym dm_addr = "string \<times> int"

record dm_net =
  net_env :: dm_env
  net_fs :: "dm_addr \<Rightarrow> file_system"
  net_tokenOk :: "dm_addr \<Rightarrow> bool"
  net_delivery :: "dm_addr \<Rightarrow> dm_call \<Rightarrow> delivery"
  net_service :: "dm_addr \<Rightarrow> Service"

definition addrOf :: "DecisionMakerPod \<Rightarrow> dm_addr" where
  "addrOf dm = (dmp_Host dm, dmp_Port dm)"

datatype client_error = NoToken | Transport | NonOK nat

text \<open>One authenticated exchange with a decision maker: the handler runs on the service behind
  the address if the request is delivered.\<close>

definition exchange ::
  "DecisionMakerPod \<Rightarrow> dm_call \<Rightarrow> (file_system \<Rightarrow> Service \<Rightarrow> (nat \<times> 'a) \<times> Service) \<Rightarrow> dm_net
     \<Rightarrow> (client_error + 'a) \<times> dm_net" where
  "exchange dm call handler net =
     (let a = addrOf dm in
      if \<not> net_tokenOk net a then (Inl NoToken, net)
      else
        (let ((status, x), svc') = handler (net_fs net a) (net_service net a);
             net' = net\<lparr>net_service := (net_service net)(a := svc')\<rparr>
         in case net_delivery net a call of
              NotDelivered \<Rightarrow> (Inl Transport, net)
            | ReplyLost \<Rightarrow> (Inl Transport, net')
            | Delivered \<Rightarrow> if status = 200 then (Inr x, net') else (Inl (NonOK status), net')))"

definition unitReply :: "nat \<times> Service \<Rightarrow> (nat \<times> unit) \<times> Service" where
  "unitReply r = ((fst r, ()), snd r)"

definition resultError :: "(client_error + 'a) \<times> dm_net \<Rightarrow> client_error option \<times> dm_net" where
  "resultError r = (case fst r of Inl e \<Rightarrow> Some e | Inr _ \<Rightarrow> None, snd r)"

definition SendSchedulingIntent ::
  "DecisionMakerPod \<Rightarrow> ScheduleIntent list \<Rightarrow> dm_net \<Rightarrow> client_error option \<times> dm_net" where
  "SendSchedulingIntent dm intents net =
     resultError (exchange dm CallSend
       (\<lambda>fs svc. unitReply (HandleIntents (net_env net) fs (Some (map wireIntent intents)) svc)) net)"

definition GetIntentMerkleRoot :: "DecisionMakerPod \<Rightarrow> dm_net \<Rightarrow> (client_error + string) \<times> dm_net" where
  "GetIntentMerkleRoot dm net =
     exchange dm CallRoot (\<lambda>fs svc. HandleGetIntentMerkleRoot (net_env net) svc) net"

record DeleteIntentsRequest =
  dreq_PodIDs :: "string list"
  dreq_All :: bool

fun deleteByPodIDs ::
  "DecisionMakerPod \<Rightarrow> string list \<Rightarrow> dm_net \<Rightarrow> client_error option \<times> dm_net" where
  "deleteByPodIDs dm [] net = (None, net)"
| "deleteByPodIDs dm (podID # podIDs) net =
     (case resultError (exchange dm (CallDelete podID)
            (\<lambda>fs svc. unitReply (DeleteIntent (net_env net)
               (Some \<lparr>dir_PodID = podID, dir_PID = None, dir_All = False\<rparr>) svc)) net) of
        (Some e, net') \<Rightarrow> (Some e, net')
      | (None, net') \<Rightarrow> deleteByPodIDs dm podIDs net')"

definition DeleteSchedulingIntents ::
  "DecisionMakerPod \<Rightarrow> DeleteIntentsRequest \<Rightarrow> dm_net \<Rightarrow> client_error option \<times> dm_net" where
  "DeleteSchedulingIntents dm req net =
     (if dreq_All req then
        resultError (exchange dm CallDeleteAll
          (\<lambda>fs svc. unitReply (DeleteIntent (net_env net)
             (Some \<lparr>dir_PodID = [], dir_PID = None, dir_All = True\<rparr>) svc)) net)
      else if \<not> net_tokenOk net (addrOf dm) then (Some NoToken, net)
      else deleteByPodIDs dm (dreq_PodIDs req) net)"

definition SendNodeSchedulingPolicies ::
  "DecisionMakerPod \<Rightarrow> NodeSchedulingIntent list \<Rightarrow> dm_net \<Rightarrow> client_error option \<times> dm_net" where
  "SendNodeSchedulingPolicies dm intents net =
     resultError (exchange dm CallSendNode
       (\<lambda>fs svc. unitReply (HandleNodePolicies (net_env net) (Some (map wireNodePolicy intents)) svc)) net)"

definition GetNodePolicyMerkleRoot :: "DecisionMakerPod \<Rightarrow> dm_net \<Rightarrow> (client_error + string) \<times> dm_net" where
  "GetNodePolicyMerkleRoot dm net =
     exchange dm CallNodeRoot (\<lambda>fs svc. (HandleGetNodePolicyMerkleRoot svc, svc)) net"

definition DeleteNodeSchedulingIntents ::
  "DecisionMakerPod \<Rightarrow> string \<times> bool \<Rightarrow> dm_net \<Rightarrow> client_error option \<times> dm_net" where
  "DeleteNodeSchedulingIntents dm req net =
     resultError (exchange dm (if snd req then CallDeleteAllNode else CallDeleteNode (fst req))
       (\<lambda>fs svc. unitReply (DeleteNodePolicy (net_env net) (Some req) svc)) net)"


section \<open>What a successful call achieves\<close>

lemma wireIntent_noID [simp]: "(wireIntent i)\<lparr>int_IntentID := []\<rparr> = wireIntent i"
  by (simp add: wireIntent_def)

lemma exchange_ok:
  assumes "exchange dm call handler net = (Inr x, net')"
  shows "net_tokenOk net (addrOf dm)" "net_delivery net (addrOf dm) call = Delivered"
    and "handler (net_fs net (addrOf dm)) (net_service net (addrOf dm)) = ((200, x), net_service net' (addrOf dm))"
    and "net' = net\<lparr>net_service := (net_service net)(addrOf dm := net_service net' (addrOf dm))\<rparr>"
  using assms
  by (auto simp: exchange_def Let_def split: if_splits prod.splits delivery.splits)

lemma exchange_frame:
  "exchange dm call handler net = (r, net') \<Longrightarrow>
   \<exists>svc'. net' = net\<lparr>net_service := (net_service net)(addrOf dm := svc')\<rparr> \<and>
      (svc' = net_service net (addrOf dm) \<or>
       svc' = snd (handler (net_fs net (addrOf dm)) (net_service net (addrOf dm))))"
proof -
  assume e: "exchange dm call handler net = (r, net')"
  let ?a = "addrOf dm"
  obtain s x svc where h: "handler (net_fs net ?a) (net_service net ?a) = ((s, x), svc)"
    by (metis surj_pair)
  from e h have "net' = net \<or> net' = net\<lparr>net_service := (net_service net)(?a := svc)\<rparr>"
    by (auto simp: exchange_def Let_def split: if_splits delivery.splits)
  then show ?thesis
  proof
    assume "net' = net"
    then show ?thesis by (intro exI [of _ "net_service net ?a"]) simp
  next
    assume "net' = net\<lparr>net_service := (net_service net)(?a := svc)\<rparr>"
    then show ?thesis using h by (intro exI [of _ svc]) simp
  qed
qed

text \<open>The root hash a decision maker reports in a given state.\<close>

definition reportedRoot :: "(string \<Rightarrow> string) \<Rightarrow> Service \<Rightarrow> string" where
  "reportedRoot sha svc =
     (case svc_intentMerkleRoot svc of
        Some r \<Rightarrow> Hash r
      | None \<Rightarrow> Hash (BuildMerkleTree sha (intentLeaves sha (svc_intentCache svc))))"

lemma Hash_Truncate_Some: "TruncateMerkleTree (Some n) d = Some m \<Longrightarrow> Hash m = Hash n"
  using Hash_Truncate [of "Some n" d] by simp

lemma HandleRoot_reports:
  "fst (HandleGetIntentMerkleRoot env svc) = (200, reportedRoot (env_sha env) svc)"
  by (auto simp: HandleGetIntentMerkleRoot_def TraverseIntentMerkleTree_def refreshIntentMerkleTreeIfNeeded_def
      reportedRoot_def Let_def Hash_Truncate_Some split: option.split)

lemma ProcessIntents_ok:
  assumes "ProcessIntents sha compile fs intents svc = (None, svc')"
  shows "svc_intentCache svc' = map Some (somes intents) \<and> reportedRoot sha svc' =
    Hash (BuildMerkleTree sha (map (hashIntent sha) (sortIntentsByKey (somes intents))))"
proof -
  obtain podInfos where p: "GetAllPodInfos fs = Inr podInfos"
    using assms by (cases "GetAllPodInfos fs") (auto simp: ProcessIntents_def)
  define r where "r = BuildMerkleTree sha (map (hashIntent sha) (sortIntentsByKey (somes intents)))"
  define svc1 where "svc1 = svc\<lparr>svc_intentCache := map Some (somes intents),
     svc_intentMerkleRoot := Some r, svc_intentMerkleRootHash := Hash r\<rparr>"
  have nn: "None \<notin> set (map Some (somes intents))" by simp
  obtain m where m: "resolveSchedulingIntents compile (map Some (somes intents)) podInfos svc1 =
      (Inr (resolvedIntents compile podInfos (somes (map Some (somes intents)))), svc1\<lparr>svc_schedulingIntentsMap := m\<rparr>)"
    using nn by (rule resolve_ok)
  have "svc' = UpdatePodTargets (map Some (somes intents)) podInfos (svc1\<lparr>svc_schedulingIntentsMap := m\<rparr>)"
    using assms p m by (simp add: ProcessIntents_def normalizeIntentInputs_def Let_def r_def [symmetric] svc1_def [symmetric])
  then show ?thesis by (simp add: UpdatePodTargets_def svc1_def reportedRoot_def r_def)
qed

lemma resultError_None: "resultError (exchange dm call h net) = (None, net') \<longleftrightarrow> (\<exists>x. exchange dm call h net = (Inr x, net'))"
  by (cases "exchange dm call h net") (auto simp: resultError_def split: sum.splits)

lemma SendSchedulingIntent_ok:
  assumes "SendSchedulingIntent dm intents net = (None, net')"
  shows "net' = net\<lparr>net_service := (net_service net)(addrOf dm := net_service net' (addrOf dm))\<rparr>"
    and "svc_intentCache (net_service net' (addrOf dm)) = map (\<lambda>i. Some (wireIntent i)) intents"
    and "reportedRoot (env_sha (net_env net)) (net_service net' (addrOf dm)) =
         buildScheduleIntentMerkleRoot (env_sha (net_env net)) (map Some intents)"
proof -
  from assms obtain x where e: "exchange dm CallSend
       (\<lambda>fs svc. unitReply (HandleIntents (net_env net) fs (Some (map wireIntent intents)) svc)) net = (Inr x, net')"
    by (auto simp: SendSchedulingIntent_def resultError_None)
  note ok = exchange_ok [OF e]
  show "net' = net\<lparr>net_service := (net_service net)(addrOf dm := net_service net' (addrOf dm))\<rparr>" by (rule ok(4))
  have "ProcessIntents (env_sha (net_env net)) (env_compile (net_env net)) (net_fs net (addrOf dm))
      (map (\<lambda>i. Some (wireIntent i)) intents) (net_service net (addrOf dm)) = (None, net_service net' (addrOf dm))"
    using ok(3) by (auto simp: HandleIntents_def unitReply_def Let_def comp_def split: prod.splits option.splits)
  note p = ProcessIntents_ok [OF this]
  have s: "somes (map (\<lambda>i. Some (wireIntent i)) intents) = map wireIntent intents"
    by (induction intents) auto
  show "svc_intentCache (net_service net' (addrOf dm)) = map (\<lambda>i. Some (wireIntent i)) intents"
    using p unfolding s by (simp add: comp_def)
  show "reportedRoot (env_sha (net_env net)) (net_service net' (addrOf dm)) =
         buildScheduleIntentMerkleRoot (env_sha (net_env net)) (map Some intents)"
    using p unfolding s wire_root by simp
qed

text \<open>Asking for the root changes no reported root anywhere, whatever happens to the call.\<close>

lemma reportedRoot_refresh:
  "reportedRoot sha (snd (TraverseIntentMerkleTree sha req svc)) = reportedRoot sha svc"
  by (auto simp: TraverseIntentMerkleTree_def refreshIntentMerkleTreeIfNeeded_def reportedRoot_def Let_def
      split: option.split)

lemma snd_HandleRoot: "snd (HandleGetIntentMerkleRoot env svc) = snd (TraverseIntentMerkleTree (env_sha env) (Some ([], 0)) svc)"
  by (simp add: HandleGetIntentMerkleRoot_def split: prod.split option.split)

lemma GetIntentMerkleRoot_frame:
  assumes "GetIntentMerkleRoot dm net = (r, net')"
  shows "net' = net\<lparr>net_service := net_service net'\<rparr>"
    and "reportedRoot (env_sha (net_env net)) (net_service net' a) = reportedRoot (env_sha (net_env net)) (net_service net a)"
    and "r = Inr h \<Longrightarrow> h = reportedRoot (env_sha (net_env net)) (net_service net (addrOf dm))"
proof -
  note e = assms [unfolded GetIntentMerkleRoot_def]
  from exchange_frame [OF e] obtain svc' where svc': "net' = net\<lparr>net_service := (net_service net)(addrOf dm := svc')\<rparr>"
    "svc' = net_service net (addrOf dm) \<or> svc' = snd (HandleGetIntentMerkleRoot (net_env net) (net_service net (addrOf dm)))"
    by blast
  show "net' = net\<lparr>net_service := net_service net'\<rparr>" by (simp add: svc'(1))
  show "reportedRoot (env_sha (net_env net)) (net_service net' a) = reportedRoot (env_sha (net_env net)) (net_service net a)"
    using svc'(2) by (auto simp: svc'(1) snd_HandleRoot reportedRoot_refresh)
  show "h = reportedRoot (env_sha (net_env net)) (net_service net (addrOf dm))" if "r = Inr h"
  proof -
    have "fst (HandleGetIntentMerkleRoot (net_env net) (net_service net (addrOf dm))) = (200, h)"
      using exchange_ok(3) [OF e [unfolded that]] by simp
    then show ?thesis by (simp add: HandleRoot_reports)
  qed
qed

lemma DeleteAll_ok:
  assumes "DeleteSchedulingIntents dm \<lparr>dreq_PodIDs = [], dreq_All = True\<rparr> net = (None, net')"
  shows "net' = net\<lparr>net_service := (net_service net)(addrOf dm := net_service net' (addrOf dm))\<rparr>"
    and "svc_intentCache (net_service net' (addrOf dm)) = []"
    and "reportedRoot (env_sha (net_env net)) (net_service net' (addrOf dm)) =
         buildScheduleIntentMerkleRoot (env_sha (net_env net)) []"
proof -
  from assms obtain x where e: "exchange dm CallDeleteAll
       (\<lambda>fs svc. unitReply (DeleteIntent (net_env net) (Some \<lparr>dir_PodID = [], dir_PID = None, dir_All = True\<rparr>) svc)) net = (Inr x, net')"
    by (auto simp: DeleteSchedulingIntents_def resultError_None)
  note ok = exchange_ok [OF e]
  show "net' = net\<lparr>net_service := (net_service net)(addrOf dm := net_service net' (addrOf dm))\<rparr>" by (rule ok(4))
  have "net_service net' (addrOf dm) = DeleteAllIntents (env_sha (net_env net)) (net_service net (addrOf dm))"
    using ok(3) by (simp add: DeleteIntent_def unitReply_def)
  then show "svc_intentCache (net_service net' (addrOf dm)) = []"
    "reportedRoot (env_sha (net_env net)) (net_service net' (addrOf dm)) =
         buildScheduleIntentMerkleRoot (env_sha (net_env net)) []"
    by (simp_all add: DeleteAllIntents_def rebuildIntentMerkleTreeLocked_def UpdatePodTargets_def Let_def
        reportedRoot_def intentLeaves_def normalizeIntentInputs_def sortIntentsByKey_def buildScheduleIntentMerkleRoot_def
        sortScheduleIntentsByKey_def normalizeScheduleIntents_def)
qed

text \<open>Every client call touches only the decision maker it addresses.\<close>

lemma resultError_frame:
  "resultError (exchange dm call h net) = (r, net') \<Longrightarrow>
   \<exists>svc'. net' = net\<lparr>net_service := (net_service net)(addrOf dm := svc')\<rparr>"
  using exchange_frame [of dm call h net] by (cases "exchange dm call h net") (auto simp: resultError_def)

lemma SendNodeSchedulingPolicies_ok:
  assumes "SendNodeSchedulingPolicies dm intents net = (None, net')"
  shows "net' = net\<lparr>net_service := (net_service net)(addrOf dm := net_service net' (addrOf dm))\<rparr>"
    and "svc_nodePolicyCache (net_service net' (addrOf dm)) = map (\<lambda>i. Some (wireNodePolicy i)) intents"
    and "GetNodePolicyMerkleRootHash (net_service net' (addrOf dm)) =
         Hash (BuildMerkleTree (env_sha (net_env net))
           (map (hashNodePolicy (env_sha (net_env net))) (sortNodePoliciesByKey (map wireNodePolicy intents))))"
proof -
  from assms obtain x where e: "exchange dm CallSendNode
       (\<lambda>fs svc. unitReply (HandleNodePolicies (net_env net) (Some (map wireNodePolicy intents)) svc)) net = (Inr x, net')"
    by (auto simp: SendNodeSchedulingPolicies_def resultError_None)
  note ok = exchange_ok [OF e]
  show "net' = net\<lparr>net_service := (net_service net)(addrOf dm := net_service net' (addrOf dm))\<rparr>" by (rule ok(4))
  have s: "net_service net' (addrOf dm) = ProcessNodePolicies (env_sha (net_env net)) (map Some (map wireNodePolicy intents)) (net_service net (addrOf dm))"
    using ok(3) by (simp add: HandleNodePolicies_def unitReply_def)
  show "svc_nodePolicyCache (net_service net' (addrOf dm)) = map (\<lambda>i. Some (wireNodePolicy i)) intents"
    unfolding s ProcessNodePolicies_def normalizeNodePolicyInputs_def by (simp only: Let_def somes_map_Some) simp
  show "GetNodePolicyMerkleRootHash (net_service net' (addrOf dm)) =
         Hash (BuildMerkleTree (env_sha (net_env net))
           (map (hashNodePolicy (env_sha (net_env net))) (sortNodePoliciesByKey (map wireNodePolicy intents))))"
    unfolding s ProcessNodePolicies_def GetNodePolicyMerkleRootHash_def nodePolicyLeaves_def normalizeNodePolicyInputs_def
    by (simp only: Let_def somes_map_Some) simp
qed

lemma DeleteIntentByPodID_root:
  "reportedRoot sha (DeleteIntentByPodID sha podID s) = Hash (BuildMerkleTree sha (map (hashIntent sha)
     (sortIntentsByKey (filter (\<lambda>i. int_PodID i \<noteq> podID) (somes (svc_intentCache s))))))"
  by (simp add: DeleteIntentByPodID_def removePodMetricTarget_def rebuildIntentMerkleTreeLocked_def reportedRoot_def
      Let_def intentLeaves_def normalizeIntentInputs_def somes_filter)

end
