(* ===== verification/CR_Store.thy ===== *)
theory CR_Store
  imports Prelude
begin

text \<open>
  Custom resources as the repositories of \<open>src/api/manager/repository\<close> see them: the
  unstructured JSON objects, the field readers of \<open>cr_strategy_repo.go\<close>, and the dynamic
  Kubernetes client, which is an argument of every repository operation.

  \<open>cr_client\<close> bundles the client's calls over an opaque server state \<open>'w\<close>; \<open>cr_laws\<close>
  states the documented behaviour the repositories rely on, relative to a view of the
  state as one finite map of (labels, spec) per resource kind.  Any call may fail, and a
  failed call leaves the state alone.  A label selector is kept in parsed form.
\<close>

section \<open>Unstructured objects\<close>

datatype json = JNull | JBool bool | JInt int | JStr string | JArr "json list" | JObj "(string \<times> json) list"

definition jfield :: "json \<Rightarrow> string \<Rightarrow> json option" where
  "jfield j k = (case j of JObj fs \<Rightarrow> map_of fs k | _ \<Rightarrow> None)"

definition getStr :: "json \<Rightarrow> string \<Rightarrow> string" where
  "getStr m key = (case jfield m key of Some (JStr s) \<Rightarrow> s | _ \<Rightarrow> [])"

text \<open>\<open>getInt64\<close>; the resource definitions declare these fields as integers, so the decoder
  yields int64 values or nothing.\<close>

definition getInt64 :: "json \<Rightarrow> string \<Rightarrow> int" where
  "getInt64 m key = (case jfield m key of Some (JInt i) \<Rightarrow> i | _ \<Rightarrow> 0)"

text \<open>\<open>parseObjectIDField\<close>: an object ID is represented by its hex form, and \<open>fromHex\<close> is
  \<open>bson.ObjectIDFromHex\<close>.\<close>

definition parseObjectIDField :: "(string \<Rightarrow> string option) \<Rightarrow> json \<Rightarrow> string \<Rightarrow> string option" where
  "parseObjectIDField fromHex m key =
     (case jfield m key of
        Some (JStr value) \<Rightarrow> if value = [] then None else fromHex value
      | _ \<Rightarrow> None)"

definition GetName :: "json \<Rightarrow> string" where
  "GetName obj = (case jfield obj ''metadata'' of Some m \<Rightarrow> getStr m ''name'' | None \<Rightarrow> [])"

fun strFields :: "(string \<times> json) list \<Rightarrow> labels" where
  "strFields [] = []"
| "strFields ((k, JStr s) # fs) = (k, s) # strFields fs"
| "strFields (_ # fs) = strFields fs"

definition GetLabels :: "json \<Rightarrow> labels" where
  "GetLabels obj =
     (case jfield obj ''metadata'' of
        Some m \<Rightarrow> (case jfield m ''labels'' of Some (JObj fs) \<Rightarrow> strFields fs | _ \<Rightarrow> [])
      | None \<Rightarrow> [])"

definition GetSpec :: "json \<Rightarrow> json option" where
  "GetSpec obj = (case jfield obj ''spec'' of Some (JObj fs) \<Rightarrow> Some (JObj fs) | _ \<Rightarrow> None)"

text \<open>Setting a field of an object, as an assignment to a Go map does.\<close>

fun setField :: "string \<Rightarrow> json \<Rightarrow> (string \<times> json) list \<Rightarrow> (string \<times> json) list" where
  "setField k v [] = [(k, v)]"
| "setField k v ((k', v') # fs) = (if k = k' then (k, v) # fs else (k', v') # setField k v fs)"

definition jset :: "json \<Rightarrow> string \<Rightarrow> json \<Rightarrow> json" where
  "jset j k v = (case j of JObj fs \<Rightarrow> JObj (setField k v fs) | _ \<Rightarrow> j)"

lemma map_of_setField [simp]: "map_of (setField k v fs) = (map_of fs)(k \<mapsto> v)"
  by (induction k v fs rule: setField.induct) auto

lemma jfield_jset: "jfield (jset (JObj fs) k v) k' = (if k' = k then Some v else jfield (JObj fs) k')"
  by (simp add: jset_def jfield_def)

lemma strFields_map [simp]: "strFields (map (\<lambda>(k, v). (k, JStr v)) ls) = ls"
  by (induction ls) auto


section \<open>The client\<close>

datatype resource = StrategyCR | IntentCR | NodePolicyCR | NodeIntentCR

datatype labelReq = LabelEq string string | LabelIn string "string list"

fun reqMatches :: "labels \<Rightarrow> labelReq \<Rightarrow> bool" where
  "reqMatches ls (LabelEq k v) = (map_of ls k = Some v)"
| "reqMatches ls (LabelIn k vs) = (case map_of ls k of Some v \<Rightarrow> v \<in> set vs | None \<Rightarrow> False)"

datatype api_error = NotFound | OtherError string

record 'w cr_client =
  cr_get :: "resource \<Rightarrow> string \<Rightarrow> 'w \<Rightarrow> api_error + json"
  cr_list :: "resource \<Rightarrow> labelReq list \<Rightarrow> 'w \<Rightarrow> api_error + json list"
  cr_create :: "resource \<Rightarrow> json \<Rightarrow> 'w \<Rightarrow> (api_error + json) \<times> 'w"
  cr_update :: "resource \<Rightarrow> json \<Rightarrow> 'w \<Rightarrow> (api_error + json) \<times> 'w"
  cr_delete :: "resource \<Rightarrow> string \<Rightarrow> 'w \<Rightarrow> api_error option \<times> 'w"

text \<open>What of an object the repositories read back: its labels and its spec.\<close>

definition content :: "json \<Rightarrow> labels \<times> json option" where
  "content obj = (GetLabels obj, GetSpec obj)"

type_synonym 'w cr_view = "'w \<Rightarrow> resource \<Rightarrow> string \<rightharpoonup> labels \<times> json option"

text \<open>The documented behaviour of the client's calls.\<close>

definition get_law :: "'w cr_client \<Rightarrow> 'w cr_view \<Rightarrow> bool" where
  "get_law c view \<longleftrightarrow>
     (\<forall>k n w. (\<forall>obj. cr_get c k n w = Inr obj \<longrightarrow> view w k n = Some (content obj) \<and> GetName obj = n) \<and>
              (cr_get c k n w = Inl NotFound \<longrightarrow> view w k n = None))"

definition list_law :: "'w cr_client \<Rightarrow> 'w cr_view \<Rightarrow> bool" where
  "list_law c view \<longleftrightarrow>
     (\<forall>k sel w objs. cr_list c k sel w = Inr objs \<longrightarrow>
        distinct (map GetName objs) \<and>
        (\<forall>n v. (\<exists>obj \<in> set objs. GetName obj = n \<and> content obj = v) \<longleftrightarrow>
               view w k n = Some v \<and> list_all (reqMatches (fst v)) sel))"

definition create_law :: "'w cr_client \<Rightarrow> 'w cr_view \<Rightarrow> bool" where
  "create_law c view \<longleftrightarrow>
     (\<forall>k obj w r w'. cr_create c k obj w = (r, w') \<longrightarrow>
        (case r of
           Inl e \<Rightarrow> view w' = view w
         | Inr obj' \<Rightarrow> GetName obj' = GetName obj \<and> view w k (GetName obj) = None \<and>
             view w' = (view w)(k := (view w k)(GetName obj \<mapsto> content obj))))"

definition update_law :: "'w cr_client \<Rightarrow> 'w cr_view \<Rightarrow> bool" where
  "update_law c view \<longleftrightarrow>
     (\<forall>k obj w r w'. cr_update c k obj w = (r, w') \<longrightarrow>
        (case r of
           Inl e \<Rightarrow> view w' = view w
         | Inr obj' \<Rightarrow> view w' = (view w)(k := (view w k)(GetName obj \<mapsto> content obj))))"

definition delete_law :: "'w cr_client \<Rightarrow> 'w cr_view \<Rightarrow> bool" where
  "delete_law c view \<longleftrightarrow>
     (\<forall>k n w r w'. cr_delete c k n w = (r, w') \<longrightarrow>
        (case r of
           None \<Rightarrow> view w' = (view w)(k := (view w k)(n := None))
         | Some e \<Rightarrow> view w' = view w \<and> (e = NotFound \<longrightarrow> view w k n = None)))"

definition cr_laws :: "'w cr_client \<Rightarrow> 'w cr_view \<Rightarrow> bool" where
  "cr_laws c view \<longleftrightarrow> get_law c view \<and> list_law c view \<and> create_law c view \<and> update_law c view \<and> delete_law c view"


section \<open>A client that satisfies the laws\<close>

text \<open>An in-memory server: one list of objects per kind, in creation order.  It shows that
  the laws can hold and gives witnesses something to run on.\<close>

type_synonym mem = "resource \<Rightarrow> json list"

definition mem_view :: "mem cr_view" where
  "mem_view w k n = map_option content (find (\<lambda>obj. GetName obj = n) (w k))"

definition mem_client :: "mem cr_client" where
  "mem_client =
     \<lparr>cr_get = (\<lambda>k n w. case find (\<lambda>obj. GetName obj = n) (w k) of Some obj \<Rightarrow> Inr obj | None \<Rightarrow> Inl NotFound),
      cr_list = (\<lambda>k sel w. if distinct (map GetName (w k))
        then Inr (filter (\<lambda>obj. list_all (reqMatches (GetLabels obj)) sel) (w k))
        else Inl (OtherError ''corrupt'')),
      cr_create = (\<lambda>k obj w. case find (\<lambda>o'. GetName o' = GetName obj) (w k) of
          Some _ \<Rightarrow> (Inl (OtherError ''exists''), w)
        | None \<Rightarrow> (Inr obj, w(k := w k @ [obj]))),
      cr_update = (\<lambda>k obj w. case find (\<lambda>o'. GetName o' = GetName obj) (w k) of
          None \<Rightarrow> (Inl NotFound, w)
        | Some _ \<Rightarrow> (Inr obj, w(k := map (\<lambda>o'. if GetName o' = GetName obj then obj else o') (w k)))),
      cr_delete = (\<lambda>k n w. case find (\<lambda>o'. GetName o' = n) (w k) of
          None \<Rightarrow> (Some NotFound, w)
        | Some _ \<Rightarrow> (None, w(k := filter (\<lambda>o'. GetName o' \<noteq> n) (w k))))\<rparr>"

lemma find_append: "find P (xs @ ys) = (case find P xs of Some x \<Rightarrow> Some x | None \<Rightarrow> find P ys)"
  by (induction xs) auto

lemma find_replace:
  "find (\<lambda>o'. f o' = n) (map (\<lambda>o'. if f o' = f x then x else o') xs) =
     (if n = f x then (case find (\<lambda>o'. f o' = n) xs of None \<Rightarrow> None | Some _ \<Rightarrow> Some x)
      else find (\<lambda>o'. f o' = n) xs)"
  by (induction xs) auto

lemma find_filter_neq:
  "find (\<lambda>o'. f o' = m) (filter (\<lambda>o'. f o' \<noteq> n) xs) = (if m = n then None else find (\<lambda>o'. f o' = m) xs)"
  by (induction xs) auto

lemma find_distinct:
  "distinct (map f xs) \<Longrightarrow> find (\<lambda>o'. f o' = n) xs = Some x \<longleftrightarrow> x \<in> set xs \<and> f x = n"
  by (induction xs) auto

lemma mem_laws: "cr_laws mem_client mem_view"
proof -
  have "get_law mem_client mem_view"
    by (auto simp: get_law_def mem_client_def mem_view_def find_Some_iff split: option.splits)
  moreover have "list_law mem_client mem_view"
    by (auto simp: list_law_def mem_client_def mem_view_def distinct_map_filter find_distinct content_def
        split: if_splits)
  moreover have "create_law mem_client mem_view"
    by (auto simp: create_law_def mem_client_def mem_view_def find_append intro!: ext split: option.splits)
  moreover have "update_law mem_client mem_view"
    by (auto simp: update_law_def mem_client_def mem_view_def find_replace intro!: ext split: option.splits)
  moreover have "delete_law mem_client mem_view"
    by (auto simp: delete_law_def mem_client_def mem_view_def find_filter_neq intro!: ext split: option.splits)
  ultimately show ?thesis by (simp add: cr_laws_def)
qed

end
