(* ===== verification/CR_Collection.thy ===== *)
theory CR_Collection
  imports Mgr_Domain CR_Store
begin

text \<open>
  What the repositories of strategies, pod intents, node policies and node intents have in
  common (\<open>src/api/manager/repository/cr_strategy_repo.go\<close>, \<open>cr_node_policy_repo.go\<close>): they
  keep entities as custom resources of one kind each.  The loops over the dynamic client
  are defined once, with the kind and the conversion as arguments; the repositories
  instantiate them.  The locale \<open>cr_collection\<close> is the contract of such a kind of resource
  and derives what queries, inserts and deletions do to the collection of stored entities;
  \<open>cr_stateful\<close> adds the state label.
\<close>

section \<open>Operations on a kind of resource\<close>

definition labelCreatorID :: string where "labelCreatorID = ''gthulhu.io/creator-id''"
definition labelState :: string where "labelState = ''gthulhu.io/state''"

definition jstrs :: "labels \<Rightarrow> json" where
  "jstrs ls = JObj (map (\<lambda>(k, v). (k, JStr v)) ls)"

datatype repo_error = NilArgument | ApiFailed api_error | RollbackFailed api_error "string list" | BadObject string

definition buildLabelSelector :: "oid list \<Rightarrow> string \<Rightarrow> labelReq list" where
  "buildLabelSelector ids label =
     (case ids of [] \<Rightarrow> [] | [i] \<Rightarrow> [LabelEq label i] | _ \<Rightarrow> [LabelIn label ids])"

definition buildStateLabelSelector :: "int list \<Rightarrow> labelReq list" where
  "buildStateLabelSelector states =
     (case states of [] \<Rightarrow> [] | [s] \<Rightarrow> [LabelEq labelState (Itoa s)]
      | _ \<Rightarrow> [LabelIn labelState (map Itoa states)])"

text \<open>An entity gets an ID and times where it has none; the last argument of \<open>stampOwner\<close> is
  the policy or strategy, whose update time is always set.\<close>

definition stampIntent :: "int \<Rightarrow> oid \<Rightarrow> 'a BaseEntity_scheme \<Rightarrow> 'a BaseEntity_scheme" where
  "stampIntent now newID i =
     i\<lparr>be_ID := (if be_ID i = zeroOID then newID else be_ID i),
       be_CreatedTime := (if be_CreatedTime i = 0 then now else be_CreatedTime i),
       be_UpdatedTime := (if be_UpdatedTime i = 0 then now else be_UpdatedTime i)\<rparr>"

definition stampOwner :: "int \<Rightarrow> oid \<Rightarrow> 'a BaseEntity_scheme \<Rightarrow> 'a BaseEntity_scheme" where
  "stampOwner now newID s =
     s\<lparr>be_ID := (if be_ID s = zeroOID then newID else be_ID s),
       be_CreatedTime := (if be_CreatedTime s = 0 then now else be_CreatedTime s),
       be_UpdatedTime := now\<rparr>"

definition deleteFailed :: "api_error option \<Rightarrow> bool" where
  "deleteFailed r = (case r of None \<Rightarrow> False | Some e \<Rightarrow> e \<noteq> NotFound)"

fun rollback :: "'w cr_client \<Rightarrow> resource \<Rightarrow> string list \<Rightarrow> 'w \<Rightarrow> string list \<times> 'w" where
  "rollback c k [] w = ([], w)"
| "rollback c k (n # ns) w =
     (let (r, w1) = cr_delete c k n w;
          (errs, w2) = rollback c k ns w1
      in ((if deleteFailed r then [n] else []) @ errs, w2))"

text \<open>Creating the intents of an owner that was just created: the first failure deletes the
  intents created before it and the owner.  \<open>prep n\<close> completes the n-th intent.\<close>

fun createOwned ::
  "'w cr_client \<Rightarrow> resource \<Rightarrow> ('a BaseEntity_scheme \<Rightarrow> json) \<Rightarrow> resource \<Rightarrow> oid
     \<Rightarrow> (nat \<Rightarrow> 'a BaseEntity_scheme \<Rightarrow> 'a BaseEntity_scheme) \<Rightarrow> nat \<Rightarrow> 'a BaseEntity_scheme list
     \<Rightarrow> string list \<Rightarrow> 'w \<Rightarrow> (repo_error + 'a BaseEntity_scheme list) \<times> 'w" where
  "createOwned c k toObj ownerKind ownerID prep n [] createdNames w = (Inr [], w)"
| "createOwned c k toObj ownerKind ownerID prep n (intent # intents) createdNames w =
     (let i = prep n intent in
      case cr_create c k (toObj i) w of
        (Inl e, w1) \<Rightarrow>
          (let (errs1, w2) = rollback c k createdNames w1;
               (r, w3) = cr_delete c ownerKind ownerID w2;
               rollbackErrs = errs1 @ (if deleteFailed r then [ownerID] else [])
           in (Inl (if rollbackErrs \<noteq> [] then RollbackFailed e rollbackErrs else ApiFailed e), w3))
      | (Inr _, w1) \<Rightarrow>
          (case createOwned c k toObj ownerKind ownerID prep (Suc n) intents (createdNames @ [be_ID i]) w1 of
             (Inl e, w2) \<Rightarrow> (Inl e, w2)
           | (Inr is, w2) \<Rightarrow> (Inr (i # is), w2)))"

text \<open>Creating entities one by one without rollback.\<close>

fun createEach ::
  "'w cr_client \<Rightarrow> resource \<Rightarrow> ('a BaseEntity_scheme \<Rightarrow> json)
     \<Rightarrow> (nat \<Rightarrow> 'a BaseEntity_scheme \<Rightarrow> 'a BaseEntity_scheme) \<Rightarrow> nat \<Rightarrow> 'a BaseEntity_scheme list
     \<Rightarrow> 'w \<Rightarrow> (repo_error + 'a BaseEntity_scheme list) \<times> 'w" where
  "createEach c k toObj prep n [] w = (Inr [], w)"
| "createEach c k toObj prep n (intent # intents) w =
     (let i = prep n intent in
      case cr_create c k (toObj i) w of
        (Inl e, w1) \<Rightarrow> (Inl (ApiFailed e), w1)
      | (Inr _, w1) \<Rightarrow>
          (case createEach c k toObj prep (Suc n) intents w1 of
             (Inl e, w2) \<Rightarrow> (Inl e, w2)
           | (Inr is, w2) \<Rightarrow> (Inr (i # is), w2)))"

text \<open>The owner is created first; its ID is then read back from the created object.\<close>

definition insertOwned ::
  "'w cr_client \<Rightarrow> (string \<Rightarrow> oid option) \<Rightarrow> resource \<Rightarrow> ('b BaseEntity_scheme \<Rightarrow> json) \<Rightarrow> resource
     \<Rightarrow> ('a BaseEntity_scheme \<Rightarrow> json) \<Rightarrow> (oid \<Rightarrow> nat \<Rightarrow> 'a BaseEntity_scheme \<Rightarrow> 'a BaseEntity_scheme)
     \<Rightarrow> 'b BaseEntity_scheme \<Rightarrow> 'a BaseEntity_scheme list \<Rightarrow> 'w
     \<Rightarrow> (repo_error + 'b BaseEntity_scheme \<times> 'a BaseEntity_scheme list) \<times> 'w" where
  "insertOwned c fromHex ownerKind ownerObj k toObj prep owner intents w =
     (case cr_create c ownerKind (ownerObj owner) w of
        (Inl e, w1) \<Rightarrow> (Inl (ApiFailed e), w1)
      | (Inr created, w1) \<Rightarrow>
          (let owner' = (case fromHex (GetName created) of Some i \<Rightarrow> owner\<lparr>be_ID := i\<rparr> | None \<Rightarrow> owner) in
           case createOwned c k toObj ownerKind (be_ID owner') (prep (be_ID owner')) 1 intents [] w1 of
             (Inl e, w2) \<Rightarrow> (Inl e, w2)
           | (Inr is, w2) \<Rightarrow> (Inr (owner', is), w2)))"

text \<open>The object written back by a state update.\<close>

definition withState :: "int \<Rightarrow> int \<Rightarrow> json \<Rightarrow> json \<Rightarrow> json" where
  "withState now newState spec obj =
     (let spec' = jset (jset spec ''state'' (JInt newState)) ''updatedTime'' (JInt now);
          obj1 = jset obj ''spec'' spec';
          md = (case jfield obj1 ''metadata'' of Some m \<Rightarrow> m | None \<Rightarrow> JObj []);
          ls = jstrs (GetLabels obj1)
      in jset obj1 ''metadata'' (jset md ''labels'' (jset ls labelState (JStr (Itoa newState)))))"

fun updateStates ::
  "'w cr_client \<Rightarrow> resource \<Rightarrow> int \<Rightarrow> oid list \<Rightarrow> int \<Rightarrow> 'w \<Rightarrow> repo_error option \<times> 'w" where
  "updateStates c k now [] newState w = (None, w)"
| "updateStates c k now (i # ids) newState w =
     (case cr_get c k i w of
        Inl NotFound \<Rightarrow> updateStates c k now ids newState w
      | Inl (OtherError e) \<Rightarrow> (Some (ApiFailed (OtherError e)), w)
      | Inr obj \<Rightarrow>
          (case GetSpec obj of
             None \<Rightarrow> (Some (BadObject i), w)
           | Some spec \<Rightarrow>
               (case cr_update c k (withState now newState spec obj) w of
                  (Inl e, w1) \<Rightarrow> (Some (ApiFailed e), w1)
                | (Inr _, w1) \<Rightarrow> updateStates c k now ids newState w1)))"

text \<open>Fetching objects one by one; a missing one is skipped.\<close>

fun fetchEach ::
  "'w cr_client \<Rightarrow> resource \<Rightarrow> (json \<Rightarrow> 'a option) \<Rightarrow> oid list \<Rightarrow> 'w \<Rightarrow> repo_error + 'a list" where
  "fetchEach c k f [] w = Inr []"
| "fetchEach c k f (i # ids) w =
     (case cr_get c k i w of
        Inl NotFound \<Rightarrow> fetchEach c k f ids w
      | Inl (OtherError e) \<Rightarrow> Inl (ApiFailed (OtherError e))
      | Inr obj \<Rightarrow>
          (case f obj of
             None \<Rightarrow> Inl (BadObject (GetName obj))
           | Some x \<Rightarrow> (case fetchEach c k f ids w of Inl e \<Rightarrow> Inl e | Inr xs \<Rightarrow> Inr (x # xs))))"

fun convertAll :: "(json \<Rightarrow> 'a option) \<Rightarrow> json list \<Rightarrow> repo_error + 'a list" where
  "convertAll f [] = Inr []"
| "convertAll f (obj # objs) =
     (case f obj of
        None \<Rightarrow> Inl (BadObject (GetName obj))
      | Some x \<Rightarrow> (case convertAll f objs of Inl e \<Rightarrow> Inl e | Inr xs \<Rightarrow> Inr (x # xs)))"

text \<open>A query: by IDs if any are given, else by label selector; the filter applies to both.\<close>

definition queryObjects ::
  "'w cr_client \<Rightarrow> resource \<Rightarrow> (json \<Rightarrow> 'a option) \<Rightarrow> oid list \<Rightarrow> labelReq list \<Rightarrow> ('a \<Rightarrow> bool) \<Rightarrow> 'w
     \<Rightarrow> repo_error + 'a list" where
  "queryObjects c k dec ids sel flt w =
     (case (if ids \<noteq> [] then fetchEach c k dec ids w
            else case cr_list c k sel w of
              Inl e \<Rightarrow> Inl (ApiFailed e)
            | Inr objs \<Rightarrow> convertAll dec objs) of
        Inl e \<Rightarrow> Inl e
      | Inr xs \<Rightarrow> Inr (filter flt xs))"

definition replaceObject ::
  "'w cr_client \<Rightarrow> resource \<Rightarrow> json \<Rightarrow> 'w \<Rightarrow> repo_error option \<times> 'w" where
  "replaceObject c k obj w =
     (case cr_get c k (GetName obj) w of
        Inl e \<Rightarrow> (Some (ApiFailed e), w)
      | Inr existing \<Rightarrow>
          (case cr_update c k obj w of
             (Inl e, w1) \<Rightarrow> (Some (ApiFailed e), w1)
           | (Inr _, w1) \<Rightarrow> (None, w1)))"

definition deleteObject :: "'w cr_client \<Rightarrow> resource \<Rightarrow> oid \<Rightarrow> 'w \<Rightarrow> repo_error option \<times> 'w" where
  "deleteObject c k i w =
     (case cr_delete c k i w of
        (None, w1) \<Rightarrow> (None, w1)
      | (Some e, w1) \<Rightarrow> (if e = NotFound then None else Some (ApiFailed e), w1))"

fun deleteNamed :: "'w cr_client \<Rightarrow> resource \<Rightarrow> oid list \<Rightarrow> 'w \<Rightarrow> repo_error option \<times> 'w" where
  "deleteNamed c k [] w = (None, w)"
| "deleteNamed c k (i # ids) w =
     (case cr_delete c k i w of
        (Some (OtherError e), w1) \<Rightarrow> (Some (ApiFailed (OtherError e)), w1)
      | (_, w1) \<Rightarrow> deleteNamed c k ids w1)"

definition deleteLabelled :: "'w cr_client \<Rightarrow> resource \<Rightarrow> string \<Rightarrow> oid \<Rightarrow> 'w \<Rightarrow> repo_error option \<times> 'w" where
  "deleteLabelled c k label v w =
     (case cr_list c k [LabelEq label v] w of
        Inl e \<Rightarrow> (Some (ApiFailed e), w)
      | Inr items \<Rightarrow> deleteNamed c k (map GetName items) w)"


section \<open>Single steps\<close>

lemma delete_step:
  assumes "cr_laws c view" "cr_delete c k n w = (r, w1)" "\<not> deleteFailed r"
  shows "view w1 = (view w)(k := (view w k)(n := None))"
proof -
  have "case r of None \<Rightarrow> view w1 = (view w)(k := (view w k)(n := None))
      | Some e \<Rightarrow> view w1 = view w \<and> (e = NotFound \<longrightarrow> view w k n = None)"
    using assms(1,2) unfolding cr_laws_def delete_law_def by blast
  with assms(3) show ?thesis
    by (auto simp: deleteFailed_def fun_upd_idem split: option.splits)
qed

lemma create_step:
  assumes "cr_laws c view" "cr_create c k obj w = (Inr x, w1)"
  shows "GetName x = GetName obj \<and> view w k (GetName obj) = None \<and>
    view w1 = (view w)(k := (view w k)(GetName obj \<mapsto> content obj))"
proof -
  from assms(1) have "create_law c view" by (simp add: cr_laws_def)
  from this [unfolded create_law_def, rule_format, OF assms(2)] show ?thesis by simp
qed

lemma create_fail:
  assumes "cr_laws c view" "cr_create c k obj w = (Inl e, w1)"
  shows "view w1 = view w"
proof -
  from assms(1) have "create_law c view" by (simp add: cr_laws_def)
  from this [unfolded create_law_def, rule_format, OF assms(2)] show ?thesis by simp
qed

lemma update_step:
  assumes "cr_laws c view" "cr_update c k obj w = (Inr x, w1)"
  shows "view w1 = (view w)(k := (view w k)(GetName obj \<mapsto> content obj))"
proof -
  from assms(1) have "update_law c view" by (simp add: cr_laws_def)
  from this [unfolded update_law_def, rule_format, OF assms(2)] show ?thesis by simp
qed

lemma get_step:
  assumes "cr_laws c view"
  shows "cr_get c k n w = Inr obj \<Longrightarrow> view w k n = Some (content obj) \<and> GetName obj = n"
    and "cr_get c k n w = Inl NotFound \<Longrightarrow> view w k n = None"
  using assms by (simp_all add: cr_laws_def get_law_def)

lemma list_step:
  assumes "cr_laws c view" "cr_list c k sel w = Inr objs"
  shows "distinct (map GetName objs)"
    and "(\<exists>obj \<in> set objs. GetName obj = n \<and> content obj = v) \<longleftrightarrow>
         view w k n = Some v \<and> list_all (reqMatches (fst v)) sel"
  using assms unfolding cr_laws_def list_law_def by blast+

lemma rollback_view:
  assumes "cr_laws c view"
  shows "rollback c k ns w = ([], w') \<Longrightarrow>
    view w' = (view w)(k := (\<lambda>n. if n \<in> set ns then None else view w k n))"
proof (induction ns arbitrary: w)
  case (Cons n ns)
  obtain r w1 where d: "cr_delete c k n w = (r, w1)" by (metis surj_pair)
  obtain errs w2 where rb: "rollback c k ns w1 = (errs, w2)" by (metis surj_pair)
  with Cons.prems d have ok: "\<not> deleteFailed r" "errs = []" "w2 = w'"
    by (auto split: if_splits)
  have "rollback c k ns w1 = ([], w')" using rb ok by simp
  from Cons.IH [OF this] delete_step [OF assms d ok(1)] show ?case
    by (auto intro!: ext)
qed simp

lemma convertAll_Some:
  assumes "\<forall>obj \<in> set objs. f obj = Some (g obj)"
  shows "convertAll f objs = Inr (map g objs)"
  using assms by (induction objs) auto

lemma buildLabelSelector_match:
  "map_of ls label = Some v \<Longrightarrow> (ids \<noteq> [] \<longrightarrow> v \<in> set ids) \<Longrightarrow>
   list_all (reqMatches ls) (buildLabelSelector ids label)"
  by (auto simp: buildLabelSelector_def split: list.split)

lemma buildStateLabelSelector_match:
  "map_of ls labelState = Some (Itoa v) \<Longrightarrow> (states \<noteq> [] \<longrightarrow> v \<in> set states) \<Longrightarrow>
   list_all (reqMatches ls) (buildStateLabelSelector states)"
  by (auto simp: buildStateLabelSelector_def split: list.split)


section \<open>The contract of a kind of resource\<close>

text \<open>The server holds exactly the entities \<open>db\<close>, each under its ID.\<close>

definition collStore ::
  "resource \<Rightarrow> ('a BaseEntity_scheme \<Rightarrow> labels \<times> json option) \<Rightarrow> ('a BaseEntity_scheme \<Rightarrow> bool)
     \<Rightarrow> 'w cr_view \<Rightarrow> 'w \<Rightarrow> (oid \<rightharpoonup> 'a BaseEntity_scheme) \<Rightarrow> bool" where
  "collStore k cnt valid view w db \<longleftrightarrow>
     (\<forall>n. view w k n = map_option cnt (db n)) \<and> (\<forall>n x. db n = Some x \<longrightarrow> be_ID x = n \<and> valid x)"

text \<open>A list of entities as a map from IDs, and its stored form.\<close>

definition byID :: "'a BaseEntity_scheme list \<Rightarrow> (oid \<rightharpoonup> 'a BaseEntity_scheme)" where
  "byID xs = map_of (map (\<lambda>x. (be_ID x, x)) xs)"

definition objectsOf ::
  "('a BaseEntity_scheme \<Rightarrow> labels \<times> json option) \<Rightarrow> 'a BaseEntity_scheme list \<Rightarrow> (string \<rightharpoonup> labels \<times> json option)" where
  "objectsOf cnt xs = map_of (map (\<lambda>x. (be_ID x, cnt x)) xs)"

lemma objectsOf_byID: "objectsOf cnt xs n = map_option cnt (byID xs n)"
  by (induction xs) (auto simp: objectsOf_def byID_def)

lemma byID_Some: "byID xs n = Some x \<Longrightarrow> x \<in> set xs \<and> be_ID x = n"
  by (induction xs) (auto simp: byID_def split: if_splits)

lemma byID_mem: "distinct (map be_ID xs) \<Longrightarrow> x \<in> set xs \<Longrightarrow> byID xs (be_ID x) = Some x"
  unfolding byID_def by (rule map_of_is_SomeI) (auto simp: comp_def)

lemma add_byID_iff:
  assumes "distinct (map be_ID outs)" "\<forall>i \<in> set outs. db (be_ID i) = None"
  shows "(db ++ byID outs) n = Some i \<longleftrightarrow> i \<in> set outs \<and> be_ID i = n \<or> db n = Some i"
proof (cases "byID outs n")
  case None
  then have "i \<in> set outs \<Longrightarrow> be_ID i \<noteq> n" using byID_mem [OF assms(1), of i] by auto
  with None show ?thesis by (auto simp: map_add_def)
next
  case (Some j)
  from byID_Some [OF this] have j: "j \<in> set outs" "be_ID j = n" by simp_all
  then have "db n = None" using assms(2) by auto
  moreover have "i = j" if "i \<in> set outs" "be_ID i = n"
    using byID_mem [OF assms(1) that(1)] that(2) Some by simp
  moreover have "(db ++ byID outs) n = Some j" using Some by (simp add: map_add_def)
  ultimately show ?thesis using j by (metis option.inject option.distinct(1))
qed

lemma collStore_view:
  "collStore k cnt valid view w db \<Longrightarrow> view w' k = view w k \<Longrightarrow> collStore k cnt valid view w' db"
  by (simp add: collStore_def)

lemma collStore_delete:
  "collStore k cnt valid view w db \<Longrightarrow> view w1 = (view w)(k := (view w k)(n := None)) \<Longrightarrow>
   collStore k cnt valid view w1 (db(n := None))"
  by (auto simp: collStore_def)

lemma collStore_insert:
  assumes "collStore k cnt valid view w db" "\<forall>x \<in> set xs. valid x"
    and "view w' k = view w k ++ objectsOf cnt xs"
  shows "collStore k cnt valid view w' (db ++ byID xs)"
proof -
  have "view w' k n = map_option cnt ((db ++ byID xs) n)" for n
    using assms(1,3) by (simp add: collStore_def map_add_def objectsOf_byID split: option.splits)
  moreover have "be_ID x = n \<and> valid x" if "(db ++ byID xs) n = Some x" for n x
    using that assms(1,2) byID_Some [of xs n x]
    by (auto simp: collStore_def map_add_def split: option.splits)
  ultimately show ?thesis by (simp add: collStore_def)
qed

lemma deleteNamed_store:
  assumes "cr_laws c view"
  shows "collStore k cnt valid view w db \<Longrightarrow> deleteNamed c k ids w = (None, w') \<Longrightarrow>
    collStore k cnt valid view w' (\<lambda>n. if n \<in> set ids then None else db n)"
proof (induction ids arbitrary: w db)
  case (Cons i ids)
  obtain r w1 where d: "cr_delete c k i w = (r, w1)" by (metis surj_pair)
  with Cons.prems(2) have ok: "\<not> deleteFailed r" "deleteNamed c k ids w1 = (None, w')"
    by (auto simp: deleteFailed_def split: option.splits api_error.splits)
  have "collStore k cnt valid view w1 (db(i := None))"
    by (rule collStore_delete [OF Cons.prems(1) delete_step [OF assms d ok(1)]])
  from Cons.IH [OF this ok(2)] show ?case
    by (rule back_subst [of "collStore k cnt valid view w'"]) auto
qed simp

lemma deleteNamed_frame:
  assumes laws: "cr_laws c view" and "k' \<noteq> k"
  shows "deleteNamed c k ids w = (r, w') \<Longrightarrow> view w' k' = view w k'"
proof (induction ids arbitrary: w)
  case (Cons i ids)
  obtain r1 w1 where d: "cr_delete c k i w = (r1, w1)" by (metis surj_pair)
  have "case r1 of None \<Rightarrow> view w1 = (view w)(k := (view w k)(i := None))
      | Some e \<Rightarrow> view w1 = view w \<and> (e = NotFound \<longrightarrow> view w k i = None)"
    using laws d unfolding cr_laws_def delete_law_def by blast
  then have v: "view w1 k' = view w k'" using assms(2) by (auto split: option.splits)
  show ?case
  proof (cases "\<exists>e. r1 = Some (OtherError e)")
    case True
    with Cons.prems d v show ?thesis by auto
  next
    case False
    then have "deleteNamed c k ids w1 = (r, w')"
      using Cons.prems d by (auto split: option.splits api_error.splits)
    with Cons.IH v show ?thesis by simp
  qed
qed simp

locale cr_collection =
  fixes k :: resource
    and toObj :: "string \<Rightarrow> 'a BaseEntity_scheme \<Rightarrow> json"
    and dec :: "json \<Rightarrow> 'a BaseEntity_scheme option"
    and valid :: "'a BaseEntity_scheme \<Rightarrow> bool"
    and cnt :: "'a BaseEntity_scheme \<Rightarrow> labels \<times> json option"
  assumes name: "GetName (toObj ns x) = be_ID x"
    and content_toObj: "content (toObj ns x) = cnt x"
    and read: "valid x \<Longrightarrow> content obj = cnt x \<Longrightarrow> GetName obj = be_ID x \<Longrightarrow> dec obj = Some x"
begin

lemma roundtrip: "valid x \<Longrightarrow> dec (toObj ns x) = Some x"
  by (rule read) (simp_all add: content_toObj name)

lemma store_read:
  assumes "collStore k cnt valid view w db" "view w k n = Some (content obj)" "GetName obj = n"
  shows "\<exists>x. db n = Some x \<and> dec obj = Some x \<and> content obj = cnt x"
proof -
  from assms obtain x where x: "db n = Some x" "content obj = cnt x"
    unfolding collStore_def by (metis map_option_eq_Some)
  with assms show ?thesis by (auto simp: collStore_def intro!: read)
qed

text \<open>A listing returns exactly the stored entities that pass the filter, provided that the
  label selector does not lose any of them.\<close>

lemma query_list_exact:
  assumes laws: "cr_laws c view" and store: "collStore k cnt valid view w db"
    and q: "queryObjects c k dec [] sel flt w = Inr xs"
    and prefilter: "\<And>x. flt x \<Longrightarrow> list_all (reqMatches (fst (cnt x))) sel"
  shows "x \<in> set xs \<longleftrightarrow> db (be_ID x) = Some x \<and> flt x"
    and "distinct (map be_ID xs)"
proof -
  from q obtain objs where objs: "cr_list c k sel w = Inr objs"
    by (auto simp: queryObjects_def split: sum.splits)
  note dist = list_step(1) [OF laws objs] and mem = list_step(2) [OF laws objs]
  define g where "g obj = the (db (GetName obj))" for obj
  have read: "db (GetName obj) = Some (g obj) \<and> dec obj = Some (g obj) \<and> content obj = cnt (g obj)"
    if "obj \<in> set objs" for obj
  proof -
    have "view w k (GetName obj) = Some (content obj)" using mem that by blast
    from store_read [OF store this refl] show ?thesis by (auto simp: g_def)
  qed
  then have "convertAll dec objs = Inr (map g objs)" by (intro convertAll_Some) blast
  with q objs have xs: "xs = filter flt (map g objs)" by (auto simp: queryObjects_def)
  have gid: "be_ID (g obj) = GetName obj" if "obj \<in> set objs" for obj
    using read [OF that] store by (auto simp: collStore_def)
  then have ids_eq: "map be_ID (map g objs) = map GetName objs" by simp
  have "distinct (map be_ID (map g objs))" unfolding ids_eq by (rule dist)
  then show "distinct (map be_ID xs)" unfolding xs by (rule distinct_map_filter)
  show "x \<in> set xs \<longleftrightarrow> db (be_ID x) = Some x \<and> flt x"
  proof
    assume "x \<in> set xs"
    then show "db (be_ID x) = Some x \<and> flt x" using read gid by (auto simp: xs)
  next
    assume x: "db (be_ID x) = Some x \<and> flt x"
    then have "view w k (be_ID x) = Some (cnt x)" using store by (simp add: collStore_def)
    then obtain obj where "obj \<in> set objs" "GetName obj = be_ID x"
      using mem [of "be_ID x" "cnt x"] prefilter x by blast
    then show "x \<in> set xs" using x read [of obj] by (auto simp: xs intro!: image_eqI [of _ g obj])
  qed
qed

text \<open>A query by IDs returns the stored entities with these IDs, in the given order.\<close>

lemma fetchEach_store:
  assumes laws: "cr_laws c view" and store: "collStore k cnt valid view w db"
  shows "fetchEach c k dec ids w = Inr xs \<Longrightarrow> xs = List.map_filter db ids"
proof (induction ids arbitrary: xs)
  case (Cons i ids)
  show ?case
  proof (cases "cr_get c k i w")
    case (Inl e)
    with Cons.prems have e: "e = NotFound" "fetchEach c k dec ids w = Inr xs" by (auto split: api_error.splits)
    have "db i = None" using get_step(2) [OF laws, of k i w] Inl e store by (simp add: collStore_def)
    with Cons.IH [OF e(2)] show ?thesis by (simp add: map_filter_simps)
  next
    case (Inr obj)
    note g = get_step(1) [OF laws Inr]
    from store_read [OF store, of i obj] g obtain x where x: "db i = Some x" "dec obj = Some x" by blast
    with Cons.prems Inr obtain ys where "fetchEach c k dec ids w = Inr ys" "xs = x # ys" by (auto split: sum.splits)
    with Cons.IH x show ?thesis by (simp add: map_filter_simps)
  qed
qed (simp add: map_filter_simps)

lemma query_ids_exact:
  assumes laws: "cr_laws c view" and store: "collStore k cnt valid view w db"
    and q: "queryObjects c k dec ids sel flt w = Inr xs" and "ids \<noteq> []"
  shows "xs = filter flt (List.map_filter db ids)"
proof -
  from q assms(4) obtain ys where "fetchEach c k dec ids w = Inr ys" "xs = filter flt ys"
    by (auto simp: queryObjects_def split: sum.splits)
  with fetchEach_store [OF laws store] show ?thesis by simp
qed

text \<open>Deletion by a label removes exactly the entities that carry it.\<close>

lemma deleteLabelled_store:
  assumes laws: "cr_laws c view" and store: "collStore k cnt valid view w db"
    and d: "deleteLabelled c k label v w = (None, w')"
    and lab: "\<And>x. map_of (fst (cnt x)) label = Some (f x)"
  shows "collStore k cnt valid view w' (\<lambda>n. case db n of Some x \<Rightarrow> if f x = v then None else Some x | None \<Rightarrow> None)"
proof -
  from d obtain items where items: "cr_list c k [LabelEq label v] w = Inr items"
    "deleteNamed c k (map GetName items) w = (None, w')"
    by (auto simp: deleteLabelled_def split: sum.splits)
  have mem: "n \<in> set (map GetName items) \<longleftrightarrow> (\<exists>c. view w k n = Some c \<and> map_of (fst c) label = Some v)" for n
  proof -
    have "n \<in> set (map GetName items) \<longleftrightarrow> (\<exists>c. \<exists>obj \<in> set items. GetName obj = n \<and> content obj = c)"
      by (auto simp del: split_paired_Ex)
    then show ?thesis unfolding list_step(2) [OF laws items(1)] by simp
  qed
  have "(\<lambda>n. if n \<in> set (map GetName items) then None else db n) =
      (\<lambda>n. case db n of Some x \<Rightarrow> if f x = v then None else Some x | None \<Rightarrow> None)"
  proof (rule ext)
    fix n
    show "(if n \<in> set (map GetName items) then None else db n) =
      (case db n of Some x \<Rightarrow> if f x = v then None else Some x | None \<Rightarrow> None)"
      using store mem [of n] lab by (cases "db n") (auto simp: collStore_def)
  qed
  with deleteNamed_store [OF laws store items(2)] show ?thesis by simp
qed

text \<open>Creation adds entities under names that were free.\<close>

lemma new_objects:
  assumes v1: "view w1 = (view w)(k := (view w k)(be_ID i \<mapsto> cnt i))" and new: "view w k (be_ID i) = None"
    and IH: "view w' = (view w1)(k := view w1 k ++ objectsOf cnt outs) \<and>
      distinct (map be_ID outs) \<and> (\<forall>j \<in> set outs. view w1 k (be_ID j) = None)"
  shows "view w' = (view w)(k := view w k ++ objectsOf cnt (i # outs)) \<and>
    distinct (map be_ID (i # outs)) \<and> (\<forall>j \<in> set (i # outs). view w k (be_ID j) = None)"
proof -
  have free: "view w k (be_ID j) = None \<and> be_ID j \<noteq> be_ID i" if "j \<in> set outs" for j
  proof -
    have "view w1 k (be_ID j) = None" using IH that by blast
    then show ?thesis unfolding v1 by (simp split: if_splits)
  qed
  have notin: "be_ID i \<notin> be_ID ` set outs" using free by force
  then have "be_ID i \<notin> dom (objectsOf cnt outs)"
    by (simp add: objectsOf_def dom_map_of_conv_image_fst image_image)
  then have m: "(view w k)(be_ID i \<mapsto> cnt i) ++ objectsOf cnt outs = view w k ++ objectsOf cnt (i # outs)"
    by (simp add: objectsOf_def map_add_upd_left)
  have "view w' = (view w1)(k := view w1 k ++ objectsOf cnt outs)" using IH by blast
  then have "view w' = (view w)(k := view w k ++ objectsOf cnt (i # outs))"
    by (simp only: v1 fun_upd_same fun_upd_upd m)
  moreover have "distinct (map be_ID (i # outs))" using IH notin by simp
  moreover have "\<forall>j \<in> set (i # outs). view w k (be_ID j) = None" using free new by simp
  ultimately show ?thesis by blast
qed

lemma createEach_ok:
  assumes laws: "cr_laws c view"
  shows "createEach c k (toObj ns) prep n ins w = (Inr outs, w') \<Longrightarrow>
    view w' = (view w)(k := view w k ++ objectsOf cnt outs) \<and>
    distinct (map be_ID outs) \<and> (\<forall>i \<in> set outs. view w k (be_ID i) = None)"
proof (induction ins arbitrary: n w outs)
  case Nil
  then show ?case by (simp add: objectsOf_def)
next
  case (Cons intent ins)
  define i where "i = prep n intent"
  from Cons.prems obtain x w1 outs1 where cr: "cr_create c k (toObj ns i) w = (Inr x, w1)"
    and rest: "createEach c k (toObj ns) prep (Suc n) ins w1 = (Inr outs1, w')" and outs: "outs = i # outs1"
    by (auto simp: Let_def i_def split: prod.splits sum.splits)
  note step = create_step [OF laws cr, unfolded name content_toObj]
  have "view w1 = (view w)(k := (view w k)(be_ID i \<mapsto> cnt i))" "view w k (be_ID i) = None" using step by simp_all
  from new_objects [OF this Cons.IH [OF rest]] show ?case unfolding outs .
qed

lemma createEach_map:
  "createEach c k (toObj ns) prep n ins w = (Inr outs, w') \<Longrightarrow>
   outs = map (\<lambda>(m, x). prep m x) (enumerate n ins)"
  by (induction ins arbitrary: n w outs) (auto simp: Let_def split: prod.splits sum.splits)

lemma createOwned_ok:
  assumes laws: "cr_laws c view"
  shows "createOwned c k (toObj ns) ok oid prep n ins names w = (Inr outs, w') \<Longrightarrow>
    view w' = (view w)(k := view w k ++ objectsOf cnt outs) \<and>
    distinct (map be_ID outs) \<and> (\<forall>i \<in> set outs. view w k (be_ID i) = None)"
proof (induction ins arbitrary: n names w outs)
  case Nil
  then show ?case by (simp add: objectsOf_def)
next
  case (Cons intent ins)
  define i where "i = prep n intent"
  from Cons.prems obtain x w1 outs1 where cr: "cr_create c k (toObj ns i) w = (Inr x, w1)"
    and rest: "createOwned c k (toObj ns) ok oid prep (Suc n) ins (names @ [be_ID i]) w1 = (Inr outs1, w')"
    and outs: "outs = i # outs1"
    by (auto simp: Let_def i_def split: prod.splits sum.splits)
  note step = create_step [OF laws cr, unfolded name content_toObj]
  have "view w1 = (view w)(k := (view w k)(be_ID i \<mapsto> cnt i))" "view w k (be_ID i) = None" using step by simp_all
  from new_objects [OF this Cons.IH [OF rest]] show ?case unfolding outs .
qed

lemma createOwned_map:
  "createOwned c k (toObj ns) ok oid prep n ins names w = (Inr outs, w') \<Longrightarrow>
   outs = map (\<lambda>(m, x). prep m x) (enumerate n ins)"
  by (induction ins arbitrary: n names w outs) (auto simp: Let_def split: prod.splits sum.splits)

text \<open>A failed creation removes everything it had created, and the owner.\<close>

lemma createOwned_fail:
  assumes laws: "cr_laws c view" and ok: "ok \<noteq> k"
  shows "createOwned c k (toObj ns) ok oid prep n ins names w = (Inl (ApiFailed e), w') \<Longrightarrow>
    \<exists>created. (\<forall>m \<in> set created. view w k m = None) \<and>
      view w' = (view w)
        (k := (\<lambda>m. if m \<in> set names \<union> set created then None else view w k m),
         ok := (view w ok)(oid := None))"
proof (induction ins arbitrary: n names w)
  case (Cons intent ins)
  define i where "i = prep n intent"
  obtain r w1 where cr: "cr_create c k (toObj ns i) w = (r, w1)"
    by (metis surj_pair)
  show ?case
  proof (cases r)
    case (Inl e')
    obtain errs w2 where rb: "rollback c k names w1 = (errs, w2)" by (metis surj_pair)
    obtain d w3 where del: "cr_delete c ok oid w2 = (d, w3)" by (metis surj_pair)
    from Cons.prems cr Inl rb del have s: "errs = []" "\<not> deleteFailed d" "w3 = w'"
      by (auto simp: Let_def i_def split: if_splits)
    have v1: "view w1 = view w" using create_fail [OF laws] cr Inl by blast
    have v2: "view w2 = (view w1)(k := (\<lambda>n. if n \<in> set names then None else view w1 k n))"
      using rollback_view [OF laws, of k names w1 w2] rb s(1) by simp
    have v3: "view w' = (view w2)(ok := (view w2 ok)(oid := None))"
      using delete_step [OF laws del s(2)] s(3) by simp
    show ?thesis unfolding v3 v2 v1 using ok by (intro exI [of _ "[]"] conjI ext) simp_all
  next
    case (Inr x)
    note step = create_step [OF laws cr [unfolded Inr], unfolded name content_toObj]
    from Cons.prems cr Inr have
      "createOwned c k (toObj ns) ok oid prep (Suc n) ins (names @ [be_ID i]) w1 = (Inl (ApiFailed e), w')"
      by (auto simp: Let_def i_def split: prod.splits sum.splits)
    from Cons.IH [OF this] obtain created where created: "\<forall>m \<in> set created. view w1 k m = None"
      "view w' = (view w1)
        (k := (\<lambda>m. if m \<in> set (names @ [be_ID i]) \<union> set created then None else view w1 k m),
         ok := (view w1 ok)(oid := None))" by blast
    have v1: "view w1 = (view w)(k := (view w k)(be_ID i \<mapsto> cnt i))" using step by simp
    have old: "view w k m = None" if "view w1 k m = None" for m
      using that unfolding v1 by (simp split: if_splits)
    have "\<forall>m \<in> set (be_ID i # created). view w k m = None" using created(1) old step by simp
    moreover have "view w' = (view w)
        (k := (\<lambda>m. if m \<in> set names \<union> set (be_ID i # created) then None else view w k m),
         ok := (view w ok)(oid := None))"
      unfolding created(2) v1 using ok by (auto intro!: ext)
    ultimately show ?thesis by blast
  qed
qed simp

text \<open>A failed insertion leaves no trace, unless the rollback itself fails (which is reported
  as such); a successful one adds exactly the owner and its intents.\<close>

lemma insertOwned_atomic:
  assumes laws: "cr_laws c view" and ok: "ok \<noteq> k" and nm: "GetName (oobj owner) = be_ID owner"
    and hex: "fromHex (be_ID owner) = Some (be_ID owner)"
    and ins: "insertOwned c fromHex ok oobj k (toObj ns) prep owner ins w = (Inl (ApiFailed e), w')"
  shows "view w' = view w"
proof -
  obtain r w1 where cr: "cr_create c ok (oobj owner) w = (r, w1)" by (metis surj_pair)
  show ?thesis
  proof (cases r)
    case (Inl e')
    with ins cr have "w' = w1" by (simp add: insertOwned_def)
    with create_fail [OF laws cr [unfolded Inl]] show ?thesis by simp
  next
    case (Inr x)
    note step = create_step [OF laws cr [unfolded Inr], unfolded nm]
    have "createOwned c k (toObj ns) ok (be_ID owner) (prep (be_ID owner)) 1 ins [] w1 = (Inl (ApiFailed e), w')"
      using ins cr Inr step hex by (auto simp: insertOwned_def Let_def split: prod.splits sum.splits)
    from createOwned_fail [OF laws ok this] obtain created where
      new: "\<forall>m \<in> set created. view w1 k m = None" and
      v: "view w' = (view w1)
        (k := (\<lambda>m. if m \<in> set [] \<union> set created then None else view w1 k m),
         ok := (view w1 ok)(be_ID owner := None))" by blast
    have i: "(\<lambda>m. if m \<in> set [] \<union> set created then None else view w1 k m) = view w1 k"
      using new by auto
    have v1: "view w1 = (view w)(ok := (view w ok)(be_ID owner \<mapsto> content (oobj owner)))"
      and free: "view w ok (be_ID owner) = None"
      using step by simp_all
    show ?thesis unfolding v i fun_upd_triv unfolding v1 using free by (simp add: fun_upd_idem)
  qed
qed

lemma insertOwned_ok:
  assumes laws: "cr_laws c view" and ok: "ok \<noteq> k" and nm: "GetName (oobj owner) = be_ID owner"
    and hex: "fromHex (be_ID owner) = Some (be_ID owner)"
    and ins: "insertOwned c fromHex ok oobj k (toObj ns) prep owner ins w = (Inr (owner', outs), w')"
  shows "owner' = owner \<and> view w ok (be_ID owner) = None \<and>
    outs = map (\<lambda>(m, x). prep (be_ID owner) m x) (enumerate 1 ins) \<and>
    distinct (map be_ID outs) \<and> (\<forall>i \<in> set outs. view w k (be_ID i) = None) \<and>
    view w' = (view w)(ok := (view w ok)(be_ID owner \<mapsto> content (oobj owner)),
                       k := view w k ++ objectsOf cnt outs)"
proof -
  from ins obtain x w1 where cr: "cr_create c ok (oobj owner) w = (Inr x, w1)"
    by (auto simp: insertOwned_def Let_def split: prod.splits sum.splits)
  note step = create_step [OF laws cr, unfolded nm]
  have o: "owner' = owner"
    and ci: "createOwned c k (toObj ns) ok (be_ID owner) (prep (be_ID owner)) 1 ins [] w1 = (Inr outs, w')"
    using ins cr step hex by (auto simp: insertOwned_def Let_def split: prod.splits sum.splits)
  note c = createOwned_ok [OF laws ci]
  have v1: "view w1 = (view w)(ok := (view w ok)(be_ID owner \<mapsto> content (oobj owner)))"
    and free: "view w ok (be_ID owner) = None" using step by simp_all
  have i1: "view w1 k = view w k" unfolding v1 using ok by simp
  have "view w' = (view w1)(k := view w k ++ objectsOf cnt outs)" using c i1 by metis
  moreover have "\<forall>i \<in> set outs. view w k (be_ID i) = None" using c i1 by metis
  ultimately show ?thesis using o free createOwned_map [OF ci] c v1 by simp
qed

end


section \<open>Entities with a state\<close>

text \<open>What a state update changes of an object: the last label and two fields of the spec.\<close>

lemma withState_parts:
  assumes ls: "GetLabels obj = ls @ [(labelState, v)]" "labelState \<notin> fst ` set ls" and sp: "GetSpec obj = Some spec"
  shows "GetLabels (withState now st spec obj) = ls @ [(labelState, Itoa st)]"
    and "GetSpec (withState now st spec obj) = Some (jset (jset spec ''state'' (JInt st)) ''updatedTime'' (JInt now))"
    and "GetName (withState now st spec obj) = GetName obj"
proof -
  from ls obtain m where m: "jfield obj ''metadata'' = Some m"
    by (auto simp: GetLabels_def split: option.splits)
  with ls obtain ms where ms: "m = JObj ms" by (cases m) (auto simp: GetLabels_def jfield_def)
  from m obtain fs where fs: "obj = JObj fs" by (cases obj) (auto simp: jfield_def)
  from sp obtain sf where sf: "spec = JObj sf"
    by (auto simp: GetSpec_def split: option.splits json.splits)
  define spec' where "spec' = jset (jset spec ''state'' (JInt st)) ''updatedTime'' (JInt now)"
  obtain sf' where sf': "spec' = JObj sf'" by (simp add: spec'_def sf jset_def)
  define obj1 where "obj1 = jset obj ''spec'' spec'"
  have o1: "jfield obj1 ''metadata'' = Some (JObj ms)" "jfield obj1 ''spec'' = Some spec'" "GetLabels obj1 = GetLabels obj"
    using m ms unfolding obj1_def fs GetLabels_def by (simp_all add: jfield_jset)
  obtain gs where gs: "obj1 = JObj gs" by (simp add: obj1_def fs jset_def)
  define md' where "md' = jset (JObj ms) ''labels'' (jset (jstrs (GetLabels obj)) labelState (JStr (Itoa st)))"
  have w: "withState now st spec obj = jset obj1 ''metadata'' md'"
    by (simp add: withState_def Let_def spec'_def [symmetric] obj1_def [symmetric] o1 md'_def)
  have f: "jfield (withState now st spec obj) ''metadata'' = Some md'" "jfield (withState now st spec obj) ''spec'' = Some spec'"
    using o1 unfolding w gs by (simp_all add: jfield_jset)
  have set_last: "setField labelState j (map (\<lambda>(k, v). (k, JStr v)) xs @ [(labelState, y)]) =
      map (\<lambda>(k, v). (k, JStr v)) xs @ [(labelState, j)]" if "labelState \<notin> fst ` set xs" for xs j y
    using that by (induction xs) auto
  have "jfield md' ''labels'' = Some (JObj (map (\<lambda>(k, v). (k, JStr v)) (ls @ [(labelState, Itoa st)])))"
    unfolding md'_def jfield_jset ls(1) using set_last [OF ls(2)] by (simp add: jstrs_def jset_def)
  then show "GetLabels (withState now st spec obj) = ls @ [(labelState, Itoa st)]"
    unfolding GetLabels_def f by (simp only: option.case json.case strFields_map)
  show "GetSpec (withState now st spec obj) = Some (jset (jset spec ''state'' (JInt st)) ''updatedTime'' (JInt now))"
    unfolding GetSpec_def f spec'_def [symmetric] sf' by simp
  have "jfield md' ''name'' = jfield m ''name''" unfolding md'_def jfield_jset ms by simp
  then show "GetName (withState now st spec obj) = GetName obj"
    unfolding GetName_def f m by (simp add: getStr_def)
qed

text \<open>The abstract effect of a state update.\<close>

definition restateAll ::
  "('a BaseEntity_scheme \<Rightarrow> 'a BaseEntity_scheme) \<Rightarrow> oid set \<Rightarrow> (oid \<rightharpoonup> 'a BaseEntity_scheme)
     \<Rightarrow> (oid \<rightharpoonup> 'a BaseEntity_scheme)" where
  "restateAll f ids db = (\<lambda>n. if n \<in> ids then map_option f (db n) else db n)"

locale cr_stateful = cr_collection k toObj dec valid cnt
  for k :: resource and toObj :: "string \<Rightarrow> 'a BaseEntity_scheme \<Rightarrow> json" and dec valid cnt +
  fixes restate :: "int \<Rightarrow> int \<Rightarrow> 'a BaseEntity_scheme \<Rightarrow> 'a BaseEntity_scheme"
  assumes restate_content: "content obj = cnt x \<Longrightarrow> GetName obj = be_ID x \<Longrightarrow> GetSpec obj = Some spec \<Longrightarrow>
      content (withState now st spec obj) = cnt (restate now st x) \<and> GetName (withState now st spec obj) = be_ID x"
    and restate_valid: "valid x \<Longrightarrow> - 128 \<le> st \<Longrightarrow> st < 128 \<Longrightarrow> valid (restate now st x)"
    and restate_ID: "be_ID (restate now st x) = be_ID x"
    and restate_twice: "restate now st (restate now st x) = restate now st x"
begin

lemma restateAll_simps:
  "restateAll (restate now st) {} db = db"
  "db n = None \<Longrightarrow> restateAll (restate now st) (insert n ids) db = restateAll (restate now st) ids db"
  "restateAll (restate now st) ids (db(n := map_option (restate now st) (db n))) =
   restateAll (restate now st) (insert n ids) db"
  by (auto simp: restateAll_def fun_eq_iff option.map_comp comp_def restate_twice)

lemma updateStates_store:
  assumes laws: "cr_laws c view" and st: "- 128 \<le> st" "st < 128"
  shows "collStore k cnt valid view w db \<Longrightarrow> updateStates c k now ids st w = (None, w') \<Longrightarrow>
    collStore k cnt valid view w' (restateAll (restate now st) (set ids) db)"
proof (induction ids arbitrary: w db)
  case Nil
  then show ?case by (simp add: restateAll_simps)
next
  case (Cons n ids)
  show ?case
  proof (cases "cr_get c k n w")
    case (Inl e)
    with Cons.prems(2) have e: "e = NotFound" and rest: "updateStates c k now ids st w = (None, w')"
      by (auto split: api_error.splits)
    have "db n = None" using get_step(2) [OF laws, of k n w] Inl e Cons.prems(1) by (simp add: collStore_def)
    with Cons.IH [OF Cons.prems(1) rest] show ?thesis by (simp add: restateAll_simps)
  next
    case (Inr obj)
    note ob = get_step(1) [OF laws Inr]
    from store_read [OF Cons.prems(1), of n obj] ob obtain x where x: "db n = Some x" "content obj = cnt x" by blast
    have xn: "be_ID x = n" "valid x" using Cons.prems(1) x(1) by (simp_all add: collStore_def)
    from Cons.prems(2) Inr obtain spec y w1 where sp: "GetSpec obj = Some spec"
      and u: "cr_update c k (withState now st spec obj) w = (Inr y, w1)"
      and rest: "updateStates c k now ids st w1 = (None, w')"
      by (auto split: option.splits prod.splits sum.splits)
    have "view w1 = (view w)(k := (view w k)(n \<mapsto> cnt (restate now st x)))"
      using update_step [OF laws u] restate_content [OF x(2) _ sp, of now st] ob xn by simp
    then have "collStore k cnt valid view w1 (db(n := map_option (restate now st) (db n)))"
      using Cons.prems(1) x(1) xn restate_valid [OF xn(2) st] by (auto simp: collStore_def restate_ID)
    from Cons.IH [OF this rest] show ?thesis by (simp only: restateAll_simps list.set)
  qed
qed

end

lemma update_law_frame:
  assumes "cr_laws c view" "cr_update c k obj w = (r, w1)" "k' \<noteq> k"
  shows "view w1 k' = view w k'"
proof -
  from assms(1) have "update_law c view" by (simp add: cr_laws_def)
  from this [unfolded update_law_def, rule_format, OF assms(2)] assms(3) show ?thesis by (cases r) simp_all
qed

lemma updateStates_frame:
  assumes laws: "cr_laws c view" and "k' \<noteq> k"
  shows "updateStates c k now ids st w = (r, w') \<Longrightarrow> view w' k' = view w k'"
proof (induction ids arbitrary: w)
  case (Cons i ids)
  show ?case
  proof (cases "cr_get c k i w")
    case (Inl e)
    with Cons show ?thesis by (cases e) auto
  next
    case (Inr obj)
    show ?thesis
    proof (cases "GetSpec obj")
      case None
      with Cons.prems Inr show ?thesis by simp
    next
      case (Some spec)
      obtain r1 w1 where u: "cr_update c k (withState now st spec obj) w = (r1, w1)" by (metis surj_pair)
      have "view w1 k' = view w k'"
        using update_law_frame [OF laws u assms(2)] .
      with Cons Inr Some u show ?thesis by (cases r1) auto
    qed
  qed
qed simp

lemma deleteObject_store:
  assumes "cr_laws c view" "collStore k cnt valid view w db" "deleteObject c k i w = (None, w')"
  shows "collStore k cnt valid view w' (db(i := None)) \<and> (\<forall>k'. k' \<noteq> k \<longrightarrow> view w' k' = view w k')"
proof -
  obtain r w1 where d: "cr_delete c k i w = (r, w1)" by (metis surj_pair)
  with assms(3) have "\<not> deleteFailed r" "w' = w1"
    by (auto simp: deleteObject_def deleteFailed_def split: option.splits if_splits)
  from delete_step [OF assms(1) d this(1)] this(2) collStore_delete [OF assms(2)] show ?thesis by auto
qed

lemma replaceObject_view:
  assumes "cr_laws c view" "replaceObject c k obj w = (None, w')"
  shows "view w' = (view w)(k := (view w k)(GetName obj \<mapsto> content obj))"
proof -
  from assms(2) obtain x where "cr_update c k obj w = (Inr x, w')"
    by (auto simp: replaceObject_def split: sum.splits prod.splits)
  from update_step [OF assms(1) this] show ?thesis .
qed

lemma ran_byID: "distinct (map be_ID xs) \<Longrightarrow> ran (byID xs) = set xs"
  using byID_Some byID_mem by (fastforce simp: ran_def)

end
