(* ===== verification/Mgr_StrategyRepo.thy ===== *)
theory Mgr_StrategyRepo
  imports CR_Collection
begin

text \<open>
  \<open>src/api/manager/repository/cr_strategy_repo.go\<close>: strategies and pod intents stored as
  custom resources.  Every operation takes the dynamic client \<open>c\<close> and the server state;
  \<open>now\<close> is the clock, \<open>fresh n\<close> the object ID that \<open>bson.NewObjectID\<close> gives for the n-th
  entry, \<open>fromHex\<close> is \<open>bson.ObjectIDFromHex\<close>.  The interpretations show that both kinds of
  resource satisfy the contracts of collections, which gives the round trip through the
  unstructured form, the atomicity of the combined insert, and what queries, state updates
  and deletions do to the stored intents.
\<close>

section \<open>Conversion\<close>

definition labelStrategyID :: string where "labelStrategyID = ''gthulhu.io/strategy-id''"

definition domainStrategyToUnstructured :: "string \<Rightarrow> ScheduleStrategy \<Rightarrow> json" where
  "domainStrategyToUnstructured namespace s =
     JObj [(''apiVersion'', JStr ''gthulhu.io/v1alpha1''),
       (''kind'', JStr ''SchedulingStrategy''),
       (''metadata'', JObj [(''name'', JStr (be_ID s)), (''namespace'', JStr namespace),
          (''labels'', jstrs [(labelCreatorID, be_CreatorID s)])]),
       (''spec'', JObj
         [(''strategyNamespace'', JStr (st_StrategyNamespace s)),
          (''labelSelectors'', JArr (map (\<lambda>(k, v). jstrs [(''key'', k), (''value'', v)]) (st_LabelSelectors s))),
          (''k8sNamespaces'', JArr (map JStr (st_K8sNamespace s))),
          (''commandRegex'', JStr (st_CommandRegex s)),
          (''priority'', JInt (st_Priority s)),
          (''executionTime'', JInt (st_ExecutionTime s)),
          (''creatorID'', JStr (be_CreatorID s)),
          (''updaterID'', JStr (be_UpdaterID s)),
          (''createdTime'', JInt (be_CreatedTime s)),
          (''updatedTime'', JInt (be_UpdatedTime s))])]"

definition selectorItems :: "json option \<Rightarrow> labels" where
  "selectorItems raw =
     (case raw of
        Some (JArr arr) \<Rightarrow>
          concat (map (\<lambda>item. case item of JObj _ \<Rightarrow> [(getStr item ''key'', getStr item ''value'')] | _ \<Rightarrow> []) arr)
      | _ \<Rightarrow> [])"

definition stringItems :: "json option \<Rightarrow> string list" where
  "stringItems raw =
     (case raw of
        Some (JArr arr) \<Rightarrow> concat (map (\<lambda>item. case item of JStr s \<Rightarrow> [s] | _ \<Rightarrow> []) arr)
      | _ \<Rightarrow> [])"

definition unstructuredToDomainStrategy :: "(string \<Rightarrow> oid option) \<Rightarrow> json \<Rightarrow> ScheduleStrategy option" where
  "unstructuredToDomainStrategy fromHex obj =
     (case GetSpec obj of
        None \<Rightarrow> None
      | Some spec \<Rightarrow>
          (case (fromHex (GetName obj), parseObjectIDField fromHex spec ''creatorID'',
                 parseObjectIDField fromHex spec ''updaterID'') of
             (Some i, Some creatorID, Some updaterID) \<Rightarrow>
               Some \<lparr>be_ID = i, be_CreatedTime = getInt64 spec ''createdTime'',
                     be_UpdatedTime = getInt64 spec ''updatedTime'', be_DeletedTime = 0,
                     be_CreatorID = creatorID, be_UpdaterID = updaterID,
                     st_StrategyNamespace = getStr spec ''strategyNamespace'',
                     st_LabelSelectors = selectorItems (jfield spec ''labelSelectors''),
                     st_K8sNamespace = stringItems (jfield spec ''k8sNamespaces''),
                     st_CommandRegex = getStr spec ''commandRegex'',
                     st_Priority = getInt64 spec ''priority'',
                     st_ExecutionTime = getInt64 spec ''executionTime''\<rparr>
           | _ \<Rightarrow> None))"

definition domainIntentToUnstructured :: "string \<Rightarrow> ScheduleIntent \<Rightarrow> json" where
  "domainIntentToUnstructured namespace i =
     JObj [(''apiVersion'', JStr ''gthulhu.io/v1alpha1''),
       (''kind'', JStr ''SchedulingIntent''),
       (''metadata'', JObj [(''name'', JStr (be_ID i)), (''namespace'', JStr namespace),
          (''labels'', jstrs [(labelCreatorID, be_CreatorID i), (labelStrategyID, si_StrategyID i),
             (labelState, Itoa (si_State i))])]),
       (''spec'', JObj
         [(''strategyID'', JStr (si_StrategyID i)),
          (''podID'', JStr (si_PodID i)),
          (''podName'', JStr (si_PodName i)),
          (''nodeID'', JStr (si_NodeID i)),
          (''k8sNamespace'', JStr (si_K8sNamespace i)),
          (''commandRegex'', JStr (si_CommandRegex i)),
          (''priority'', JInt (si_Priority i)),
          (''executionTime'', JInt (si_ExecutionTime i)),
          (''podLabels'', jstrs (si_PodLabels i)),
          (''state'', JInt (si_State i)),
          (''creatorID'', JStr (be_CreatorID i)),
          (''updaterID'', JStr (be_UpdaterID i)),
          (''createdTime'', JInt (be_CreatedTime i)),
          (''updatedTime'', JInt (be_UpdatedTime i))])]"

text \<open>The conversion \<open>domain.IntentState(v)\<close> of an int64 to the int8 type.\<close>

definition int8 :: "int \<Rightarrow> int" where
  "int8 v = (v + 128) mod 256 - 128"

definition unstructuredToDomainIntent :: "(string \<Rightarrow> oid option) \<Rightarrow> json \<Rightarrow> ScheduleIntent option" where
  "unstructuredToDomainIntent fromHex obj =
     (case GetSpec obj of
        None \<Rightarrow> None
      | Some spec \<Rightarrow>
          (case (fromHex (GetName obj), parseObjectIDField fromHex spec ''creatorID'',
                 parseObjectIDField fromHex spec ''updaterID'', parseObjectIDField fromHex spec ''strategyID'') of
             (Some i, Some creatorID, Some updaterID, Some strategyID) \<Rightarrow>
               Some \<lparr>be_ID = i, be_CreatedTime = getInt64 spec ''createdTime'',
                     be_UpdatedTime = getInt64 spec ''updatedTime'', be_DeletedTime = 0,
                     be_CreatorID = creatorID, be_UpdaterID = updaterID,
                     si_StrategyID = strategyID,
                     si_PodID = getStr spec ''podID'', si_PodName = getStr spec ''podName'',
                     si_NodeID = getStr spec ''nodeID'', si_K8sNamespace = getStr spec ''k8sNamespace'',
                     si_CommandRegex = getStr spec ''commandRegex'',
                     si_Priority = getInt64 spec ''priority'',
                     si_ExecutionTime = getInt64 spec ''executionTime'',
                     si_PodLabels = (case jfield spec ''podLabels'' of Some (JObj fs) \<Rightarrow> strFields fs | _ \<Rightarrow> []),
                     si_State = int8 (getInt64 spec ''state'')\<rparr>
           | _ \<Rightarrow> None))"


section \<open>Filters\<close>

record QueryStrategyOptions =
  qs_IDs :: "oid list"
  qs_K8SNamespaces :: "string list"
  qs_CreatorIDs :: "oid list"

record QueryIntentOptions =
  qi_IDs :: "oid list"
  qi_K8SNamespaces :: "string list"
  qi_StrategyIDs :: "oid list"
  qi_States :: "int list"
  qi_PodIDs :: "string list"
  qi_CreatorIDs :: "oid list"

definition sliceOverlap :: "string list \<Rightarrow> string list \<Rightarrow> bool" where
  "sliceOverlap a b = list_ex (\<lambda>v. v \<in> set b) a"

definition matchesStrategyFilter :: "ScheduleStrategy \<Rightarrow> QueryStrategyOptions \<Rightarrow> bool" where
  "matchesStrategyFilter s opt \<longleftrightarrow>
     (qs_CreatorIDs opt \<noteq> [] \<longrightarrow> be_CreatorID s \<in> set (qs_CreatorIDs opt)) \<and>
     (qs_K8SNamespaces opt \<noteq> [] \<longrightarrow> sliceOverlap (qs_K8SNamespaces opt) (st_K8sNamespace s))"

definition matchesIntentFilter :: "ScheduleIntent \<Rightarrow> QueryIntentOptions \<Rightarrow> bool" where
  "matchesIntentFilter i opt \<longleftrightarrow>
     (qi_CreatorIDs opt \<noteq> [] \<longrightarrow> be_CreatorID i \<in> set (qi_CreatorIDs opt)) \<and>
     (qi_StrategyIDs opt \<noteq> [] \<longrightarrow> si_StrategyID i \<in> set (qi_StrategyIDs opt)) \<and>
     (qi_K8SNamespaces opt \<noteq> [] \<longrightarrow> si_K8sNamespace i \<in> set (qi_K8SNamespaces opt)) \<and>
     (qi_States opt \<noteq> [] \<longrightarrow> si_State i \<in> set (qi_States opt)) \<and>
     (qi_PodIDs opt \<noteq> [] \<longrightarrow> si_PodID i \<in> set (qi_PodIDs opt))"


section \<open>Operations\<close>

text \<open>The strategy and the intents are updated in place in Go; here the result carries their
  new values.\<close>

definition InsertStrategyAndIntents ::
  "'w cr_client \<Rightarrow> (string \<Rightarrow> oid option) \<Rightarrow> string \<Rightarrow> int \<Rightarrow> (nat \<Rightarrow> oid)
     \<Rightarrow> ScheduleStrategy option \<Rightarrow> ScheduleIntent list option \<Rightarrow> 'w
     \<Rightarrow> (repo_error + ScheduleStrategy \<times> ScheduleIntent list) \<times> 'w" where
  "InsertStrategyAndIntents c fromHex namespace now fresh strategy intents w =
     (case (strategy, intents) of
        (Some s, Some is) \<Rightarrow>
          insertOwned c fromHex StrategyCR (domainStrategyToUnstructured namespace)
            IntentCR (domainIntentToUnstructured namespace)
            (\<lambda>strategyID n i. (stampIntent now (fresh n) i)\<lparr>si_StrategyID := strategyID\<rparr>)
            (stampOwner now (fresh 0) s) is w
      | _ \<Rightarrow> (Inl NilArgument, w))"

definition InsertIntents ::
  "'w cr_client \<Rightarrow> string \<Rightarrow> int \<Rightarrow> (nat \<Rightarrow> oid) \<Rightarrow> ScheduleIntent list \<Rightarrow> 'w
     \<Rightarrow> (repo_error + ScheduleIntent list) \<times> 'w" where
  "InsertIntents c namespace now fresh intents w =
     createEach c IntentCR (domainIntentToUnstructured namespace) (\<lambda>n. stampIntent now (fresh n)) 0 intents w"

definition BatchUpdateIntentsState ::
  "'w cr_client \<Rightarrow> int \<Rightarrow> oid list \<Rightarrow> int \<Rightarrow> 'w \<Rightarrow> repo_error option \<times> 'w" where
  "BatchUpdateIntentsState c now intentIDs newState w = updateStates c IntentCR now intentIDs newState w"

definition QueryStrategies ::
  "'w cr_client \<Rightarrow> (string \<Rightarrow> oid option) \<Rightarrow> QueryStrategyOptions \<Rightarrow> 'w \<Rightarrow> repo_error + ScheduleStrategy list" where
  "QueryStrategies c fromHex opt w =
     queryObjects c StrategyCR (unstructuredToDomainStrategy fromHex) (qs_IDs opt)
       (buildLabelSelector (qs_CreatorIDs opt) labelCreatorID) (\<lambda>s. matchesStrategyFilter s opt) w"

definition intentSelector :: "QueryIntentOptions \<Rightarrow> labelReq list" where
  "intentSelector opt =
     buildLabelSelector (qi_CreatorIDs opt) labelCreatorID @
     buildLabelSelector (qi_StrategyIDs opt) labelStrategyID @
     buildStateLabelSelector (qi_States opt)"

definition QueryIntents ::
  "'w cr_client \<Rightarrow> (string \<Rightarrow> oid option) \<Rightarrow> QueryIntentOptions \<Rightarrow> 'w \<Rightarrow> repo_error + ScheduleIntent list" where
  "QueryIntents c fromHex opt w =
     queryObjects c IntentCR (unstructuredToDomainIntent fromHex) (qi_IDs opt)
       (intentSelector opt) (\<lambda>i. matchesIntentFilter i opt) w"

definition UpdateStrategy ::
  "'w cr_client \<Rightarrow> string \<Rightarrow> ScheduleStrategy option \<Rightarrow> 'w \<Rightarrow> repo_error option \<times> 'w" where
  "UpdateStrategy c namespace strategy w =
     (case strategy of
        None \<Rightarrow> (Some NilArgument, w)
      | Some s \<Rightarrow> replaceObject c StrategyCR (domainStrategyToUnstructured namespace s) w)"

definition DeleteStrategy :: "'w cr_client \<Rightarrow> oid \<Rightarrow> 'w \<Rightarrow> repo_error option \<times> 'w" where
  "DeleteStrategy c strategyID w = deleteObject c StrategyCR strategyID w"

definition DeleteIntents :: "'w cr_client \<Rightarrow> oid list \<Rightarrow> 'w \<Rightarrow> repo_error option \<times> 'w" where
  "DeleteIntents c intentIDs w = deleteNamed c IntentCR intentIDs w"

definition DeleteIntentsByStrategyID :: "'w cr_client \<Rightarrow> oid \<Rightarrow> 'w \<Rightarrow> repo_error option \<times> 'w" where
  "DeleteIntentsByStrategyID c strategyID w = deleteLabelled c IntentCR labelStrategyID strategyID w"


section \<open>The contracts\<close>

definition validOID :: "(string \<Rightarrow> oid option) \<Rightarrow> oid \<Rightarrow> bool" where
  "validOID fromHex i \<longleftrightarrow> i \<noteq> [] \<and> fromHex i = Some i"

definition validStrategy :: "(string \<Rightarrow> oid option) \<Rightarrow> ScheduleStrategy \<Rightarrow> bool" where
  "validStrategy fromHex s \<longleftrightarrow>
     validOID fromHex (be_ID s) \<and> validOID fromHex (be_CreatorID s) \<and> validOID fromHex (be_UpdaterID s) \<and>
     be_DeletedTime s = 0"

definition validIntent :: "(string \<Rightarrow> oid option) \<Rightarrow> ScheduleIntent \<Rightarrow> bool" where
  "validIntent fromHex i \<longleftrightarrow>
     validOID fromHex (be_ID i) \<and> validOID fromHex (be_CreatorID i) \<and> validOID fromHex (be_UpdaterID i) \<and>
     validOID fromHex (si_StrategyID i) \<and> be_DeletedTime i = 0 \<and> - 128 \<le> si_State i \<and> si_State i < 128"

lemmas json_readers = jfield_def getStr_def getInt64_def parseObjectIDField_def GetName_def GetLabels_def GetSpec_def

lemma selectorItems_map:
  "selectorItems (Some (JArr (map (\<lambda>(k, v). jstrs [(''key'', k), (''value'', v)]) ls))) = ls"
  by (induction ls) (auto simp: selectorItems_def jstrs_def json_readers)

lemma stringItems_map [simp]: "stringItems (Some (JArr (map JStr ss))) = ss"
  by (induction ss) (auto simp: stringItems_def)

lemma int8_id: "- 128 \<le> v \<Longrightarrow> v < 128 \<Longrightarrow> int8 v = v"
  by (simp add: int8_def)

definition strategyContent :: "ScheduleStrategy \<Rightarrow> labels \<times> json option" where
  "strategyContent s = content (domainStrategyToUnstructured [] s)"

definition intentContent :: "ScheduleIntent \<Rightarrow> labels \<times> json option" where
  "intentContent i = content (domainIntentToUnstructured [] i)"

lemma labels_strategy: "fst (strategyContent s) = [(labelCreatorID, be_CreatorID s)]"
  by (simp add: strategyContent_def content_def domainStrategyToUnstructured_def GetLabels_def jfield_def jstrs_def)

lemma labels_intent: "fst (intentContent i) =
    [(labelCreatorID, be_CreatorID i), (labelStrategyID, si_StrategyID i), (labelState, Itoa (si_State i))]"
  by (simp add: intentContent_def content_def domainIntentToUnstructured_def GetLabels_def jfield_def jstrs_def)

lemma label_names [simp]:
  "labelCreatorID \<noteq> labelStrategyID" "labelCreatorID \<noteq> labelState" "labelStrategyID \<noteq> labelState"
  "labelStrategyID \<noteq> labelCreatorID" "labelState \<noteq> labelCreatorID" "labelState \<noteq> labelStrategyID"
  by (simp_all add: labelCreatorID_def labelStrategyID_def labelState_def)

text \<open>The converters read only the name and the spec of an object.\<close>

lemma read_strategy_cong:
  assumes "GetName obj = GetName obj'" "content obj = content obj'"
  shows "unstructuredToDomainStrategy fromHex obj = unstructuredToDomainStrategy fromHex obj'"
  unfolding unstructuredToDomainStrategy_def assms(1) assms(2) [unfolded content_def prod.inject, THEN conjunct2] ..

lemma read_intent_cong:
  assumes "GetName obj = GetName obj'" "content obj = content obj'"
  shows "unstructuredToDomainIntent fromHex obj = unstructuredToDomainIntent fromHex obj'"
  unfolding unstructuredToDomainIntent_def assms(1) assms(2) [unfolded content_def prod.inject, THEN conjunct2] ..

lemma GetName_strategy [simp]: "GetName (domainStrategyToUnstructured ns s) = be_ID s"
  by (simp add: domainStrategyToUnstructured_def json_readers)

lemma GetName_intent [simp]: "GetName (domainIntentToUnstructured ns i) = be_ID i"
  by (simp add: domainIntentToUnstructured_def json_readers)

interpretation strategies: cr_collection StrategyCR domainStrategyToUnstructured
  "unstructuredToDomainStrategy fromHex" "validStrategy fromHex" strategyContent for fromHex
proof unfold_locales
  fix ns x obj
  show "GetName (domainStrategyToUnstructured ns x) = be_ID x" by simp
  show "content (domainStrategyToUnstructured ns x) = strategyContent x"
    by (simp add: strategyContent_def content_def domainStrategyToUnstructured_def json_readers)
  assume v: "validStrategy fromHex x" and o: "content obj = strategyContent x" "GetName obj = be_ID x"
  have "unstructuredToDomainStrategy fromHex obj = unstructuredToDomainStrategy fromHex (domainStrategyToUnstructured [] x)"
    using o by (intro read_strategy_cong) (simp_all add: strategyContent_def)
  also have "\<dots> = Some x"
    using v selectorItems_map [of "st_LabelSelectors x"]
    by (simp add: validStrategy_def validOID_def domainStrategyToUnstructured_def
        unstructuredToDomainStrategy_def json_readers)
  finally show "unstructuredToDomainStrategy fromHex obj = Some x" .
qed

definition restateIntent :: "int \<Rightarrow> int \<Rightarrow> ScheduleIntent \<Rightarrow> ScheduleIntent" where
  "restateIntent now st i = i\<lparr>si_State := st, be_UpdatedTime := now\<rparr>"

interpretation intents: cr_stateful IntentCR domainIntentToUnstructured
  "unstructuredToDomainIntent fromHex" "validIntent fromHex" intentContent restateIntent for fromHex
proof unfold_locales
  fix ns x obj spec now st
  show "GetName (domainIntentToUnstructured ns x) = be_ID x" by simp
  show "content (domainIntentToUnstructured ns x) = intentContent x"
    by (simp add: intentContent_def content_def domainIntentToUnstructured_def json_readers)
  show "unstructuredToDomainIntent fromHex obj = Some x"
    if v: "validIntent fromHex x" and o: "content obj = intentContent x" "GetName obj = be_ID x"
  proof -
    have "unstructuredToDomainIntent fromHex obj = unstructuredToDomainIntent fromHex (domainIntentToUnstructured [] x)"
      using o by (intro read_intent_cong) (simp_all add: intentContent_def)
    also have "\<dots> = Some x"
      using v by (simp add: validIntent_def validOID_def domainIntentToUnstructured_def unstructuredToDomainIntent_def
          json_readers jstrs_def int8_id)
    finally show ?thesis .
  qed
  show "content (withState now st spec obj) = intentContent (restateIntent now st x) \<and>
      GetName (withState now st spec obj) = be_ID x"
    if o: "content obj = intentContent x" "GetName obj = be_ID x" and sp: "GetSpec obj = Some spec"
  proof -
    have ls: "GetLabels obj = [(labelCreatorID, be_CreatorID x), (labelStrategyID, si_StrategyID x)] @
        [(labelState, Itoa (si_State x))]"
      using arg_cong [OF o(1), of fst] labels_intent [of x] by (simp add: content_def)
    have "Some spec = GetSpec (domainIntentToUnstructured [] x)"
      using arg_cong [OF o(1), of snd] sp by (simp add: content_def intentContent_def)
    then have "Some (jset (jset spec ''state'' (JInt st)) ''updatedTime'' (JInt now)) =
        GetSpec (domainIntentToUnstructured [] (restateIntent now st x))"
      by (simp add: jset_def domainIntentToUnstructured_def json_readers restateIntent_def)
    with withState_parts [OF ls _ sp, of now st] o(2) labels_intent [of "restateIntent now st x"] show ?thesis
      by (simp add: content_def intentContent_def restateIntent_def)
  qed
qed (auto simp: validIntent_def restateIntent_def)


section \<open>The stored intents\<close>

text \<open>\<open>intentStore fromHex view w db\<close>: the server holds exactly the intents \<open>db\<close>, each under
  its ID.\<close>

definition intentStore ::
  "(string \<Rightarrow> oid option) \<Rightarrow> 'w cr_view \<Rightarrow> 'w \<Rightarrow> (oid \<rightharpoonup> ScheduleIntent) \<Rightarrow> bool" where
  "intentStore fromHex view w db \<longleftrightarrow> collStore IntentCR intentContent (validIntent fromHex) view w db"

lemma selector_prefilter:
  "matchesIntentFilter i opt \<Longrightarrow> list_all (reqMatches (fst (intentContent i))) (intentSelector opt)"
  unfolding intentSelector_def list_all_append labels_intent matchesIntentFilter_def
  by (intro conjI buildLabelSelector_match buildStateLabelSelector_match) auto

lemma QueryIntents_exact:
  assumes "cr_laws c view" "intentStore fromHex view w db" "QueryIntents c fromHex opt w = Inr is" "qi_IDs opt = []"
  shows "i \<in> set is \<longleftrightarrow> db (be_ID i) = Some i \<and> matchesIntentFilter i opt" and "distinct (map be_ID is)"
  using assms intents.query_list_exact [OF assms(1), of fromHex w db "intentSelector opt" "\<lambda>i. matchesIntentFilter i opt"]
    selector_prefilter by (auto simp: intentStore_def QueryIntents_def)

lemma QueryIntents_byID:
  assumes "cr_laws c view" "intentStore fromHex view w db" "QueryIntents c fromHex opt w = Inr is" "qi_IDs opt \<noteq> []"
  shows "is = filter (\<lambda>i. matchesIntentFilter i opt) (List.map_filter db (qi_IDs opt))"
  using assms unfolding intentStore_def QueryIntents_def by (intro intents.query_ids_exact)

lemma DeleteIntents_store:
  "cr_laws c view \<Longrightarrow> intentStore fromHex view w db \<Longrightarrow> DeleteIntents c ids w = (None, w') \<Longrightarrow>
   intentStore fromHex view w' (\<lambda>n. if n \<in> set ids then None else db n)"
  unfolding intentStore_def DeleteIntents_def by (rule deleteNamed_store)

lemma map_of_intent: "map_of (fst (intentContent i)) labelStrategyID = Some (si_StrategyID i)"
  unfolding labels_intent by simp

lemma DeleteIntentsByStrategyID_store:
  assumes "cr_laws c view" "intentStore fromHex view w db" "DeleteIntentsByStrategyID c sid w = (None, w')"
  shows "intentStore fromHex view w' (\<lambda>n. case db n of Some i \<Rightarrow> if si_StrategyID i = sid then None else Some i | None \<Rightarrow> None)"
  using assms unfolding intentStore_def DeleteIntentsByStrategyID_def
  by (rule intents.deleteLabelled_store) (rule map_of_intent)

lemma BatchUpdateIntentsState_store:
  "cr_laws c view \<Longrightarrow> - 128 \<le> st \<Longrightarrow> st < 128 \<Longrightarrow> intentStore fromHex view w db \<Longrightarrow>
   BatchUpdateIntentsState c now ids st w = (None, w') \<Longrightarrow>
   intentStore fromHex view w' (restateAll (restateIntent now st) (set ids) db)"
  unfolding intentStore_def BatchUpdateIntentsState_def by (rule intents.updateStates_store)

lemma InsertIntents_ok:
  assumes "cr_laws c view" "InsertIntents c ns now fresh ins w = (Inr outs, w')"
  shows "outs = map (\<lambda>(m, i). stampIntent now (fresh m) i) (enumerate 0 ins) \<and>
    distinct (map be_ID outs) \<and> (\<forall>i \<in> set outs. view w IntentCR (be_ID i) = None) \<and>
    view w' = (view w)(IntentCR := view w IntentCR ++ objectsOf intentContent outs)"
  using intents.createEach_ok [OF assms(1), OF assms(2) [unfolded InsertIntents_def]]
    intents.createEach_map [OF assms(2) [unfolded InsertIntents_def]] by simp

lemma InsertIntents_store:
  assumes "cr_laws c view" "intentStore fromHex view w db" "InsertIntents c ns now fresh ins w = (Inr outs, w')"
    and "\<forall>i \<in> set outs. validIntent fromHex i"
  shows "intentStore fromHex view w' (db ++ byID outs)"
  using collStore_insert [OF assms(2) [unfolded intentStore_def] assms(4), of w'] InsertIntents_ok [OF assms(1,3)]
  by (simp add: intentStore_def)

lemma InsertStrategyAndIntents_atomic:
  assumes "cr_laws c view" "validOID fromHex (be_ID (stampOwner now (fresh 0) s))"
    and "InsertStrategyAndIntents c fromHex ns now fresh (Some s) (Some ins) w = (Inl (ApiFailed e), w')"
  shows "view w' = view w"
  using assms(2,3)
  by (intro intents.insertOwned_atomic [OF assms(1)]) (auto simp: InsertStrategyAndIntents_def validOID_def)

lemma InsertStrategyAndIntents_ok:
  assumes "cr_laws c view" "validOID fromHex (be_ID (stampOwner now (fresh 0) s))"
    and "InsertStrategyAndIntents c fromHex ns now fresh (Some s) (Some ins) w = (Inr (s', outs), w')"
  shows "s' = stampOwner now (fresh 0) s \<and> view w StrategyCR (be_ID s') = None \<and>
    distinct (map be_ID outs) \<and> (\<forall>i \<in> set outs. si_StrategyID i = be_ID s' \<and> view w IntentCR (be_ID i) = None) \<and>
    view w' = (view w)(StrategyCR := (view w StrategyCR)(be_ID s' \<mapsto> strategyContent s'),
                       IntentCR := view w IntentCR ++ objectsOf intentContent outs)"
proof -
  let ?s = "stampOwner now (fresh 0) s"
  from assms(3) have ins: "insertOwned c fromHex StrategyCR (domainStrategyToUnstructured ns)
            IntentCR (domainIntentToUnstructured ns)
            (\<lambda>strategyID n i. (stampIntent now (fresh n) i)\<lparr>si_StrategyID := strategyID\<rparr>) ?s ins w = (Inr (s', outs), w')"
    by (simp add: InsertStrategyAndIntents_def)
  have hex: "fromHex (be_ID ?s) = Some (be_ID ?s)" using assms(2) by (simp add: validOID_def)
  have "s' = ?s \<and> view w StrategyCR (be_ID ?s) = None \<and>
    outs = map (\<lambda>(m, x). (stampIntent now (fresh m) x)\<lparr>si_StrategyID := be_ID ?s\<rparr>) (enumerate 1 ins) \<and>
    distinct (map be_ID outs) \<and> (\<forall>i \<in> set outs. view w IntentCR (be_ID i) = None) \<and>
    view w' = (view w)(StrategyCR := (view w StrategyCR)(be_ID ?s \<mapsto> content (domainStrategyToUnstructured ns ?s)),
                       IntentCR := view w IntentCR ++ objectsOf intentContent outs)"
    by (rule intents.insertOwned_ok [OF assms(1) _ _ hex ins]) simp_all
  then show ?thesis by (auto simp: strategies.content_toObj)
qed

definition strategyStore ::
  "(string \<Rightarrow> oid option) \<Rightarrow> 'w cr_view \<Rightarrow> 'w \<Rightarrow> (oid \<rightharpoonup> ScheduleStrategy) \<Rightarrow> bool" where
  "strategyStore fromHex view w db \<longleftrightarrow> collStore StrategyCR strategyContent (validStrategy fromHex) view w db"

lemma DeleteIntentsByStrategyID_frame:
  assumes "cr_laws c view" "DeleteIntentsByStrategyID c sid w = (r, w')" "k \<noteq> IntentCR"
  shows "view w' k = view w k"
  using assms deleteNamed_frame [OF assms(1)]
  by (auto simp: DeleteIntentsByStrategyID_def deleteLabelled_def split: sum.splits)

lemma InsertStrategyAndIntents_outs:
  assumes "cr_laws c view" "validOID fromHex (be_ID (stampOwner now (fresh 0) s))"
    and "InsertStrategyAndIntents c fromHex ns now fresh (Some s) (Some ins) w = (Inr (s', outs), w')"
  shows "outs = map (\<lambda>(m, i). (stampIntent now (fresh m) i)\<lparr>si_StrategyID := be_ID s'\<rparr>) (enumerate 1 ins)"
proof -
  let ?s = "stampOwner now (fresh 0) s"
  from assms(3) have ins: "insertOwned c fromHex StrategyCR (domainStrategyToUnstructured ns)
            IntentCR (domainIntentToUnstructured ns)
            (\<lambda>strategyID n i. (stampIntent now (fresh n) i)\<lparr>si_StrategyID := strategyID\<rparr>) ?s ins w = (Inr (s', outs), w')"
    by (simp add: InsertStrategyAndIntents_def)
  have hex: "fromHex (be_ID ?s) = Some (be_ID ?s)" using assms(2) by (simp add: validOID_def)
  have "s' = ?s \<and> view w StrategyCR (be_ID ?s) = None \<and>
    outs = map (\<lambda>(m, x). (stampIntent now (fresh m) x)\<lparr>si_StrategyID := be_ID ?s\<rparr>) (enumerate 1 ins) \<and>
    distinct (map be_ID outs) \<and> (\<forall>i \<in> set outs. view w IntentCR (be_ID i) = None) \<and>
    view w' = (view w)(StrategyCR := (view w StrategyCR)(be_ID ?s \<mapsto> content (domainStrategyToUnstructured ns ?s)),
                       IntentCR := view w IntentCR ++ objectsOf intentContent outs)"
    by (rule intents.insertOwned_ok [OF assms(1) _ _ hex ins]) simp_all
  then show ?thesis by simp
qed

end
