(* ===== verification/Mgr_NodeRepo.thy ===== *)
theory Mgr_NodeRepo
  imports Mgr_StrategyRepo
begin

text \<open>
  \<open>src/api/manager/repository/cr_node_policy_repo.go\<close>: node policies and node intents stored
  as custom resources, over the same generic loops as strategies and pod intents, with the
  interpretations of the collection contracts for these two kinds of resource.
\<close>

section \<open>Conversion\<close>

definition labelNodePolicyID :: string where "labelNodePolicyID = ''gthulhu.io/node-policy-id''"

definition selectorObjects :: "labels \<Rightarrow> json" where
  "selectorObjects ls = JArr (map (\<lambda>(k, v). jstrs [(''key'', k), (''value'', v)]) ls)"

definition domainNodePolicyToUnstructured :: "string \<Rightarrow> NodeSchedulingPolicy \<Rightarrow> json" where
  "domainNodePolicyToUnstructured namespace p =
     JObj [(''apiVersion'', JStr ''gthulhu.io/v1alpha1''),
       (''kind'', JStr ''NodeSchedulingPolicy''),
       (''metadata'', JObj [(''name'', JStr (be_ID p)), (''namespace'', JStr namespace),
          (''labels'', jstrs [(labelCreatorID, be_CreatorID p)])]),
       (''spec'', JObj
         [(''nodeSelectors'', selectorObjects (nsp_NodeSelectors p)),
          (''nodeNames'', JArr (map JStr (nsp_NodeNames p))),
          (''draSelectors'', JArr (map (\<lambda>dra. JObj [(''deviceClass'', JStr (dra_DeviceClass dra)),
              (''attributes'', selectorObjects (dra_Attributes dra))]) (nsp_DRASelectors p))),
          (''commandRegex'', JStr (nsp_CommandRegex p)),
          (''priority'', JInt (nsp_Priority p)),
          (''executionTime'', JInt (nsp_ExecutionTime p)),
          (''creatorID'', JStr (be_CreatorID p)),
          (''updaterID'', JStr (be_UpdaterID p)),
          (''createdTime'', JInt (be_CreatedTime p)),
          (''updatedTime'', JInt (be_UpdatedTime p))])]"

definition draItems :: "json option \<Rightarrow> DRASelector list" where
  "draItems raw =
     (case raw of
        Some (JArr arr) \<Rightarrow>
          concat (map (\<lambda>item. case item of
              JObj _ \<Rightarrow> [\<lparr>dra_DeviceClass = getStr item ''deviceClass'',
                           dra_Attributes = selectorItems (jfield item ''attributes'')\<rparr>]
            | _ \<Rightarrow> []) arr)
      | _ \<Rightarrow> [])"

definition unstructuredToDomainNodePolicy :: "(string \<Rightarrow> oid option) \<Rightarrow> json \<Rightarrow> NodeSchedulingPolicy option" where
  "unstructuredToDomainNodePolicy fromHex obj =
     (case GetSpec obj of
        None \<Rightarrow> None
      | Some spec \<Rightarrow>
          (case (fromHex (GetName obj), parseObjectIDField fromHex spec ''creatorID'',
                 parseObjectIDField fromHex spec ''updaterID'') of
             (Some i, Some creatorID, Some updaterID) \<Rightarrow>
               Some \<lparr>be_ID = i, be_CreatedTime = getInt64 spec ''createdTime'',
                     be_UpdatedTime = getInt64 spec ''updatedTime'', be_DeletedTime = 0,
                     be_CreatorID = creatorID, be_UpdaterID = updaterID,
                     nsp_NodeSelectors = selectorItems (jfield spec ''nodeSelectors''),
                     nsp_NodeNames = stringItems (jfield spec ''nodeNames''),
                     nsp_DRASelectors = draItems (jfield spec ''draSelectors''),
                     nsp_CommandRegex = getStr spec ''commandRegex'',
                     nsp_Priority = getInt64 spec ''priority'',
                     nsp_ExecutionTime = getInt64 spec ''executionTime''\<rparr>
           | _ \<Rightarrow> None))"

definition domainNodeIntentToUnstructured :: "string \<Rightarrow> NodeSchedulingIntent \<Rightarrow> json" where
  "domainNodeIntentToUnstructured namespace i =
     JObj [(''apiVersion'', JStr ''gthulhu.io/v1alpha1''),
       (''kind'', JStr ''NodeSchedulingIntent''),
       (''metadata'', JObj [(''name'', JStr (be_ID i)), (''namespace'', JStr namespace),
          (''labels'', jstrs [(labelCreatorID, be_CreatorID i), (labelNodePolicyID, nsi_PolicyID i),
             (labelState, Itoa (nsi_State i))])]),
       (''spec'', JObj
         [(''policyID'', JStr (nsi_PolicyID i)),
          (''nodeID'', JStr (nsi_NodeID i)),
          (''commandRegex'', JStr (nsi_CommandRegex i)),
          (''priority'', JInt (nsi_Priority i)),
          (''executionTime'', JInt (nsi_ExecutionTime i)),
          (''state'', JInt (nsi_State i)),
          (''creatorID'', JStr (be_CreatorID i)),
          (''updaterID'', JStr (be_UpdaterID i)),
          (''createdTime'', JInt (be_CreatedTime i)),
          (''updatedTime'', JInt (be_UpdatedTime i))])]"

definition unstructuredToDomainNodeIntent :: "(string \<Rightarrow> oid option) \<Rightarrow> json \<Rightarrow> NodeSchedulingIntent option" where
  "unstructuredToDomainNodeIntent fromHex obj =
     (case GetSpec obj of
        None \<Rightarrow> None
      | Some spec \<Rightarrow>
          (case (fromHex (GetName obj), parseObjectIDField fromHex spec ''creatorID'',
                 parseObjectIDField fromHex spec ''updaterID'', parseObjectIDField fromHex spec ''policyID'') of
             (Some i, Some creatorID, Some updaterID, Some policyID) \<Rightarrow>
               Some \<lparr>be_ID = i, be_CreatedTime = getInt64 spec ''createdTime'',
                     be_UpdatedTime = getInt64 spec ''updatedTime'', be_DeletedTime = 0,
                     be_CreatorID = creatorID, be_UpdaterID = updaterID,
                     nsi_PolicyID = policyID,
                     nsi_NodeID = getStr spec ''nodeID'',
                     nsi_CommandRegex = getStr spec ''commandRegex'',
                     nsi_Priority = getInt64 spec ''priority'',
                     nsi_ExecutionTime = getInt64 spec ''executionTime'',
                     nsi_State = int8 (getInt64 spec ''state'')\<rparr>
           | _ \<Rightarrow> None))"


section \<open>Operations\<close>

record QueryNodePolicyOptions =
  qnp_IDs :: "oid list"
  qnp_CreatorIDs :: "oid list"

record QueryNodeIntentOptions =
  qni_IDs :: "oid list"
  qni_PolicyIDs :: "oid list"
  qni_NodeIDs :: "string list"
  qni_States :: "int list"
  qni_CreatorIDs :: "oid list"

definition matchesNodePolicyFilter :: "NodeSchedulingPolicy \<Rightarrow> QueryNodePolicyOptions \<Rightarrow> bool" where
  "matchesNodePolicyFilter p opt \<longleftrightarrow> (qnp_CreatorIDs opt \<noteq> [] \<longrightarrow> be_CreatorID p \<in> set (qnp_CreatorIDs opt))"

definition matchesNodeIntentFilter :: "NodeSchedulingIntent \<Rightarrow> QueryNodeIntentOptions \<Rightarrow> bool" where
  "matchesNodeIntentFilter i opt \<longleftrightarrow>
     (qni_CreatorIDs opt \<noteq> [] \<longrightarrow> be_CreatorID i \<in> set (qni_CreatorIDs opt)) \<and>
     (qni_PolicyIDs opt \<noteq> [] \<longrightarrow> nsi_PolicyID i \<in> set (qni_PolicyIDs opt)) \<and>
     (qni_NodeIDs opt \<noteq> [] \<longrightarrow> nsi_NodeID i \<in> set (qni_NodeIDs opt)) \<and>
     (qni_States opt \<noteq> [] \<longrightarrow> nsi_State i \<in> set (qni_States opt))"

definition InsertNodePolicyAndIntents ::
  "'w cr_client \<Rightarrow> (string \<Rightarrow> oid option) \<Rightarrow> string \<Rightarrow> int \<Rightarrow> (nat \<Rightarrow> oid)
     \<Rightarrow> NodeSchedulingPolicy option \<Rightarrow> NodeSchedulingIntent list option \<Rightarrow> 'w
     \<Rightarrow> (repo_error + NodeSchedulingPolicy \<times> NodeSchedulingIntent list) \<times> 'w" where
  "InsertNodePolicyAndIntents c fromHex namespace now fresh policy intents w =
     (case (policy, intents) of
        (Some p, Some is) \<Rightarrow>
          insertOwned c fromHex NodePolicyCR (domainNodePolicyToUnstructured namespace)
            NodeIntentCR (domainNodeIntentToUnstructured namespace)
            (\<lambda>policyID n i. (stampIntent now (fresh n) i)\<lparr>nsi_PolicyID := policyID\<rparr>)
            (stampOwner now (fresh 0) p) is w
      | _ \<Rightarrow> (Inl NilArgument, w))"

definition InsertNodeIntents ::
  "'w cr_client \<Rightarrow> string \<Rightarrow> int \<Rightarrow> (nat \<Rightarrow> oid) \<Rightarrow> NodeSchedulingIntent list \<Rightarrow> 'w
     \<Rightarrow> (repo_error + NodeSchedulingIntent list) \<times> 'w" where
  "InsertNodeIntents c namespace now fresh intents w =
     createEach c NodeIntentCR (domainNodeIntentToUnstructured namespace) (\<lambda>n. stampIntent now (fresh n)) 0 intents w"

definition BatchUpdateNodeIntentsState ::
  "'w cr_client \<Rightarrow> int \<Rightarrow> oid list \<Rightarrow> int \<Rightarrow> 'w \<Rightarrow> repo_error option \<times> 'w" where
  "BatchUpdateNodeIntentsState c now intentIDs newState w = updateStates c NodeIntentCR now intentIDs newState w"

definition QueryNodePolicies ::
  "'w cr_client \<Rightarrow> (string \<Rightarrow> oid option) \<Rightarrow> QueryNodePolicyOptions \<Rightarrow> 'w \<Rightarrow> repo_error + NodeSchedulingPolicy list" where
  "QueryNodePolicies c fromHex opt w =
     queryObjects c NodePolicyCR (unstructuredToDomainNodePolicy fromHex) (qnp_IDs opt)
       (buildLabelSelector (qnp_CreatorIDs opt) labelCreatorID) (\<lambda>p. matchesNodePolicyFilter p opt) w"

definition nodeIntentSelector :: "QueryNodeIntentOptions \<Rightarrow> labelReq list" where
  "nodeIntentSelector opt =
     buildLabelSelector (qni_CreatorIDs opt) labelCreatorID @
     buildLabelSelector (qni_PolicyIDs opt) labelNodePolicyID @
     buildStateLabelSelector (qni_States opt)"

definition QueryNodeIntents ::
  "'w cr_client \<Rightarrow> (string \<Rightarrow> oid option) \<Rightarrow> QueryNodeIntentOptions \<Rightarrow> 'w \<Rightarrow> repo_error + NodeSchedulingIntent list" where
  "QueryNodeIntents c fromHex opt w =
     queryObjects c NodeIntentCR (unstructuredToDomainNodeIntent fromHex) (qni_IDs opt)
       (nodeIntentSelector opt) (\<lambda>i. matchesNodeIntentFilter i opt) w"

definition UpdateNodePolicy ::
  "'w cr_client \<Rightarrow> string \<Rightarrow> NodeSchedulingPolicy option \<Rightarrow> 'w \<Rightarrow> repo_error option \<times> 'w" where
  "UpdateNodePolicy c namespace policy w =
     (case policy of
        None \<Rightarrow> (Some NilArgument, w)
      | Some p \<Rightarrow> replaceObject c NodePolicyCR (domainNodePolicyToUnstructured namespace p) w)"

definition DeleteNodePolicyCR :: "'w cr_client \<Rightarrow> oid \<Rightarrow> 'w \<Rightarrow> repo_error option \<times> 'w" where
  "DeleteNodePolicyCR c policyID w = deleteObject c NodePolicyCR policyID w"

definition DeleteNodeIntents :: "'w cr_client \<Rightarrow> oid list \<Rightarrow> 'w \<Rightarrow> repo_error option \<times> 'w" where
  "DeleteNodeIntents c intentIDs w = deleteNamed c NodeIntentCR intentIDs w"

definition DeleteNodeIntentsByPolicyID :: "'w cr_client \<Rightarrow> oid \<Rightarrow> 'w \<Rightarrow> repo_error option \<times> 'w" where
  "DeleteNodeIntentsByPolicyID c policyID w = deleteLabelled c NodeIntentCR labelNodePolicyID policyID w"


section \<open>The contracts\<close>

definition validNodePolicy :: "(string \<Rightarrow> oid option) \<Rightarrow> NodeSchedulingPolicy \<Rightarrow> bool" where
  "validNodePolicy fromHex p \<longleftrightarrow>
     validOID fromHex (be_ID p) \<and> validOID fromHex (be_CreatorID p) \<and> validOID fromHex (be_UpdaterID p) \<and>
     be_DeletedTime p = 0"

definition validNodeIntent :: "(string \<Rightarrow> oid option) \<Rightarrow> NodeSchedulingIntent \<Rightarrow> bool" where
  "validNodeIntent fromHex i \<longleftrightarrow>
     validOID fromHex (be_ID i) \<and> validOID fromHex (be_CreatorID i) \<and> validOID fromHex (be_UpdaterID i) \<and>
     validOID fromHex (nsi_PolicyID i) \<and> be_DeletedTime i = 0 \<and> - 128 \<le> nsi_State i \<and> nsi_State i < 128"

definition nodePolicyContent :: "NodeSchedulingPolicy \<Rightarrow> labels \<times> json option" where
  "nodePolicyContent p = content (domainNodePolicyToUnstructured [] p)"

definition nodeIntentContent :: "NodeSchedulingIntent \<Rightarrow> labels \<times> json option" where
  "nodeIntentContent i = content (domainNodeIntentToUnstructured [] i)"

lemma selectorItems_objects [simp]: "selectorItems (Some (selectorObjects ls)) = ls"
  unfolding selectorObjects_def by (rule selectorItems_map)

lemma draItems_map [simp]:
  "draItems (Some (JArr (map (\<lambda>dra. JObj [(''deviceClass'', JStr (dra_DeviceClass dra)),
     (''attributes'', selectorObjects (dra_Attributes dra))]) ds))) = ds"
  by (induction ds) (auto simp: draItems_def json_readers)

lemma labels_nodeIntent: "fst (nodeIntentContent i) =
    [(labelCreatorID, be_CreatorID i), (labelNodePolicyID, nsi_PolicyID i), (labelState, Itoa (nsi_State i))]"
  by (simp add: nodeIntentContent_def content_def domainNodeIntentToUnstructured_def GetLabels_def jfield_def jstrs_def)

lemma labelNodePolicyID_names [simp]:
  "labelCreatorID \<noteq> labelNodePolicyID" "labelNodePolicyID \<noteq> labelState"
  "labelNodePolicyID \<noteq> labelCreatorID" "labelState \<noteq> labelNodePolicyID"
  by (simp_all add: labelCreatorID_def labelNodePolicyID_def labelState_def)

lemma read_nodePolicy_cong:
  assumes "GetName obj = GetName obj'" "content obj = content obj'"
  shows "unstructuredToDomainNodePolicy fromHex obj = unstructuredToDomainNodePolicy fromHex obj'"
  unfolding unstructuredToDomainNodePolicy_def assms(1) assms(2) [unfolded content_def prod.inject, THEN conjunct2] ..

lemma read_nodeIntent_cong:
  assumes "GetName obj = GetName obj'" "content obj = content obj'"
  shows "unstructuredToDomainNodeIntent fromHex obj = unstructuredToDomainNodeIntent fromHex obj'"
  unfolding unstructuredToDomainNodeIntent_def assms(1) assms(2) [unfolded content_def prod.inject, THEN conjunct2] ..

lemma GetName_nodePolicy [simp]: "GetName (domainNodePolicyToUnstructured ns p) = be_ID p"
  by (simp add: domainNodePolicyToUnstructured_def json_readers)

lemma GetName_nodeIntent [simp]: "GetName (domainNodeIntentToUnstructured ns i) = be_ID i"
  by (simp add: domainNodeIntentToUnstructured_def json_readers)

interpretation nodePolicies: cr_collection NodePolicyCR domainNodePolicyToUnstructured
  "unstructuredToDomainNodePolicy fromHex" "validNodePolicy fromHex" nodePolicyContent for fromHex
proof unfold_locales
  fix ns x obj
  show "GetName (domainNodePolicyToUnstructured ns x) = be_ID x" by simp
  show "content (domainNodePolicyToUnstructured ns x) = nodePolicyContent x"
    by (simp add: nodePolicyContent_def content_def domainNodePolicyToUnstructured_def json_readers)
  assume v: "validNodePolicy fromHex x" and o: "content obj = nodePolicyContent x" "GetName obj = be_ID x"
  have "unstructuredToDomainNodePolicy fromHex obj = unstructuredToDomainNodePolicy fromHex (domainNodePolicyToUnstructured [] x)"
    using o by (intro read_nodePolicy_cong) (simp_all add: nodePolicyContent_def)
  also have "\<dots> = Some x"
    using v by (simp add: validNodePolicy_def validOID_def domainNodePolicyToUnstructured_def
        unstructuredToDomainNodePolicy_def json_readers)
  finally show "unstructuredToDomainNodePolicy fromHex obj = Some x" .
qed

definition restateNodeIntent :: "int \<Rightarrow> int \<Rightarrow> NodeSchedulingIntent \<Rightarrow> NodeSchedulingIntent" where
  "restateNodeIntent now st i = i\<lparr>nsi_State := st, be_UpdatedTime := now\<rparr>"

interpretation nodeIntents: cr_stateful NodeIntentCR domainNodeIntentToUnstructured
  "unstructuredToDomainNodeIntent fromHex" "validNodeIntent fromHex" nodeIntentContent restateNodeIntent for fromHex
proof unfold_locales
  fix ns x obj spec now st
  show "GetName (domainNodeIntentToUnstructured ns x) = be_ID x" by simp
  show "content (domainNodeIntentToUnstructured ns x) = nodeIntentContent x"
    by (simp add: nodeIntentContent_def content_def domainNodeIntentToUnstructured_def json_readers)
  show "unstructuredToDomainNodeIntent fromHex obj = Some x"
    if v: "validNodeIntent fromHex x" and o: "content obj = nodeIntentContent x" "GetName obj = be_ID x"
  proof -
    have "unstructuredToDomainNodeIntent fromHex obj = unstructuredToDomainNodeIntent fromHex (domainNodeIntentToUnstructured [] x)"
      using o by (intro read_nodeIntent_cong) (simp_all add: nodeIntentContent_def)
    also have "\<dots> = Some x"
      using v by (simp add: validNodeIntent_def validOID_def domainNodeIntentToUnstructured_def
          unstructuredToDomainNodeIntent_def json_readers int8_id)
    finally show ?thesis .
  qed
  show "content (withState now st spec obj) = nodeIntentContent (restateNodeIntent now st x) \<and>
      GetName (withState now st spec obj) = be_ID x"
    if o: "content obj = nodeIntentContent x" "GetName obj = be_ID x" and sp: "GetSpec obj = Some spec"
  proof -
    have ls: "GetLabels obj = [(labelCreatorID, be_CreatorID x), (labelNodePolicyID, nsi_PolicyID x)] @
        [(labelState, Itoa (nsi_State x))]"
      using arg_cong [OF o(1), of fst] labels_nodeIntent [of x] by (simp add: content_def)
    have "Some spec = GetSpec (domainNodeIntentToUnstructured [] x)"
      using arg_cong [OF o(1), of snd] sp by (simp add: content_def nodeIntentContent_def)
    then have "Some (jset (jset spec ''state'' (JInt st)) ''updatedTime'' (JInt now)) =
        GetSpec (domainNodeIntentToUnstructured [] (restateNodeIntent now st x))"
      by (simp add: jset_def domainNodeIntentToUnstructured_def json_readers restateNodeIntent_def)
    with withState_parts [OF ls _ sp, of now st] o(2) labels_nodeIntent [of "restateNodeIntent now st x"] show ?thesis
      by (simp add: content_def nodeIntentContent_def restateNodeIntent_def)
  qed
qed (auto simp: validNodeIntent_def restateNodeIntent_def)

end
