(* ===== verification/Mgr_Env.thy ===== *)
theory Mgr_Env
  imports DM_Api Mgr_NodeRepo
begin

text \<open>
  The surroundings of the manager's service (\<open>src/api/manager/service\<close>): its collaborators
  as a record of functions, its mutable world as a record, and the helpers its operations
  share.  \<open>me_pods\<close>, \<open>me_dms\<close>, \<open>me_nodes\<close> and \<open>me_nodesDRA\<close> are the queries of the
  Kubernetes adapter interface (\<open>QueryPods\<close>, \<open>QueryDecisionMakerPods\<close> for the label
  \<open>app=decisionmaker\<close> and the given nodes, \<open>QueryNodesBySelectors\<close>, \<open>QueryNodesByDRA\<close>).
  \<open>me_range\<close> is the order in which Go iterates over the keys of a map: each key once, in an
  unspecified order.  \<open>me_now\<close> is the clock and \<open>me_fresh n\<close> the n-th new object ID; the state
  counts the IDs used.
\<close>

record 'w mgr_env =
  me_client :: "'w cr_client"
  me_fromHex :: "string \<Rightarrow> oid option"
  me_namespace :: string
  me_sha :: "string \<Rightarrow> string"
  me_now :: int
  me_fresh :: "nat \<Rightarrow> oid"
  me_range :: "string list \<Rightarrow> string list"
  me_pods :: "string list \<Rightarrow> labels \<Rightarrow> string + Pod list"
  me_dms :: "string list \<Rightarrow> string + DecisionMakerPod list"
  me_nodes :: "labels \<Rightarrow> string list \<Rightarrow> string + Node list"
  me_nodesDRA :: "DRASelector list \<Rightarrow> string + Node list"

record 'w mgr_state =
  ms_store :: 'w
  ms_net :: dm_net
  ms_next :: nat

datatype svc_error =
    InvalidID string
  | K8sError string
  | HTTPNotFound string
  | RepoError repo_error
  | DMError client_error

definition freshFrom :: "'w mgr_env \<Rightarrow> 'w mgr_state \<Rightarrow> nat \<Rightarrow> oid" where
  "freshFrom env st n = me_fresh env (ms_next st + n)"

text \<open>First occurrences, as collected by a loop that remembers what it has seen.\<close>

definition uniq :: "'a list \<Rightarrow> 'a list" where
  "uniq xs = rev (remdups (rev xs))"

lemma set_uniq [simp]: "set (uniq xs) = set xs" and distinct_uniq [simp]: "distinct (uniq xs)"
  by (simp_all add: uniq_def)

text \<open>The grouping by host that precedes every push: the maps \<open>nodeIDIntentsMap\<close> and
  \<open>nodeIDDMap\<close> are keyed by the host of the decision maker.\<close>

definition hostGroups ::
  "'w mgr_env \<Rightarrow> ('i \<Rightarrow> string) \<Rightarrow> DecisionMakerPod list \<Rightarrow> 'i list \<Rightarrow> (DecisionMakerPod \<times> 'i list) list" where
  "hostGroups env nodeOf dms intents =
     (let matching = filter (\<lambda>dm. list_ex (\<lambda>i. nodeOf i = dmp_NodeID dm) intents) dms in
      map (\<lambda>host.
          (let here = filter (\<lambda>dm. dmp_Host dm = host) matching in
           (last here, concat (map (\<lambda>dm. filter (\<lambda>i. nodeOf i = dmp_NodeID dm) intents) here))))
        (me_range env (uniq (map dmp_Host matching))))"

end
