(* ===== verification/Mgr_Reconcile.thy ===== *)
theory Mgr_Reconcile
  imports Mgr_Env
begin

text \<open>
  \<open>src/api/manager/service/cron_svc.go\<close>, pod intents: refreshing the stored intents against
  the pods that exist, and re-sending them to decision makers whose Merkle root differs.

  One visit to a decision maker is the same for pod intents and node intents and is
  defined once, as \<open>syncTarget\<close>.  The locale \<open>drift_target\<close> is the contract between the
  reconciliation loop and the client of the decision makers; it gives convergence of the
  loop and that a correct decision maker is never spoiled.  It is interpreted on the
  client of the model.
\<close>

section \<open>Operations\<close>

definition syncTarget ::
  "('d \<Rightarrow> 's \<Rightarrow> (client_error + string) \<times> 's) \<Rightarrow> ('d \<Rightarrow> 'i list \<Rightarrow> 's \<Rightarrow> client_error option \<times> 's)
     \<Rightarrow> ('d \<Rightarrow> 's \<Rightarrow> client_error option \<times> 's) \<Rightarrow> ('i list \<Rightarrow> 's \<Rightarrow> 's)
     \<Rightarrow> string \<Rightarrow> 'i list \<Rightarrow> 'd \<Rightarrow> 's \<Rightarrow> 's" where
  "syncTarget ask push clear mark expectedRoot nodeIntents dm st =
     (case ask dm st of
        (Inl e, st1) \<Rightarrow> st1
      | (Inr rootHash, st1) \<Rightarrow>
          if rootHash = expectedRoot then st1
          else if nodeIntents = [] then snd (clear dm st1)
          else (case push dm nodeIntents st1 of
                  (Some e, st2) \<Rightarrow> st2
                | (None, st2) \<Rightarrow> mark nodeIntents st2))"

text \<open>The client's calls on the manager's state.\<close>

definition askRoot :: "DecisionMakerPod \<Rightarrow> 'w mgr_state \<Rightarrow> (client_error + string) \<times> 'w mgr_state" where
  "askRoot dm st = (let (r, net) = GetIntentMerkleRoot dm (ms_net st) in (r, st\<lparr>ms_net := net\<rparr>))"

definition pushIntents ::
  "DecisionMakerPod \<Rightarrow> ScheduleIntent list \<Rightarrow> 'w mgr_state \<Rightarrow> client_error option \<times> 'w mgr_state" where
  "pushIntents dm intents st =
     (let (r, net) = SendSchedulingIntent dm intents (ms_net st) in (r, st\<lparr>ms_net := net\<rparr>))"

definition clearIntents :: "DecisionMakerPod \<Rightarrow> 'w mgr_state \<Rightarrow> client_error option \<times> 'w mgr_state" where
  "clearIntents dm st =
     (let (r, net) = DeleteSchedulingIntents dm \<lparr>dreq_PodIDs = [], dreq_All = True\<rparr> (ms_net st)
      in (r, st\<lparr>ms_net := net\<rparr>))"

definition markSent :: "'w mgr_env \<Rightarrow> ScheduleIntent list \<Rightarrow> 'w mgr_state \<Rightarrow> 'w mgr_state" where
  "markSent env intents st =
     st\<lparr>ms_store := snd (BatchUpdateIntentsState (me_client env) (me_now env) (map be_ID intents)
       IntentStateSent (ms_store st))\<rparr>"

definition expectedIntentRoot :: "(string \<Rightarrow> string) \<Rightarrow> ScheduleIntent list \<Rightarrow> string \<Rightarrow> string" where
  "expectedIntentRoot sha intents nodeID =
     (case buildExpectedIntentRootsByNode sha (map Some intents) nodeID of
        Some r \<Rightarrow> if r = [] then Hash (BuildMerkleTree sha []) else r
      | None \<Rightarrow> Hash (BuildMerkleTree sha []))"

definition resyncDM :: "'w mgr_env \<Rightarrow> ScheduleIntent list \<Rightarrow> DecisionMakerPod \<Rightarrow> 'w mgr_state \<Rightarrow> 'w mgr_state" where
  "resyncDM env intents dm st =
     (if dmp_State dm \<noteq> NodeStateOnline then st
      else syncTarget askRoot pushIntents clearIntents (markSent env)
             (expectedIntentRoot (me_sha env) intents (dmp_NodeID dm))
             (filter (\<lambda>i. si_NodeID i = dmp_NodeID dm) intents) dm st)"

definition allIntents :: QueryIntentOptions where
  "allIntents = \<lparr>qi_IDs = [], qi_K8SNamespaces = [], qi_StrategyIDs = [], qi_States = [], qi_PodIDs = [], qi_CreatorIDs = []\<rparr>"

definition resyncIntentsToDMs :: "'w mgr_env \<Rightarrow> 'w mgr_state \<Rightarrow> svc_error option \<times> 'w mgr_state" where
  "resyncIntentsToDMs env st =
     (case me_dms env [] of
        Inl e \<Rightarrow> (Some (K8sError e), st)
      | Inr dms \<Rightarrow>
          if dms = [] then (None, st)
          else (case QueryIntents (me_client env) (me_fromHex env) allIntents (ms_store st) of
                  Inl e \<Rightarrow> (Some (RepoError e), st)
                | Inr intents \<Rightarrow> (None, fold (resyncDM env intents) dms st)))"

text \<open>\<open>nodeIDs\<close> lists the keys of \<open>nodeIDsMap\<close> with possible repetitions.  Errors of single
  calls are logged only.\<close>

definition notifyDMsDeleteIntents ::
  "'w mgr_env \<Rightarrow> string list \<Rightarrow> string list \<Rightarrow> 'w mgr_state \<Rightarrow> 'w mgr_state" where
  "notifyDMsDeleteIntents env nodeIDs podIDs st =
     (if nodeIDs = [] \<or> podIDs = [] then st
      else case me_dms env (me_range env (uniq nodeIDs)) of
        Inl e \<Rightarrow> st
      | Inr dmPods \<Rightarrow>
          fold (\<lambda>dmPod st.
              if dmp_State dmPod \<noteq> NodeStateOnline then st
              else st\<lparr>ms_net := snd (DeleteSchedulingIntents dmPod
                     \<lparr>dreq_PodIDs = podIDs, dreq_All = False\<rparr> (ms_net st))\<rparr>)
            dmPods st)"

definition intentsOf :: "oid \<Rightarrow> QueryIntentOptions" where
  "intentsOf strategyID = allIntents\<lparr>qi_StrategyIDs := [strategyID]\<rparr>"

definition staleIntents :: "Pod list \<Rightarrow> ScheduleIntent list \<Rightarrow> ScheduleIntent list" where
  "staleIntents currentPods existing = filter (\<lambda>i. si_PodID i \<notin> set (map pod_PodID currentPods)) existing"

definition newPods :: "Pod list \<Rightarrow> ScheduleIntent list \<Rightarrow> Pod list" where
  "newPods currentPods existing = filter (\<lambda>p. pod_PodID p \<notin> set (map si_PodID existing)) currentPods"

definition refreshStrategy :: "'w mgr_env \<Rightarrow> ScheduleStrategy \<Rightarrow> 'w mgr_state \<Rightarrow> 'w mgr_state" where
  "refreshStrategy env strategy st =
     (case me_pods env (st_K8sNamespace strategy) (st_LabelSelectors strategy) of
        Inl e \<Rightarrow> st
      | Inr currentPods \<Rightarrow>
          (case QueryIntents (me_client env) (me_fromHex env) (intentsOf (be_ID strategy)) (ms_store st) of
             Inl e \<Rightarrow> st
           | Inr existing \<Rightarrow>
               (let stale = staleIntents currentPods existing;
                    st1 = (if stale = [] then st
                           else notifyDMsDeleteIntents env (map si_NodeID stale) (map si_PodID stale)
                             (st\<lparr>ms_store := snd (DeleteIntents (me_client env) (map be_ID stale) (ms_store st))\<rparr>));
                    newIntents = map (NewScheduleIntent (me_now env) strategy) (newPods currentPods existing)
                in if newIntents = [] then st1
                   else st1\<lparr>ms_store := snd (InsertIntents (me_client env) (me_namespace env) (me_now env)
                             (freshFrom env st1) newIntents (ms_store st1)),
                            ms_next := ms_next st1 + length newIntents\<rparr>)))"

definition allStrategies :: QueryStrategyOptions where
  "allStrategies = \<lparr>qs_IDs = [], qs_K8SNamespaces = [], qs_CreatorIDs = []\<rparr>"

definition refreshStaleIntents :: "'w mgr_env \<Rightarrow> 'w mgr_state \<Rightarrow> svc_error option \<times> 'w mgr_state" where
  "refreshStaleIntents env st =
     (case QueryStrategies (me_client env) (me_fromHex env) allStrategies (ms_store st) of
        Inl e \<Rightarrow> (Some (RepoError e), st)
      | Inr strategies \<Rightarrow> (None, fold (refreshStrategy env) strategies st))"


section \<open>The contract of a reconciliation target\<close>

locale drift_target =
  fixes ask :: "'d \<Rightarrow> 's \<Rightarrow> (client_error + string) \<times> 's"
    and push :: "'d \<Rightarrow> 'i list \<Rightarrow> 's \<Rightarrow> client_error option \<times> 's"
    and clear :: "'d \<Rightarrow> 's \<Rightarrow> client_error option \<times> 's"
    and mark :: "'i list \<Rightarrow> 's \<Rightarrow> 's"
    and reported :: "'d \<Rightarrow> 's \<Rightarrow> string"
    and digest :: "'i list \<Rightarrow> 's \<Rightarrow> string"
    and addr :: "'d \<Rightarrow> 'a"
    and healthy :: "'d \<Rightarrow> 's \<Rightarrow> bool"
  assumes same_addr: "addr d = addr d' \<Longrightarrow> reported d s = reported d' s"
    and ask_root: "ask d s = (Inr h, s') \<Longrightarrow> h = reported d s"
    and ask_keeps: "ask d s = (r, s') \<Longrightarrow> reported d' s' = reported d' s"
    and push_any: "push d xs s = (q, s') \<Longrightarrow> reported d s' = reported d s \<or> reported d s' = digest xs s"
    and push_done: "push d xs s = (None, s') \<Longrightarrow> reported d s' = digest xs s"
    and push_frame: "push d xs s = (q, s') \<Longrightarrow> addr d' \<noteq> addr d \<Longrightarrow> reported d' s' = reported d' s"
    and clear_any: "clear d s = (q, s') \<Longrightarrow> reported d s' = reported d s \<or> reported d s' = digest [] s"
    and clear_done: "clear d s = (None, s') \<Longrightarrow> reported d s' = digest [] s"
    and clear_frame: "clear d s = (q, s') \<Longrightarrow> addr d' \<noteq> addr d \<Longrightarrow> reported d' s' = reported d' s"
    and mark_keeps: "reported d (mark xs s) = reported d s"
    and digest_fixed: "ask d s = (r, s') \<Longrightarrow> digest xs s' = digest xs s" "push d ys s = (q, s') \<Longrightarrow> digest xs s' = digest xs s"
      "clear d s = (q, s') \<Longrightarrow> digest xs s' = digest xs s" "digest xs (mark ys s) = digest xs s"
    and healthy_ask: "healthy d s \<Longrightarrow> \<exists>h. fst (ask d s) = Inr h"
    and healthy_push: "healthy d s \<Longrightarrow> fst (push d xs s) = None"
    and healthy_clear: "healthy d s \<Longrightarrow> fst (clear d s) = None"
    and healthy_keeps: "healthy d' (snd (ask d s)) = healthy d' s" "healthy d' (snd (push d xs s)) = healthy d' s"
      "healthy d' (snd (clear d s)) = healthy d' s" "healthy d' (mark xs s) = healthy d' s"
begin

text \<open>One visit.\<close>

lemma sync_digest: "digest ys (syncTarget ask push clear mark e xs d s) = digest ys s"
proof -
  obtain r s1 where a: "ask d s = (r, s1)" by (metis surj_pair)
  obtain r2 s2 where p: "push d xs s1 = (r2, s2)" by (metis surj_pair)
  obtain r3 s3 where c: "clear d s1 = (r3, s3)" by (metis surj_pair)
  show ?thesis
    using digest_fixed(1) [OF a] digest_fixed(2) [OF p] digest_fixed(3) [OF c] a p c
    by (auto simp: syncTarget_def digest_fixed(4) split: sum.split option.split)
qed

lemma sync_healthy: "healthy d' (syncTarget ask push clear mark e xs d s) = healthy d' s"
  using healthy_keeps(1) [of d' d s] healthy_keeps(2) [of d' d xs "snd (ask d s)"] healthy_keeps(3) [of d' d "snd (ask d s)"]
  by (auto simp: syncTarget_def healthy_keeps(4) split: prod.split sum.split option.split)

lemma sync_frame:
  assumes "addr d' \<noteq> addr d"
  shows "reported d' (syncTarget ask push clear mark e xs d s) = reported d' s"
proof -
  obtain r s1 where a: "ask d s = (r, s1)" by (metis surj_pair)
  obtain r2 s2 where p: "push d xs s1 = (r2, s2)" by (metis surj_pair)
  obtain r3 s3 where c: "clear d s1 = (r3, s3)" by (metis surj_pair)
  show ?thesis
    using ask_keeps [OF a] push_frame [OF p assms] clear_frame [OF c assms] a p c
    by (auto simp: syncTarget_def mark_keeps split: sum.split option.split)
qed

lemma sync_any:
  "reported d (syncTarget ask push clear mark (digest xs s) xs d s) \<in> {reported d s, digest xs s}"
proof -
  obtain r s1 where a: "ask d s = (r, s1)" by (metis surj_pair)
  obtain r2 s2 where p: "push d xs s1 = (r2, s2)" by (metis surj_pair)
  obtain r3 s3 where c: "clear d s1 = (r3, s3)" by (metis surj_pair)
  show ?thesis
    using ask_keeps [OF a, of d] push_any [OF p] clear_any [OF c] digest_fixed(1) [OF a] a p c
    by (auto simp: syncTarget_def mark_keeps split: sum.split option.split)
qed

lemma sync_done:
  assumes "healthy d s"
  shows "reported d (syncTarget ask push clear mark (digest xs s) xs d s) = digest xs s"
proof -
  obtain h s1 where a: "ask d s = (Inr h, s1)" using healthy_ask [OF assms] by (metis surj_pair fst_conv)
  have h1: "healthy d s1" using healthy_keeps(1) [of d d s] a assms by simp
  obtain s2 where p: "push d xs s1 = (None, s2)" using healthy_push [OF h1] by (metis surj_pair fst_conv)
  obtain s3 where c: "clear d s1 = (None, s3)" using healthy_clear [OF h1] by (metis surj_pair fst_conv)
  show ?thesis
    using ask_keeps [OF a, of d] ask_root [OF a] push_done [OF p] clear_done [OF c] digest_fixed(1) [OF a] a p c
    by (auto simp: syncTarget_def mark_keeps)
qed

text \<open>The loop over all targets.  Targets at the same address must be meant to hold the same.\<close>

lemma loop_keeps:
  assumes "\<And>d d'. d \<in> set ds \<Longrightarrow> d' \<in> set ds \<Longrightarrow> addr d = addr d' \<Longrightarrow> want d = want d'"
  shows "d \<in> set ds \<Longrightarrow> set es \<subseteq> set ds \<Longrightarrow> reported d s = digest (want d) s \<Longrightarrow>
    reported d (fold (\<lambda>d s. syncTarget ask push clear mark (digest (want d) s) (want d) d s) es s) = digest (want d) s"
proof (induction es arbitrary: s)
  case (Cons e es)
  let ?s = "syncTarget ask push clear mark (digest (want e) s) (want e) e s"
  have "reported d ?s = digest (want d) s"
  proof (cases "addr d = addr e")
    case True
    have "e \<in> set ds" using Cons.prems(2) by simp
    then have w: "want d = want e" using True Cons.prems(1) by (intro assms)
    have "reported e s = digest (want e) s" using Cons.prems(3) same_addr [OF True, of s] w by simp
    with sync_any [of e "want e" s] have "reported e ?s = digest (want e) s" by simp
    then show ?thesis using same_addr [OF True, of ?s] w by simp
  next
    case False
    then show ?thesis using Cons.prems(3) by (simp add: sync_frame)
  qed
  then have "reported d ?s = digest (want d) ?s" unfolding sync_digest .
  from Cons.IH [OF Cons.prems(1) _ this] Cons.prems(2) show ?case by (simp add: sync_digest)
qed simp

lemma loop_converges:
  assumes same: "\<And>d d'. d \<in> set ds \<Longrightarrow> d' \<in> set ds \<Longrightarrow> addr d = addr d' \<Longrightarrow> want d = want d'"
  shows "set es \<subseteq> set ds \<Longrightarrow> d \<in> set es \<Longrightarrow> healthy d s \<Longrightarrow>
    reported d (fold (\<lambda>d s. syncTarget ask push clear mark (digest (want d) s) (want d) d s) es s) = digest (want d) s"
proof (induction es arbitrary: s)
  case (Cons e es)
  let ?s = "syncTarget ask push clear mark (digest (want e) s) (want e) e s"
  have h: "healthy d ?s" using Cons.prems(3) by (simp add: sync_healthy)
  show ?case
  proof (cases "d \<in> set es")
    case True
    with Cons.IH [OF _ _ h] Cons.prems(1) show ?thesis by (simp add: sync_digest)
  next
    case False
    with Cons.prems have e: "d = e" by simp
    have "reported d ?s = digest (want d) ?s" using sync_done [OF Cons.prems(3)] by (simp add: e sync_digest)
    moreover have "d \<in> set ds" "set es \<subseteq> set ds" using Cons.prems(1) e by simp_all
    ultimately have "reported d (fold (\<lambda>d s. syncTarget ask push clear mark (digest (want d) s) (want d) d s) es ?s)
        = digest (want d) ?s" by (intro loop_keeps [OF same])
    then show ?thesis by (simp add: sync_digest)
  qed
qed simp

end


section \<open>The decision-maker client satisfies the contract\<close>

definition dmReported :: "DecisionMakerPod \<Rightarrow> 'w mgr_state \<Rightarrow> string" where
  "dmReported dm st = reportedRoot (env_sha (net_env (ms_net st))) (net_service (ms_net st) (addrOf dm))"

definition intentDigest :: "ScheduleIntent list \<Rightarrow> 'w mgr_state \<Rightarrow> string" where
  "intentDigest intents st = buildScheduleIntentMerkleRoot (env_sha (net_env (ms_net st))) (map Some intents)"

text \<open>A decision maker that answers: it gives out a token, the calls of the reconciliation
  arrive and are answered, and it can scan its processes.\<close>

definition answers :: "DecisionMakerPod \<Rightarrow> dm_net \<Rightarrow> bool" where
  "answers dm net \<longleftrightarrow> net_tokenOk net (addrOf dm) \<and>
     (\<forall>call \<in> {CallRoot, CallSend, CallDeleteAll}. net_delivery net (addrOf dm) call = Delivered) \<and>
     (\<exists>podInfos. GetAllPodInfos (net_fs net (addrOf dm)) = Inr podInfos)"

lemma ProcessIntents_total:
  assumes "GetAllPodInfos fs = Inr podInfos"
  shows "\<exists>svc'. ProcessIntents sha compile fs intents svc = (None, svc')"
proof -
  have "fst (resolveSchedulingIntents compile (map Some (somes intents)) podInfos s) \<noteq> Inl e" for s e
    by (rule resolve_ok [of "map Some (somes intents)" compile podInfos s]) simp_all
  then show ?thesis
    using assms by (auto simp: ProcessIntents_def normalizeIntentInputs_def Let_def split: prod.split sum.split) (metis fst_conv)
qed

lemma SendSchedulingIntent_frame:
  assumes "SendSchedulingIntent dm intents net = (r, net')"
  shows "\<exists>svc'. net' = net\<lparr>net_service := (net_service net)(addrOf dm := svc')\<rparr> \<and>
    (svc' = net_service net (addrOf dm) \<or>
     reportedRoot (env_sha (net_env net)) svc' = buildScheduleIntentMerkleRoot (env_sha (net_env net)) (map Some intents))"
proof -
  let ?h = "\<lambda>fs svc. unitReply (HandleIntents (net_env net) fs (Some (map wireIntent intents)) svc)"
  obtain q where q: "exchange dm CallSend ?h net = (q, net')"
    using assms by (cases "exchange dm CallSend ?h net") (simp add: SendSchedulingIntent_def resultError_def)
  from exchange_frame [OF q] obtain svc' where
    n: "net' = net\<lparr>net_service := (net_service net)(addrOf dm := svc')\<rparr>" and
    s: "svc' = net_service net (addrOf dm) \<or> svc' = snd (?h (net_fs net (addrOf dm)) (net_service net (addrOf dm)))" by blast
  have "svc' = net_service net (addrOf dm) \<or>
     reportedRoot (env_sha (net_env net)) svc' = buildScheduleIntentMerkleRoot (env_sha (net_env net)) (map Some intents)"
  proof (cases "GetAllPodInfos (net_fs net (addrOf dm))")
    case (Inl e)
    then show ?thesis using s by (auto simp: HandleIntents_def ProcessIntents_def unitReply_def Let_def)
  next
    case (Inr podInfos)
    from ProcessIntents_total [OF this, of "env_sha (net_env net)" "env_compile (net_env net)" "map (\<lambda>i. Some (wireIntent i)) intents"
        "net_service net (addrOf dm)"] obtain s2 where
      p: "ProcessIntents (env_sha (net_env net)) (env_compile (net_env net)) (net_fs net (addrOf dm))
        (map (\<lambda>i. Some (wireIntent i)) intents) (net_service net (addrOf dm)) = (None, s2)" by blast
    have so: "somes (map (\<lambda>i. Some (wireIntent i)) intents) = map wireIntent intents"
      by (induction intents) auto
    have "snd (?h (net_fs net (addrOf dm)) (net_service net (addrOf dm))) = s2"
      using p by (simp add: HandleIntents_def unitReply_def Let_def comp_def)
    then show ?thesis using s ProcessIntents_ok [OF p] unfolding so wire_root by auto
  qed
  with n show ?thesis by blast
qed

lemma DeleteAll_frame:
  assumes "DeleteSchedulingIntents dm \<lparr>dreq_PodIDs = [], dreq_All = True\<rparr> net = (r, net')"
  shows "\<exists>svc'. net' = net\<lparr>net_service := (net_service net)(addrOf dm := svc')\<rparr> \<and>
    (svc' = net_service net (addrOf dm) \<or>
     reportedRoot (env_sha (net_env net)) svc' = buildScheduleIntentMerkleRoot (env_sha (net_env net)) [])"
proof -
  let ?h = "\<lambda>fs svc. unitReply (DeleteIntent (net_env net) (Some \<lparr>dir_PodID = [], dir_PID = None, dir_All = True\<rparr>) svc)"
  obtain q where q: "exchange dm CallDeleteAll ?h net = (q, net')"
    using assms by (cases "exchange dm CallDeleteAll ?h net") (simp add: DeleteSchedulingIntents_def resultError_def)
  have "reportedRoot sha (DeleteAllIntents sha svc) = buildScheduleIntentMerkleRoot sha []" for sha svc
    by (simp add: DeleteAllIntents_def rebuildIntentMerkleTreeLocked_def UpdatePodTargets_def Let_def
        reportedRoot_def intentLeaves_def normalizeIntentInputs_def sortIntentsByKey_def buildScheduleIntentMerkleRoot_def
        sortScheduleIntentsByKey_def normalizeScheduleIntents_def)
  with exchange_frame [OF q] show ?thesis by (auto simp: DeleteIntent_def unitReply_def)
qed

text \<open>How the three calls and the state update act on the manager's state.\<close>

lemma askRoot_net: "askRoot dm st = (r, st') \<Longrightarrow> GetIntentMerkleRoot dm (ms_net st) = (r, ms_net st') \<and> st' = st\<lparr>ms_net := ms_net st'\<rparr>"
  by (auto simp: askRoot_def split: prod.splits)

lemma pushIntents_net:
  "pushIntents dm is st = (r, st') \<Longrightarrow> SendSchedulingIntent dm is (ms_net st) = (r, ms_net st') \<and> st' = st\<lparr>ms_net := ms_net st'\<rparr>"
  by (auto simp: pushIntents_def split: prod.splits)

lemma clearIntents_net:
  "clearIntents dm st = (r, st') \<Longrightarrow>
   DeleteSchedulingIntents dm \<lparr>dreq_PodIDs = [], dreq_All = True\<rparr> (ms_net st) = (r, ms_net st') \<and> st' = st\<lparr>ms_net := ms_net st'\<rparr>"
  by (auto simp: clearIntents_def split: prod.splits)

lemma exchange_total:
  "net_tokenOk net (addrOf dm) \<Longrightarrow> net_delivery net (addrOf dm) call = Delivered \<Longrightarrow>
   fst (fst (handler (net_fs net (addrOf dm)) (net_service net (addrOf dm)))) = 200 \<Longrightarrow>
   \<exists>x. fst (exchange dm call handler net) = Inr x"
  by (auto simp: exchange_def Let_def split: prod.split)

lemma resultError_total: "(\<exists>x. fst (exchange dm call h net) = Inr x) \<Longrightarrow> fst (resultError (exchange dm call h net)) = None"
  by (auto simp: resultError_def)

lemma answers_services: "answers dm (net\<lparr>net_service := f\<rparr>) = answers dm net"
  by (simp add: answers_def)

lemmas digest_defs = dmReported_def intentDigest_def

lemma ask_laws:
  assumes "askRoot d s = (r, s')"
  shows "dmReported d' s' = dmReported d' s" "intentDigest xs s' = intentDigest xs s"
    "answers d' (ms_net s') = answers d' (ms_net s)" "r = Inr h \<Longrightarrow> h = dmReported d s"
proof -
  from askRoot_net [OF assms] have g: "GetIntentMerkleRoot d (ms_net s) = (r, ms_net s')" by blast
  obtain f where f: "ms_net s' = (ms_net s)\<lparr>net_service := f\<rparr>" using GetIntentMerkleRoot_frame(1) [OF g] by blast
  show "dmReported d' s' = dmReported d' s"
    using GetIntentMerkleRoot_frame(2) [OF g, of "addrOf d'"] by (simp add: dmReported_def f)
  show "intentDigest xs s' = intentDigest xs s" "answers d' (ms_net s') = answers d' (ms_net s)"
    by (simp_all add: intentDigest_def f answers_services)
  show "h = dmReported d s" if "r = Inr h"
    using GetIntentMerkleRoot_frame(3) [OF g that] by (simp add: dmReported_def)
qed

lemma push_laws:
  assumes "pushIntents d xs s = (q, s')"
  shows "dmReported d s' = dmReported d s \<or> dmReported d s' = intentDigest xs s"
    "addrOf d' \<noteq> addrOf d \<Longrightarrow> dmReported d' s' = dmReported d' s"
    "intentDigest ys s' = intentDigest ys s" "answers d' (ms_net s') = answers d' (ms_net s)"
    "q = None \<Longrightarrow> dmReported d s' = intentDigest xs s"
proof -
  from pushIntents_net [OF assms] have g: "SendSchedulingIntent d xs (ms_net s) = (q, ms_net s')" by blast
  from SendSchedulingIntent_frame [OF g] obtain svc' where f: "ms_net s' = (ms_net s)\<lparr>net_service := (net_service (ms_net s))(addrOf d := svc')\<rparr>"
    "svc' = net_service (ms_net s) (addrOf d) \<or> reportedRoot (env_sha (net_env (ms_net s))) svc' =
       buildScheduleIntentMerkleRoot (env_sha (net_env (ms_net s))) (map Some xs)" by blast
  show "dmReported d s' = dmReported d s \<or> dmReported d s' = intentDigest xs s"
    "addrOf d' \<noteq> addrOf d \<Longrightarrow> dmReported d' s' = dmReported d' s"
    "intentDigest ys s' = intentDigest ys s" "answers d' (ms_net s') = answers d' (ms_net s)"
    using f(2) by (auto simp: digest_defs f(1) answers_services)
  show "dmReported d s' = intentDigest xs s" if "q = None"
    using SendSchedulingIntent_ok(3) [OF g [unfolded that]] by (simp add: digest_defs f(1))
qed

lemma clear_laws:
  assumes "clearIntents d s = (q, s')"
  shows "dmReported d s' = dmReported d s \<or> dmReported d s' = intentDigest [] s"
    "addrOf d' \<noteq> addrOf d \<Longrightarrow> dmReported d' s' = dmReported d' s"
    "intentDigest ys s' = intentDigest ys s" "answers d' (ms_net s') = answers d' (ms_net s)"
    "q = None \<Longrightarrow> dmReported d s' = intentDigest [] s"
proof -
  from clearIntents_net [OF assms] have g:
    "DeleteSchedulingIntents d \<lparr>dreq_PodIDs = [], dreq_All = True\<rparr> (ms_net s) = (q, ms_net s')" by blast
  from DeleteAll_frame [OF g] obtain svc' where f: "ms_net s' = (ms_net s)\<lparr>net_service := (net_service (ms_net s))(addrOf d := svc')\<rparr>"
    "svc' = net_service (ms_net s) (addrOf d) \<or> reportedRoot (env_sha (net_env (ms_net s))) svc' =
       buildScheduleIntentMerkleRoot (env_sha (net_env (ms_net s))) []" by blast
  show "dmReported d s' = dmReported d s \<or> dmReported d s' = intentDigest [] s"
    "addrOf d' \<noteq> addrOf d \<Longrightarrow> dmReported d' s' = dmReported d' s"
    "intentDigest ys s' = intentDigest ys s" "answers d' (ms_net s') = answers d' (ms_net s)"
    using f(2) by (auto simp: digest_defs f(1) answers_services)
  show "dmReported d s' = intentDigest [] s" if "q = None"
    using DeleteAll_ok(3) [OF g [unfolded that]] by (simp add: digest_defs f(1))
qed

lemma answers_ask: "answers d (ms_net s) \<Longrightarrow> \<exists>h. fst (askRoot d s) = Inr h"
  using exchange_total [of "ms_net s" d CallRoot "\<lambda>fs svc. HandleGetIntentMerkleRoot (net_env (ms_net s)) svc"]
  by (simp add: askRoot_def GetIntentMerkleRoot_def answers_def HandleRoot_reports case_prod_beta Let_def)

lemma answers_push:
  assumes "answers d (ms_net s)"
  shows "fst (pushIntents d xs s) = None"
proof -
  let ?net = "ms_net s"
  from assms obtain podInfos where "GetAllPodInfos (net_fs ?net (addrOf d)) = Inr podInfos" by (auto simp: answers_def)
  from ProcessIntents_total [OF this] have
    "fst (HandleIntents (net_env ?net) (net_fs ?net (addrOf d)) (Some (map wireIntent xs)) (net_service ?net (addrOf d))) = 200"
    by (simp add: HandleIntents_def Let_def split: prod.split option.split) (metis fst_conv option.distinct(1) prod.inject)
  with assms have "\<exists>x. fst (exchange d CallSend
       (\<lambda>fs svc. unitReply (HandleIntents (net_env ?net) fs (Some (map wireIntent xs)) svc)) ?net) = Inr x"
    by (intro exchange_total) (auto simp: answers_def unitReply_def)
  from resultError_total [OF this] show ?thesis
    by (simp add: pushIntents_def SendSchedulingIntent_def case_prod_beta Let_def)
qed

lemma answers_clear:
  assumes "answers d (ms_net s)"
  shows "fst (clearIntents d s) = None"
proof -
  have "\<exists>x. fst (exchange d CallDeleteAll (\<lambda>fs svc. unitReply (DeleteIntent (net_env (ms_net s))
       (Some \<lparr>dir_PodID = [], dir_PID = None, dir_All = True\<rparr>) svc)) (ms_net s)) = Inr x"
    using assms by (intro exchange_total) (auto simp: answers_def unitReply_def DeleteIntent_def)
  from resultError_total [OF this] show ?thesis
    by (simp add: clearIntents_def DeleteSchedulingIntents_def case_prod_beta Let_def)
qed

lemma dmReported_addr: "addrOf d = addrOf d' \<Longrightarrow> dmReported d s = dmReported d' s"
  by (simp add: dmReported_def)

lemma mark_laws:
  "dmReported d (markSent env xs s) = dmReported d s" "intentDigest ys (markSent env xs s) = intentDigest ys s"
  "answers d (ms_net (markSent env xs s)) = answers d (ms_net s)"
  by (simp_all add: digest_defs markSent_def)

lemma answers_snd:
  "answers d' (ms_net (snd (askRoot d s))) = answers d' (ms_net s)"
  "answers d' (ms_net (snd (pushIntents d xs s))) = answers d' (ms_net s)"
  "answers d' (ms_net (snd (clearIntents d s))) = answers d' (ms_net s)"
  by (rule ask_laws push_laws clear_laws, rule surjective_pairing)+

interpretation podDrift: drift_target askRoot pushIntents clearIntents "markSent env" dmReported intentDigest addrOf
  "\<lambda>dm st. answers dm (ms_net st)" for env
  by unfold_locales
    ((rule mark_laws answers_snd dmReported_addr answers_ask answers_push answers_clear, assumption?) |
      blast dest: ask_laws push_laws clear_laws)+


lemma syncTarget_env:
  "net_env (ms_net (syncTarget askRoot pushIntents clearIntents (markSent env) e xs d s)) = net_env (ms_net s)"
proof -
  obtain r s1 where a: "askRoot d s = (r, s1)" by (metis surj_pair)
  obtain r2 s2 where p: "pushIntents d xs s1 = (r2, s2)" by (metis surj_pair)
  obtain r3 s3 where c: "clearIntents d s1 = (r3, s3)" by (metis surj_pair)
  have 1: "net_env (ms_net s1) = net_env (ms_net s)"
    using askRoot_net [OF a] GetIntentMerkleRoot_frame(1) by (metis dm_net.select_convs(1) dm_net.surjective dm_net.update_convs(5))
  have 2: "net_env (ms_net s2) = net_env (ms_net s1)"
    using pushIntents_net [OF p] SendSchedulingIntent_frame [of d xs "ms_net s1" r2 "ms_net s2"] by auto
  have 3: "net_env (ms_net s3) = net_env (ms_net s1)"
    using clearIntents_net [OF c] DeleteAll_frame [of d "ms_net s1" r3 "ms_net s3"] by auto
  show ?thesis using 1 2 3 a p c
    by (auto simp: syncTarget_def markSent_def split: sum.split option.split)
qed

lemma expectedIntentRoot_eq:
  assumes "\<forall>x. sha x \<noteq> []"
  shows "expectedIntentRoot sha intents n =
    buildScheduleIntentMerkleRoot sha (map Some (filter (\<lambda>i. si_NodeID i = n) intents))"
proof -
  have "hashScheduleIntent sha i \<noteq> []" for i
    using assms by (metis HashSHA256Hex_def HashStringSHA256Hex_def hashScheduleIntent_def length_hex_encode length_0_conv mult_eq_0_iff zero_neq_numeral)
  then have "[] \<notin> set (map (hashScheduleIntent sha) ys)" for ys
    unfolding set_map by (metis imageE)
  then have "buildScheduleIntentMerkleRoot sha (map Some xs) \<noteq> []" for xs
    unfolding buildScheduleIntentMerkleRoot_def Hash_BuildMerkleTree by (rule merkleRootHash_not_Nil [OF assms])
  moreover have "buildScheduleIntentMerkleRoot sha [] = Hash (BuildMerkleTree sha [])"
    by (simp add: buildScheduleIntentMerkleRoot_def sortScheduleIntentsByKey_def normalizeScheduleIntents_def)
  ultimately show ?thesis
    by (simp add: expectedIntentRoot_def buildExpectedIntentRootsByNode_def normalizeScheduleIntents_def Let_def)
qed

text \<open>What a decision maker is meant to hold.\<close>

definition nodeShare :: "ScheduleIntent list \<Rightarrow> DecisionMakerPod \<Rightarrow> ScheduleIntent list" where
  "nodeShare intents dm = filter (\<lambda>i. si_NodeID i = dmp_NodeID dm) intents"

lemma resync_loop:
  fixes st :: "'w mgr_state"
  assumes "\<forall>x. me_sha env x \<noteq> []" "env_sha (net_env (ms_net st)) = me_sha env"
  shows "fold (resyncDM env intents) dms st =
    fold (\<lambda>d s. syncTarget askRoot pushIntents clearIntents (markSent env) (intentDigest (nodeShare intents d) s)
        (nodeShare intents d) d s) (filter (\<lambda>dm. dmp_State dm = NodeStateOnline) dms) st"
proof -
  let ?sync = "\<lambda>d s. syncTarget askRoot pushIntents clearIntents (markSent env) (intentDigest (nodeShare intents d) s)
        (nodeShare intents d) d s"
  have "fold (resyncDM env intents) dms st = fold (\<lambda>d s. if dmp_State d = NodeStateOnline then ?sync d s else s) dms st"
  proof (rule fold_cong_inv [where P = "\<lambda>s. env_sha (net_env (ms_net s)) = me_sha env"])
    fix d and s :: "'w mgr_state" assume s: "env_sha (net_env (ms_net s)) = me_sha env"
    then show "resyncDM env intents d s = (if dmp_State d = NodeStateOnline then ?sync d s else s) \<and>
        env_sha (net_env (ms_net (if dmp_State d = NodeStateOnline then ?sync d s else s))) = me_sha env"
      by (simp add: resyncDM_def nodeShare_def intentDigest_def expectedIntentRoot_eq [OF assms(1)] syncTarget_env)
  qed (rule assms(2))
  then show ?thesis by (simp add: fold_filter)
qed

lemma resync_converges:
  assumes "\<forall>x. me_sha env x \<noteq> []" "env_sha (net_env (ms_net st)) = me_sha env"
    and "me_dms env [] = Inr dms"
    and "QueryIntents (me_client env) (me_fromHex env) allIntents (ms_store st) = Inr intents"
    and same: "\<And>d d'. d \<in> set dms \<Longrightarrow> d' \<in> set dms \<Longrightarrow> addrOf d = addrOf d' \<Longrightarrow> dmp_NodeID d = dmp_NodeID d'"
    and dm: "dm \<in> set dms" "dmp_State dm = NodeStateOnline" "answers dm (ms_net st)"
  shows "dmReported dm (snd (resyncIntentsToDMs env st)) =
    buildScheduleIntentMerkleRoot (me_sha env) (map Some (nodeShare intents dm))"
proof -
  let ?ds = "filter (\<lambda>dm. dmp_State dm = NodeStateOnline) dms"
  have ns: "nodeShare intents d = nodeShare intents d'" if "d \<in> set ?ds" "d' \<in> set ?ds" "addrOf d = addrOf d'" for d d'
  proof -
    have "dmp_NodeID d = dmp_NodeID d'" using that by (intro same) simp_all
    then show ?thesis by (simp add: nodeShare_def)
  qed
  have "snd (resyncIntentsToDMs env st) = fold (resyncDM env intents) dms st"
    using assms(3,4) dm(1) by (auto simp: resyncIntentsToDMs_def)
  moreover have "dmReported dm (fold (\<lambda>d s. syncTarget askRoot pushIntents clearIntents (markSent env)
      (intentDigest (nodeShare intents d) s) (nodeShare intents d) d s) ?ds st) = intentDigest (nodeShare intents dm) st"
    by (rule podDrift.loop_converges [where ds = ?ds, OF ns]) (use dm in simp_all)
  ultimately show ?thesis using assms(2) by (simp add: resync_loop [OF assms(1,2)] intentDigest_def)
qed

text \<open>A decision maker that already holds what it should is never spoiled, whatever happens
  on the network.\<close>

lemma resync_keeps:
  assumes "\<forall>x. me_sha env x \<noteq> []" "env_sha (net_env (ms_net st)) = me_sha env"
    and "me_dms env [] = Inr dms"
    and "QueryIntents (me_client env) (me_fromHex env) allIntents (ms_store st) = Inr intents"
    and same: "\<And>d d'. d \<in> set dms \<Longrightarrow> d' \<in> set dms \<Longrightarrow> addrOf d = addrOf d' \<Longrightarrow> dmp_NodeID d = dmp_NodeID d'"
    and dm: "dm \<in> set dms" "dmp_State dm = NodeStateOnline"
    and ok: "dmReported dm st = buildScheduleIntentMerkleRoot (me_sha env) (map Some (nodeShare intents dm))"
  shows "dmReported dm (snd (resyncIntentsToDMs env st)) = dmReported dm st"
proof -
  let ?ds = "filter (\<lambda>dm. dmp_State dm = NodeStateOnline) dms"
  have ns: "nodeShare intents d = nodeShare intents d'" if "d \<in> set ?ds" "d' \<in> set ?ds" "addrOf d = addrOf d'" for d d'
  proof -
    have "dmp_NodeID d = dmp_NodeID d'" using that by (intro same) simp_all
    then show ?thesis by (simp add: nodeShare_def)
  qed
  have "snd (resyncIntentsToDMs env st) = fold (resyncDM env intents) dms st"
    using assms(3,4) dm(1) by (auto simp: resyncIntentsToDMs_def)
  moreover have "dmReported dm (fold (\<lambda>d s. syncTarget askRoot pushIntents clearIntents (markSent env)
      (intentDigest (nodeShare intents d) s) (nodeShare intents d) d s) ?ds st) = intentDigest (nodeShare intents dm) st"
    by (rule podDrift.loop_keeps [where ds = ?ds, OF ns]) (use dm ok assms(2) in \<open>simp_all add: intentDigest_def\<close>)
  ultimately show ?thesis using assms(2) ok by (simp add: resync_loop [OF assms(1,2)] intentDigest_def)
qed


section \<open>Refreshing the intents of a strategy\<close>

lemma notify_store [simp]:
  "ms_store (notifyDMsDeleteIntents env ns ps st) = ms_store st"
  "ms_next (notifyDMsDeleteIntents env ns ps st) = ms_next st"
  by (auto simp: notifyDMsDeleteIntents_def intro!: fold_keeps split: sum.split)

text \<open>Intents made for pods carry the pod's ID and the strategy's, and get a fresh ID.\<close>

lemma NewScheduleIntent_simps [simp]:
  "si_PodID (NewScheduleIntent now s p) = pod_PodID p" "si_StrategyID (NewScheduleIntent now s p) = be_ID s"
  "be_ID (NewScheduleIntent now s p) = zeroOID" "si_NodeID (NewScheduleIntent now s p) = pod_NodeID p"
  "be_DeletedTime (NewScheduleIntent now s p) = 0" "si_State (NewScheduleIntent now s p) = IntentStateInitialized"
  "be_CreatorID (NewScheduleIntent now s p) = be_CreatorID s" "be_UpdaterID (NewScheduleIntent now s p) = be_UpdaterID s"
  by (simp_all add: NewScheduleIntent_def NewBaseEntity_def BaseEntity.defs ScheduleIntent.defs)

lemma stampIntent_simps [simp]:
  fixes i :: ScheduleIntent
  shows "si_PodID (stampIntent now f i) = si_PodID i" "si_StrategyID (stampIntent now f i) = si_StrategyID i"
  "be_DeletedTime (stampIntent now f i) = be_DeletedTime i" "si_State (stampIntent now f i) = si_State i"
  "be_CreatorID (stampIntent now f i) = be_CreatorID i" "be_UpdaterID (stampIntent now f i) = be_UpdaterID i"
  "be_ID i = zeroOID \<Longrightarrow> be_ID (stampIntent now f i) = f"
  by (simp_all add: stampIntent_def)

lemma valid_new:
  assumes "validStrategy fromHex s" "validOID fromHex f"
  shows "validIntent fromHex (stampIntent now f (NewScheduleIntent now' s p))"
  using assms by (simp add: validIntent_def validStrategy_def IntentStateInitialized_def)

lemma enumerate_new:
  "map (\<lambda>(m, i). stampIntent now (fr m) i) (enumerate n (map (NewScheduleIntent now s) ps)) =
   map (\<lambda>(m, p). stampIntent now (fr m) (NewScheduleIntent now s p)) (enumerate n ps)"
  by (induction ps arbitrary: n) auto

lemma new_outs:
  assumes "outs = map (\<lambda>(m, i). stampIntent now (fr m) i) (enumerate 0 (map (NewScheduleIntent now s) ps))"
    and "validStrategy fromHex s" "\<forall>n. validOID fromHex (fr n)"
  shows "\<forall>i \<in> set outs. validIntent fromHex i \<and> si_StrategyID i = be_ID s"
    and "si_PodID ` set outs = pod_PodID ` set ps"
proof -
  have outs: "outs = map (\<lambda>(m, p). stampIntent now (fr m) (NewScheduleIntent now s p)) (enumerate 0 ps)"
    using assms(1) by (simp only: enumerate_new)
  show "\<forall>i \<in> set outs. validIntent fromHex i \<and> si_StrategyID i = be_ID s"
    using assms(2,3) by (auto simp: outs intro!: valid_new)
  have "map si_PodID outs = map (\<lambda>x. pod_PodID (snd x)) (enumerate 0 ps)"
    by (simp add: outs comp_def case_prod_beta)
  also have "\<dots> = map pod_PodID (map snd (enumerate 0 ps))" by (simp only: map_map comp_def)
  finally show "si_PodID ` set outs = pod_PodID ` set ps" by (metis map_snd_enumerate set_map)
qed

lemma refreshStrategy_store:
  assumes "me_pods env (st_K8sNamespace s) (st_LabelSelectors s) = Inr pods"
    and "QueryIntents (me_client env) (me_fromHex env) (intentsOf (be_ID s)) (ms_store st) = Inr existing"
  shows "ms_store (refreshStrategy env s st) =
    snd (InsertIntents (me_client env) (me_namespace env) (me_now env) (freshFrom env st)
        (map (NewScheduleIntent (me_now env) s) (newPods pods existing))
        (snd (DeleteIntents (me_client env) (map be_ID (staleIntents pods existing)) (ms_store st))))"
  using assms
  by (cases "staleIntents pods existing = []"; cases "newPods pods existing = []")
    (auto simp: refreshStrategy_def Let_def freshFrom_def [abs_def] DeleteIntents_def InsertIntents_def)

lemma refreshStrategy_exact:
  assumes laws: "cr_laws (me_client env) view" and store: "intentStore (me_fromHex env) view (ms_store st) db"
    and pods: "me_pods env (st_K8sNamespace s) (st_LabelSelectors s) = Inr pods"
    and q: "QueryIntents (me_client env) (me_fromHex env) (intentsOf (be_ID s)) (ms_store st) = Inr existing"
    and del: "DeleteIntents (me_client env) (map be_ID (staleIntents pods existing)) (ms_store st) = (None, w1)"
    and ins: "InsertIntents (me_client env) (me_namespace env) (me_now env) (freshFrom env st)
        (map (NewScheduleIntent (me_now env) s) (newPods pods existing)) w1 = (Inr outs, w2)"
    and valid: "validStrategy (me_fromHex env) s" "\<forall>n. validOID (me_fromHex env) (me_fresh env n)"
  shows "\<exists>db'. intentStore (me_fromHex env) view (ms_store (refreshStrategy env s st)) db' \<and>
    {si_PodID i |i. db' (be_ID i) = Some i \<and> si_StrategyID i = be_ID s} = pod_PodID ` set pods \<and>
    (\<forall>n i. si_StrategyID i \<noteq> be_ID s \<longrightarrow> (db' n = Some i) = (db n = Some i))"
proof -
  have mem: "i \<in> set existing \<longleftrightarrow> db (be_ID i) = Some i \<and> si_StrategyID i = be_ID s" for i
    using QueryIntents_exact(1) [OF laws store q, of i]
    by (simp add: intentsOf_def allIntents_def matchesIntentFilter_def)
  have ids: "db n = Some i \<Longrightarrow> be_ID i = n" for n i using store by (simp add: intentStore_def collStore_def)
  note ok = InsertIntents_ok [OF laws ins]
  have fr: "\<forall>n. validOID (me_fromHex env) (freshFrom env st n)" using valid(2) by (simp add: freshFrom_def)
  note new = new_outs [OF conjunct1 [OF ok] valid(1) fr]
  define db1 where "db1 = (\<lambda>n. if n \<in> set (map be_ID (staleIntents pods existing)) then None else db n)"
  have s1: "intentStore (me_fromHex env) view w1 db1"
    unfolding db1_def by (rule DeleteIntents_store [OF laws store del])
  have s2: "intentStore (me_fromHex env) view w2 (db1 ++ byID outs)"
    using new(1) by (intro InsertIntents_store [OF laws s1 ins]) blast
  have free: "\<forall>i \<in> set outs. db1 (be_ID i) = None" using ok s1 by (simp add: intentStore_def collStore_def)
  have in_db: "(db1 ++ byID outs) n = Some i \<longleftrightarrow> i \<in> set outs \<and> be_ID i = n \<or> db1 n = Some i" for n i
    using ok by (intro add_byID_iff [OF _ free]) blast
  have db1_iff: "db1 n = Some i \<longleftrightarrow> db n = Some i \<and> (si_StrategyID i = be_ID s \<longrightarrow> si_PodID i \<in> pod_PodID ` set pods)" for n i
  proof (cases "db n = Some i")
    case True
    then have n: "be_ID i = n" by (rule ids)
    have "n \<in> be_ID ` set (staleIntents pods existing) \<longleftrightarrow> i \<in> set (staleIntents pods existing)"
    proof
      assume "n \<in> be_ID ` set (staleIntents pods existing)"
      then obtain j where j: "j \<in> set (staleIntents pods existing)" "n = be_ID j" by blast
      then have "db n = Some j" using mem by (simp add: staleIntents_def)
      with True j show "i \<in> set (staleIntents pods existing)" by simp
    qed (use n in blast)
    moreover have "i \<in> set existing \<longleftrightarrow> si_StrategyID i = be_ID s" using mem True n by simp
    ultimately show ?thesis using True by (simp add: db1_def) (simp add: staleIntents_def)
  qed (simp add: db1_def)
  have "{si_PodID i |i. (db1 ++ byID outs) (be_ID i) = Some i \<and> si_StrategyID i = be_ID s} =
      si_PodID ` set outs \<union> {si_PodID i |i. i \<in> set existing \<and> si_PodID i \<in> pod_PodID ` set pods}"
    unfolding in_db db1_iff mem using new(1) by blast
  also have "si_PodID ` set outs = pod_PodID ` set pods - si_PodID ` set existing"
    unfolding new(2) by (auto simp: newPods_def)
  also have "{si_PodID i |i. i \<in> set existing \<and> si_PodID i \<in> A} = A \<inter> si_PodID ` set existing" for A by blast
  also have "(pod_PodID ` set pods - si_PodID ` set existing) \<union> (pod_PodID ` set pods \<inter> si_PodID ` set existing) =
      pod_PodID ` set pods" by auto
  finally have "{si_PodID i |i. (db1 ++ byID outs) (be_ID i) = Some i \<and> si_StrategyID i = be_ID s} = pod_PodID ` set pods" .
  moreover have "\<forall>n i. si_StrategyID i \<noteq> be_ID s \<longrightarrow> ((db1 ++ byID outs) n = Some i) = (db n = Some i)"
    unfolding in_db db1_iff using new(1) by blast
  moreover have "ms_store (refreshStrategy env s st) = w2" using refreshStrategy_store [OF pods q] del ins by simp
  ultimately show ?thesis using s2 by blast
qed

end
