(* ===== verification/Mgr_Strategy.thy ===== *)
theory Mgr_Strategy
  imports Mgr_Reconcile
begin

text \<open>
  \<open>src/api/manager/service/strategy_svc.go\<close>: creating, updating and deleting strategies and
  deleting single intents, each with its effect on the repository and its calls to the
  decision makers.  \<open>uid\<close> is the user ID in the operator's claims.  The lemmas show that
  only the owner of a strategy or of all named intents can change them, that a rejected
  request changes nothing, and what the store holds after a successful one.
\<close>

section \<open>Operations\<close>

text \<open>The push at the end of a creation or update: group by host and send, marking what was
  sent; the first error ends the operation.\<close>

fun sendGroups ::
  "'w mgr_env \<Rightarrow> (DecisionMakerPod \<times> ScheduleIntent list) list \<Rightarrow> 'w mgr_state \<Rightarrow> svc_error option \<times> 'w mgr_state" where
  "sendGroups env [] st = (None, st)"
| "sendGroups env ((dmPod, intents) # groups) st =
     (case SendSchedulingIntent dmPod intents (ms_net st) of
        (Some e, net) \<Rightarrow> (Some (DMError e), st\<lparr>ms_net := net\<rparr>)
      | (None, net) \<Rightarrow>
          (case BatchUpdateIntentsState (me_client env) (me_now env) (map be_ID intents) IntentStateSent (ms_store st) of
             (Some e, w) \<Rightarrow> (Some (RepoError e), st\<lparr>ms_net := net, ms_store := w\<rparr>)
           | (None, w) \<Rightarrow> sendGroups env groups (st\<lparr>ms_net := net, ms_store := w\<rparr>)))"

definition dispatchIntents ::
  "'w mgr_env \<Rightarrow> string list \<Rightarrow> ScheduleIntent list \<Rightarrow> 'w mgr_state \<Rightarrow> svc_error option \<times> 'w mgr_state" where
  "dispatchIntents env nodeIDs intents st =
     (case me_dms env nodeIDs of
        Inl e \<Rightarrow> (Some (K8sError e), st)
      | Inr dms \<Rightarrow> if dms = [] then (None, st) else sendGroups env (hostGroups env si_NodeID dms intents) st)"

definition withBase :: "BaseEntity \<Rightarrow> ScheduleStrategy \<Rightarrow> ScheduleStrategy" where
  "withBase b s = BaseEntity.extend b (ScheduleStrategy.fields (st_StrategyNamespace s) (st_LabelSelectors s)
     (st_K8sNamespace s) (st_CommandRegex s) (st_Priority s) (st_ExecutionTime s))"

definition CreateScheduleStrategy ::
  "'w mgr_env \<Rightarrow> string \<Rightarrow> ScheduleStrategy \<Rightarrow> 'w mgr_state \<Rightarrow> svc_error option \<times> 'w mgr_state" where
  "CreateScheduleStrategy env uid strategy st =
     (case me_fromHex env uid of
        None \<Rightarrow> (Some (InvalidID uid), st)
      | Some operatorID \<Rightarrow>
          (case me_pods env (st_K8sNamespace strategy) (st_LabelSelectors strategy) of
             Inl e \<Rightarrow> (Some (K8sError e), st)
           | Inr pods \<Rightarrow>
               if pods = [] then (Some (HTTPNotFound ''no pods match the strategy criteria''), st)
               else
                 (let strategy1 = withBase (NewBaseEntity (me_now env) operatorID operatorID) strategy;
                      intents = map (NewScheduleIntent (me_now env) strategy1) pods
                  in case InsertStrategyAndIntents (me_client env) (me_fromHex env) (me_namespace env) (me_now env)
                         (freshFrom env st) (Some strategy1) (Some intents) (ms_store st) of
                       (Inl e, w) \<Rightarrow> (Some (RepoError e), st\<lparr>ms_store := w, ms_next := ms_next st + length pods + 1\<rparr>)
                     | (Inr (strategy2, intents2), w) \<Rightarrow>
                         dispatchIntents env (uniq (map pod_NodeID pods)) intents2
                           (st\<lparr>ms_store := w, ms_next := ms_next st + length pods + 1\<rparr>))))"

definition ownedStrategy :: "oid \<Rightarrow> oid \<Rightarrow> QueryStrategyOptions" where
  "ownedStrategy strategyID operatorID = \<lparr>qs_IDs = [strategyID], qs_K8SNamespaces = [], qs_CreatorIDs = [operatorID]\<rparr>"

text \<open>The notification of an update or deletion; unlike the reconciliation it does not look at
  the state of the decision makers.\<close>

definition notifyAllDelete ::
  "'w mgr_env \<Rightarrow> ScheduleIntent list \<Rightarrow> 'w mgr_state \<Rightarrow> 'w mgr_state" where
  "notifyAllDelete env intents st =
     (let nodeIDs = me_range env (uniq (map si_NodeID intents));
          podIDs = me_range env (uniq (map si_PodID intents))
      in if nodeIDs = [] \<or> podIDs = [] then st
         else case me_dms env nodeIDs of
           Inl e \<Rightarrow> st
         | Inr dmPods \<Rightarrow>
             fold (\<lambda>dmPod st. st\<lparr>ms_net := snd (DeleteSchedulingIntents dmPod
                 \<lparr>dreq_PodIDs = podIDs, dreq_All = False\<rparr> (ms_net st))\<rparr>) dmPods st)"

definition notifyOld :: "'w mgr_env \<Rightarrow> ScheduleIntent list \<Rightarrow> 'w mgr_state \<Rightarrow> 'w mgr_state" where
  "notifyOld env oldIntents st = (if oldIntents = [] then st else notifyAllDelete env oldIntents st)"

text \<open>The document that replaces the current one.\<close>

definition updatedStrategy :: "int \<Rightarrow> oid \<Rightarrow> oid \<Rightarrow> ScheduleStrategy \<Rightarrow> ScheduleStrategy \<Rightarrow> ScheduleStrategy" where
  "updatedStrategy now strategyObjID operatorID currentStrategy strategy =
     strategy\<lparr>be_ID := strategyObjID, be_CreatedTime := be_CreatedTime currentStrategy,
       be_CreatorID := be_CreatorID currentStrategy, be_UpdaterID := operatorID, be_UpdatedTime := now\<rparr>"

definition UpdateScheduleStrategy ::
  "'w mgr_env \<Rightarrow> string \<Rightarrow> string \<Rightarrow> ScheduleStrategy \<Rightarrow> 'w mgr_state \<Rightarrow> svc_error option \<times> 'w mgr_state" where
  "UpdateScheduleStrategy env uid strategyID strategy st =
     (case me_fromHex env strategyID of
        None \<Rightarrow> (Some (InvalidID strategyID), st)
      | Some strategyObjID \<Rightarrow>
     (case me_fromHex env uid of
        None \<Rightarrow> (Some (InvalidID uid), st)
      | Some operatorID \<Rightarrow>
     (case QueryStrategies (me_client env) (me_fromHex env) (ownedStrategy strategyObjID operatorID) (ms_store st) of
        Inl e \<Rightarrow> (Some (RepoError e), st)
      | Inr [] \<Rightarrow> (Some (HTTPNotFound ''strategy not found or you don't have permission to update it''), st)
      | Inr (currentStrategy # _) \<Rightarrow>
     (case me_pods env (st_K8sNamespace strategy) (st_LabelSelectors strategy) of
        Inl e \<Rightarrow> (Some (K8sError e), st)
      | Inr pods \<Rightarrow>
          if pods = [] then (Some (HTTPNotFound ''no pods match the strategy criteria''), st)
          else
     (case QueryIntents (me_client env) (me_fromHex env) (intentsOf strategyObjID) (ms_store st) of
        Inl e \<Rightarrow> (Some (RepoError e), st)
      | Inr oldIntents \<Rightarrow>
          (let strategy1 = updatedStrategy (me_now env) strategyObjID operatorID currentStrategy strategy;
               intents = map (NewScheduleIntent (me_now env) strategy1) pods
           in case UpdateStrategy (me_client env) (me_namespace env) (Some strategy1) (ms_store st) of
                (Some e, w1) \<Rightarrow> (Some (RepoError e), st\<lparr>ms_store := w1\<rparr>)
              | (None, w1) \<Rightarrow>
              (case DeleteIntentsByStrategyID (me_client env) strategyObjID w1 of
                 (Some e, w2) \<Rightarrow> (Some (RepoError e), st\<lparr>ms_store := w2\<rparr>)
               | (None, w2) \<Rightarrow>
              (case InsertIntents (me_client env) (me_namespace env) (me_now env) (freshFrom env st) intents w2 of
                 (Inl e, w3) \<Rightarrow> (Some (RepoError e), st\<lparr>ms_store := w3, ms_next := ms_next st + length pods\<rparr>)
               | (Inr intents2, w3) \<Rightarrow>
                   dispatchIntents env (uniq (map pod_NodeID pods)) intents2
                     (notifyOld env oldIntents (st\<lparr>ms_store := w3, ms_next := ms_next st + length pods\<rparr>))))))))))"

definition DeleteScheduleStrategy ::
  "'w mgr_env \<Rightarrow> string \<Rightarrow> string \<Rightarrow> 'w mgr_state \<Rightarrow> svc_error option \<times> 'w mgr_state" where
  "DeleteScheduleStrategy env uid strategyID st =
     (case me_fromHex env strategyID of
        None \<Rightarrow> (Some (InvalidID strategyID), st)
      | Some strategyObjID \<Rightarrow>
     (case me_fromHex env uid of
        None \<Rightarrow> (Some (InvalidID uid), st)
      | Some operatorID \<Rightarrow>
     (case QueryStrategies (me_client env) (me_fromHex env) (ownedStrategy strategyObjID operatorID) (ms_store st) of
        Inl e \<Rightarrow> (Some (RepoError e), st)
      | Inr [] \<Rightarrow> (Some (HTTPNotFound ''strategy not found or you don't have permission to delete it''), st)
      | Inr (_ # _) \<Rightarrow>
     (case QueryIntents (me_client env) (me_fromHex env) (intentsOf strategyObjID) (ms_store st) of
        Inl e \<Rightarrow> (Some (RepoError e), st)
      | Inr intents \<Rightarrow>
     (case DeleteIntentsByStrategyID (me_client env) strategyObjID (ms_store st) of
        (Some e, w1) \<Rightarrow> (Some (RepoError e), st\<lparr>ms_store := w1\<rparr>)
      | (None, w1) \<Rightarrow>
     (case DeleteStrategy (me_client env) strategyObjID w1 of
        (Some e, w2) \<Rightarrow> (Some (RepoError e), st\<lparr>ms_store := w2\<rparr>)
      | (None, w2) \<Rightarrow> (None, notifyAllDelete env intents (st\<lparr>ms_store := w2\<rparr>))))))))"

text \<open>Parsing a list of IDs; the first invalid one is the error.\<close>

fun parseIDs :: "(string \<Rightarrow> oid option) \<Rightarrow> string list \<Rightarrow> string + oid list" where
  "parseIDs fromHex [] = Inr []"
| "parseIDs fromHex (i # ids) =
     (case fromHex i of
        None \<Rightarrow> Inl i
      | Some objID \<Rightarrow> (case parseIDs fromHex ids of Inl e \<Rightarrow> Inl e | Inr objIDs \<Rightarrow> Inr (objID # objIDs)))"

definition intentsNotFound :: svc_error where
  "intentsNotFound = HTTPNotFound ''one or more intents not found or you don't have permission to delete them''"

definition DeleteScheduleIntents ::
  "'w mgr_env \<Rightarrow> string \<Rightarrow> string list \<Rightarrow> 'w mgr_state \<Rightarrow> svc_error option \<times> 'w mgr_state" where
  "DeleteScheduleIntents env uid intentIDs st =
     (if intentIDs = [] then (None, st)
      else
     (case me_fromHex env uid of
        None \<Rightarrow> (Some (InvalidID uid), st)
      | Some operatorID \<Rightarrow>
     (case parseIDs (me_fromHex env) intentIDs of
        Inl i \<Rightarrow> (Some (InvalidID i), st)
      | Inr intentObjIDs \<Rightarrow>
     (case QueryIntents (me_client env) (me_fromHex env)
            (allIntents\<lparr>qi_IDs := intentObjIDs, qi_CreatorIDs := [operatorID]\<rparr>) (ms_store st) of
        Inl e \<Rightarrow> (Some (RepoError e), st)
      | Inr result \<Rightarrow>
          if result = [] then (Some intentsNotFound, st)
          else if list_ex (\<lambda>intent. be_CreatorID intent \<noteq> operatorID) result then (Some intentsNotFound, st)
          else if length (filter (\<lambda>intent. be_ID intent \<in> set intentObjIDs) result) \<noteq> length intentObjIDs
          then (Some intentsNotFound, st)
          else
            (case DeleteIntents (me_client env) intentObjIDs (ms_store st) of
               (Some e, w) \<Rightarrow> (Some (RepoError e), st\<lparr>ms_store := w\<rparr>)
             | (None, w) \<Rightarrow> (None, notifyAllDelete env result (st\<lparr>ms_store := w\<rparr>)))))))"


section \<open>What the operations achieve\<close>

lemma owned_query:
  assumes "cr_laws c view" "strategyStore fromHex view w db"
    and "QueryStrategies c fromHex (ownedStrategy sid op) w = Inr ss"
  shows "ss = (case db sid of Some s \<Rightarrow> if be_CreatorID s = op then [s] else [] | None \<Rightarrow> [])"
  using strategies.query_ids_exact [OF assms(1) assms(2) [unfolded strategyStore_def]
      assms(3) [unfolded QueryStrategies_def]]
  by (auto simp: ownedStrategy_def map_filter_simps matchesStrategyFilter_def split: option.splits)

lemma not_owner:
  assumes "cr_laws (me_client env) view" "strategyStore (me_fromHex env) view (ms_store st) db"
    and "me_fromHex env strategyID = Some sid" "me_fromHex env uid = Some op"
    and "\<forall>s. db sid = Some s \<longrightarrow> be_CreatorID s \<noteq> op"
  shows "fst (DeleteScheduleStrategy env uid strategyID st) \<noteq> None" "snd (DeleteScheduleStrategy env uid strategyID st) = st"
    and "fst (UpdateScheduleStrategy env uid strategyID s st) \<noteq> None" "snd (UpdateScheduleStrategy env uid strategyID s st) = st"
proof -
  have "ss = []" if "QueryStrategies (me_client env) (me_fromHex env) (ownedStrategy sid op) (ms_store st) = Inr ss" for ss
    using owned_query [OF assms(1,2) that] assms(5) by (auto split: option.splits)
  then have q: "(\<exists>e. QueryStrategies (me_client env) (me_fromHex env) (ownedStrategy sid op) (ms_store st) = Inl e) \<or>
      QueryStrategies (me_client env) (me_fromHex env) (ownedStrategy sid op) (ms_store st) = Inr []"
    by (cases "QueryStrategies (me_client env) (me_fromHex env) (ownedStrategy sid op) (ms_store st)") auto
  then show "fst (DeleteScheduleStrategy env uid strategyID st) \<noteq> None" "snd (DeleteScheduleStrategy env uid strategyID st) = st"
    "fst (UpdateScheduleStrategy env uid strategyID s st) \<noteq> None" "snd (UpdateScheduleStrategy env uid strategyID s st) = st"
    using assms(3,4) by (auto simp: DeleteScheduleStrategy_def UpdateScheduleStrategy_def)
qed

lemma notifyAll_store [simp]:
  "ms_store (notifyAllDelete env is st) = ms_store st" "ms_next (notifyAllDelete env is st) = ms_next st"
  by (auto simp: notifyAllDelete_def Let_def intro!: fold_keeps split: sum.split)

lemma parseIDs_map: "parseIDs fromHex ids = Inr objIDs \<Longrightarrow> map fromHex ids = map Some objIDs"
  by (induction ids arbitrary: objIDs) (auto split: option.splits sum.splits)

lemma DeleteScheduleIntents_ok:
  assumes laws: "cr_laws (me_client env) view" and store: "intentStore (me_fromHex env) view (ms_store st) db"
    and "me_fromHex env uid = Some op" "ids \<noteq> []"
    and ok: "DeleteScheduleIntents env uid ids st = (None, st')"
  obtains objIDs where "map (me_fromHex env) ids = map Some objIDs"
    "\<forall>n \<in> set objIDs. \<exists>i. db n = Some i \<and> be_CreatorID i = op"
    "intentStore (me_fromHex env) view (ms_store st') (\<lambda>n. if n \<in> set objIDs then None else db n)"
proof -
  from ok assms(3,4) obtain objIDs result w where p: "parseIDs (me_fromHex env) ids = Inr objIDs"
    and q: "QueryIntents (me_client env) (me_fromHex env) (allIntents\<lparr>qi_IDs := objIDs, qi_CreatorIDs := [op]\<rparr>) (ms_store st) = Inr result"
    and n: "length (filter (\<lambda>intent. be_ID intent \<in> set objIDs) result) = length objIDs"
    and d: "DeleteIntents (me_client env) objIDs (ms_store st) = (None, w)" "st' = notifyAllDelete env result (st\<lparr>ms_store := w\<rparr>)"
    by (auto simp: DeleteScheduleIntents_def split: sum.splits if_splits prod.splits option.splits)
  from p have m: "map (me_fromHex env) ids = map Some objIDs" by (rule parseIDs_map)
  with assms(4) have ne: "objIDs \<noteq> []" by auto
  let ?P = "\<lambda>i. matchesIntentFilter i (allIntents\<lparr>qi_IDs := objIDs, qi_CreatorIDs := [op]\<rparr>)"
  have r: "result = filter ?P (List.map_filter db objIDs)"
    using QueryIntents_byID [OF laws store q] ne by simp
  have "length (filter (\<lambda>i. be_ID i \<in> set objIDs \<and> ?P i) (List.map_filter db objIDs)) = length objIDs"
    using n unfolding r filter_filter by (simp only: conj_commute)
  from map_filter_full [OF this] have o: "\<forall>n \<in> set objIDs. \<exists>i. db n = Some i \<and> be_CreatorID i = op"
    by (auto simp: matchesIntentFilter_def)
  have "intentStore (me_fromHex env) view (ms_store st') (\<lambda>n. if n \<in> set objIDs then None else db n)"
    using DeleteIntents_store [OF laws store d(1)] by (simp add: d(2))
  with that m o show ?thesis by blast
qed

text \<open>What a state update leaves unchanged.\<close>

definition unstated :: "ScheduleIntent \<Rightarrow> ScheduleIntent" where
  "unstated i = i\<lparr>si_State := 0, be_UpdatedTime := 0\<rparr>"

definition sameIntents :: "(oid \<rightharpoonup> ScheduleIntent) \<Rightarrow> (oid \<rightharpoonup> ScheduleIntent) \<Rightarrow> bool" where
  "sameIntents db db' \<longleftrightarrow> (\<forall>n. map_option unstated (db' n) = map_option unstated (db n))"

lemma sameIntents_refl [simp]: "sameIntents db db"
  by (simp add: sameIntents_def)

lemma sameIntents_trans: "sameIntents db db' \<Longrightarrow> sameIntents db' db'' \<Longrightarrow> sameIntents db db''"
  by (simp add: sameIntents_def)

lemma sameIntents_restate: "sameIntents db (restateAll (restateIntent now st) ids db)"
  by (auto simp: sameIntents_def restateAll_def restateIntent_def unstated_def [abs_def] option.map_comp comp_def)

lemma sendGroups_store:
  assumes laws: "cr_laws (me_client env) view"
  shows "intentStore (me_fromHex env) view (ms_store st) db \<Longrightarrow> sendGroups env gs st = (None, st') \<Longrightarrow>
    (\<exists>db'. intentStore (me_fromHex env) view (ms_store st') db' \<and> sameIntents db db') \<and>
    (\<forall>k. k \<noteq> IntentCR \<longrightarrow> view (ms_store st') k = view (ms_store st) k)"
proof (induction gs arbitrary: st db)
  case (Cons g gs)
  obtain dmPod intents where g: "g = (dmPod, intents)" by (metis surj_pair)
  with Cons.prems(2) obtain net w where s: "SendSchedulingIntent dmPod intents (ms_net st) = (None, net)"
    and b: "BatchUpdateIntentsState (me_client env) (me_now env) (map be_ID intents) IntentStateSent (ms_store st) = (None, w)"
    and rest: "sendGroups env gs (st\<lparr>ms_net := net, ms_store := w\<rparr>) = (None, st')"
    by (auto split: prod.splits option.splits)
  let ?db = "restateAll (restateIntent (me_now env) IntentStateSent) (set (map be_ID intents)) db"
  have 1: "intentStore (me_fromHex env) view (ms_store (st\<lparr>ms_net := net, ms_store := w\<rparr>)) ?db"
    using BatchUpdateIntentsState_store [OF laws _ _ Cons.prems(1) b] by (simp add: IntentStateSent_def)
  have 2: "k \<noteq> IntentCR \<Longrightarrow> view w k = view (ms_store st) k" for k
    using updateStates_frame [OF laws _ b [unfolded BatchUpdateIntentsState_def]] .
  from Cons.IH [OF 1 rest] 2 show ?case using sameIntents_trans [OF sameIntents_restate] by auto
qed auto

lemma dispatchIntents_store:
  assumes laws: "cr_laws (me_client env) view" and "intentStore (me_fromHex env) view (ms_store st) db"
    and "dispatchIntents env ns is st = (None, st')"
  shows "(\<exists>db'. intentStore (me_fromHex env) view (ms_store st') db' \<and> sameIntents db db') \<and>
    (\<forall>k. k \<noteq> IntentCR \<longrightarrow> view (ms_store st') k = view (ms_store st) k)"
  using assms sendGroups_store [OF laws assms(2)] sameIntents_refl
  by (auto simp: dispatchIntents_def split: sum.splits if_splits)

lemma DeleteScheduleStrategy_ok:
  assumes laws: "cr_laws (me_client env) view"
    and store: "intentStore (me_fromHex env) view (ms_store st) db" "strategyStore (me_fromHex env) view (ms_store st) sdb"
    and hex: "me_fromHex env strategyID = Some sid" "me_fromHex env uid = Some op"
    and ok: "DeleteScheduleStrategy env uid strategyID st = (None, st')"
  shows "(\<exists>s. sdb sid = Some s \<and> be_CreatorID s = op) \<and>
    strategyStore (me_fromHex env) view (ms_store st') (sdb(sid := None)) \<and>
    intentStore (me_fromHex env) view (ms_store st')
      (\<lambda>n. case db n of Some i \<Rightarrow> if si_StrategyID i = sid then None else Some i | None \<Rightarrow> None)"
proof -
  from ok hex obtain s ss ins w1 w2 where q: "QueryStrategies (me_client env) (me_fromHex env) (ownedStrategy sid op) (ms_store st) = Inr (s # ss)"
    and d: "DeleteIntentsByStrategyID (me_client env) sid (ms_store st) = (None, w1)"
    and e: "DeleteStrategy (me_client env) sid w1 = (None, w2)" "st' = notifyAllDelete env ins (st\<lparr>ms_store := w2\<rparr>)"
    by (auto simp: DeleteScheduleStrategy_def split: sum.splits list.splits prod.splits option.splits)
  have o: "\<exists>s. sdb sid = Some s \<and> be_CreatorID s = op"
    using owned_query [OF laws store(2) q] by (auto split: option.splits if_splits)
  have "strategyStore (me_fromHex env) view w1 sdb"
    using collStore_view [OF store(2) [unfolded strategyStore_def] DeleteIntentsByStrategyID_frame [OF laws d]]
    by (simp add: strategyStore_def)
  from deleteObject_store [OF laws this [unfolded strategyStore_def] e(1) [unfolded DeleteStrategy_def]]
  have s2: "strategyStore (me_fromHex env) view w2 (sdb(sid := None))" "view w2 IntentCR = view w1 IntentCR"
    by (simp_all add: strategyStore_def)
  from collStore_view [OF DeleteIntentsByStrategyID_store [OF laws store(1) d, unfolded intentStore_def] s2(2)] o s2(1) e(2)
  show ?thesis by (simp add: intentStore_def)
qed

text \<open>The intents made for pods: one per pod, valid, owned by the strategy.\<close>

lemma pod_intents:
  fixes outs :: "ScheduleIntent list"
  assumes outs: "outs = map (\<lambda>(m, i). (stampIntent now (fr m) i)\<lparr>si_StrategyID := sid\<rparr>) (enumerate k (map (NewScheduleIntent now s) ps))"
    and v: "validOID fromHex (be_CreatorID s)" "validOID fromHex (be_UpdaterID s)" "validOID fromHex sid"
      "\<forall>n. validOID fromHex (fr n)"
  shows "\<forall>i \<in> set outs. validIntent fromHex i \<and> si_StrategyID i = sid"
    and "si_PodID ` set outs = pod_PodID ` set ps" and "map si_NodeID outs = map pod_NodeID ps"
proof -
  have o: "outs = map (\<lambda>(m, p). (stampIntent now (fr m) (NewScheduleIntent now s p))\<lparr>si_StrategyID := sid\<rparr>) (enumerate k ps)"
    unfolding outs by (induction ps arbitrary: k) auto
  show "\<forall>i \<in> set outs. validIntent fromHex i \<and> si_StrategyID i = sid"
    using v by (auto simp: o validIntent_def IntentStateInitialized_def)
  have "map si_PodID outs = map pod_PodID ps"
    by (simp add: o comp_def case_prod_beta map_enumerate_snd)
  then show "si_PodID ` set outs = pod_PodID ` set ps" by (metis set_map)
  show "map si_NodeID outs = map pod_NodeID ps"
    by (simp add: o comp_def case_prod_beta stampIntent_def map_enumerate_snd)
qed

lemma withBase_simps [simp]:
  "be_ID (withBase b s) = be_ID b" "be_CreatorID (withBase b s) = be_CreatorID b" "be_UpdaterID (withBase b s) = be_UpdaterID b"
  "be_DeletedTime (withBase b s) = be_DeletedTime b"
  by (simp_all add: withBase_def BaseEntity.defs)

lemma stampOwner_simps [simp]:
  "be_CreatorID (stampOwner now f s) = be_CreatorID s" "be_UpdaterID (stampOwner now f s) = be_UpdaterID s"
  "be_DeletedTime (stampOwner now f s) = be_DeletedTime s" "be_ID s = zeroOID \<Longrightarrow> be_ID (stampOwner now f s) = f"
  by (simp_all add: stampOwner_def)

lemma NewBaseEntity_simps [simp]:
  "be_ID (NewBaseEntity now a b) = zeroOID" "be_CreatorID (NewBaseEntity now a b) = a"
  "be_UpdaterID (NewBaseEntity now a b) = b" "be_DeletedTime (NewBaseEntity now a b) = 0"
  by (simp_all add: NewBaseEntity_def)

lemma CreateScheduleStrategy_steps:
  assumes ok: "CreateScheduleStrategy env uid s st = (None, st')" and hex: "me_fromHex env uid = Some op"
  obtains pods s' outs w where "me_pods env (st_K8sNamespace s) (st_LabelSelectors s) = Inr pods" "pods \<noteq> []"
    "InsertStrategyAndIntents (me_client env) (me_fromHex env) (me_namespace env) (me_now env) (freshFrom env st)
       (Some (withBase (NewBaseEntity (me_now env) op op) s))
       (Some (map (NewScheduleIntent (me_now env) (withBase (NewBaseEntity (me_now env) op op) s)) pods)) (ms_store st) =
       (Inr (s', outs), w)"
    "dispatchIntents env (uniq (map pod_NodeID pods)) outs
       (st\<lparr>ms_store := w, ms_next := ms_next st + length pods + 1\<rparr>) = (None, st')"
  using assms by (auto simp: CreateScheduleStrategy_def Let_def split: sum.splits if_splits prod.splits)

lemma CreateScheduleStrategy_ok:
  assumes laws: "cr_laws (me_client env) view"
    and store: "intentStore (me_fromHex env) view (ms_store st) db" "strategyStore (me_fromHex env) view (ms_store st) sdb"
    and hex: "me_fromHex env uid = Some op" "validOID (me_fromHex env) op"
    and fresh: "\<forall>n. validOID (me_fromHex env) (me_fresh env n)"
    and ok: "CreateScheduleStrategy env uid s st = (None, st')"
  shows "\<exists>s' pods dbNew db'. sdb (be_ID s') = None \<and> be_CreatorID s' = op \<and>
    strategyStore (me_fromHex env) view (ms_store st') (sdb(be_ID s' \<mapsto> s')) \<and>
    me_pods env (st_K8sNamespace s) (st_LabelSelectors s) = Inr pods \<and>
    (\<forall>i \<in> ran dbNew. si_StrategyID i = be_ID s') \<and> si_PodID ` ran dbNew = pod_PodID ` set pods \<and>
    dom db \<inter> dom dbNew = {} \<and> sameIntents (db ++ dbNew) db' \<and>
    intentStore (me_fromHex env) view (ms_store st') db'"
proof -
  let ?s = "withBase (NewBaseEntity (me_now env) op op) s"
  from CreateScheduleStrategy_steps [OF ok hex(1)] obtain pods s' outs w where
    pods: "me_pods env (st_K8sNamespace s) (st_LabelSelectors s) = Inr pods" "pods \<noteq> []"
    and ins: "InsertStrategyAndIntents (me_client env) (me_fromHex env) (me_namespace env) (me_now env) (freshFrom env st)
       (Some ?s) (Some (map (NewScheduleIntent (me_now env) ?s) pods)) (ms_store st) = (Inr (s', outs), w)"
    and disp: "dispatchIntents env (uniq (map pod_NodeID pods)) outs
       (st\<lparr>ms_store := w, ms_next := ms_next st + length pods + 1\<rparr>) = (None, st')" by metis
  have fr: "\<forall>n. validOID (me_fromHex env) (freshFrom env st n)" using fresh by (simp add: freshFrom_def)
  have v: "validOID (me_fromHex env) (be_ID (stampOwner (me_now env) (freshFrom env st 0) ?s))" using fr by simp
  note full = InsertStrategyAndIntents_ok [OF laws v ins]
  note s' = conjunct1 [OF full]
  have valid: "validStrategy (me_fromHex env) s'" using fr hex(2) by (simp add: s' validStrategy_def)
  have sid: "validOID (me_fromHex env) (be_ID s')" using v s' by simp
  have outs: "\<forall>i \<in> set outs. validIntent (me_fromHex env) i \<and> si_StrategyID i = be_ID s'" "si_PodID ` set outs = pod_PodID ` set pods"
    using pod_intents [OF InsertStrategyAndIntents_outs [OF laws v ins], of "me_fromHex env"] hex(2) fr sid by simp_all
  have free: "\<forall>i \<in> set outs. db (be_ID i) = None" "sdb (be_ID s') = None"
    using full store by (auto simp: intentStore_def strategyStore_def collStore_def)
  have vw: "view w IntentCR = view (ms_store st) IntentCR ++ objectsOf intentContent outs"
    "view w StrategyCR = (view (ms_store st) StrategyCR)(be_ID s' \<mapsto> strategyContent s')" using full by simp_all
  have "intentStore (me_fromHex env) view w (db ++ byID outs)"
    using collStore_insert [OF store(1) [unfolded intentStore_def] _ vw(1)] outs(1) by (simp add: intentStore_def)
  from dispatchIntents_store [OF laws _ disp] this obtain db' where
    db': "intentStore (me_fromHex env) view (ms_store st') db'" "sameIntents (db ++ byID outs) db'"
    and frame: "\<forall>k. k \<noteq> IntentCR \<longrightarrow> view (ms_store st') k = view w k" by auto
  have "strategyStore (me_fromHex env) view w (sdb(be_ID s' \<mapsto> s'))"
    using store(2) vw(2) valid by (auto simp: strategyStore_def collStore_def)
  then have st: "strategyStore (me_fromHex env) view (ms_store st') (sdb(be_ID s' \<mapsto> s'))"
    unfolding strategyStore_def by (rule collStore_view) (simp add: frame)
  have ran: "ran (byID outs) = set outs" using full by (intro ran_byID) blast
  have dom: "dom db \<inter> dom (byID outs) = {}" using free(1) by (auto dest!: byID_Some)
  have cr: "be_CreatorID s' = op" by (simp add: s')
  show ?thesis
    by (rule exI [of _ s'], rule exI [of _ pods], rule exI [of _ "byID outs"], rule exI [of _ db'])
      (use free(2) cr st pods(1) outs dom db' in \<open>simp add: ran\<close>)
qed

lemma notifyOld_store [simp]: "ms_store (notifyOld env old st) = ms_store st"
  by (simp add: notifyOld_def)

lemma UpdateScheduleStrategy_steps:
  assumes ok: "UpdateScheduleStrategy env uid strategyID s st = (None, st')"
    and hex: "me_fromHex env strategyID = Some sid" "me_fromHex env uid = Some op"
  obtains cur ss pods old w1 w2 w3 outs st4 where
    "QueryStrategies (me_client env) (me_fromHex env) (ownedStrategy sid op) (ms_store st) = Inr (cur # ss)"
    "me_pods env (st_K8sNamespace s) (st_LabelSelectors s) = Inr pods" "pods \<noteq> []"
    "UpdateStrategy (me_client env) (me_namespace env) (Some (updatedStrategy (me_now env) sid op cur s)) (ms_store st) = (None, w1)"
    "DeleteIntentsByStrategyID (me_client env) sid w1 = (None, w2)"
    "InsertIntents (me_client env) (me_namespace env) (me_now env) (freshFrom env st)
       (map (NewScheduleIntent (me_now env) (updatedStrategy (me_now env) sid op cur s)) pods) w2 = (Inr outs, w3)"
    "ms_store st4 = w3" "dispatchIntents env (uniq (map pod_NodeID pods)) outs st4 = (None, st')"
proof -
  from ok hex obtain cur ss pods old w1 w2 w3 outs where
    q: "QueryStrategies (me_client env) (me_fromHex env) (ownedStrategy sid op) (ms_store st) = Inr (cur # ss)"
    and p: "me_pods env (st_K8sNamespace s) (st_LabelSelectors s) = Inr pods" "pods \<noteq> []"
    and u: "UpdateStrategy (me_client env) (me_namespace env) (Some (updatedStrategy (me_now env) sid op cur s)) (ms_store st) = (None, w1)"
    and d: "DeleteIntentsByStrategyID (me_client env) sid w1 = (None, w2)"
    and i: "InsertIntents (me_client env) (me_namespace env) (me_now env) (freshFrom env st)
       (map (NewScheduleIntent (me_now env) (updatedStrategy (me_now env) sid op cur s)) pods) w2 = (Inr outs, w3)"
    and disp: "dispatchIntents env (uniq (map pod_NodeID pods)) outs
       (notifyOld env old (st\<lparr>ms_store := w3, ms_next := ms_next st + length pods\<rparr>)) = (None, st')"
    unfolding UpdateScheduleStrategy_def Let_def
    by (auto split: sum.splits list.splits if_splits prod.splits option.splits)
  show ?thesis by (rule that [OF q p u d i _ disp]) simp
qed

lemma UpdateScheduleStrategy_ok:
  assumes laws: "cr_laws (me_client env) view"
    and store: "intentStore (me_fromHex env) view (ms_store st) db" "strategyStore (me_fromHex env) view (ms_store st) sdb"
    and hex: "me_fromHex env strategyID = Some sid" "me_fromHex env uid = Some op" "validOID (me_fromHex env) op"
    and fresh: "\<forall>n. validOID (me_fromHex env) (me_fresh env n)" "be_DeletedTime s = 0"
    and ok: "UpdateScheduleStrategy env uid strategyID s st = (None, st')"
  shows "\<exists>cur pods dbNew db'. sdb sid = Some cur \<and> be_CreatorID cur = op \<and>
    strategyStore (me_fromHex env) view (ms_store st') (sdb(sid \<mapsto> updatedStrategy (me_now env) sid op cur s)) \<and>
    me_pods env (st_K8sNamespace s) (st_LabelSelectors s) = Inr pods \<and>
    (\<forall>i \<in> ran dbNew. si_StrategyID i = sid) \<and> si_PodID ` ran dbNew = pod_PodID ` set pods \<and>
    sameIntents ((\<lambda>n. case db n of Some i \<Rightarrow> if si_StrategyID i = sid then None else Some i | None \<Rightarrow> None) ++ dbNew) db' \<and>
    intentStore (me_fromHex env) view (ms_store st') db'"
proof -
  from UpdateScheduleStrategy_steps [OF ok hex(1,2)] obtain cur ss pods w1 w2 w3 outs st4 where
    q: "QueryStrategies (me_client env) (me_fromHex env) (ownedStrategy sid op) (ms_store st) = Inr (cur # ss)"
    and p: "me_pods env (st_K8sNamespace s) (st_LabelSelectors s) = Inr pods"
    and u: "UpdateStrategy (me_client env) (me_namespace env) (Some (updatedStrategy (me_now env) sid op cur s)) (ms_store st) = (None, w1)"
    and d: "DeleteIntentsByStrategyID (me_client env) sid w1 = (None, w2)"
    and i: "InsertIntents (me_client env) (me_namespace env) (me_now env) (freshFrom env st)
       (map (NewScheduleIntent (me_now env) (updatedStrategy (me_now env) sid op cur s)) pods) w2 = (Inr outs, w3)"
    and st4: "ms_store st4 = w3" and disp: "dispatchIntents env (uniq (map pod_NodeID pods)) outs st4 = (None, st')" by metis
  let ?s = "updatedStrategy (me_now env) sid op cur s"
  let ?db = "\<lambda>n. case db n of Some i \<Rightarrow> if si_StrategyID i = sid then None else Some i | None \<Rightarrow> None"
  have cur: "sdb sid = Some cur" "be_CreatorID cur = op"
    using owned_query [OF laws store(2) q] by (auto split: option.splits if_splits)
  have vs: "validStrategy (me_fromHex env) ?s" "be_ID ?s = sid"
    using store(2) cur hex(3) fresh(2) by (auto simp: strategyStore_def collStore_def validStrategy_def updatedStrategy_def)
  have v1: "view w1 = (view (ms_store st))(StrategyCR := (view (ms_store st) StrategyCR)(sid \<mapsto> strategyContent ?s))"
    using replaceObject_view [OF laws, of StrategyCR] u vs(2) by (simp add: UpdateStrategy_def strategies.content_toObj)
  have fr: "\<forall>n. validOID (me_fromHex env) (freshFrom env st n)" using fresh(1) by (simp add: freshFrom_def)
  note iok = InsertIntents_ok [OF laws i]
  note outs = new_outs [OF conjunct1 [OF iok] vs(1) fr]
  have "intentStore (me_fromHex env) view w1 db"
    using collStore_view [OF store(1) [unfolded intentStore_def], of w1] by (simp add: v1 intentStore_def)
  from DeleteIntentsByStrategyID_store [OF laws this d] have s2: "intentStore (me_fromHex env) view w2 ?db" .
  have s3: "intentStore (me_fromHex env) view (ms_store st4) (?db ++ byID outs)"
    using InsertIntents_store [OF laws s2 i] outs(1) st4 by blast
  from dispatchIntents_store [OF laws s3 disp] obtain db' where
    db': "intentStore (me_fromHex env) view (ms_store st') db'" "sameIntents (?db ++ byID outs) db'"
    and frame: "\<forall>k. k \<noteq> IntentCR \<longrightarrow> view (ms_store st') k = view w3 k" using st4 by auto
  have "view w3 StrategyCR = view w2 StrategyCR" using iok by simp
  moreover have "view w2 StrategyCR = view w1 StrategyCR" using DeleteIntentsByStrategyID_frame [OF laws d] by simp
  ultimately have "view (ms_store st') StrategyCR = (view (ms_store st) StrategyCR)(sid \<mapsto> strategyContent ?s)"
    using frame by (simp add: v1)
  then have sst: "strategyStore (me_fromHex env) view (ms_store st') (sdb(sid \<mapsto> ?s))"
    using store(2) vs by (auto simp: strategyStore_def collStore_def)
  have ran: "ran (byID outs) = set outs" using iok by (intro ran_byID) blast
  have "(\<forall>i \<in> ran (byID outs). si_StrategyID i = sid) \<and> si_PodID ` ran (byID outs) = pod_PodID ` set pods"
    using outs vs(2) by (simp add: ran)
  with cur sst p db' show ?thesis by blast
qed

text \<open>A single decision maker on the node of all intents gets exactly the intents dispatched.\<close>

lemma hostGroups_single:
  assumes "\<forall>xs. mset (me_range env xs) = mset xs" "intents \<noteq> []" "\<forall>i \<in> set intents. nodeOf i = dmp_NodeID dm"
  shows "hostGroups env nodeOf [dm] intents = [(dm, intents)]"
proof -
  have "mset (me_range env [dmp_Host dm]) = mset [dmp_Host dm]" using assms(1) by blast
  then have r: "me_range env [dmp_Host dm] = [dmp_Host dm]" by simp
  have e: "list_ex (\<lambda>i. nodeOf i = dmp_NodeID dm) intents" using assms(2,3) by (cases intents) auto
  have f: "filter (\<lambda>i. nodeOf i = dmp_NodeID dm) intents = intents" using assms(3) by (simp add: filter_id_conv)
  show ?thesis by (simp add: hostGroups_def e f uniq_def r Let_def)
qed

lemma CreateScheduleStrategy_pushes:
  assumes laws: "cr_laws (me_client env) view" and rng: "\<forall>xs. mset (me_range env xs) = mset xs"
    and hex: "me_fromHex env uid = Some op" "validOID (me_fromHex env) op" "\<forall>n. validOID (me_fromHex env) (me_fresh env n)"
    and pods: "me_pods env (st_K8sNamespace s) (st_LabelSelectors s) = Inr pods" "\<forall>p \<in> set pods. pod_NodeID p = dmp_NodeID dm"
    and dms: "\<And>ns. me_dms env ns = Inr [dm]"
    and ok: "CreateScheduleStrategy env uid s st = (None, st')"
  shows "int_PodID ` set (somes (svc_intentCache (net_service (ms_net st') (addrOf dm)))) = pod_PodID ` set pods"
proof -
  let ?s = "withBase (NewBaseEntity (me_now env) op op) s"
  from CreateScheduleStrategy_steps [OF ok hex(1)] pods(1) obtain s' outs w where ne: "pods \<noteq> []"
    and ins: "InsertStrategyAndIntents (me_client env) (me_fromHex env) (me_namespace env) (me_now env) (freshFrom env st)
       (Some ?s) (Some (map (NewScheduleIntent (me_now env) ?s) pods)) (ms_store st) = (Inr (s', outs), w)"
    and disp: "dispatchIntents env (uniq (map pod_NodeID pods)) outs
       (st\<lparr>ms_store := w, ms_next := ms_next st + length pods + 1\<rparr>) = (None, st')" by (metis Inr_inject)
  have fr: "\<forall>n. validOID (me_fromHex env) (freshFrom env st n)" using hex(3) by (simp add: freshFrom_def)
  have v: "validOID (me_fromHex env) (be_ID (stampOwner (me_now env) (freshFrom env st 0) ?s))" using fr by simp
  have sid: "validOID (me_fromHex env) (be_ID s')" using v InsertStrategyAndIntents_ok [OF laws v ins] by simp
  note outs = pod_intents [OF InsertStrategyAndIntents_outs [OF laws v ins], of "me_fromHex env"]
  have o: "si_PodID ` set outs = pod_PodID ` set pods" "map si_NodeID outs = map pod_NodeID pods"
    using outs hex(2) fr sid by simp_all
  have n: "outs \<noteq> []" using o(2) ne by auto
  have nd: "\<forall>i \<in> set outs. si_NodeID i = dmp_NodeID dm"
  proof
    fix i assume "i \<in> set outs"
    then have "si_NodeID i \<in> set (map pod_NodeID pods)" using o(2) by (metis imageI list.set_map)
    with pods(2) show "si_NodeID i = dmp_NodeID dm" by auto
  qed
  let ?st = "st\<lparr>ms_store := w, ms_next := ms_next st + length pods + 1\<rparr>"
  from disp have "sendGroups env [(dm, outs)] ?st = (None, st')"
    by (simp add: dispatchIntents_def dms hostGroups_single [OF rng n nd])
  then obtain net where "SendSchedulingIntent dm outs (ms_net st) = (None, net)" "ms_net st' = net"
    by (auto split: prod.splits option.splits)
  with SendSchedulingIntent_ok(2) [of dm outs "ms_net st"]
  have "svc_intentCache (net_service (ms_net st') (addrOf dm)) = map (\<lambda>i. Some (wireIntent i)) outs" by simp
  then have "set (somes (svc_intentCache (net_service (ms_net st') (addrOf dm)))) = wireIntent ` set outs" by auto
  then show ?thesis using o(1) by (simp add: image_image wireIntent_def)
qed

end
