(* ===== verification/Mgr_NodePolicy.thy ===== *)
theory Mgr_NodePolicy
  imports Mgr_Strategy "HOL-Library.AList"
begin

text \<open>
  \<open>src/api/manager/service/node_policy_svc.go\<close> and the node part of \<open>cron_svc.go\<close>:
  node-level policies, the nodes they apply to, their intents in the repository and in the
  caches of the decision makers.  A Go map from node names to nodes is an association list
  with distinct keys; where the sources range over it, \<open>me_range\<close> gives the order of the keys.
\<close>

section \<open>Nodes of a policy\<close>

definition nodesByName :: "Node list \<Rightarrow> (string \<times> Node) list" where
  "nodesByName nodes = fold (\<lambda>node. AList.update (node_Name node) node) nodes []"

definition intersectNodes ::
  "(string \<times> Node) list \<Rightarrow> Node list \<Rightarrow> bool \<Rightarrow> (string \<times> Node) list" where
  "intersectNodes candidates nodes haveCandidates =
     (let byName = nodesByName nodes in
      if \<not> haveCandidates then byName
      else filter (\<lambda>(name, node). map_of byName name \<noteq> None) candidates)"

definition resolveNodesForPolicy :: "'w mgr_env \<Rightarrow> NodeSchedulingPolicy \<Rightarrow> svc_error + Node list" where
  "resolveNodesForPolicy env policy =
     (if nsp_NodeSelectors policy = [] \<and> nsp_NodeNames policy = [] \<and> nsp_DRASelectors policy = [] then Inr []
      else
        (let bySelector =
           (if nsp_NodeSelectors policy \<noteq> [] \<or> nsp_NodeNames policy \<noteq> [] then
              (case me_nodes env (nsp_NodeSelectors policy) (nsp_NodeNames policy) of
                 Inl e \<Rightarrow> Inl (K8sError e)
               | Inr nodes \<Rightarrow> Inr (intersectNodes [] nodes False, True))
            else Inr ([], False))
         in case bySelector of
              Inl e \<Rightarrow> Inl e
            | Inr (candidates, haveCandidates) \<Rightarrow>
                (let byDRA =
                   (if nsp_DRASelectors policy \<noteq> [] then
                      (case me_nodesDRA env (nsp_DRASelectors policy) of
                         Inl e \<Rightarrow> Inl (K8sError e)
                       | Inr nodes \<Rightarrow> Inr (intersectNodes candidates nodes haveCandidates))
                    else Inr candidates)
                 in case byDRA of
                      Inl e \<Rightarrow> Inl e
                    | Inr cands \<Rightarrow>
                        Inr (map (\<lambda>name. the (map_of cands name)) (me_range env (map fst cands))))))"


section \<open>Sending and deleting\<close>

fun sendNodeGroups ::
  "'w mgr_env \<Rightarrow> (DecisionMakerPod \<times> NodeSchedulingIntent list) list \<Rightarrow> 'w mgr_state
     \<Rightarrow> svc_error option \<times> 'w mgr_state" where
  "sendNodeGroups env [] st = (None, st)"
| "sendNodeGroups env ((dmPod, nodeIntents) # groups) st =
     (case SendNodeSchedulingPolicies dmPod nodeIntents (ms_net st) of
        (Some e, net) \<Rightarrow> (Some (DMError e), st\<lparr>ms_net := net\<rparr>)
      | (None, net) \<Rightarrow>
          (case BatchUpdateNodeIntentsState (me_client env) (me_now env) (map be_ID nodeIntents) IntentStateSent (ms_store st) of
             (Some e, w) \<Rightarrow> (Some (RepoError e), st\<lparr>ms_net := net, ms_store := w\<rparr>)
           | (None, w) \<Rightarrow> sendNodeGroups env groups (st\<lparr>ms_net := net, ms_store := w\<rparr>)))"

definition sendNodeIntentsToDMs ::
  "'w mgr_env \<Rightarrow> NodeSchedulingIntent list \<Rightarrow> 'w mgr_state \<Rightarrow> svc_error option \<times> 'w mgr_state" where
  "sendNodeIntentsToDMs env intents st =
     (if intents = [] then (None, st)
      else case me_dms env (uniq (map nsi_NodeID intents)) of
        Inl e \<Rightarrow> (Some (K8sError e), st)
      | Inr dms \<Rightarrow> if dms = [] then (None, st) else sendNodeGroups env (hostGroups env nsi_NodeID dms intents) st)"

definition notifyDMsDeleteNodeIntents ::
  "'w mgr_env \<Rightarrow> NodeSchedulingIntent list \<Rightarrow> 'w mgr_state \<Rightarrow> 'w mgr_state" where
  "notifyDMsDeleteNodeIntents env intents st =
     (if intents = [] then st
      else case me_dms env (uniq (map nsi_NodeID intents)) of
        Inl e \<Rightarrow> st
      | Inr dmPods \<Rightarrow>
          fold (\<lambda>dmPod st.
              if dmp_State dmPod \<noteq> NodeStateOnline then st
              else fold (\<lambda>policyID st.
                       st\<lparr>ms_net := snd (DeleteNodeSchedulingIntents dmPod (policyID, False) (ms_net st))\<rparr>)
                     (me_range env (uniq (map nsi_PolicyID (filter (\<lambda>i. nsi_NodeID i = dmp_NodeID dmPod) intents)))) st)
            dmPods st)"


section \<open>Operations\<close>

definition withNodeBase :: "BaseEntity \<Rightarrow> NodeSchedulingPolicy \<Rightarrow> NodeSchedulingPolicy" where
  "withNodeBase b p = BaseEntity.extend b (NodeSchedulingPolicy.fields (nsp_NodeSelectors p) (nsp_NodeNames p)
     (nsp_DRASelectors p) (nsp_CommandRegex p) (nsp_Priority p) (nsp_ExecutionTime p))"

definition noNodesMatch :: svc_error where
  "noNodesMatch = HTTPNotFound ''no nodes match the policy criteria''"

definition CreateNodeSchedulingPolicy ::
  "'w mgr_env \<Rightarrow> string \<Rightarrow> NodeSchedulingPolicy \<Rightarrow> 'w mgr_state \<Rightarrow> svc_error option \<times> 'w mgr_state" where
  "CreateNodeSchedulingPolicy env uid policy st =
     (case me_fromHex env uid of
        None \<Rightarrow> (Some (InvalidID uid), st)
      | Some operatorID \<Rightarrow>
     (case resolveNodesForPolicy env policy of
        Inl e \<Rightarrow> (Some e, st)
      | Inr nodes \<Rightarrow>
          if nodes = [] then (Some noNodesMatch, st)
          else
            (let policy1 = withNodeBase (NewBaseEntity (me_now env) operatorID operatorID) policy;
                 intents = map (NewNodeSchedulingIntent (me_now env) policy1) nodes;
                 next = ms_next st + length nodes + 1
             in case InsertNodePolicyAndIntents (me_client env) (me_fromHex env) (me_namespace env) (me_now env)
                    (freshFrom env st) (Some policy1) (Some intents) (ms_store st) of
                  (Inl e, w) \<Rightarrow> (Some (RepoError e), st\<lparr>ms_store := w, ms_next := next\<rparr>)
                | (Inr (policy2, intents2), w) \<Rightarrow>
                    sendNodeIntentsToDMs env intents2 (st\<lparr>ms_store := w, ms_next := next\<rparr>))))"

definition ownedNodePolicy :: "oid \<Rightarrow> oid \<Rightarrow> QueryNodePolicyOptions" where
  "ownedNodePolicy policyID operatorID = \<lparr>qnp_IDs = [policyID], qnp_CreatorIDs = [operatorID]\<rparr>"

definition allNodeIntents :: QueryNodeIntentOptions where
  "allNodeIntents = \<lparr>qni_IDs = [], qni_PolicyIDs = [], qni_NodeIDs = [], qni_States = [], qni_CreatorIDs = []\<rparr>"

definition nodeIntentsOf :: "oid \<Rightarrow> QueryNodeIntentOptions" where
  "nodeIntentsOf policyID = allNodeIntents\<lparr>qni_PolicyIDs := [policyID]\<rparr>"

text \<open>The update keeps the update time the request carries.\<close>

definition updatedNodePolicy :: "oid \<Rightarrow> oid \<Rightarrow> NodeSchedulingPolicy \<Rightarrow> NodeSchedulingPolicy \<Rightarrow> NodeSchedulingPolicy" where
  "updatedNodePolicy policyObjID operatorID currentPolicy policy =
     policy\<lparr>be_ID := policyObjID, be_CreatedTime := be_CreatedTime currentPolicy,
       be_CreatorID := be_CreatorID currentPolicy, be_UpdaterID := operatorID\<rparr>"

definition UpdateNodeSchedulingPolicy ::
  "'w mgr_env \<Rightarrow> string \<Rightarrow> string \<Rightarrow> NodeSchedulingPolicy \<Rightarrow> 'w mgr_state \<Rightarrow> svc_error option \<times> 'w mgr_state" where
  "UpdateNodeSchedulingPolicy env uid policyID policy st =
     (case me_fromHex env policyID of
        None \<Rightarrow> (Some (InvalidID policyID), st)
      | Some policyObjID \<Rightarrow>
     (case me_fromHex env uid of
        None \<Rightarrow> (Some (InvalidID uid), st)
      | Some operatorID \<Rightarrow>
     (case QueryNodePolicies (me_client env) (me_fromHex env) (ownedNodePolicy policyObjID operatorID) (ms_store st) of
        Inl e \<Rightarrow> (Some (RepoError e), st)
      | Inr [] \<Rightarrow> (Some (HTTPNotFound ''node policy not found or you don't have permission to update it''), st)
      | Inr (currentPolicy # _) \<Rightarrow>
     (case resolveNodesForPolicy env policy of
        Inl e \<Rightarrow> (Some e, st)
      | Inr nodes \<Rightarrow>
          if nodes = [] then (Some noNodesMatch, st)
          else
     (case QueryNodeIntents (me_client env) (me_fromHex env) (nodeIntentsOf policyObjID) (ms_store st) of
        Inl e \<Rightarrow> (Some (RepoError e), st)
      | Inr oldIntents \<Rightarrow>
          (let policy1 = updatedNodePolicy policyObjID operatorID currentPolicy policy;
               intents = map (NewNodeSchedulingIntent (me_now env) policy1) nodes
           in case UpdateNodePolicy (me_client env) (me_namespace env) (Some policy1) (ms_store st) of
                (Some e, w1) \<Rightarrow> (Some (RepoError e), st\<lparr>ms_store := w1\<rparr>)
              | (None, w1) \<Rightarrow>
              (case DeleteNodeIntentsByPolicyID (me_client env) policyObjID w1 of
                 (Some e, w2) \<Rightarrow> (Some (RepoError e), st\<lparr>ms_store := w2\<rparr>)
               | (None, w2) \<Rightarrow>
              (case InsertNodeIntents (me_client env) (me_namespace env) (me_now env) (freshFrom env st) intents w2 of
                 (Inl e, w3) \<Rightarrow> (Some (RepoError e), st\<lparr>ms_store := w3, ms_next := ms_next st + length nodes\<rparr>)
               | (Inr intents2, w3) \<Rightarrow>
                   sendNodeIntentsToDMs env intents2
                     (notifyDMsDeleteNodeIntents env oldIntents
                       (st\<lparr>ms_store := w3, ms_next := ms_next st + length nodes\<rparr>))))))))))"

definition DeleteNodeSchedulingPolicy ::
  "'w mgr_env \<Rightarrow> string \<Rightarrow> string \<Rightarrow> 'w mgr_state \<Rightarrow> svc_error option \<times> 'w mgr_state" where
  "DeleteNodeSchedulingPolicy env uid policyID st =
     (case me_fromHex env policyID of
        None \<Rightarrow> (Some (InvalidID policyID), st)
      | Some policyObjID \<Rightarrow>
     (case me_fromHex env uid of
        None \<Rightarrow> (Some (InvalidID uid), st)
      | Some operatorID \<Rightarrow>
     (case QueryNodePolicies (me_client env) (me_fromHex env) (ownedNodePolicy policyObjID operatorID) (ms_store st) of
        Inl e \<Rightarrow> (Some (RepoError e), st)
      | Inr [] \<Rightarrow> (Some (HTTPNotFound ''node policy not found or you don't have permission to delete it''), st)
      | Inr (_ # _) \<Rightarrow>
     (case QueryNodeIntents (me_client env) (me_fromHex env) (nodeIntentsOf policyObjID) (ms_store st) of
        Inl e \<Rightarrow> (Some (RepoError e), st)
      | Inr intents \<Rightarrow>
     (case DeleteNodeIntentsByPolicyID (me_client env) policyObjID (ms_store st) of
        (Some e, w1) \<Rightarrow> (Some (RepoError e), st\<lparr>ms_store := w1\<rparr>)
      | (None, w1) \<Rightarrow>
     (case DeleteNodePolicyCR (me_client env) policyObjID w1 of
        (Some e, w2) \<Rightarrow> (Some (RepoError e), st\<lparr>ms_store := w2\<rparr>)
      | (None, w2) \<Rightarrow> (None, notifyDMsDeleteNodeIntents env intents (st\<lparr>ms_store := w2\<rparr>))))))))"

text \<open>Go's \<open>DeleteNodeSchedulingIntents\<close> of the service; the client's call has the same name.\<close>

definition DeleteNodeSchedulingIntentsSvc ::
  "'w mgr_env \<Rightarrow> string \<Rightarrow> string list \<Rightarrow> 'w mgr_state \<Rightarrow> svc_error option \<times> 'w mgr_state" where
  "DeleteNodeSchedulingIntentsSvc env uid intentIDs st =
     (if intentIDs = [] then (None, st)
      else
     (case me_fromHex env uid of
        None \<Rightarrow> (Some (InvalidID uid), st)
      | Some operatorID \<Rightarrow>
     (case parseIDs (me_fromHex env) intentIDs of
        Inl i \<Rightarrow> (Some (InvalidID i), st)
      | Inr intentObjIDs \<Rightarrow>
     (case QueryNodeIntents (me_client env) (me_fromHex env)
            (allNodeIntents\<lparr>qni_IDs := intentObjIDs, qni_CreatorIDs := [operatorID]\<rparr>) (ms_store st) of
        Inl e \<Rightarrow> (Some (RepoError e), st)
      | Inr result \<Rightarrow>
          if result = []
          then (Some (HTTPNotFound ''one or more node intents not found or you don't have permission to delete them''), st)
          else
            (case DeleteNodeIntents (me_client env) intentObjIDs (ms_store st) of
               (Some e, w) \<Rightarrow> (Some (RepoError e), st\<lparr>ms_store := w\<rparr>)
             | (None, w) \<Rightarrow> (None, notifyDMsDeleteNodeIntents env result (st\<lparr>ms_store := w\<rparr>)))))))"


section \<open>Reconciliation\<close>

definition refreshNodePolicy :: "'w mgr_env \<Rightarrow> NodeSchedulingPolicy \<Rightarrow> 'w mgr_state \<Rightarrow> 'w mgr_state" where
  "refreshNodePolicy env policy st =
     (case resolveNodesForPolicy env policy of
        Inl e \<Rightarrow> st
      | Inr currentNodes \<Rightarrow>
     (case QueryNodeIntents (me_client env) (me_fromHex env) (nodeIntentsOf (be_ID policy)) (ms_store st) of
        Inl e \<Rightarrow> st
      | Inr existing \<Rightarrow>
          (let stale = filter (\<lambda>i. nsi_NodeID i \<notin> set (map node_Name currentNodes)) existing;
               st1 = (if stale = [] then st
                      else notifyDMsDeleteNodeIntents env stale
                        (st\<lparr>ms_store := snd (DeleteNodeIntents (me_client env) (map be_ID stale) (ms_store st))\<rparr>));
               newIntents = map (NewNodeSchedulingIntent (me_now env) policy)
                 (filter (\<lambda>n. node_Name n \<notin> set (map nsi_NodeID existing)) currentNodes)
           in if newIntents = [] then st1
              else case InsertNodeIntents (me_client env) (me_namespace env) (me_now env) (freshFrom env st1)
                          newIntents (ms_store st1) of
                (Inl e, w) \<Rightarrow> st1\<lparr>ms_store := w, ms_next := ms_next st1 + length newIntents\<rparr>
              | (Inr intents2, w) \<Rightarrow>
                  snd (sendNodeIntentsToDMs env intents2
                    (st1\<lparr>ms_store := w, ms_next := ms_next st1 + length newIntents\<rparr>)))))"

definition refreshStaleNodeIntents :: "'w mgr_env \<Rightarrow> 'w mgr_state \<Rightarrow> svc_error option \<times> 'w mgr_state" where
  "refreshStaleNodeIntents env st =
     (case QueryNodePolicies (me_client env) (me_fromHex env) \<lparr>qnp_IDs = [], qnp_CreatorIDs = []\<rparr> (ms_store st) of
        Inl e \<Rightarrow> (Some (RepoError e), st)
      | Inr policies \<Rightarrow> (None, fold (refreshNodePolicy env) policies st))"

text \<open>The client's calls on the manager's state.\<close>

definition askNodeRoot :: "DecisionMakerPod \<Rightarrow> 'w mgr_state \<Rightarrow> (client_error + string) \<times> 'w mgr_state" where
  "askNodeRoot dm st = (let (r, net) = GetNodePolicyMerkleRoot dm (ms_net st) in (r, st\<lparr>ms_net := net\<rparr>))"

definition pushNodePolicies ::
  "DecisionMakerPod \<Rightarrow> NodeSchedulingIntent list \<Rightarrow> 'w mgr_state \<Rightarrow> client_error option \<times> 'w mgr_state" where
  "pushNodePolicies dm intents st =
     (let (r, net) = SendNodeSchedulingPolicies dm intents (ms_net st) in (r, st\<lparr>ms_net := net\<rparr>))"

definition clearNodePolicies :: "DecisionMakerPod \<Rightarrow> 'w mgr_state \<Rightarrow> client_error option \<times> 'w mgr_state" where
  "clearNodePolicies dm st =
     (let (r, net) = DeleteNodeSchedulingIntents dm ([], True) (ms_net st) in (r, st\<lparr>ms_net := net\<rparr>))"

definition markNodeSent :: "'w mgr_env \<Rightarrow> NodeSchedulingIntent list \<Rightarrow> 'w mgr_state \<Rightarrow> 'w mgr_state" where
  "markNodeSent env intents st =
     st\<lparr>ms_store := snd (BatchUpdateNodeIntentsState (me_client env) (me_now env) (map be_ID intents)
       IntentStateSent (ms_store st))\<rparr>"

definition expectedNodeRoot :: "(string \<Rightarrow> string) \<Rightarrow> NodeSchedulingIntent list \<Rightarrow> string \<Rightarrow> string" where
  "expectedNodeRoot sha intents nodeID =
     (case buildExpectedNodeIntentRootsByNode sha (map Some intents) nodeID of
        Some r \<Rightarrow> if r = [] then Hash (BuildMerkleTree sha []) else r
      | None \<Rightarrow> Hash (BuildMerkleTree sha []))"

definition resyncNodeDM ::
  "'w mgr_env \<Rightarrow> NodeSchedulingIntent list \<Rightarrow> DecisionMakerPod \<Rightarrow> 'w mgr_state \<Rightarrow> 'w mgr_state" where
  "resyncNodeDM env intents dm st =
     (if dmp_State dm \<noteq> NodeStateOnline then st
      else syncTarget askNodeRoot pushNodePolicies clearNodePolicies (markNodeSent env)
             (expectedNodeRoot (me_sha env) intents (dmp_NodeID dm))
             (filter (\<lambda>i. nsi_NodeID i = dmp_NodeID dm) intents) dm st)"

definition resyncNodeIntentsToDMs :: "'w mgr_env \<Rightarrow> 'w mgr_state \<Rightarrow> svc_error option \<times> 'w mgr_state" where
  "resyncNodeIntentsToDMs env st =
     (case QueryNodeIntents (me_client env) (me_fromHex env) allNodeIntents (ms_store st) of
        Inl e \<Rightarrow> (Some (RepoError e), st)
      | Inr intents \<Rightarrow>
          if intents = [] then (None, st)
          else (case me_dms env [] of
                  Inl e \<Rightarrow> (Some (K8sError e), st)
                | Inr dms \<Rightarrow>
                    if dms = [] then (None, st) else (None, fold (resyncNodeDM env intents) dms st)))"


section \<open>Which nodes a policy applies to\<close>

definition nodeMapInv :: "(string \<times> Node) list \<Rightarrow> bool" where
  "nodeMapInv m \<longleftrightarrow> distinct (map fst m) \<and> (\<forall>name node. map_of m name = Some node \<longrightarrow> node_Name node = name)"

lemma nodeMapInv_Nil [simp]: "nodeMapInv []"
  by (simp add: nodeMapInv_def)

lemma nodesByName_inv:
  "nodeMapInv m \<Longrightarrow> nodeMapInv (fold (\<lambda>node. AList.update (node_Name node) node) nodes m) \<and>
     set (map fst (fold (\<lambda>node. AList.update (node_Name node) node) nodes m)) = node_Name ` set nodes \<union> set (map fst m)"
proof (induction nodes arbitrary: m)
  case (Cons node nodes)
  have "nodeMapInv (AList.update (node_Name node) node m)"
    using Cons.prems by (auto simp: nodeMapInv_def distinct_update update_conv')
  from Cons.IH [OF this] show ?case by (auto simp: update_conv' simp flip: dom_map_of_conv_image_fst split: if_splits)
qed simp

lemma map_of_filter_fst: "map_of (filter (\<lambda>(k, v). P k) m) k = (if P k then map_of m k else None)"
  by (induction m) auto

lemma intersectNodes_inv:
  assumes "nodeMapInv candidates"
  shows "nodeMapInv (intersectNodes candidates nodes hv) \<and>
    set (map fst (intersectNodes candidates nodes hv)) =
      node_Name ` set nodes \<inter> (if hv then set (map fst candidates) else UNIV)"
proof (cases hv)
  case False
  then show ?thesis using nodesByName_inv [OF nodeMapInv_Nil, of nodes] by (simp add: intersectNodes_def nodesByName_def)
next
  case True
  have "map_of (nodesByName nodes) name \<noteq> None \<longleftrightarrow> name \<in> node_Name ` set nodes" for name
    using nodesByName_inv [OF nodeMapInv_Nil, of nodes] by (simp add: nodesByName_def map_of_eq_None_iff)
  then have "intersectNodes candidates nodes hv = filter (\<lambda>(name, node). name \<in> node_Name ` set nodes) candidates"
    using True by (simp add: intersectNodes_def)
  moreover have "distinct (map fst (filter Q candidates))" for Q
    using assms by (simp add: nodeMapInv_def distinct_map_filter)
  moreover have "fst ` {x \<in> A. case x of (name, node) \<Rightarrow> name \<in> B} = fst ` A \<inter> B" for A :: "(string \<times> Node) set" and B
    by force
  ultimately show ?thesis using assms True by (auto simp: nodeMapInv_def map_of_filter_fst)
qed

text \<open>The names that pass a kind of selector; a kind that is not used passes all.\<close>

definition passing :: "bool \<Rightarrow> Node list \<Rightarrow> string set" where
  "passing used nodes = (if used then node_Name ` set nodes else UNIV)"

lemma resolveNodes_exact:
  assumes range: "\<forall>xs. mset (me_range env xs) = mset xs"
    and used: "nsp_NodeSelectors p \<noteq> [] \<or> nsp_NodeNames p \<noteq> [] \<or> nsp_DRASelectors p \<noteq> []"
    and sel: "me_nodes env (nsp_NodeSelectors p) (nsp_NodeNames p) = Inr ns"
    and dra: "me_nodesDRA env (nsp_DRASelectors p) = Inr ds"
  shows "\<exists>rs. resolveNodesForPolicy env p = Inr rs \<and> distinct (map node_Name rs) \<and>
    node_Name ` set rs = passing (nsp_NodeSelectors p \<noteq> [] \<or> nsp_NodeNames p \<noteq> []) ns \<inter> passing (nsp_DRASelectors p \<noteq> []) ds"
proof -
  let ?S = "nsp_NodeSelectors p \<noteq> [] \<or> nsp_NodeNames p \<noteq> []" and ?D = "nsp_DRASelectors p \<noteq> []"
  let ?c1 = "if ?S then intersectNodes [] ns False else []"
  let ?c2 = "if ?D then intersectNodes ?c1 ds ?S else ?c1"
  have c1: "nodeMapInv ?c1" "?S \<Longrightarrow> set (map fst ?c1) = node_Name ` set ns"
    using intersectNodes_inv [OF nodeMapInv_Nil, of ns False] by simp_all
  have c2: "nodeMapInv ?c2" "set (map fst ?c2) = passing ?S ns \<inter> passing ?D ds"
    using intersectNodes_inv [OF c1(1), of ds ?S] c1 used by (auto simp: passing_def)
  let ?rs = "map (\<lambda>name. the (map_of ?c2 name)) (me_range env (map fst ?c2))"
  have r: "resolveNodesForPolicy env p = Inr ?rs"
    using used sel dra by (auto simp: resolveNodesForPolicy_def Let_def)
  have m: "set (me_range env (map fst ?c2)) = set (map fst ?c2)" "distinct (me_range env (map fst ?c2))"
    using range c2(1) mset_eq_setD mset_eq_imp_distinct_iff unfolding nodeMapInv_def by blast+
  have "node_Name (the (map_of ?c2 name)) = name" if "name \<in> set (map fst ?c2)" for name
  proof -
    from that obtain node where "map_of ?c2 name = Some node" by (metis map_of_eq_None_iff not_None_eq set_map)
    with c2(1) show ?thesis by (simp add: nodeMapInv_def)
  qed
  then have "map node_Name ?rs = me_range env (map fst ?c2)"
    using m(1) by (auto intro!: map_idI simp del: set_map)
  then have "distinct (map node_Name ?rs)" "node_Name ` set ?rs = set (map fst ?c2)" using m by (simp_all flip: set_map)
  with r c2(2) show ?thesis by blast
qed

section \<open>Deleting node intents\<close>

definition nodeIntentStore ::
  "(string \<Rightarrow> oid option) \<Rightarrow> 'w cr_view \<Rightarrow> 'w \<Rightarrow> (oid \<rightharpoonup> NodeSchedulingIntent) \<Rightarrow> bool" where
  "nodeIntentStore fromHex view w db \<longleftrightarrow> collStore NodeIntentCR nodeIntentContent (validNodeIntent fromHex) view w db"

lemma parseIDs_ok: "map fromHex ids = map Some objIDs \<Longrightarrow> parseIDs fromHex ids = Inr objIDs"
  by (induction ids arbitrary: objIDs) auto

lemma notifyNode_store [simp]: "ms_store (notifyDMsDeleteNodeIntents env ins st) = ms_store st"
  by (auto simp: notifyDMsDeleteNodeIntents_def intro!: fold_keeps split: sum.split)

lemma DeleteNodeIntentsSvc_ok:
  assumes laws: "cr_laws (me_client env) view" and store: "nodeIntentStore (me_fromHex env) view (ms_store st) db"
    and hex: "me_fromHex env uid = Some op" "map (me_fromHex env) ids = map Some objIDs" "ids \<noteq> []"
    and ok: "DeleteNodeSchedulingIntentsSvc env uid ids st = (None, st')"
  shows "(\<exists>n \<in> set objIDs. \<exists>i. db n = Some i \<and> be_CreatorID i = op) \<and>
    nodeIntentStore (me_fromHex env) view (ms_store st') (\<lambda>n. if n \<in> set objIDs then None else db n)"
proof -
  have p: "parseIDs (me_fromHex env) ids = Inr objIDs" using hex(2) by (rule parseIDs_ok)
  from ok hex(1,3) p obtain result w where
    q: "QueryNodeIntents (me_client env) (me_fromHex env) (allNodeIntents\<lparr>qni_IDs := objIDs, qni_CreatorIDs := [op]\<rparr>) (ms_store st) = Inr result"
    and ne: "result \<noteq> []"
    and d: "DeleteNodeIntents (me_client env) objIDs (ms_store st) = (None, w)" "st' = notifyDMsDeleteNodeIntents env result (st\<lparr>ms_store := w\<rparr>)"
    by (auto simp: DeleteNodeSchedulingIntentsSvc_def split: sum.splits if_splits prod.splits option.splits)
  have "objIDs \<noteq> []" using hex(2,3) by auto
  then have "result = filter (\<lambda>i. matchesNodeIntentFilter i (allNodeIntents\<lparr>qni_IDs := objIDs, qni_CreatorIDs := [op]\<rparr>)) (List.map_filter db objIDs)"
    using nodeIntents.query_ids_exact [OF laws store [unfolded nodeIntentStore_def] q [unfolded QueryNodeIntents_def]] by simp
  with ne obtain i where "i \<in> set (List.map_filter db objIDs)"
    "matchesNodeIntentFilter i (allNodeIntents\<lparr>qni_IDs := objIDs, qni_CreatorIDs := [op]\<rparr>)"
    by (metis filter_False)
  moreover from this obtain n where "n \<in> set objIDs" "db n = Some i" by (auto simp: List.map_filter_def)
  ultimately have "\<exists>n \<in> set objIDs. \<exists>i. db n = Some i \<and> be_CreatorID i = op"
    by (intro bexI [of _ n] exI [of _ i]) (simp_all add: matchesNodeIntentFilter_def)
  moreover have "nodeIntentStore (me_fromHex env) view (ms_store st') (\<lambda>n. if n \<in> set objIDs then None else db n)"
    using deleteNamed_store [OF laws store [unfolded nodeIntentStore_def] d(1) [unfolded DeleteNodeIntents_def]]
    by (simp add: d(2) nodeIntentStore_def)
  ultimately show ?thesis by blast
qed

end
