(* ===== verification/Examples.thy ===== *)
theory Examples
  imports Mgr_NodePolicy
begin

text \<open>
  A small concrete installation on which hypotheses of properties are discharged: one
  strategy with one intent in the in-memory server, one pod that has no intent yet, and one
  decision maker that answers.
\<close>

definition exHex :: "string \<Rightarrow> oid option" where
  "exHex s = (if s = [] then None else Some s)"

definition exSha :: "string \<Rightarrow> string" where
  "exSha s = [if s = [] then CHR ''0'' else CHR ''1'']"

definition exStrategy :: ScheduleStrategy where
  "exStrategy = \<lparr>be_ID = ''s1'', be_CreatedTime = 1, be_UpdatedTime = 1, be_DeletedTime = 0,
     be_CreatorID = ''u1'', be_UpdaterID = ''u1'', st_StrategyNamespace = ''d'', st_LabelSelectors = [(''app'', ''web'')],
     st_K8sNamespace = [''d''], st_CommandRegex = ''nginx'', st_Priority = 3, st_ExecutionTime = 20\<rparr>"

definition exIntent :: ScheduleIntent where
  "exIntent = \<lparr>be_ID = ''i1'', be_CreatedTime = 1, be_UpdatedTime = 1, be_DeletedTime = 0,
     be_CreatorID = ''u1'', be_UpdaterID = ''u1'', si_StrategyID = ''s1'', si_PodID = ''p1'', si_PodName = ''web-1'',
     si_NodeID = ''n1'', si_K8sNamespace = ''d'', si_CommandRegex = ''nginx'', si_Priority = 3, si_ExecutionTime = 20,
     si_PodLabels = [(''app'', ''web'')], si_State = 1\<rparr>"

definition exPod :: Pod where
  "exPod = \<lparr>pod_Name = ''web-2'', pod_K8SNamespace = ''d'', pod_Labels = [(''app'', ''web'')],
     pod_PodID = ''p2'', pod_NodeID = ''n1''\<rparr>"

definition exDM :: DecisionMakerPod where
  "exDM = \<lparr>dmp_NodeID = ''n1'', dmp_Port = 8080, dmp_Host = ''h1'', dmp_State = NodeStateOnline\<rparr>"

definition exFs :: file_system where
  "exFs = \<lparr>readDir = (\<lambda>_. Inr []), readFile = (\<lambda>_. Inr [])\<rparr>"

definition exNet :: dm_net where
  "exNet = \<lparr>net_env = \<lparr>env_sha = exSha, env_compile = (\<lambda>p. Some (\<lambda>s. True))\<rparr>, net_fs = (\<lambda>_. exFs),
     net_tokenOk = (\<lambda>_. True), net_delivery = (\<lambda>_ _. Delivered), net_service = (\<lambda>_. newService ''n1'')\<rparr>"

definition exStore :: mem where
  "exStore k = (case k of
       StrategyCR \<Rightarrow> [domainStrategyToUnstructured ''d'' exStrategy]
     | IntentCR \<Rightarrow> [domainIntentToUnstructured ''d'' exIntent]
     | _ \<Rightarrow> [])"

definition exEnv :: "mem mgr_env" where
  "exEnv = \<lparr>me_client = mem_client, me_fromHex = exHex, me_namespace = ''d'', me_sha = exSha, me_now = 7,
     me_fresh = (\<lambda>n. CHR ''f'' # Utoa n), me_range = id, me_pods = (\<lambda>_ _. Inr [exPod]),
     me_dms = (\<lambda>_. Inr [exDM]), me_nodes = (\<lambda>_ _. Inr []), me_nodesDRA = (\<lambda>_. Inr [])\<rparr>"

definition exState :: "mem mgr_state" where
  "exState = \<lparr>ms_store = exStore, ms_net = exNet, ms_next = 0\<rparr>"

lemma exEnv_simps [simp]:
  "me_client exEnv = mem_client" "me_fromHex exEnv = exHex" "me_namespace exEnv = ''d''" "me_sha exEnv = exSha"
  "me_now exEnv = 7" "me_fresh exEnv n = CHR ''f'' # Utoa n" "me_range exEnv xs = xs" "me_pods exEnv a b = Inr [exPod]"
  "me_dms exEnv ns = Inr [exDM]"
  by (simp_all add: exEnv_def)

lemma exState_simps [simp]: "ms_store exState = exStore" "ms_net exState = exNet" "ms_next exState = 0"
  by (simp_all add: exState_def)

lemma exHex_valid [simp]: "validOID exHex i \<longleftrightarrow> i \<noteq> []"
  by (simp add: validOID_def exHex_def)

lemma exSha_simps [simp]: "exSha x \<noteq> []" "length (exSha x) = Suc 0"
  by (simp_all add: exSha_def)

lemma exIntent_valid: "validIntent exHex exIntent"
  by (simp add: validIntent_def exIntent_def)

lemma exStrategy_valid: "validStrategy exHex exStrategy"
  by (simp add: validStrategy_def exStrategy_def)

lemma exStore_intents: "intentStore exHex mem_view exStore [''i1'' \<mapsto> exIntent]"
  by (auto simp: intentStore_def collStore_def mem_view_def exStore_def exIntent_valid intents.content_toObj
      intro!: ext) (simp_all add: exIntent_def)

lemma exQuery_all: "QueryIntents mem_client exHex allIntents exStore = Inr [exIntent]"
  using intents.roundtrip [OF exIntent_valid, of "''d''"]
  by (simp add: QueryIntents_def queryObjects_def mem_client_def exStore_def allIntents_def intentSelector_def
      buildLabelSelector_def buildStateLabelSelector_def matchesIntentFilter_def)

lemma ex_answers: "answers exDM exNet"
  by (simp add: answers_def exNet_def GetAllPodInfos_def FindPodInfoFrom_def exFs_def)

lemma GetLabels_intent: "GetLabels (domainIntentToUnstructured ns i) =
    [(labelCreatorID, be_CreatorID i), (labelStrategyID, si_StrategyID i), (labelState, Itoa (si_State i))]"
  using labels_intent [of i] intents.content_toObj [of ns i] by (simp add: content_def prod_eq_iff)

lemma ex_IDs [simp]: "be_ID exStrategy = ''s1''" "si_StrategyID exIntent = ''s1''" "be_ID exIntent = ''i1''"
  by (simp_all add: exStrategy_def exIntent_def)

lemma exQuery_strategy: "QueryIntents mem_client exHex (intentsOf ''s1'') exStore = Inr [exIntent]"
  using intents.roundtrip [OF exIntent_valid, of "''d''"]
  by (simp add: QueryIntents_def queryObjects_def mem_client_def exStore_def allIntents_def intentsOf_def intentSelector_def
      buildLabelSelector_def buildStateLabelSelector_def matchesIntentFilter_def GetLabels_intent)

text \<open>The state after one reconciliation.\<close>

definition exSynced :: "mem mgr_state" where
  "exSynced = exState\<lparr>ms_net := exNet\<lparr>net_service := (\<lambda>_. (newService ''n1'')
     \<lparr>svc_intentCache := [Some (wireIntent exIntent)],
      svc_intentMerkleRoot := Some (leafNode (hashScheduleIntent exSha exIntent)),
      svc_intentMerkleRootHash := hashScheduleIntent exSha exIntent\<rparr>)\<rparr>\<rparr>"

lemma exSynced_simps [simp]: "ms_store exSynced = exStore" "env_sha (net_env (ms_net exSynced)) = exSha"
  by (simp_all add: exSynced_def exNet_def)

lemma exSynced_reported: "dmReported exDM exSynced = buildScheduleIntentMerkleRoot exSha [Some exIntent]"
  by (simp add: dmReported_def reportedRoot_def exSynced_def exNet_def buildScheduleIntentMerkleRoot_def
      Hash_BuildMerkleTree sortScheduleIntentsByKey_def normalizeScheduleIntents_def)


text \<open>A process file system with one pod process, \<open>nginx\<close> with PID 10.\<close>

definition exUID :: string where
  "exUID = ''0123abcd-0000-0000-0000-0123456789ab''"

definition exLine :: string where
  "exLine = ''0::/kubepods/pod'' @ exUID @ ''/cri-containerd-ab.scope''"

definition exProcFs :: file_system where
  "exProcFs =
     \<lparr>readDir = (\<lambda>d. if d = ''/proc'' \<or> d = ''/proc/10/task'' then Inr [(''10'', True), (''stat'', False)] else Inl ENOENT),
      readFile = (\<lambda>f. if f = ''/proc/10/cgroup'' then Inr exLine
        else if f = ''//proc/10/comm'' \<or> f = ''/proc/10/task/10/comm'' then Inr ''nginx'' else Inl ENOENT)\<rparr>"

definition exPods :: "string \<rightharpoonup> PodInfo" where
  "exPods = (case GetAllPodInfos exProcFs of Inr m \<Rightarrow> m | Inl _ \<Rightarrow> Map.empty)"

lemma exPods_scan: "GetAllPodInfos exProcFs = Inr exPods"
  by (simp add: exPods_def GetAllPodInfos_def FindPodInfoFrom_def exProcFs_def)

definition exPolicy :: NodePolicy where
  "exPolicy = \<lparr>np_PolicyID = ''q1'', np_NodeID = ''n1'', np_CommandRegex = ''nginx'', np_Priority = 2, np_ExecutionTime = 9\<rparr>"

definition exCompile :: "string \<Rightarrow> (string \<Rightarrow> bool) option" where
  "exCompile p = Some (\<lambda>s. s = p)"

definition exService :: Service where
  "exService = ProcessNodePolicies exSha [Some exPolicy] (snd (ProcessIntents exSha exCompile exProcFs
     [Some ((wireIntent exIntent)\<lparr>int_PodID := exUID\<rparr>), None] (newService ''n1'')))"

lemma exService_reach: "dmReach exSha exCompile ''n1'' exService"
  unfolding exService_def by (intro dmReach.intros)

definition exTasks :: "TaskInfo list" where
  "exTasks = [\<lparr>ti_TGID = 10, ti_TID = 10, ti_Comm = ''nginx''\<rparr>]"


lemma exLine_scan:
  "ScanLines exLine = [exLine]" "Contains exLine ''kubepods''"
  "Split exLine (CHR '':'') = [''0'', [], ''/kubepods/pod'' @ exUID @ ''/cri-containerd-ab.scope'']"
  by (simp_all add: exLine_def exUID_def ScanLines_def dropCR_def Contains_def sublist_Cons_right)

lemma exLine_pod: "getPodInfoFromCgroup (''/kubepods/pod'' @ exUID @ ''/cri-containerd-ab.scope'') = Some (exUID, ''ab'')"
  by (simp add: exUID_def getPodInfoFromCgroup_def cgroupPart_def podRegexAt_def uuidShape.simps isHexDigit_def
      unhex_digit_def HasPrefix_def HasSuffix_def ReplaceByte_def TrimSuffix_def TrimPrefix_def suffix_def)

lemma ex_digits: "Atoi ''10'' = Some 10" "Itoa 10 = ''10''" "TrimSpace ''nginx'' = ''nginx''"
  by code_simp+

lemma exProcess: "getProcessInfo exProcFs ''/proc'' 10 = \<lparr>pp_PID = 10, pp_Command = ''nginx'', pp_PPID = 0, pp_ContainerID = []\<rparr>"
  by (simp add: getProcessInfo_def exProcFs_def ex_digits)

lemma exPods_pod: "exPods exUID = Some \<lparr>pi_PodUID = exUID, pi_PodID = [],
    pi_Processes = [\<lparr>pp_PID = 10, pp_Command = ''nginx'', pp_PPID = 0, pp_ContainerID = ''ab''\<rparr>]\<rparr>"
proof -
  have f: "readDir exProcFs ''/proc'' = Inr [(''10'', True), (''stat'', False)]"
    "readFile exProcFs ''/proc/10/cgroup'' = Inr exLine"
    by (simp_all add: exProcFs_def)
  have p: "parseCgroupToPodInfo exProcFs ''/proc'' exLine 10 Map.empty = Some [exUID \<mapsto> \<lparr>pi_PodUID = exUID, pi_PodID = [],
      pi_Processes = [\<lparr>pp_PID = 10, pp_Command = ''nginx'', pp_PPID = 0, pp_ContainerID = ''ab''\<rparr>]\<rparr>]"
    unfolding parseCgroupToPodInfo_def exLine_scan Let_def exProcess using exLine_pod by simp
  show ?thesis by (simp add: exPods_def GetAllPodInfos_def FindPodInfoFrom_def ex_digits exLine_scan(1,2) f p)
qed

lemma exService_caches:
  "svc_intentCache exService = [Some ((wireIntent exIntent)\<lparr>int_PodID := exUID\<rparr>)]"
  "svc_nodePolicyCache exService = [Some exPolicy]"
proof -
  obtain svc where svc: "ProcessIntents exSha exCompile exProcFs [Some ((wireIntent exIntent)\<lparr>int_PodID := exUID\<rparr>), None] (newService ''n1'') = (None, svc)"
    using ProcessIntents_total [OF exPods_scan] by blast
  show "svc_intentCache exService = [Some ((wireIntent exIntent)\<lparr>int_PodID := exUID\<rparr>)]"
    using ProcessIntents_ok [OF svc] by (simp add: exService_def svc ProcessNodePolicies_def Let_def)
  show "svc_nodePolicyCache exService = [Some exPolicy]"
    by (simp add: exService_def ProcessNodePolicies_def Let_def normalizeNodePolicyInputs_def)
qed

lemma exService_list: "fst (ListAllSchedulingIntents exCompile exProcFs (Some (Inr exTasks)) exService) =
   Inr [schedulingIntentFor (wireIntent exIntent) \<lparr>pp_PID = 10, pp_Command = ''nginx'', pp_PPID = 0, pp_ContainerID = ''ab''\<rparr>,
        nodeIntentFor exPolicy 10]"
proof -
  have n: "resolveNodeSchedulingIntents exCompile (Some (Inr exTasks)) exService = Inr [nodeIntentFor exPolicy 10]"
    by (simp add: resolveNodeSchedulingIntents_def exService_caches nodeIntentsByTID_def normalizeNodePolicyInputs_def
        sortNodePoliciesByKey_def applyNodePolicy_def nodePolicyTasks_def exCompile_def exTasks_def exPolicy_def pauseCommand_def)
  have p: "resolvedIntents exCompile exPods [(wireIntent exIntent)\<lparr>int_PodID := exUID\<rparr>] =
      [schedulingIntentFor (wireIntent exIntent) \<lparr>pp_PID = 10, pp_Command = ''nginx'', pp_PPID = 0, pp_ContainerID = ''ab''\<rparr>]"
    by (simp add: resolvedIntents_def intentProcesses_def exCompile_def exPods_pod pauseCommand_def schedulingIntentFor_def)
      (simp add: wireIntent_def exIntent_def)
  show ?thesis using ListAll_ok [OF _ exPods_scan, of exService exCompile "Some (Inr exTasks)"]
    by (simp add: exService_caches n p)
qed

lemma exSnapshot: "Snapshot exProcFs (\<lambda>_. False) ''/proc'' = Inr exTasks"
  by (simp add: Snapshot_def exProcFs_def exTasks_def taskDirOf_def commPathOf_def ex_digits sortTasksByTID_def)

definition exNodeIntent :: NodeSchedulingIntent where
  "exNodeIntent = \<lparr>be_ID = ''j1'', be_CreatedTime = 1, be_UpdatedTime = 1, be_DeletedTime = 0,
     be_CreatorID = ''u1'', be_UpdaterID = ''u1'', nsi_PolicyID = ''q1'', nsi_NodeID = ''n1'', nsi_CommandRegex = ''nginx'',
     nsi_Priority = 2, nsi_ExecutionTime = 9, nsi_State = 1\<rparr>"

definition exNodePolicy :: NodeSchedulingPolicy where
  "exNodePolicy = \<lparr>be_ID = ''q1'', be_CreatedTime = 1, be_UpdatedTime = 1, be_DeletedTime = 0,
     be_CreatorID = ''u1'', be_UpdaterID = ''u1'', nsp_NodeSelectors = [(''zone'', ''a'')], nsp_NodeNames = [''n1''],
     nsp_DRASelectors = [\<lparr>dra_DeviceClass = ''gpu'', dra_Attributes = [(''model'', ''x'')]\<rparr>],
     nsp_CommandRegex = ''nginx'', nsp_Priority = 2, nsp_ExecutionTime = 9\<rparr>"

lemma ex_ser: "serializeScheduleIntent exIntent \<noteq> serializeScheduleIntent (exIntent\<lparr>si_Priority := 4\<rparr>)"
  by (simp add: serializeScheduleIntent_def exIntent_def Itoa_def Utoa.simps digit_def)


section \<open>Runs of the strategy service\<close>

definition exNewStrategy :: ScheduleStrategy where
  "exNewStrategy = withBase (NewBaseEntity 7 ''u1'' ''u1'') exStrategy"

definition exNewIntent :: ScheduleIntent where
  "exNewIntent = (stampIntent 7 (CHR ''f'' # Utoa 1) (NewScheduleIntent 7 exNewStrategy exPod))\<lparr>si_StrategyID := CHR ''f'' # Utoa 0\<rparr>"

lemma exInsert: "InsertStrategyAndIntents mem_client exHex ''d'' 7 (freshFrom exEnv exState) (Some exNewStrategy)
     (Some [NewScheduleIntent 7 exNewStrategy exPod]) exStore =
   (Inr (stampOwner 7 (CHR ''f'' # Utoa 0) exNewStrategy, [exNewIntent]),
    exStore(StrategyCR := exStore StrategyCR @ [domainStrategyToUnstructured ''d'' (stampOwner 7 (CHR ''f'' # Utoa 0) exNewStrategy)],
            IntentCR := exStore IntentCR @ [domainIntentToUnstructured ''d'' exNewIntent]))"
  by (simp add: InsertStrategyAndIntents_def insertOwned_def mem_client_def exStore_def freshFrom_def Let_def exHex_def
      exNewStrategy_def exNewIntent_def)

lemma exSend: "\<exists>net'. SendSchedulingIntent exDM is exNet = (None, net')"
  using answers_push [of exDM exState "is"] ex_answers by (auto simp: pushIntents_def split: prod.splits)

lemma mem_update_ok:
  assumes "w IntentCR = xs @ [domainIntentToUnstructured ns i]" "list_all (\<lambda>obj. GetName obj \<noteq> be_ID i) xs"
  shows "\<exists>w'. BatchUpdateIntentsState mem_client now [be_ID i] st w = (None, w')"
proof -
  obtain spec where spec: "GetSpec (domainIntentToUnstructured ns i) = Some spec"
    by (simp add: domainIntentToUnstructured_def json_readers)
  have n: "GetName (withState now st spec (domainIntentToUnstructured ns i)) = be_ID i"
    using intents.restate_content [OF intents.content_toObj GetName_intent spec] by simp
  have "find (\<lambda>obj. GetName obj = be_ID i) xs = None" using assms(2) by (induction xs) auto
  with assms(1) spec n show ?thesis
    by (simp add: BatchUpdateIntentsState_def mem_client_def find_append)
qed

lemma exGroups: "hostGroups exEnv si_NodeID [exDM] [exNewIntent] = [(exDM, [exNewIntent])]"
  by (rule hostGroups_single) (simp_all add: exNewIntent_def stampIntent_def exPod_def exDM_def)

lemma exCreate: "\<exists>st'. CreateScheduleStrategy exEnv ''u1'' exStrategy exState = (None, st')"
proof -
  let ?w = "exStore(StrategyCR := exStore StrategyCR @ [domainStrategyToUnstructured ''d'' (stampOwner 7 (CHR ''f'' # Utoa 0) exNewStrategy)],
            IntentCR := exStore IntentCR @ [domainIntentToUnstructured ''d'' exNewIntent])"
  obtain net where net: "SendSchedulingIntent exDM [exNewIntent] exNet = (None, net)" using exSend by blast
  have "list_all (\<lambda>obj. GetName obj \<noteq> be_ID exNewIntent) (exStore IntentCR)"
    by (simp add: exStore_def exNewIntent_def)
  then obtain w where w: "BatchUpdateIntentsState mem_client 7 [be_ID exNewIntent] IntentStateSent ?w = (None, w)"
    using mem_update_ok [of ?w "exStore IntentCR" "''d''" exNewIntent 7 IntentStateSent] by auto
  have u: "exHex ''u1'' = Some ''u1''" by (simp add: exHex_def)
  show ?thesis
    by (simp add: CreateScheduleStrategy_def u exInsert exNewStrategy_def [symmetric] dispatchIntents_def exGroups net w Let_def)
qed

lemma exStore_strategies: "strategyStore exHex mem_view exStore [''s1'' \<mapsto> exStrategy]"
  by (auto simp: strategyStore_def collStore_def mem_view_def exStore_def exStrategy_valid strategies.content_toObj
      intro!: ext)

lemma exDelete: "\<exists>f. snd (DeleteSchedulingIntents exDM \<lparr>dreq_PodIDs = [p], dreq_All = False\<rparr> exNet) = exNet\<lparr>net_service := f\<rparr>"
proof -
  obtain r net' where e: "resultError (exchange exDM (CallDelete p) (\<lambda>fs svc. unitReply (DeleteIntent (net_env exNet)
               (Some \<lparr>dir_PodID = p, dir_PID = None, dir_All = False\<rparr>) svc)) exNet) = (r, net')" by (metis surj_pair)
  from resultError_frame [OF e] obtain svc' where "net' = exNet\<lparr>net_service := (net_service exNet)(addrOf exDM := svc')\<rparr>" by blast
  with e show ?thesis by (auto simp: DeleteSchedulingIntents_def split: option.splits intro: exI [of _ "net_service exNet"])
qed

definition exUpdIntent :: ScheduleIntent where
  "exUpdIntent = stampIntent 7 (CHR ''f'' # Utoa 0) (NewScheduleIntent 7 (updatedStrategy 7 ''s1'' ''u1'' exStrategy exStrategy) exPod)"

lemma exOwned: "QueryStrategies mem_client exHex (ownedStrategy ''s1'' ''u1'') exStore = Inr [exStrategy]"
  using strategies.roundtrip [OF exStrategy_valid, of "''d''"]
  by (simp add: QueryStrategies_def queryObjects_def mem_client_def exStore_def ownedStrategy_def matchesStrategyFilter_def)
    (simp add: exStrategy_def)

lemma exUpdate: "\<exists>st'. UpdateScheduleStrategy exEnv ''u1'' ''s1'' exStrategy exState = (None, st')"
proof -
  let ?s = "updatedStrategy 7 ''s1'' ''u1'' exStrategy exStrategy"
  let ?w1 = "exStore(StrategyCR := [domainStrategyToUnstructured ''d'' ?s])"
  let ?w3 = "?w1(IntentCR := [domainIntentToUnstructured ''d'' exUpdIntent])"
  have u: "UpdateStrategy mem_client ''d'' (Some ?s) exStore = (None, ?w1)"
    by (simp add: UpdateStrategy_def replaceObject_def mem_client_def exStore_def) (simp add: updatedStrategy_def exStore_def)
  have d: "DeleteIntentsByStrategyID mem_client ''s1'' ?w1 = (None, ?w1(IntentCR := []))"
    by (simp add: DeleteIntentsByStrategyID_def deleteLabelled_def mem_client_def exStore_def GetLabels_intent deleteFailed_def)
  have i: "InsertIntents mem_client ''d'' 7 (freshFrom exEnv exState) [NewScheduleIntent 7 ?s exPod] (?w1(IntentCR := [])) = (Inr [exUpdIntent], ?w3)"
    by (simp add: InsertIntents_def mem_client_def Let_def exUpdIntent_def freshFrom_def)
  have n: "si_NodeID exIntent = ''n1''" "si_PodID exIntent = ''p1''" by (simp_all add: exIntent_def)
  obtain f where f: "notifyOld exEnv [exIntent] (exState\<lparr>ms_store := ?w3, ms_next := Suc 0\<rparr>) =
      exState\<lparr>ms_store := ?w3, ms_next := Suc 0, ms_net := exNet\<lparr>net_service := f\<rparr>\<rparr>"
    using exDelete [of "''p1''"] by (auto simp: notifyOld_def notifyAllDelete_def uniq_def n)
  have "answers exDM (exNet\<lparr>net_service := f\<rparr>)" using ex_answers by (simp add: answers_services)
  then obtain net where net: "SendSchedulingIntent exDM [exUpdIntent] (exNet\<lparr>net_service := f\<rparr>) = (None, net)"
    using answers_push [of exDM "exState\<lparr>ms_net := exNet\<lparr>net_service := f\<rparr>\<rparr>" "[exUpdIntent]"]
    by (auto simp: pushIntents_def split: prod.splits)
  obtain w where w: "BatchUpdateIntentsState mem_client 7 [be_ID exUpdIntent] IntentStateSent ?w3 = (None, w)"
    using mem_update_ok [of ?w3 "[]" "''d''" exUpdIntent 7 IntentStateSent] by auto
  have g: "hostGroups exEnv si_NodeID [exDM] [exUpdIntent] = [(exDM, [exUpdIntent])]"
    by (rule hostGroups_single) (simp_all add: exUpdIntent_def stampIntent_def exPod_def exDM_def)
  show ?thesis
    by (simp add: UpdateScheduleStrategy_def exHex_def [of "''s1''"] exHex_def [of "''u1''"] exOwned exQuery_strategy u d i
        f dispatchIntents_def g net w Let_def)
qed


section \<open>Node intents of two users\<close>

definition exNodeIntent2 :: NodeSchedulingIntent where
  "exNodeIntent2 = exNodeIntent\<lparr>be_ID := ''j2'', be_CreatorID := ''u2'', be_UpdaterID := ''u2'', nsi_PolicyID := ''q2''\<rparr>"

definition exNodeState :: "mem mgr_state" where
  "exNodeState = exState\<lparr>ms_store := (\<lambda>k. if k = NodeIntentCR
     then [domainNodeIntentToUnstructured ''d'' exNodeIntent, domainNodeIntentToUnstructured ''d'' exNodeIntent2] else [])\<rparr>"

definition exNode :: "string \<Rightarrow> Node" where
  "exNode name = \<lparr>node_Name = name, node_Labels = [], node_Status = []\<rparr>"

definition exNodeEnv :: "mem mgr_env" where
  "exNodeEnv = exEnv\<lparr>me_nodes := (\<lambda>_ _. Inr [exNode ''n1'', exNode ''n2'']), me_nodesDRA := (\<lambda>_. Inr [exNode ''n2''])\<rparr>"

lemma exNodeIntents_valid: "validNodeIntent exHex exNodeIntent" "validNodeIntent exHex exNodeIntent2"
  by (simp_all add: validNodeIntent_def exNodeIntent_def exNodeIntent2_def)

lemma exNode_IDs [simp]: "be_ID exNodeIntent = ''j1''" "be_ID exNodeIntent2 = ''j2''"
  "be_CreatorID exNodeIntent = ''u1''" "be_CreatorID exNodeIntent2 = ''u2''"
  by (simp_all add: exNodeIntent_def exNodeIntent2_def)

lemma exNodeState_intents:
  "nodeIntentStore exHex mem_view (ms_store exNodeState) [''j1'' \<mapsto> exNodeIntent, ''j2'' \<mapsto> exNodeIntent2]"
  by (auto simp: nodeIntentStore_def collStore_def mem_view_def exNodeState_def exNodeIntents_valid nodeIntents.content_toObj intro!: ext)

lemma exNodeState_delete: "\<exists>st'. DeleteNodeSchedulingIntentsSvc exEnv ''u1'' [''j1'', ''j2''] exNodeState = (None, st')"
proof -
  let ?opt = "allNodeIntents\<lparr>qni_IDs := [''j1'', ''j2''], qni_CreatorIDs := [''u1'']\<rparr>"
  have q: "QueryNodeIntents mem_client exHex ?opt (ms_store exNodeState) = Inr [exNodeIntent]"
    using nodeIntents.roundtrip [OF exNodeIntents_valid(1), of "''d''"] nodeIntents.roundtrip [OF exNodeIntents_valid(2), of "''d''"]
    by (simp add: QueryNodeIntents_def queryObjects_def mem_client_def exNodeState_def allNodeIntents_def matchesNodeIntentFilter_def)
  obtain w where d: "DeleteNodeIntents mem_client [''j1'', ''j2''] (ms_store exNodeState) = (None, w)"
    by (simp add: DeleteNodeIntents_def mem_client_def exNodeState_def deleteFailed_def)
  show ?thesis
    by (simp add: DeleteNodeSchedulingIntentsSvc_def q d exHex_def [of "''u1''"] exHex_def [of "''j1''"] exHex_def [of "''j2''"])
qed

end
