(* ===== verification/Password.thy ===== *)
theory Password
  imports Go_Strings
begin

text \<open>
  Password storage (\<open>src/api/pkg/util/encrypt.go\<close>, \<open>src/api/manager/domain/value.go\<close>): Argon2id
  hashes in their textual form, comparison of a password with a stored hash, and the BSON
  value of an encrypted password.

  The key derivation function \<open>argon2.IDKey\<close> and the version constant of its package are the
  fields of an argument; \<open>IDKey\<close> panics (\<^const>\<open>None\<close>) for zero rounds or zero threads.  The
  salt drawn by \<open>rand.Read\<close> is an argument too, \<^const>\<open>None\<close> being a read error.  Base64 and
  \<open>fmt.Sscanf\<close> are written out as far as they are used.
\<close>

section \<open>encoding/base64, RawStdEncoding\<close>

definition b64_char :: "nat \<Rightarrow> char" where
  "b64_char n =
     (if n < 26 then char_of (65 + n) else if n < 52 then char_of (71 + n)
      else if n < 62 then char_of (n - 4) else if n = 62 then CHR ''+'' else CHR ''/'')"

definition b64_val :: "char \<Rightarrow> nat option" where
  "b64_val c =
     (let n = of_char c in
      if 65 \<le> n \<and> n < 91 then Some (n - 65) else if 97 \<le> n \<and> n < 123 then Some (n - 71)
      else if 48 \<le> n \<and> n < 58 then Some (n + 4)
      else if n = 43 then Some 62 else if n = 47 then Some 63 else None)"

fun sextets :: "nat list \<Rightarrow> nat list" where
  "sextets [] = []"
| "sextets [a] = [a div 4, (a mod 4) * 16]"
| "sextets [a, b] = [a div 4, (a mod 4) * 16 + b div 16, (b mod 16) * 4]"
| "sextets (a # b # c # bs) =
     [a div 4, (a mod 4) * 16 + b div 16, (b mod 16) * 4 + c div 64, c mod 64] @ sextets bs"

text \<open>Padding is absent and the unused low bits of the last sextet are not checked.\<close>

fun octets :: "nat list \<Rightarrow> nat list option" where
  "octets [] = Some []"
| "octets [w] = None"
| "octets [w, x] = Some [w * 4 + x div 16]"
| "octets [w, x, y] = Some [w * 4 + x div 16, (x mod 16) * 16 + y div 4]"
| "octets (w # x # y # z # ss) =
     map_option (\<lambda>bs. [w * 4 + x div 16, (x mod 16) * 16 + y div 4, (y mod 4) * 64 + z] @ bs) (octets ss)"

definition EncodeToString :: "string \<Rightarrow> string" where
  "EncodeToString bs = map b64_char (sextets (map of_char bs))"

text \<open>Line ends are skipped, every other foreign byte is an error.\<close>

definition DecodeString :: "string \<Rightarrow> string option" where
  "DecodeString s =
     (case those (map b64_val (filter (\<lambda>c. c \<noteq> CHR 0x0A \<and> c \<noteq> CHR 0x0D) s)) of
        None \<Rightarrow> None
      | Some ss \<Rightarrow> map_option (map char_of) (octets ss))"


section \<open>fmt.Sscanf\<close>

text \<open>Literal bytes of the format, and the verb \<open>%d\<close> into signed and unsigned operands: white
  space other than a line end is skipped, then a maximal run of digits is read.\<close>

definition scanLit :: "string \<Rightarrow> string \<Rightarrow> string option" where
  "scanLit lit s = (if prefix lit s then Some (drop (length lit) s) else None)"

definition skipSpace :: "string \<Rightarrow> string option" where
  "skipSpace s =
     (let r = trim_with (filter (\<lambda>p. p \<noteq> [CHR 0x0A]) space_runes) s in
      if prefix [CHR 0x0A] r then None else Some r)"

definition isDigit :: "char \<Rightarrow> bool" where
  "isDigit c = (digit_val c \<noteq> None)"

definition scanUint :: "nat \<Rightarrow> string \<Rightarrow> (nat \<times> string) option" where
  "scanUint bits s =
     (case skipSpace s of
        None \<Rightarrow> None
      | Some r \<Rightarrow>
          (if takeWhile isDigit r = [] then None
           else case parse_digits 0 (takeWhile isDigit r) of
                  None \<Rightarrow> None
                | Some n \<Rightarrow> if n < 2 ^ bits then Some (n, dropWhile isDigit r) else None))"

definition scanInt :: "string \<Rightarrow> (int \<times> string) option" where
  "scanInt s =
     (case skipSpace s of
        None \<Rightarrow> None
      | Some r \<Rightarrow>
          (let neg = prefix ''-'' r;
               r1 = (if prefix ''-'' r \<or> prefix ''+'' r then tl r else r)
           in if takeWhile isDigit r1 = [] then None
              else case parse_digits 0 (takeWhile isDigit r1) of
                     None \<Rightarrow> None
                   | Some n \<Rightarrow>
                       (let v = (if neg then - int n else int n) in
                        if - (2 ^ 63) \<le> v \<and> v < 2 ^ 63 then Some (v, dropWhile isDigit r1) else None)))"


section \<open>util/encrypt.go\<close>

record Argon2idParams =
  ap_Memory :: "32 word"
  ap_Iterations :: "32 word"
  ap_Parallelism :: "8 word"
  ap_SaltLength :: "32 word"
  ap_KeyLength :: "32 word"

record argon2 =
  a2_Version :: int
  a2_IDKey :: "string \<Rightarrow> string \<Rightarrow> 32 word \<Rightarrow> 32 word \<Rightarrow> 8 word \<Rightarrow> 32 word \<Rightarrow> string option"

datatype hash_error = BadFormat | BadScan | BadVersion int | BadBase64 | RandFailed | Argon2Panic

definition defaultArgon2idParams :: Argon2idParams where
  "defaultArgon2idParams =
     \<lparr>ap_Memory = 16 * 1024, ap_Iterations = 3, ap_Parallelism = 2, ap_SaltLength = 16, ap_KeyLength = 32\<rparr>"

text \<open>The pattern \<open>^\$argon2(id|i|d)\$v=\d+\$m=\d+,t=\d+,p=\d+\$[A-Za-z0-9+/=]+\$[A-Za-z0-9+/=]+$\<close>;
  no part of it between two \<open>$\<close> matches a \<open>$\<close>, and no number matches a comma.\<close>

definition digitsAfter :: "string \<Rightarrow> string \<Rightarrow> bool" where
  "digitsAfter p s = (prefix p s \<and> drop (length p) s \<noteq> [] \<and> list_all isDigit (drop (length p) s))"

definition b64Text :: "string \<Rightarrow> bool" where
  "b64Text s = (s \<noteq> [] \<and> list_all (\<lambda>c. b64_val c \<noteq> None \<or> c = CHR ''='') s)"

definition IsArgon2Hash :: "string \<Rightarrow> bool" where
  "IsArgon2Hash s =
     (case Split s (CHR ''$'') of
        [e, alg, v, ps, salt, hash] \<Rightarrow>
          e = [] \<and> alg \<in> {''argon2id'', ''argon2i'', ''argon2d''} \<and> digitsAfter ''v='' v \<and>
          (case Split ps (CHR '','') of
             [m, t, p] \<Rightarrow> digitsAfter ''m='' m \<and> digitsAfter ''t='' t \<and> digitsAfter ''p='' p
           | _ \<Rightarrow> False) \<and>
          b64Text salt \<and> b64Text hash
      | _ \<Rightarrow> False)"

definition encodedHash :: "argon2 \<Rightarrow> Argon2idParams \<Rightarrow> string \<Rightarrow> string \<Rightarrow> string" where
  "encodedHash ag p salt hash =
     ''$argon2id$v='' @ Itoa (a2_Version ag) @
     ''$m='' @ Utoa (unat (ap_Memory p)) @ '',t='' @ Utoa (unat (ap_Iterations p)) @
     '',p='' @ Utoa (unat (ap_Parallelism p)) @
     ''$'' @ EncodeToString salt @ ''$'' @ EncodeToString hash"

definition CreateArgon2Hash ::
  "argon2 \<Rightarrow> Argon2idParams \<Rightarrow> string option \<Rightarrow> string \<Rightarrow> hash_error + string" where
  "CreateArgon2Hash ag p rnd password =
     (case rnd of
        None \<Rightarrow> Inl RandFailed
      | Some salt \<Rightarrow>
          (case a2_IDKey ag password salt (ap_Iterations p) (ap_Memory p) (ap_Parallelism p) (ap_KeyLength p) of
             None \<Rightarrow> Inl Argon2Panic
           | Some hash \<Rightarrow> Inr (encodedHash ag p salt hash)))"

text \<open>\<open>m=%d,t=%d,p=%d\<close>.\<close>

definition scanParams :: "string \<Rightarrow> (32 word \<times> 32 word \<times> 8 word) option" where
  "scanParams s =
     (case scanLit ''m='' s of None \<Rightarrow> None | Some s1 \<Rightarrow>
      case scanUint 32 s1 of None \<Rightarrow> None | Some (m, s2) \<Rightarrow>
      case scanLit '',t='' s2 of None \<Rightarrow> None | Some s3 \<Rightarrow>
      case scanUint 32 s3 of None \<Rightarrow> None | Some (t, s4) \<Rightarrow>
      case scanLit '',p='' s4 of None \<Rightarrow> None | Some s5 \<Rightarrow>
      case scanUint 8 s5 of None \<Rightarrow> None | Some (p, s6) \<Rightarrow>
        Some (word_of_nat m, word_of_nat t, word_of_nat p))"

definition scanVersion :: "string \<Rightarrow> int option" where
  "scanVersion s =
     (case scanLit ''v='' s of None \<Rightarrow> None | Some s1 \<Rightarrow> map_option fst (scanInt s1))"

definition decodeHash :: "argon2 \<Rightarrow> string \<Rightarrow> hash_error + Argon2idParams \<times> string \<times> string" where
  "decodeHash ag encoded =
     (let vals = Split encoded (CHR ''$'') in
      if length vals \<noteq> 6 then Inl BadFormat
      else case scanVersion (vals ! 2) of
        None \<Rightarrow> Inl BadScan
      | Some version \<Rightarrow>
          (if version \<noteq> a2_Version ag then Inl (BadVersion version)
           else case scanParams (vals ! 3) of
             None \<Rightarrow> Inl BadScan
           | Some (m, t, p) \<Rightarrow>
               (case DecodeString (vals ! 4) of
                  None \<Rightarrow> Inl BadBase64
                | Some salt \<Rightarrow>
                    (case DecodeString (vals ! 5) of
                       None \<Rightarrow> Inl BadBase64
                     | Some hash \<Rightarrow>
                         Inr (\<lparr>ap_Memory = m, ap_Iterations = t, ap_Parallelism = p,
                               ap_SaltLength = word_of_nat (length salt),
                               ap_KeyLength = word_of_nat (length hash)\<rparr>, salt, hash)))))"

definition ComparePasswordAndHash :: "argon2 \<Rightarrow> string \<Rightarrow> string \<Rightarrow> hash_error + bool" where
  "ComparePasswordAndHash ag password encoded =
     (case decodeHash ag encoded of
        Inl e \<Rightarrow> Inl e
      | Inr (p, salt, hash) \<Rightarrow>
          (case a2_IDKey ag password salt (ap_Iterations p) (ap_Memory p) (ap_Parallelism p) (ap_KeyLength p) of
             None \<Rightarrow> Inl Argon2Panic
           | Some otherHash \<Rightarrow> Inr (hash = otherHash)))"


section \<open>domain/value.go\<close>

definition MarshalPassword ::
  "argon2 \<Rightarrow> Argon2idParams \<Rightarrow> string option \<Rightarrow> string \<Rightarrow> hash_error + string" where
  "MarshalPassword ag p rnd value =
     (if IsArgon2Hash value then Inr value else CreateArgon2Hash ag p rnd value)"

definition Cmp :: "argon2 \<Rightarrow> string \<Rightarrow> string \<Rightarrow> hash_error + bool" where
  "Cmp ag value plainText =
     (case ComparePasswordAndHash ag plainText value of Inl e \<Rightarrow> Inl e | Inr ok \<Rightarrow> Inr ok)"


section \<open>Facts\<close>

lemma b64_val_char [simp]: "n < 64 \<Longrightarrow> b64_val (b64_char n) = Some n"
  by (auto simp: b64_val_def b64_char_def Let_def)

lemma sextets_less: "list_all (\<lambda>b. b < 256) bs \<Longrightarrow> list_all (\<lambda>s. s < 64) (sextets bs)"
  by (induction bs rule: sextets.induct) auto

lemma octets_sextets: "list_all (\<lambda>b. b < 256) bs \<Longrightarrow> octets (sextets bs) = Some bs"
proof (induction bs rule: sextets.induct)
  case (4 a b c bs)
  have "((a mod 4) * 16 + b div 16) div 16 = a mod 4" "((b mod 16) * 4 + c div 64) div 4 = b mod 16"
    "((a mod 4) * 16 + b div 16) mod 16 = b div 16" "((b mod 16) * 4 + c div 64) mod 4 = c div 64"
    using 4 by auto
  then show ?case using 4 by simp
qed auto

lemma those_map_Some: "(\<And>x. x \<in> set xs \<Longrightarrow> f x = Some (g x)) \<Longrightarrow> those (map f xs) = Some (map g xs)"
  by (induction xs) auto

lemma EncodeToString_chars: "c \<in> set (EncodeToString bs) \<Longrightarrow> b64_val c \<noteq> None"
proof -
  have "list_all (\<lambda>b. b < 256) (map of_char bs :: nat list)"
    by (simp add: list_all_iff)
  then have "list_all (\<lambda>s. s < 64) (sextets (map of_char bs))" by (rule sextets_less)
  then show "c \<in> set (EncodeToString bs) \<Longrightarrow> b64_val c \<noteq> None"
    by (auto simp: EncodeToString_def list_all_iff)
qed

lemma b64_val_special [simp]: "b64_val (CHR 0x0A) = None" "b64_val (CHR 0x0D) = None" "b64_val (CHR ''$'') = None"
  by (simp_all add: b64_val_def)

lemma DecodeString_EncodeToString [simp]: "DecodeString (EncodeToString bs) = Some bs"
proof -
  have small: "list_all (\<lambda>b. b < 256) (map of_char bs :: nat list)"
    by (simp add: list_all_iff)
  have "filter (\<lambda>c. c \<noteq> CHR 0x0A \<and> c \<noteq> CHR 0x0D) (EncodeToString bs) = EncodeToString bs"
    using EncodeToString_chars [of _ bs] by (intro filter_True) (metis b64_val_special(1,2))
  moreover have "those (map b64_val (EncodeToString bs)) = Some (sextets (map of_char bs))"
    using sextets_less [OF small] those_map_Some [of "sextets (map of_char bs)" "b64_val \<circ> b64_char" id]
    by (simp add: EncodeToString_def list_all_iff)
  ultimately show ?thesis
    by (simp add: DecodeString_def octets_sextets [OF small] comp_def)
qed

lemma sextets_Nil [simp]: "sextets bs = [] \<longleftrightarrow> bs = []"
  by (cases bs rule: sextets.cases) auto

lemma EncodeToString_Nil [simp]: "EncodeToString bs = [] \<longleftrightarrow> bs = []"
  by (simp add: EncodeToString_def)

lemma b64Text_EncodeToString: "bs \<noteq> [] \<Longrightarrow> b64Text (EncodeToString bs)"
  using EncodeToString_chars [of _ bs] by (auto simp: b64Text_def list_all_iff)

lemma Split_three:
  assumes "c \<notin> set x" "c \<notin> set y" "c \<notin> set z"
  shows "Split (x @ c # y @ c # z) c = [x, y, z]"
  using assms by (simp add: Split_append Split_plain)

lemma Split_six:
  assumes "c \<notin> set x" "c \<notin> set y" "c \<notin> set z" "c \<notin> set u" "c \<notin> set v" "c \<notin> set w"
  shows "Split (x @ c # y @ c # z @ c # u @ c # v @ c # w) c = [x, y, z, u, v, w]"
  using assms by (simp add: Split_append Split_plain)

lemma isDigit_Utoa: "list_all isDigit (Utoa n)"
  using Utoa_digits by (auto simp: list_all_iff isDigit_def)

lemma Utoa_notin: "\<not> isDigit c \<Longrightarrow> c \<notin> set (Utoa n)"
  using isDigit_Utoa [of n] by (auto simp: list_all_iff)

lemma isDigit_seps [simp]: "\<not> isDigit (CHR ''$'')" "\<not> isDigit (CHR '','')" "\<not> isDigit (CHR ''-'')" "\<not> isDigit (CHR ''+'')"
  by (simp_all add: isDigit_def digit_val_def)

lemma space_runes_heads: "list_all (\<lambda>p. p \<noteq> [] \<and> \<not> isDigit (hd p)) space_runes"
  by (simp add: space_runes_def isDigit_def digit_val_def)

lemma skipSpace_digit: "isDigit (hd s) \<Longrightarrow> s \<noteq> [] \<Longrightarrow> skipSpace s = Some s"
proof -
  assume s: "isDigit (hd s)" "s \<noteq> []"
  have "\<not> (p \<noteq> [] \<and> prefix p s)" if "p \<in> set space_runes" for p
    using space_runes_heads that s by (cases p; cases s) (auto simp: list_all_iff)
  then have "trim_with (filter (\<lambda>p. p \<noteq> [CHR 0x0A]) space_runes) s = s"
    by (intro trim_with_None) (auto simp: find_None_iff)
  moreover have "\<not> prefix [CHR 0x0A] s"
    using s by (cases s) (auto simp: isDigit_def digit_val_def)
  ultimately show ?thesis by (simp add: skipSpace_def)
qed

lemma Utoa_hd: "isDigit (hd (Utoa n))"
  using isDigit_Utoa [of n] by (cases "Utoa n") (auto simp: list_all_iff dest: arg_cong [of _ _ "\<lambda>x. x = []"])

lemma takeWhile_Utoa:
  assumes "\<not> isDigit c"
  shows "takeWhile isDigit (Utoa n @ c # s) = Utoa n" "dropWhile isDigit (Utoa n @ c # s) = c # s"
    "takeWhile isDigit (Utoa n) = Utoa n" "dropWhile isDigit (Utoa n) = []"
  using assms isDigit_Utoa [of n] by (auto simp: list_all_iff takeWhile_append dropWhile_append)

lemma scanUint_Utoa:
  assumes "n < 2 ^ bits"
  shows "scanUint bits (Utoa n) = Some (n, [])"
    and "\<not> isDigit c \<Longrightarrow> scanUint bits (Utoa n @ c # s) = Some (n, c # s)"
proof -
  show "scanUint bits (Utoa n) = Some (n, [])"
    using assms skipSpace_digit [OF Utoa_hd, of n] by (simp add: scanUint_def takeWhile_Utoa [of "CHR '',''"])
  assume c: "\<not> isDigit c"
  have "skipSpace (Utoa n @ c # s) = Some (Utoa n @ c # s)"
    using Utoa_hd [of n] by (intro skipSpace_digit) auto
  then show "scanUint bits (Utoa n @ c # s) = Some (n, c # s)"
    using assms by (simp add: scanUint_def takeWhile_Utoa [OF c])
qed

lemma scanInt_Utoa: "n < 2 ^ 63 \<Longrightarrow> scanInt (Utoa n) = Some (int n, [])"
proof -
  assume n: "n < 2 ^ 63"
  have "\<not> prefix ''-'' (Utoa n)" "\<not> prefix ''+'' (Utoa n)"
    using Utoa_hd [of n] by (cases "Utoa n"; auto)+
  moreover have "int n < 2 ^ 63" using n by (simp add: of_nat_less_numeral_power_cancel_iff)
  moreover have "- (2 ^ 63) \<le> int n" by simp
  ultimately show ?thesis
    using skipSpace_digit [OF Utoa_hd, of n]
    by (simp add: scanInt_def Let_def takeWhile_Utoa [of "CHR '',''"])
qed

text \<open>What \<^const>\<open>CreateArgon2Hash\<close> writes is recognised and read back.\<close>

lemma Split_encodedHash:
  assumes "0 \<le> a2_Version ag"
  shows "Split (encodedHash ag p salt hash) (CHR ''$'') =
    [[], ''argon2id'', ''v='' @ Utoa (nat (a2_Version ag)),
     ''m='' @ Utoa (unat (ap_Memory p)) @ '',t='' @ Utoa (unat (ap_Iterations p)) @ '',p='' @ Utoa (unat (ap_Parallelism p)),
     EncodeToString salt, EncodeToString hash]"
proof -
  have nd: "CHR ''$'' \<notin> set (EncodeToString b)" for b
    using EncodeToString_chars [of "CHR ''$''" b] by auto
  have eq: "encodedHash ag p salt hash =
    [] @ CHR ''$'' # ''argon2id'' @ CHR ''$'' # (''v='' @ Utoa (nat (a2_Version ag))) @
    CHR ''$'' # (''m='' @ Utoa (unat (ap_Memory p)) @ '',t='' @ Utoa (unat (ap_Iterations p)) @ '',p='' @ Utoa (unat (ap_Parallelism p))) @
    CHR ''$'' # EncodeToString salt @ CHR ''$'' # EncodeToString hash"
    using assms by (simp add: encodedHash_def Itoa_def)
  show ?thesis
    unfolding eq using nd Utoa_notin [of "CHR ''$''"] by (intro Split_six) auto
qed

lemma scanParams_print:
  "scanParams (''m='' @ Utoa (unat m) @ '',t='' @ Utoa (unat t) @ '',p='' @ Utoa (unat p)) = Some (m, t, p)"
proof -
  have "unat m < 2 ^ 32" "unat t < 2 ^ 32" "unat p < 2 ^ 8"
    using unsigned_less [of m, where ?'a = nat] unsigned_less [of t, where ?'a = nat] unsigned_less [of p, where ?'a = nat] by simp_all
  then show ?thesis by (simp add: scanParams_def scanLit_def scanUint_Utoa)
qed

lemma decodeHash_encodedHash:
  assumes "0 \<le> a2_Version ag" "a2_Version ag < 2 ^ 63"
    and "length salt = unat (ap_SaltLength p)" "length hash = unat (ap_KeyLength p)"
  shows "decodeHash ag (encodedHash ag p salt hash) = Inr (p, salt, hash)"
proof -
  have "scanVersion (''v='' @ Utoa (nat (a2_Version ag))) = Some (a2_Version ag)"
    using assms scanInt_Utoa [of "nat (a2_Version ag)"] by (simp add: scanVersion_def scanLit_def nat_less_iff)
  then show ?thesis
    using assms scanParams_print [of "ap_Memory p" "ap_Iterations p" "ap_Parallelism p"]
    by (simp add: decodeHash_def Split_encodedHash Let_def)
qed

lemma digitsAfter_Utoa [simp]: "digitsAfter p (p @ Utoa n)"
  using isDigit_Utoa [of n] by (simp add: digitsAfter_def)

lemma IsArgon2Hash_encodedHash:
  assumes "0 \<le> a2_Version ag" "salt \<noteq> []" "hash \<noteq> []"
  shows "IsArgon2Hash (encodedHash ag p salt hash)"
proof -
  have "Split (''m='' @ Utoa (unat m) @ '',t='' @ Utoa (unat t) @ '',p='' @ Utoa (unat q)) (CHR '','') =
    [''m='' @ Utoa (unat m), ''t='' @ Utoa (unat t), ''p='' @ Utoa (unat q)]" for m t :: "32 word" and q :: "8 word"
    using Split_three [of "CHR '',''" "''m='' @ Utoa (unat m)" "''t='' @ Utoa (unat t)" "''p='' @ Utoa (unat q)"]
      Utoa_notin [of "CHR '',''"] by simp
  moreover have "digitsAfter ''m='' (''m='' @ Utoa n)" "digitsAfter ''v='' (''v='' @ Utoa n)" 
    "digitsAfter ''t='' (''t='' @ Utoa n)" "digitsAfter ''p='' (''p='' @ Utoa n)" for n
    by (rule digitsAfter_Utoa)+
  ultimately show ?thesis
    using assms by (simp add: IsArgon2Hash_def Split_encodedHash b64Text_EncodeToString)
qed

text \<open>What the code relies on of \<open>golang.org/x/crypto/argon2\<close>: the version is a small
  non-negative number, and with at least one round and one thread the key has the requested
  length.\<close>

definition argon2_laws :: "argon2 \<Rightarrow> bool" where
  "argon2_laws ag \<longleftrightarrow>
     0 \<le> a2_Version ag \<and> a2_Version ag < 2 ^ 63 \<and>
     (\<forall>pw salt t m p k. t \<noteq> 0 \<and> p \<noteq> 0 \<longrightarrow>
        (\<exists>h. a2_IDKey ag pw salt t m p k = Some h \<and> length h = unat k))"

definition usableParams :: "Argon2idParams \<Rightarrow> bool" where
  "usableParams p \<longleftrightarrow> ap_Iterations p \<noteq> 0 \<and> ap_Parallelism p \<noteq> 0 \<and> ap_SaltLength p \<noteq> 0 \<and> ap_KeyLength p \<noteq> 0"

lemma usable_default [simp]: "usableParams defaultArgon2idParams"
  by (simp add: usableParams_def defaultArgon2idParams_def)

lemma stored_password:
  assumes ag: "argon2_laws ag" and p: "usableParams p"
    and salt: "length salt = unat (ap_SaltLength p)" and pw: "\<not> IsArgon2Hash pw"
  obtains h where "MarshalPassword ag p (Some salt) pw = Inr h" "IsArgon2Hash h"
    "\<And>q. Cmp ag h q = Inr (a2_IDKey ag pw salt (ap_Iterations p) (ap_Memory p) (ap_Parallelism p) (ap_KeyLength p) =
       a2_IDKey ag q salt (ap_Iterations p) (ap_Memory p) (ap_Parallelism p) (ap_KeyLength p))"
proof -
  let ?key = "\<lambda>q. a2_IDKey ag q salt (ap_Iterations p) (ap_Memory p) (ap_Parallelism p) (ap_KeyLength p)"
  have keys: "\<exists>h. ?key q = Some h \<and> length h = unat (ap_KeyLength p)" for q
    using ag p by (auto simp: argon2_laws_def usableParams_def)
  obtain h where h: "?key pw = Some h" "length h = unat (ap_KeyLength p)"
    using keys [of pw] by auto
  have ne: "salt \<noteq> []" "h \<noteq> []"
    using salt h p by (auto simp: usableParams_def unat_eq_0)
  have ver: "0 \<le> a2_Version ag" "a2_Version ag < 2 ^ 63" using ag by (simp_all add: argon2_laws_def)
  show thesis
  proof (rule that)
    show "MarshalPassword ag p (Some salt) pw = Inr (encodedHash ag p salt h)"
      using pw h by (simp add: MarshalPassword_def CreateArgon2Hash_def)
    show "IsArgon2Hash (encodedHash ag p salt h)"
      using ver ne by (intro IsArgon2Hash_encodedHash)
    show "Cmp ag (encodedHash ag p salt h) q = Inr (?key pw = ?key q)" for q
      using keys [of q] h decodeHash_encodedHash [OF ver salt h(2)]
      by (auto simp: Cmp_def ComparePasswordAndHash_def)
  qed
qed

lemma Marshal_stored: "IsArgon2Hash h \<Longrightarrow> MarshalPassword ag p rnd h = Inr h"
  by (simp add: MarshalPassword_def)

end
