(* ===== verification/Mgr_Rbac.thy ===== *)
theory Mgr_Rbac
  imports Password Mgr_Domain
begin

text \<open>
  Accounts, roles, permissions and the audit log (\<open>src/api/manager/domain/account.go\<close>,
  \<open>auth.go\<close>, \<open>audit_log.go\<close>) and their repository over MongoDB
  (\<open>src/api/manager/repository/repo_rbac.go\<close>).

  A collection of the MongoDB driver is an argument: the three calls the repository makes, over
  a world \<open>'w\<close> that it threads.  Documents are the Go structs; the only field whose stored form
  differs from its value in memory is the password, which is hashed on its way out.  The clock,
  the new object ID and the random salt of a call are arguments.
\<close>

section \<open>Data\<close>

definition UserStatusActive :: int where "UserStatusActive = 1"
definition UserStatusInactive :: int where "UserStatusInactive = 2"
definition UserStatusWaitChangePassword :: int where "UserStatusWaitChangePassword = 3"

record RefreshSession =
  rs_JTI :: string
  rs_TokenHash :: string
  rs_ExpiresAt :: int
  rs_Revoked :: bool

record User = BaseEntity +
  us_UserName :: string
  us_Password :: string
  us_Status :: int
  us_Roles :: "string list"
  us_PermissionKeys :: "string list"
  us_TokenVersion :: int
  us_RefreshTokens :: "RefreshSession list"

record RolePolicy =
  rp_PermissionKey :: string
  rp_Self :: bool
  rp_K8SNamespace :: string
  rp_PolicyNamespace :: string

record Role = BaseEntity +
  ro_Name :: string
  ro_Description :: string
  ro_Policies :: "RolePolicy list"

record Permission =
  pm_ID :: oid
  pm_Key :: string
  pm_Description :: string
  pm_Resource :: string
  pm_Action :: string

record AuditLog =
  al_ID :: oid
  al_UserID :: oid
  al_Action :: string
  al_RequestID :: string
  al_Timestamp :: int
  al_IP :: string

text \<open>\<open>now.Unix()\<close> of a clock in milliseconds.\<close>

definition unixSec :: "int \<Rightarrow> int" where
  "unixSec now = now div 1000"

definition IsExpired :: "RefreshSession \<Rightarrow> int \<Rightarrow> bool" where
  "IsExpired s now = (rs_ExpiresAt s > 0 \<and> unixSec now \<ge> rs_ExpiresAt s)"

record QueryUserOptions =
  qu_IDs :: "oid list"
  qu_UserNames :: "string list"

record QueryRoleOptions =
  qr_IDs :: "oid list"
  qr_Names :: "string list"

record QueryPermissionOptions =
  qp_IDs :: "oid list"
  qp_Keys :: "string list"
  qp_Resources :: "string list"

record QueryAuditLogOptions =
  qa_TimestampGTE :: int
  qa_TimestampLTE :: int
  qa_UserIDs :: "oid list"


section \<open>The driver\<close>

text \<open>The filters the repository builds: a field among values, or within bounds.\<close>

datatype cond = FieldIn string "string list" | FieldGTE string int | FieldLTE string int

record ('w, 'd) collection =
  co_InsertOne :: "'d \<Rightarrow> 'w \<Rightarrow> (string + oid option) \<times> 'w"
  co_ReplaceOne :: "oid \<Rightarrow> 'd \<Rightarrow> 'w \<Rightarrow> (string + nat) \<times> 'w"
  co_Find :: "cond list \<Rightarrow> 'w \<Rightarrow> string + (string + 'd list)"

record 'w mongo_db =
  db_users :: "('w, User) collection"
  db_roles :: "('w, Role) collection"
  db_permissions :: "('w, Permission) collection"
  db_audit_logs :: "('w, AuditLog) collection"

datatype mdb_error = NilInput | IDRequired | DriverError string | DecodeError string | MarshalError hash_error | DocNotFound


section \<open>Users\<close>

text \<open>The document written for a user.\<close>

definition marshalUser :: "argon2 \<Rightarrow> Argon2idParams \<Rightarrow> string option \<Rightarrow> User \<Rightarrow> hash_error + User" where
  "marshalUser ag p rnd u =
     (if us_Password u = [] then Inr u
      else case MarshalPassword ag p rnd (us_Password u) of
             Inl e \<Rightarrow> Inl e
           | Inr h \<Rightarrow> Inr (u\<lparr>us_Password := h\<rparr>))"

definition stampNew :: "int \<Rightarrow> oid \<Rightarrow> 'a BaseEntity_scheme \<Rightarrow> 'a BaseEntity_scheme" where
  "stampNew now newID d =
     d\<lparr>be_ID := (if be_ID d = zeroOID then newID else be_ID d),
       be_CreatedTime := (if be_CreatedTime d = 0 then now else be_CreatedTime d),
       be_UpdatedTime := now\<rparr>"

definition CreateUser ::
  "'w mongo_db \<Rightarrow> argon2 \<Rightarrow> Argon2idParams \<Rightarrow> int \<Rightarrow> oid \<Rightarrow> string option \<Rightarrow> User option \<Rightarrow> 'w
     \<Rightarrow> (mdb_error + User) \<times> 'w" where
  "CreateUser db ag p now newID rnd user w =
     (case user of
        None \<Rightarrow> (Inl NilInput, w)
      | Some u0 \<Rightarrow>
          (let u = stampNew now newID u0 in
           case marshalUser ag p rnd u of
             Inl e \<Rightarrow> (Inl (MarshalError e), w)
           | Inr doc \<Rightarrow>
               (case co_InsertOne (db_users db) doc w of
                  (Inl e, w') \<Rightarrow> (Inl (DriverError e), w')
                | (Inr (Some i), w') \<Rightarrow> (Inr (u\<lparr>be_ID := i\<rparr>), w')
                | (Inr None, w') \<Rightarrow> (Inr u, w'))))"

definition UpdateUser ::
  "'w mongo_db \<Rightarrow> argon2 \<Rightarrow> Argon2idParams \<Rightarrow> int \<Rightarrow> string option \<Rightarrow> User option \<Rightarrow> 'w
     \<Rightarrow> (mdb_error + User) \<times> 'w" where
  "UpdateUser db ag p now rnd user w =
     (case user of
        None \<Rightarrow> (Inl NilInput, w)
      | Some u0 \<Rightarrow>
          (if be_ID u0 = zeroOID then (Inl IDRequired, w)
           else
             (let u = u0\<lparr>be_UpdatedTime := now\<rparr> in
              case marshalUser ag p rnd u of
                Inl e \<Rightarrow> (Inl (MarshalError e), w)
              | Inr doc \<Rightarrow>
                  (case co_ReplaceOne (db_users db) (be_ID u) doc w of
                     (Inl e, w') \<Rightarrow> (Inl (DriverError e), w')
                   | (Inr n, w') \<Rightarrow> if n = 0 then (Inl DocNotFound, w') else (Inr u, w')))))"

definition runFind :: "('w, 'd) collection \<Rightarrow> cond list \<Rightarrow> 'w \<Rightarrow> mdb_error + 'd list" where
  "runFind c f w =
     (case co_Find c f w of
        Inl e \<Rightarrow> Inl (DriverError e)
      | Inr (Inl e) \<Rightarrow> Inl (DecodeError e)
      | Inr (Inr ds) \<Rightarrow> Inr ds)"

definition inCond :: "string \<Rightarrow> string list \<Rightarrow> cond list" where
  "inCond field vs = (if vs \<noteq> [] then [FieldIn field vs] else [])"

definition QueryUsers :: "'w mongo_db \<Rightarrow> QueryUserOptions option \<Rightarrow> 'w \<Rightarrow> mdb_error + User list" where
  "QueryUsers db opt w =
     (case opt of
        None \<Rightarrow> Inl NilInput
      | Some q \<Rightarrow>
          runFind (db_users db) (inCond ''_id'' (qu_IDs q) @ inCond ''username'' (qu_UserNames q)) w)"


section \<open>Roles\<close>

definition CreateRole ::
  "'w mongo_db \<Rightarrow> int \<Rightarrow> oid \<Rightarrow> Role option \<Rightarrow> 'w \<Rightarrow> (mdb_error + Role) \<times> 'w" where
  "CreateRole db now newID role w =
     (case role of
        None \<Rightarrow> (Inl NilInput, w)
      | Some r0 \<Rightarrow>
          (let r = stampNew now newID r0 in
           case co_InsertOne (db_roles db) r w of
             (Inl e, w') \<Rightarrow> (Inl (DriverError e), w')
           | (Inr (Some i), w') \<Rightarrow> (Inr (r\<lparr>be_ID := i\<rparr>), w')
           | (Inr None, w') \<Rightarrow> (Inr r, w')))"

definition UpdateRole :: "'w mongo_db \<Rightarrow> int \<Rightarrow> Role option \<Rightarrow> 'w \<Rightarrow> (mdb_error + Role) \<times> 'w" where
  "UpdateRole db now role w =
     (case role of
        None \<Rightarrow> (Inl NilInput, w)
      | Some r0 \<Rightarrow>
          (if be_ID r0 = zeroOID then (Inl IDRequired, w)
           else
             (let r = r0\<lparr>be_UpdatedTime := now\<rparr> in
              case co_ReplaceOne (db_roles db) (be_ID r) r w of
                (Inl e, w') \<Rightarrow> (Inl (DriverError e), w')
              | (Inr n, w') \<Rightarrow> if n = 0 then (Inl DocNotFound, w') else (Inr r, w'))))"

definition QueryRoles :: "'w mongo_db \<Rightarrow> QueryRoleOptions option \<Rightarrow> 'w \<Rightarrow> mdb_error + Role list" where
  "QueryRoles db opt w =
     (case opt of
        None \<Rightarrow> Inl NilInput
      | Some q \<Rightarrow> runFind (db_roles db) (inCond ''_id'' (qr_IDs q) @ inCond ''name'' (qr_Names q)) w)"


section \<open>Permissions and audit log\<close>

definition CreatePermission ::
  "'w mongo_db \<Rightarrow> oid \<Rightarrow> Permission option \<Rightarrow> 'w \<Rightarrow> (mdb_error + Permission) \<times> 'w" where
  "CreatePermission db newID permission w =
     (case permission of
        None \<Rightarrow> (Inl NilInput, w)
      | Some p0 \<Rightarrow>
          (let p = p0\<lparr>pm_ID := (if pm_ID p0 = zeroOID then newID else pm_ID p0)\<rparr> in
           case co_InsertOne (db_permissions db) p w of
             (Inl e, w') \<Rightarrow> (Inl (DriverError e), w')
           | (Inr (Some i), w') \<Rightarrow> (Inr (p\<lparr>pm_ID := i\<rparr>), w')
           | (Inr None, w') \<Rightarrow> (Inr p, w')))"

definition UpdatePermission :: "'w mongo_db \<Rightarrow> Permission option \<Rightarrow> 'w \<Rightarrow> (mdb_error + Permission) \<times> 'w" where
  "UpdatePermission db permission w =
     (case permission of
        None \<Rightarrow> (Inl NilInput, w)
      | Some p \<Rightarrow>
          (if pm_ID p = zeroOID then (Inl IDRequired, w)
           else case co_ReplaceOne (db_permissions db) (pm_ID p) p w of
                  (Inl e, w') \<Rightarrow> (Inl (DriverError e), w')
                | (Inr n, w') \<Rightarrow> if n = 0 then (Inl DocNotFound, w') else (Inr p, w')))"

definition QueryPermissions ::
  "'w mongo_db \<Rightarrow> QueryPermissionOptions option \<Rightarrow> 'w \<Rightarrow> mdb_error + Permission list" where
  "QueryPermissions db opt w =
     (case opt of
        None \<Rightarrow> Inl NilInput
      | Some q \<Rightarrow>
          runFind (db_permissions db)
            (inCond ''_id'' (qp_IDs q) @ inCond ''key'' (qp_Keys q) @ inCond ''resource'' (qp_Resources q)) w)"

definition CreateAuditLog ::
  "'w mongo_db \<Rightarrow> int \<Rightarrow> oid \<Rightarrow> AuditLog option \<Rightarrow> 'w \<Rightarrow> (mdb_error + AuditLog) \<times> 'w" where
  "CreateAuditLog db now newID log w =
     (case log of
        None \<Rightarrow> (Inl NilInput, w)
      | Some l0 \<Rightarrow>
          (let l = l0\<lparr>al_ID := (if al_ID l0 = zeroOID then newID else al_ID l0),
                       al_Timestamp := (if al_Timestamp l0 = 0 then now else al_Timestamp l0)\<rparr> in
           case co_InsertOne (db_audit_logs db) l w of
             (Inl e, w') \<Rightarrow> (Inl (DriverError e), w')
           | (Inr (Some i), w') \<Rightarrow> (Inr (l\<lparr>al_ID := i\<rparr>), w')
           | (Inr None, w') \<Rightarrow> (Inr l, w')))"

definition QueryAuditLogs ::
  "'w mongo_db \<Rightarrow> QueryAuditLogOptions option \<Rightarrow> 'w \<Rightarrow> mdb_error + AuditLog list" where
  "QueryAuditLogs db opt w =
     (case opt of
        None \<Rightarrow> Inl NilInput
      | Some q \<Rightarrow>
          runFind (db_audit_logs db)
            (inCond ''user_id'' (qa_UserIDs q) @
             (if qa_TimestampGTE q > 0 then [FieldGTE ''timestamp'' (qa_TimestampGTE q)] else []) @
             (if qa_TimestampLTE q > 0 then [FieldLTE ''timestamp'' (qa_TimestampLTE q)] else [])) w)"


section \<open>What the driver promises\<close>

text \<open>A collection holds at most one document per \<open>_id\<close>.  \<open>Find\<close> returns the matching documents
  in some order.  A write that reports an error may or may not have happened.\<close>

fun condHolds :: "(string \<Rightarrow> 'd \<Rightarrow> string) \<Rightarrow> (string \<Rightarrow> 'd \<Rightarrow> int) \<Rightarrow> 'd \<Rightarrow> cond \<Rightarrow> bool" where
  "condHolds sf nf d (FieldIn f vs) = (sf f d \<in> set vs)"
| "condHolds sf nf d (FieldGTE f n) = (n \<le> nf f d)"
| "condHolds sf nf d (FieldLTE f n) = (nf f d \<le> n)"

definition find_law ::
  "(string \<Rightarrow> 'd \<Rightarrow> string) \<Rightarrow> (string \<Rightarrow> 'd \<Rightarrow> int) \<Rightarrow> ('w, 'd) collection \<Rightarrow> ('w \<Rightarrow> oid \<rightharpoonup> 'd) \<Rightarrow> bool" where
  "find_law sf nf c view \<longleftrightarrow>
     (\<forall>f w ds. co_Find c f w = Inr (Inr ds) \<longrightarrow>
        distinct ds \<and> set ds = {d \<in> ran (view w). \<forall>x \<in> set f. condHolds sf nf d x})"

definition insert_law :: "('d \<Rightarrow> oid) \<Rightarrow> ('w, 'd) collection \<Rightarrow> ('w \<Rightarrow> oid \<rightharpoonup> 'd) \<Rightarrow> bool" where
  "insert_law docID c view \<longleftrightarrow>
     (\<forall>d w r w'. co_InsertOne c d w = (r, w') \<longrightarrow>
        view w' = view w \<and> isl r \<or>
        view w (docID d) = None \<and> view w' = (view w)(docID d \<mapsto> d) \<and> (isl r \<or> r = Inr (Some (docID d))))"

definition replace_law :: "('d \<Rightarrow> oid) \<Rightarrow> ('w, 'd) collection \<Rightarrow> ('w \<Rightarrow> oid \<rightharpoonup> 'd) \<Rightarrow> bool" where
  "replace_law docID c view \<longleftrightarrow>
     (\<forall>d w r w'. co_ReplaceOne c (docID d) d w = (r, w') \<longrightarrow>
        view w' = view w \<and> (isl r \<or> view w (docID d) = None \<and> r = Inr 0) \<or>
        view w (docID d) \<noteq> None \<and> view w' = (view w)(docID d \<mapsto> d) \<and> (isl r \<or> r = Inr 1))"

definition coll_laws ::
  "('d \<Rightarrow> oid) \<Rightarrow> (string \<Rightarrow> 'd \<Rightarrow> string) \<Rightarrow> (string \<Rightarrow> 'd \<Rightarrow> int) \<Rightarrow> ('w, 'd) collection
     \<Rightarrow> ('w \<Rightarrow> oid \<rightharpoonup> 'd) \<Rightarrow> bool" where
  "coll_laws docID sf nf c view \<longleftrightarrow>
     (\<forall>w i d. view w i = Some d \<longrightarrow> docID d = i) \<and> find_law sf nf c view \<and>
     insert_law docID c view \<and> replace_law docID c view"

lemma distinct_single: "distinct xs \<Longrightarrow> set xs = {x} \<Longrightarrow> xs = [x]"
  by (cases xs; cases "tl xs") auto

text \<open>Reading a document by ID, in any collection whose \<open>_id\<close> is the ID of the struct.\<close>

locale document =
  fixes docID :: "'d \<Rightarrow> oid" and sf :: "string \<Rightarrow> 'd \<Rightarrow> string" and nf :: "string \<Rightarrow> 'd \<Rightarrow> int"
  assumes id_field: "sf ''_id'' d = docID d"
begin

lemma view_id:
  assumes "coll_laws docID sf nf c view" "view w i = Some d"
  shows "docID d = i"
  using assms by (auto simp: coll_laws_def)

lemma find_set:
  assumes "coll_laws docID sf nf c view" "runFind c f w = Inr ds"
  shows "distinct ds" "set ds = {d \<in> ran (view w). \<forall>x \<in> set f. condHolds sf nf d x}"
proof -
  have "co_Find c f w = Inr (Inr ds)"
    using assms(2) by (simp add: runFind_def split: sum.splits)
  moreover have "find_law sf nf c view" using assms(1) by (simp add: coll_laws_def)
  ultimately show "distinct ds" "set ds = {d \<in> ran (view w). \<forall>x \<in> set f. condHolds sf nf d x}"
    unfolding find_law_def by blast+
qed

lemma find_by_id:
  assumes c: "coll_laws docID sf nf c view" and f: "runFind c (inCond ''_id'' [i]) w = Inr ds"
  shows "ds = (case view w i of None \<Rightarrow> [] | Some d \<Rightarrow> [d])"
proof -
  have "set ds = {d \<in> ran (view w). docID d = i}" "distinct ds"
    using find_set [OF c f] by (auto simp: inCond_def id_field)
  moreover have "{d \<in> ran (view w). docID d = i} = set_option (view w i)"
    using view_id [OF c] by (auto simp: ran_def)
  ultimately show ?thesis
    by (cases "view w i") (auto intro: distinct_single)
qed

lemma insert_view:
  assumes "coll_laws docID sf nf c view" "co_InsertOne c d w = (r, w')"
  shows "view w' = view w \<and> isl r
    \<or> view w (docID d) = None \<and> view w' = (view w)(docID d \<mapsto> d) \<and> (isl r \<or> r = Inr (Some (docID d)))"
proof -
  have "insert_law docID c view" using assms(1) by (simp add: coll_laws_def)
  from this [unfolded insert_law_def, rule_format, OF assms(2)] show ?thesis .
qed

lemma replace_view:
  assumes "coll_laws docID sf nf c view" "co_ReplaceOne c (docID d) d w = (r, w')"
  shows "view w' = view w \<and> (isl r \<or> view w (docID d) = None \<and> r = Inr 0)
    \<or> view w (docID d) \<noteq> None \<and> view w' = (view w)(docID d \<mapsto> d) \<and> (isl r \<or> r = Inr 1)"
proof -
  have "replace_law docID c view" using assms(1) by (simp add: coll_laws_def)
  from this [unfolded replace_law_def, rule_format, OF assms(2)] show ?thesis .
qed

end

definition userField :: "string \<Rightarrow> User \<Rightarrow> string" where
  "userField f u = (if f = ''_id'' then be_ID u else if f = ''username'' then us_UserName u else [])"

definition roleField :: "string \<Rightarrow> Role \<Rightarrow> string" where
  "roleField f r = (if f = ''_id'' then be_ID r else if f = ''name'' then ro_Name r else [])"

definition permissionField :: "string \<Rightarrow> Permission \<Rightarrow> string" where
  "permissionField f p =
     (if f = ''_id'' then pm_ID p else if f = ''key'' then pm_Key p
      else if f = ''resource'' then pm_Resource p else [])"

definition auditField :: "string \<Rightarrow> AuditLog \<Rightarrow> string" where
  "auditField f l = (if f = ''_id'' then al_ID l else if f = ''user_id'' then al_UserID l else [])"

definition auditTime :: "string \<Rightarrow> AuditLog \<Rightarrow> int" where
  "auditTime f l = (if f = ''timestamp'' then al_Timestamp l else 0)"

definition noNumber :: "string \<Rightarrow> 'd \<Rightarrow> int" where
  "noNumber f d = 0"

interpretation ud: document be_ID userField noNumber
  by unfold_locales (simp add: userField_def)

interpretation rd: document be_ID roleField noNumber
  by unfold_locales (simp add: roleField_def)

interpretation pd: document pm_ID permissionField noNumber
  by unfold_locales (simp add: permissionField_def)

interpretation ad: document al_ID auditField auditTime
  by unfold_locales (simp add: auditField_def)

record 'w db_view =
  dv_users :: "'w \<Rightarrow> oid \<rightharpoonup> User"
  dv_roles :: "'w \<Rightarrow> oid \<rightharpoonup> Role"
  dv_permissions :: "'w \<Rightarrow> oid \<rightharpoonup> Permission"
  dv_audit_logs :: "'w \<Rightarrow> oid \<rightharpoonup> AuditLog"

text \<open>A write to one collection leaves the others alone.\<close>

definition keeps :: "('w, 'd) collection \<Rightarrow> ('w \<Rightarrow> 'v) \<Rightarrow> bool" where
  "keeps c view \<longleftrightarrow>
     (\<forall>d w. view (snd (co_InsertOne c d w)) = view w) \<and>
     (\<forall>i d w. view (snd (co_ReplaceOne c i d w)) = view w)"

definition db_laws :: "'w mongo_db \<Rightarrow> 'w db_view \<Rightarrow> bool" where
  "db_laws db v \<longleftrightarrow>
     coll_laws be_ID userField noNumber (db_users db) (dv_users v) \<and>
     coll_laws be_ID roleField noNumber (db_roles db) (dv_roles v) \<and>
     coll_laws pm_ID permissionField noNumber (db_permissions db) (dv_permissions v) \<and>
     coll_laws al_ID auditField auditTime (db_audit_logs db) (dv_audit_logs v) \<and>
     keeps (db_users db) (dv_roles v) \<and> keeps (db_roles db) (dv_users v)"

lemma db_lawsD:
  assumes "db_laws db v"
  shows "coll_laws be_ID userField noNumber (db_users db) (dv_users v)"
    and "coll_laws be_ID roleField noNumber (db_roles db) (dv_roles v)"
    and "coll_laws pm_ID permissionField noNumber (db_permissions db) (dv_permissions v)"
    and "coll_laws al_ID auditField auditTime (db_audit_logs db) (dv_audit_logs v)"
    and "keeps (db_users db) (dv_roles v)" and "keeps (db_roles db) (dv_users v)"
  using assms by (simp_all add: db_laws_def)

lemma keepsD:
  assumes "keeps c view"
  shows "co_InsertOne c d w = (r, w') \<Longrightarrow> view w' = view w"
    and "co_ReplaceOne c i d w = (q, w') \<Longrightarrow> view w' = view w"
proof -
  have k: "\<And>d w. view (snd (co_InsertOne c d w)) = view w" "\<And>i d w. view (snd (co_ReplaceOne c i d w)) = view w"
    using assms by (simp_all add: keeps_def)
  show "co_InsertOne c d w = (r, w') \<Longrightarrow> view w' = view w" using k(1) [of d w] by simp
  show "co_ReplaceOne c i d w = (q, w') \<Longrightarrow> view w' = view w" using k(2) [of i d w] by simp
qed


section \<open>The repository\<close>

lemma marshalUser_ID: "marshalUser ag p rnd u = Inr doc \<Longrightarrow> be_ID doc = be_ID u"
  by (auto simp: marshalUser_def split: sum.splits if_splits)

lemma marshalUser_keeps:
  assumes "marshalUser ag p rnd u = Inr doc"
  shows "us_UserName doc = us_UserName u" "us_Status doc = us_Status u" "us_Roles doc = us_Roles u"
    "us_TokenVersion doc = us_TokenVersion u" "us_RefreshTokens doc = us_RefreshTokens u"
  using assms by (auto simp: marshalUser_def split: sum.splits if_splits)

text \<open>A user that was read and is written back keeps its stored password.\<close>

definition storedPassword :: "User \<Rightarrow> bool" where
  "storedPassword u \<longleftrightarrow> us_Password u = [] \<or> IsArgon2Hash (us_Password u)"

lemma marshalUser_stored: "storedPassword u \<Longrightarrow> marshalUser ag p rnd u = Inr u"
  by (auto simp: marshalUser_def storedPassword_def Marshal_stored)

text \<open>What an update can do to the users, and that it leaves the roles alone.\<close>

definition userWritten :: "'w db_view \<Rightarrow> User \<Rightarrow> 'w \<Rightarrow> 'w \<Rightarrow> bool" where
  "userWritten v doc w w' \<longleftrightarrow> dv_users v w' = (dv_users v w)(be_ID doc \<mapsto> doc)"

lemma UpdateUser_cases:
  assumes v: "db_laws db v" and run: "UpdateUser db ag p now rnd (Some u) w = (r, w')"
  shows "dv_roles v w' = dv_roles v w"
    and "dv_users v w' = dv_users v w \<and> isl r \<or>
      (\<exists>doc. marshalUser ag p rnd (u\<lparr>be_UpdatedTime := now\<rparr>) = Inr doc \<and> be_ID u \<noteq> zeroOID \<and>
         dv_users v w (be_ID u) \<noteq> None \<and> userWritten v doc w w' \<and> (isl r \<or> r = Inr (u\<lparr>be_UpdatedTime := now\<rparr>)))"
proof -
  let ?u = "u\<lparr>be_UpdatedTime := now\<rparr>"
  have "dv_roles v w' = dv_roles v w \<and> (dv_users v w' = dv_users v w \<and> isl r \<or>
      (\<exists>doc. marshalUser ag p rnd ?u = Inr doc \<and> be_ID u \<noteq> zeroOID \<and>
         dv_users v w (be_ID u) \<noteq> None \<and> userWritten v doc w w' \<and> (isl r \<or> r = Inr ?u)))"
  proof (cases "be_ID u = zeroOID \<or> isl (marshalUser ag p rnd ?u)")
    case True
    then show ?thesis using run by (auto simp: UpdateUser_def Let_def isl_def split: if_splits)
  next
    case False
    then obtain doc where doc: "marshalUser ag p rnd ?u = Inr doc" by (cases "marshalUser ag p rnd ?u") auto
    have id: "be_ID doc = be_ID u" using marshalUser_ID [OF doc] by simp
    obtain q w1 where rep: "co_ReplaceOne (db_users db) (be_ID u) doc w = (q, w1)" by fastforce
    have res: "(r, w') = (case q of Inl e \<Rightarrow> (Inl (DriverError e), w1)
        | Inr n \<Rightarrow> if n = 0 then (Inl DocNotFound, w1) else (Inr ?u, w1))"
      using run False doc rep by (auto simp: UpdateUser_def Let_def split: sum.splits if_splits)
    then have w1: "w' = w1" by (auto split: sum.splits if_splits)
    have roles: "dv_roles v w' = dv_roles v w"
      using keepsD(2) [OF db_lawsD(5) [OF v] rep] w1 by simp
    from ud.replace_view [OF db_lawsD(1) [OF v], of doc w q w1, unfolded id, OF rep]
    show ?thesis
    proof (elim disjE conjE)
      assume "dv_users v w1 = dv_users v w" "isl q"
      then show ?thesis using res roles w1 by (auto simp: isl_def)
    next
      assume "dv_users v w1 = dv_users v w" "q = Inr 0"
      then show ?thesis using res roles w1 by simp
    next
      assume a: "dv_users v w (be_ID u) \<noteq> None" "dv_users v w1 = (dv_users v w)(be_ID u \<mapsto> doc)" "isl q"
      then have "userWritten v doc w w'" using id w1 by (simp add: userWritten_def)
      then show ?thesis using a(1,3) res roles doc False by (auto simp: isl_def)
    next
      assume a: "dv_users v w (be_ID u) \<noteq> None" "dv_users v w1 = (dv_users v w)(be_ID u \<mapsto> doc)" "q = Inr 1"
      then have "userWritten v doc w w'" using id w1 by (simp add: userWritten_def)
      then show ?thesis using a(1,3) res roles doc False by auto
    qed
  qed
  then show "dv_roles v w' = dv_roles v w"
    and "dv_users v w' = dv_users v w \<and> isl r \<or>
      (\<exists>doc. marshalUser ag p rnd ?u = Inr doc \<and> be_ID u \<noteq> zeroOID \<and>
         dv_users v w (be_ID u) \<noteq> None \<and> userWritten v doc w w' \<and> (isl r \<or> r = Inr ?u))"
    by (rule conjunct1, rule conjunct2)
qed

lemma CreateUser_cases:
  assumes v: "db_laws db v" and run: "CreateUser db ag p now newID rnd (Some u) w = (r, w')"
  shows "dv_roles v w' = dv_roles v w"
    and "dv_users v w' = dv_users v w \<and> isl r \<or>
      (\<exists>doc. marshalUser ag p rnd (stampNew now newID u) = Inr doc \<and> dv_users v w (be_ID doc) = None \<and>
         userWritten v doc w w' \<and> (isl r \<or> r = Inr (stampNew now newID u)))"
proof -
  let ?u = "stampNew now newID u"
  have "dv_roles v w' = dv_roles v w \<and> (dv_users v w' = dv_users v w \<and> isl r \<or>
      (\<exists>doc. marshalUser ag p rnd ?u = Inr doc \<and> dv_users v w (be_ID doc) = None \<and>
         userWritten v doc w w' \<and> (isl r \<or> r = Inr ?u)))"
  proof (cases "marshalUser ag p rnd ?u")
    case (Inl e)
    then show ?thesis using run by (auto simp: CreateUser_def Let_def)
  next
    case (Inr doc)
    have id: "be_ID doc = be_ID ?u" using marshalUser_ID [OF Inr] by simp
    obtain q w1 where ins: "co_InsertOne (db_users db) doc w = (q, w1)" by fastforce
    have res: "(r, w') = (case q of Inl e \<Rightarrow> (Inl (DriverError e), w1)
        | Inr (Some i) \<Rightarrow> (Inr (?u\<lparr>be_ID := i\<rparr>), w1) | Inr None \<Rightarrow> (Inr ?u, w1))"
      using run Inr ins by (auto simp: CreateUser_def Let_def split: sum.splits option.splits)
    then have w1: "w' = w1" by (auto split: sum.splits option.splits)
    have roles: "dv_roles v w' = dv_roles v w"
      using keepsD(1) [OF db_lawsD(5) [OF v] ins] w1 by simp
    from ud.insert_view [OF db_lawsD(1) [OF v] ins]
    show ?thesis
    proof (elim disjE conjE)
      assume "dv_users v w1 = dv_users v w" "isl q"
      then show ?thesis using res roles w1 by (auto simp: isl_def)
    next
      assume a: "dv_users v w (be_ID doc) = None" "dv_users v w1 = (dv_users v w)(be_ID doc \<mapsto> doc)" "isl q"
      then have "userWritten v doc w w'" using w1 by (simp add: userWritten_def)
      then show ?thesis using a(1,3) res roles Inr by (auto simp: isl_def)
    next
      assume a: "dv_users v w (be_ID doc) = None" "dv_users v w1 = (dv_users v w)(be_ID doc \<mapsto> doc)"
        "q = Inr (Some (be_ID doc))"
      then have "userWritten v doc w w'" using w1 by (simp add: userWritten_def)
      then show ?thesis using a(1,3) res roles Inr id by simp
    qed
  qed
  then show "dv_roles v w' = dv_roles v w"
    and "dv_users v w' = dv_users v w \<and> isl r \<or>
      (\<exists>doc. marshalUser ag p rnd ?u = Inr doc \<and> dv_users v w (be_ID doc) = None \<and>
         userWritten v doc w w' \<and> (isl r \<or> r = Inr ?u))"
    by (rule conjunct1, rule conjunct2)
qed

lemma QueryUsers_byID:
  assumes "db_laws db v" "QueryUsers db (Some \<lparr>qu_IDs = [i], qu_UserNames = []\<rparr>) w = Inr us"
  shows "us = (case dv_users v w i of None \<Rightarrow> [] | Some u \<Rightarrow> [u])"
  using ud.find_by_id [OF db_lawsD(1) [OF assms(1)], of i w us] assms(2)
  by (simp add: QueryUsers_def inCond_def)

lemma inCond_holds [simp]:
  "(\<forall>x \<in> set (inCond f vs). condHolds sf nf d x) \<longleftrightarrow> vs = [] \<or> sf f d \<in> set vs"
  by (cases vs) (auto simp: inCond_def)

lemma QueryUsers_set:
  assumes "db_laws db v" "QueryUsers db (Some q) w = Inr us"
  shows "distinct us" "set us = {u \<in> ran (dv_users v w). (qu_IDs q = [] \<or> be_ID u \<in> set (qu_IDs q)) \<and>
      (qu_UserNames q = [] \<or> us_UserName u \<in> set (qu_UserNames q))}"
  using ud.find_set [OF db_lawsD(1) [OF assms(1)] assms(2) [unfolded QueryUsers_def option.simps]]
  by (simp_all add: ball_Un userField_def)

lemma QueryRoles_set:
  assumes "db_laws db v" "QueryRoles db (Some q) w = Inr rs"
  shows "distinct rs" "set rs = {r \<in> ran (dv_roles v w). (qr_IDs q = [] \<or> be_ID r \<in> set (qr_IDs q)) \<and>
      (qr_Names q = [] \<or> ro_Name r \<in> set (qr_Names q))}"
  using rd.find_set [OF db_lawsD(2) [OF assms(1)] assms(2) [unfolded QueryRoles_def option.simps]]
  by (simp_all add: ball_Un roleField_def)

lemma QueryAuditLogs_set:
  assumes "db_laws db v" "QueryAuditLogs db (Some q) w = Inr ls"
  shows "set ls = {l \<in> ran (dv_audit_logs v w). (qa_UserIDs q = [] \<or> al_UserID l \<in> set (qa_UserIDs q)) \<and>
      (qa_TimestampGTE q > 0 \<longrightarrow> qa_TimestampGTE q \<le> al_Timestamp l) \<and>
      (qa_TimestampLTE q > 0 \<longrightarrow> al_Timestamp l \<le> qa_TimestampLTE q)}"
  using ad.find_set(2) [OF db_lawsD(4) [OF assms(1)] assms(2) [unfolded QueryAuditLogs_def option.simps]]
  by (auto simp: ball_Un auditField_def auditTime_def split: if_splits)

end
