(* ===== verification/Mgr_Auth.thy ===== *)
theory Mgr_Auth
  imports Mgr_Rbac
begin

text \<open>
  Accounts and access control of the manager (\<open>src/api/manager/service/auth_svc.go\<close>,
  \<open>user_svc.go\<close>, \<open>role_svc.go\<close>): login, rotation and revocation of refresh tokens, password and
  permission changes, roles, and the check every protected route makes of its bearer token.

  The JWT library is an argument: \<open>ae_sign\<close> is \<open>SignedString\<close> with the service's key, and
  \<open>ae_parse keyfunc now\<close> is \<open>ParseWithClaims\<close> at time \<open>now\<close>, answering the errors it wraps or the
  claims with the \<open>Valid\<close> flag.  Random object IDs, session IDs (\<open>xid\<close>) and salts are numbered
  sequences, the state counting how many were drawn.  The clock, in milliseconds, is an argument
  of every operation and does not move during one.
\<close>

section \<open>Data\<close>

record Claims =
  cl_UID :: string
  cl_NeedChangePassword :: bool
  cl_TokenVersion :: int
  cl_TokenType :: string
  cl_ExpiresAt :: int
  cl_IssuedAt :: int
  cl_NotBefore :: int
  cl_Issuer :: string
  cl_Subject :: string
  cl_ID :: string

record TokenPair =
  tp_AccessToken :: string
  tp_RefreshToken :: string

datatype jwt_error =
    ErrTokenExpired | ErrTokenNotValidYet | ErrTokenMalformed | ErrTokenSignatureInvalid
  | ErrTokenUnverifiable | ErrTokenInvalidClaims | ErrTokenOther string

datatype signing_method = SigningMethodRSA | SigningMethodOther string

datatype auth_error =
    HTTPError nat string
  | BadObjectID string
  | PasswordError hash_error
  | DbError mdb_error
  | SignError string
  | NotImplemented
  | NoAdminRole

record 'w auth_env =
  ae_db :: "'w mongo_db"
  ae_argon2 :: argon2
  ae_params :: Argon2idParams
  ae_sha :: "string \<Rightarrow> string"
  ae_fromHex :: "string \<Rightarrow> oid option"
  ae_sign :: "Claims \<Rightarrow> string + string"
  ae_parse :: "(signing_method \<Rightarrow> string + unit) \<Rightarrow> int \<Rightarrow> string \<Rightarrow> jwt_error list + Claims \<times> bool"
  ae_oid :: "nat \<Rightarrow> oid"
  ae_xid :: "nat \<Rightarrow> string"
  ae_salt :: "nat \<Rightarrow> string option"

record 'w auth_state =
  as_world :: 'w
  as_oids :: nat
  as_xids :: nat
  as_salts :: nat

definition ChangeOwnPassword :: string where "ChangeOwnPassword = ''user.password.change''"
definition AdminRole :: string where "AdminRole = ''admin''"

definition GetBsonObjectUID :: "'w auth_env \<Rightarrow> Claims \<Rightarrow> auth_error + oid" where
  "GetBsonObjectUID env c = (case ae_fromHex env (cl_UID c) of None \<Rightarrow> Inl (BadObjectID (cl_UID c)) | Some i \<Rightarrow> Inr i)"


section \<open>Repository calls of the service\<close>

definition repoCreateUser :: "'w auth_env \<Rightarrow> int \<Rightarrow> User \<Rightarrow> 'w auth_state \<Rightarrow> (auth_error + User) \<times> 'w auth_state" where
  "repoCreateUser env now u st =
     (case CreateUser (ae_db env) (ae_argon2 env) (ae_params env) now (ae_oid env (as_oids st))
             (ae_salt env (as_salts st)) (Some u) (as_world st) of
        (r, w) \<Rightarrow> (map_sum DbError id r,
                   st\<lparr>as_world := w, as_oids := as_oids st + 1, as_salts := as_salts st + 1\<rparr>))"

definition repoUpdateUser :: "'w auth_env \<Rightarrow> int \<Rightarrow> User \<Rightarrow> 'w auth_state \<Rightarrow> (auth_error + User) \<times> 'w auth_state" where
  "repoUpdateUser env now u st =
     (case UpdateUser (ae_db env) (ae_argon2 env) (ae_params env) now
             (ae_salt env (as_salts st)) (Some u) (as_world st) of
        (r, w) \<Rightarrow> (map_sum DbError id r, st\<lparr>as_world := w, as_salts := as_salts st + 1\<rparr>))"

definition getUserByUserName :: "'w auth_env \<Rightarrow> string \<Rightarrow> 'w auth_state \<Rightarrow> auth_error + User" where
  "getUserByUserName env username st =
     (case QueryUsers (ae_db env) (Some \<lparr>qu_IDs = [], qu_UserNames = [username]\<rparr>) (as_world st) of
        Inl e \<Rightarrow> Inl (DbError e)
      | Inr [] \<Rightarrow> Inl (HTTPError 401 ''user not found'')
      | Inr (u # _) \<Rightarrow> Inr u)"

definition getUserByID :: "'w auth_env \<Rightarrow> oid \<Rightarrow> 'w auth_state \<Rightarrow> auth_error + User" where
  "getUserByID env i st =
     (case QueryUsers (ae_db env) (Some \<lparr>qu_IDs = [i], qu_UserNames = []\<rparr>) (as_world st) of
        Inl e \<Rightarrow> Inl (DbError e)
      | Inr [] \<Rightarrow> Inl (HTTPError 401 ''user not found'')
      | Inr (u # _) \<Rightarrow> Inr u)"


section \<open>Tokens\<close>

definition hashToken :: "'w auth_env \<Rightarrow> string \<Rightarrow> string" where
  "hashToken env token = hex_encode (ae_sha env token)"

fun rsaKey :: "signing_method \<Rightarrow> string + unit" where
  "rsaKey SigningMethodRSA = Inr ()"
| "rsaKey (SigningMethodOther alg) = Inl (''unexpected signing method: '' @ alg)"

definition parseAndValidateToken :: "'w auth_env \<Rightarrow> int \<Rightarrow> string \<Rightarrow> auth_error + Claims" where
  "parseAndValidateToken env now tokenString =
     (case ae_parse env rsaKey now tokenString of
        Inl es \<Rightarrow>
          (if list_ex (\<lambda>e. e \<in> {ErrTokenExpired, ErrTokenNotValidYet, ErrTokenMalformed,
                ErrTokenSignatureInvalid, ErrTokenUnverifiable, ErrTokenInvalidClaims}) es
           then Inl (HTTPError 401 ''invalid or expired token'')
           else Inl (HTTPError 401 ''invalid token''))
      | Inr (claims, ok) \<Rightarrow>
          (if ok then Inr claims else Inl (HTTPError 401 ''invalid token claims'')))"

text \<open>Claims of a token issued at \<open>now\<close> that lives \<open>ttl\<close> seconds.\<close>

definition tokenClaims :: "int \<Rightarrow> int \<Rightarrow> string \<Rightarrow> string \<Rightarrow> User \<Rightarrow> Claims" where
  "tokenClaims now ttl kind jti u =
     \<lparr>cl_UID = be_ID u, cl_NeedChangePassword = (us_Status u = UserStatusWaitChangePassword),
      cl_TokenVersion = us_TokenVersion u, cl_TokenType = kind,
      cl_ExpiresAt = unixSec (now + ttl * 1000), cl_IssuedAt = unixSec now, cl_NotBefore = unixSec now,
      cl_Issuer = ''bss-api-server'', cl_Subject = be_ID u, cl_ID = jti\<rparr>"

definition genAccessToken :: "'w auth_env \<Rightarrow> int \<Rightarrow> User \<Rightarrow> string + string" where
  "genAccessToken env now u = ae_sign env (tokenClaims now 60 ''access'' [] u)"

definition genRefreshToken :: "'w auth_env \<Rightarrow> int \<Rightarrow> string \<Rightarrow> User \<Rightarrow> string + string \<times> Claims" where
  "genRefreshToken env now jti u =
     (let claims = tokenClaims now 86400 ''refresh'' jti u in
      case ae_sign env claims of Inl e \<Rightarrow> Inl e | Inr s \<Rightarrow> Inr (s, claims))"

definition pruneRefreshSessions :: "RefreshSession list \<Rightarrow> int \<Rightarrow> RefreshSession list" where
  "pruneRefreshSessions sessions now = filter (\<lambda>s. \<not> (rs_Revoked s \<or> IsExpired s now)) sessions"

definition issueTokenPair :: "'w auth_env \<Rightarrow> int \<Rightarrow> User \<Rightarrow> 'w auth_state \<Rightarrow> (auth_error + TokenPair) \<times> 'w auth_state" where
  "issueTokenPair env now user st =
     (case genAccessToken env now user of
        Inl e \<Rightarrow> (Inl (SignError e), st)
      | Inr accessToken \<Rightarrow>
          (let st1 = st\<lparr>as_xids := as_xids st + 1\<rparr> in
           case genRefreshToken env now (ae_xid env (as_xids st)) user of
             Inl e \<Rightarrow> (Inl (SignError e), st1)
           | Inr (refreshToken, claims) \<Rightarrow>
               (let user1 = user\<lparr>us_RefreshTokens := pruneRefreshSessions (us_RefreshTokens user) now @
                               [\<lparr>rs_JTI = cl_ID claims, rs_TokenHash = hashToken env refreshToken,
                                 rs_ExpiresAt = cl_ExpiresAt claims, rs_Revoked = False\<rparr>],
                             be_UpdatedTime := now\<rparr>
                in case repoUpdateUser env now user1 st1 of
                     (Inl e, st2) \<Rightarrow> (Inl e, st2)
                   | (Inr _, st2) \<Rightarrow>
                       (Inr \<lparr>tp_AccessToken = accessToken, tp_RefreshToken = refreshToken\<rparr>, st2))))"


section \<open>Sessions\<close>

text \<open>Operations that report only an error.\<close>

definition outcome :: "(auth_error + 'a) \<times> 's \<Rightarrow> auth_error option \<times> 's" where
  "outcome r = (case r of (Inl e, st) \<Rightarrow> (Some e, st) | (Inr _, st) \<Rightarrow> (None, st))"

definition Login :: "'w auth_env \<Rightarrow> int \<Rightarrow> string \<Rightarrow> string \<Rightarrow> 'w auth_state \<Rightarrow> (auth_error + TokenPair) \<times> 'w auth_state" where
  "Login env now username password st =
     (case getUserByUserName env username st of
        Inl e \<Rightarrow> (Inl e, st)
      | Inr user \<Rightarrow>
          (if us_Status user = UserStatusInactive then (Inl (HTTPError 401 ''user is inactive''), st)
           else case Cmp (ae_argon2 env) (us_Password user) password of
                  Inl e \<Rightarrow> (Inl (PasswordError e), st)
                | Inr ok \<Rightarrow>
                    (if \<not> ok then (Inl (HTTPError 401 ''invalid password''), st)
                     else issueTokenPair env now user st)))"

text \<open>The loop of \<open>RefreshToken\<close> over the sessions: the first one with the token's ID decides.\<close>

fun useSession :: "string \<Rightarrow> string \<Rightarrow> int \<Rightarrow> RefreshSession list \<Rightarrow> auth_error + RefreshSession list" where
  "useSession jti hash now [] = Inl (HTTPError 401 ''refresh token not found'')"
| "useSession jti hash now (s # ss) =
     (if rs_JTI s \<noteq> jti then map_sum id (\<lambda>ss'. s # ss') (useSession jti hash now ss)
      else if rs_Revoked s \<or> IsExpired s now then Inl (HTTPError 401 ''refresh token revoked'')
      else if rs_TokenHash s \<noteq> hash then Inl (HTTPError 401 ''refresh token revoked'')
      else Inr (s\<lparr>rs_Revoked := True\<rparr> # ss))"

text \<open>The part of \<open>RefreshToken\<close> before its first write: the user with the session revoked.\<close>

definition refreshCheck :: "'w auth_env \<Rightarrow> int \<Rightarrow> string \<Rightarrow> 'w auth_state \<Rightarrow> auth_error + User" where
  "refreshCheck env now refreshToken st =
     (case parseAndValidateToken env now refreshToken of
        Inl e \<Rightarrow> Inl e
      | Inr claims \<Rightarrow>
          (if cl_TokenType claims \<noteq> ''refresh'' then Inl (HTTPError 401 ''invalid refresh token'')
           else if cl_ID claims = [] then Inl (HTTPError 401 ''invalid refresh token'')
           else case GetBsonObjectUID env claims of
                  Inl e \<Rightarrow> Inl e
                | Inr uid \<Rightarrow>
                    (case getUserByID env uid st of
                       Inl e \<Rightarrow> Inl e
                     | Inr user \<Rightarrow>
                         (if us_TokenVersion user \<noteq> cl_TokenVersion claims
                          then Inl (HTTPError 401 ''refresh token revoked'')
                          else case useSession (cl_ID claims) (hashToken env refreshToken) now
                                      (us_RefreshTokens user) of
                                 Inl e \<Rightarrow> Inl e
                               | Inr ss \<Rightarrow> Inr (user\<lparr>us_RefreshTokens := ss, be_UpdatedTime := now\<rparr>)))))"

definition refreshCommit :: "'w auth_env \<Rightarrow> int \<Rightarrow> User \<Rightarrow> 'w auth_state \<Rightarrow> (auth_error + TokenPair) \<times> 'w auth_state" where
  "refreshCommit env now user st =
     (case repoUpdateUser env now user st of
        (Inl e, st1) \<Rightarrow> (Inl e, st1)
      | (Inr user1, st1) \<Rightarrow> issueTokenPair env now user1 st1)"

definition RefreshToken :: "'w auth_env \<Rightarrow> int \<Rightarrow> string \<Rightarrow> 'w auth_state \<Rightarrow> (auth_error + TokenPair) \<times> 'w auth_state" where
  "RefreshToken env now refreshToken st =
     (case refreshCheck env now refreshToken st of
        Inl e \<Rightarrow> (Inl e, st)
      | Inr user \<Rightarrow> refreshCommit env now user st)"

fun revokeSession :: "string \<Rightarrow> string \<Rightarrow> RefreshSession list \<Rightarrow> RefreshSession list option" where
  "revokeSession jti hash [] = None"
| "revokeSession jti hash (s # ss) =
     (if rs_JTI s = jti \<and> rs_TokenHash s = hash then Some (s\<lparr>rs_Revoked := True\<rparr> # ss)
      else map_option (\<lambda>ss'. s # ss') (revokeSession jti hash ss))"

definition Logout :: "'w auth_env \<Rightarrow> int \<Rightarrow> string \<Rightarrow> 'w auth_state \<Rightarrow> auth_error option \<times> 'w auth_state" where
  "Logout env now refreshToken st =
     (case parseAndValidateToken env now refreshToken of
        Inl e \<Rightarrow> (Some e, st)
      | Inr claims \<Rightarrow>
          (if cl_TokenType claims \<noteq> ''refresh'' \<or> cl_ID claims = []
           then (Some (HTTPError 401 ''invalid refresh token''), st)
           else case GetBsonObjectUID env claims of
                  Inl e \<Rightarrow> (Some e, st)
                | Inr uid \<Rightarrow>
                    (case getUserByID env uid st of
                       Inl e \<Rightarrow> (Some e, st)
                     | Inr user \<Rightarrow>
                         (case revokeSession (cl_ID claims) (hashToken env refreshToken) (us_RefreshTokens user) of
                            None \<Rightarrow> (Some (HTTPError 401 ''refresh token not found''), st)
                          | Some ss \<Rightarrow>
                              outcome (repoUpdateUser env now
                                (user\<lparr>us_RefreshTokens := ss, be_UpdatedTime := now\<rparr>) st)))))"

definition LogoutAll :: "'w auth_env \<Rightarrow> int \<Rightarrow> Claims \<Rightarrow> 'w auth_state \<Rightarrow> auth_error option \<times> 'w auth_state" where
  "LogoutAll env now userClaims st =
     (case GetBsonObjectUID env userClaims of
        Inl e \<Rightarrow> (Some e, st)
      | Inr uid \<Rightarrow>
          (case getUserByID env uid st of
             Inl e \<Rightarrow> (Some e, st)
           | Inr user \<Rightarrow>
               outcome (repoUpdateUser env now
                 (user\<lparr>us_TokenVersion := us_TokenVersion user + 1, us_RefreshTokens := [], be_UpdatedTime := now\<rparr>) st)))"


section \<open>Accounts\<close>

definition mkUser :: "int \<Rightarrow> oid \<Rightarrow> oid \<Rightarrow> string \<Rightarrow> string \<Rightarrow> int \<Rightarrow> string list \<Rightarrow> User" where
  "mkUser now creator updater username password status roles =
     BaseEntity.extend (NewBaseEntity now creator updater)
       (User.fields username password status roles [] 0 [])"

definition CreateNewUser ::
  "'w auth_env \<Rightarrow> int \<Rightarrow> Claims \<Rightarrow> string \<Rightarrow> string \<Rightarrow> 'w auth_state \<Rightarrow> auth_error option \<times> 'w auth_state" where
  "CreateNewUser env now operator username password st =
     (case GetBsonObjectUID env operator of
        Inl e \<Rightarrow> (Some e, st)
      | Inr operatorID \<Rightarrow>
          outcome (repoCreateUser env now
            (mkUser now operatorID operatorID username password UserStatusWaitChangePassword []) st))"

definition ChangePassword ::
  "'w auth_env \<Rightarrow> int \<Rightarrow> Claims \<Rightarrow> string \<Rightarrow> string \<Rightarrow> 'w auth_state \<Rightarrow> auth_error option \<times> 'w auth_state" where
  "ChangePassword env now userClaims oldPassword newPassword st =
     (case GetBsonObjectUID env userClaims of
        Inl e \<Rightarrow> (Some e, st)
      | Inr uid \<Rightarrow>
          (case getUserByID env uid st of
             Inl e \<Rightarrow> (Some e, st)
           | Inr user \<Rightarrow>
               (case Cmp (ae_argon2 env) (us_Password user) oldPassword of
                  Inl e \<Rightarrow> (Some (PasswordError e), st)
                | Inr ok \<Rightarrow>
                    (if \<not> ok then (Some (HTTPError 401 ''invalid password''), st)
                     else outcome (repoUpdateUser env now
                            (user\<lparr>us_Status := UserStatusActive, us_Password := newPassword,
                                  be_UpdatedTime := now, be_UpdaterID := uid\<rparr>) st)))))"

text \<open>\<open>UpdateUserPermissionsOptions\<close>: \<^const>\<open>None\<close> is a nil pointer.\<close>

record UpdateUserPermissionsOptions =
  uo_Roles :: "string list option"
  uo_Status :: "int option"

definition svcQueryRoles :: "'w auth_env \<Rightarrow> QueryRoleOptions \<Rightarrow> 'w auth_state \<Rightarrow> auth_error + Role list" where
  "svcQueryRoles env q st = map_sum DbError id (QueryRoles (ae_db env) (Some q) (as_world st))"

definition rolesChecked :: "'w auth_env \<Rightarrow> string list option \<Rightarrow> User \<Rightarrow> 'w auth_state \<Rightarrow> auth_error + User" where
  "rolesChecked env roles user st =
     (case roles of
        None \<Rightarrow> Inr user
      | Some names \<Rightarrow>
          (case svcQueryRoles env \<lparr>qr_IDs = [], qr_Names = names\<rparr> st of
             Inl e \<Rightarrow> Inl e
           | Inr result \<Rightarrow>
               (if length names \<noteq> length result then Inl (HTTPError 400 ''Some roles not found'')
                else Inr (user\<lparr>us_Roles := names\<rparr>))))"

definition UpdateUserPermissions ::
  "'w auth_env \<Rightarrow> int \<Rightarrow> Claims \<Rightarrow> string \<Rightarrow> UpdateUserPermissionsOptions \<Rightarrow> 'w auth_state
     \<Rightarrow> auth_error option \<times> 'w auth_state" where
  "UpdateUserPermissions env now operator i opt st =
     (case GetBsonObjectUID env operator of
        Inl e \<Rightarrow> (Some e, st)
      | Inr operatorID \<Rightarrow>
          (case ae_fromHex env i of
             None \<Rightarrow> (Some (HTTPError 422 ''invalid user ID''), st)
           | Some uid \<Rightarrow>
               (case getUserByID env uid st of
                  Inl e \<Rightarrow> (Some e, st)
                | Inr user \<Rightarrow>
                    (case rolesChecked env (uo_Roles opt) user st of
                       Inl e \<Rightarrow> (Some e, st)
                     | Inr user1 \<Rightarrow>
                         (let user2 = (case uo_Status opt of None \<Rightarrow> user1 | Some s \<Rightarrow> user1\<lparr>us_Status := s\<rparr>) in
                          outcome (repoUpdateUser env now
                            (user2\<lparr>be_UpdatedTime := now, be_UpdaterID := operatorID\<rparr>) st))))))"

definition ResetPassword ::
  "'w auth_env \<Rightarrow> int \<Rightarrow> Claims \<Rightarrow> string \<Rightarrow> string \<Rightarrow> 'w auth_state \<Rightarrow> auth_error option \<times> 'w auth_state" where
  "ResetPassword env now operator i newPassword st =
     (case GetBsonObjectUID env operator of
        Inl e \<Rightarrow> (Some e, st)
      | Inr operatorID \<Rightarrow>
          (case ae_fromHex env i of
             None \<Rightarrow> (Some (HTTPError 422 ''invalid user ID''), st)
           | Some uid \<Rightarrow>
               (case getUserByID env uid st of
                  Inl e \<Rightarrow> (Some e, st)
                | Inr user \<Rightarrow>
                    outcome (repoUpdateUser env now
                      (user\<lparr>us_Password := newPassword, us_Status := UserStatusWaitChangePassword,
                            be_UpdatedTime := now, be_UpdaterID := operatorID\<rparr>) st))))"

definition svcQueryUsers :: "'w auth_env \<Rightarrow> QueryUserOptions \<Rightarrow> 'w auth_state \<Rightarrow> auth_error + User list" where
  "svcQueryUsers env q st = map_sum DbError id (QueryUsers (ae_db env) (Some q) (as_world st))"

definition CreateAdminUserIfNotExists ::
  "'w auth_env \<Rightarrow> int \<Rightarrow> string \<Rightarrow> string \<Rightarrow> 'w auth_state \<Rightarrow> auth_error option \<times> 'w auth_state" where
  "CreateAdminUserIfNotExists env now username password st =
     (case svcQueryUsers env \<lparr>qu_IDs = [], qu_UserNames = [username]\<rparr> st of
        Inl e \<Rightarrow> (Some e, st)
      | Inr result \<Rightarrow>
          (if result \<noteq> [] then (None, st)
           else case svcQueryRoles env \<lparr>qr_IDs = [], qr_Names = [AdminRole]\<rparr> st of
                  Inl e \<Rightarrow> (Some e, st)
                | Inr roles \<Rightarrow>
                    (if roles = [] then (Some NoAdminRole, st)
                     else outcome (repoCreateUser env now
                            (mkUser now zeroOID zeroOID username password UserStatusActive [AdminRole]) st))))"


section \<open>The users of \<open>user_svc.go\<close>\<close>

definition svcCreateUser ::
  "'w auth_env \<Rightarrow> int \<Rightarrow> Claims \<Rightarrow> User \<Rightarrow> 'w auth_state \<Rightarrow> auth_error option \<times> 'w auth_state" where
  "svcCreateUser env now operator user st =
     (case ae_fromHex env (cl_UID operator) of
        None \<Rightarrow> (Some (BadObjectID (cl_UID operator)), st)
      | Some operatorID \<Rightarrow>
          outcome (repoCreateUser env now
            (BaseEntity.extend (NewBaseEntity now operatorID operatorID)
               (User.fields (us_UserName user) (us_Password user) UserStatusWaitChangePassword (us_Roles user)
                 (us_PermissionKeys user) (us_TokenVersion user) (us_RefreshTokens user))) st))"

definition DeleteUser ::
  "'w auth_env \<Rightarrow> int \<Rightarrow> Claims \<Rightarrow> oid \<Rightarrow> 'w auth_state \<Rightarrow> auth_error option \<times> 'w auth_state" where
  "DeleteUser env now operator userID st =
     (case ae_fromHex env (cl_UID operator) of
        None \<Rightarrow> (Some (BadObjectID (cl_UID operator)), st)
      | Some operatorID \<Rightarrow>
          (let updateUser = mkUser now zeroOID operatorID [] [] 0 [] in
           outcome (repoUpdateUser env now (updateUser\<lparr>be_ID := userID, be_DeletedTime := now\<rparr>) st)))"

definition svcUpdateUser ::
  "'w auth_env \<Rightarrow> int \<Rightarrow> Claims \<Rightarrow> User \<Rightarrow> 'w auth_state \<Rightarrow> auth_error option \<times> 'w auth_state" where
  "svcUpdateUser env now operator user st =
     (case ae_fromHex env (cl_UID operator) of
        None \<Rightarrow> (Some (BadObjectID (cl_UID operator)), st)
      | Some operatorID \<Rightarrow>
          outcome (repoUpdateUser env now (user\<lparr>be_UpdaterID := operatorID, be_UpdatedTime := now\<rparr>) st))"


section \<open>Roles\<close>

definition svcCreateRole ::
  "'w auth_env \<Rightarrow> int \<Rightarrow> Claims \<Rightarrow> Role \<Rightarrow> 'w auth_state \<Rightarrow> auth_error option \<times> 'w auth_state" where
  "svcCreateRole env now operator role st =
     (case GetBsonObjectUID env operator of
        Inl e \<Rightarrow> (Some (HTTPError 401 ''unauthorized''), st)
      | Inr operatorID \<Rightarrow>
          (case CreateRole (ae_db env) now (ae_oid env (as_oids st))
                  (Some (BaseEntity.extend (NewBaseEntity now operatorID operatorID)
                     (Role.fields (ro_Name role) (ro_Description role) (ro_Policies role)))) (as_world st) of
             (r, w) \<Rightarrow> outcome (map_sum DbError id r, st\<lparr>as_world := w, as_oids := as_oids st + 1\<rparr>)))"

record UpdateRoleOptions =
  ur_Name :: "string option"
  ur_Description :: "string option"
  ur_Policies :: "RolePolicy list option"

definition getRolesByNames :: "'w auth_env \<Rightarrow> string list \<Rightarrow> 'w auth_state \<Rightarrow> auth_error + Role list" where
  "getRolesByNames env roleNames st =
     (if roleNames = [] then Inr []
      else svcQueryRoles env \<lparr>qr_IDs = [], qr_Names = roleNames\<rparr> st)"

fun roleOIDs :: "'w auth_env \<Rightarrow> string list \<Rightarrow> auth_error + oid list" where
  "roleOIDs env [] = Inr []"
| "roleOIDs env (s # ss) =
     (case ae_fromHex env s of
        None \<Rightarrow> Inl (BadObjectID s)
      | Some i \<Rightarrow> map_sum id (\<lambda>is'. i # is') (roleOIDs env ss))"

definition getRolesByIDs :: "'w auth_env \<Rightarrow> string list \<Rightarrow> 'w auth_state \<Rightarrow> auth_error + Role list" where
  "getRolesByIDs env roleIDs st =
     (if roleIDs = [] then Inr []
      else case roleOIDs env roleIDs of
             Inl e \<Rightarrow> Inl e
           | Inr ids \<Rightarrow> svcQueryRoles env \<lparr>qr_IDs = ids, qr_Names = []\<rparr> st)"

definition updatedRole :: "UpdateRoleOptions \<Rightarrow> oid \<Rightarrow> Role \<Rightarrow> Role" where
  "updatedRole opt operatorID role =
     role\<lparr>ro_Name := (case ur_Name opt of None \<Rightarrow> ro_Name role | Some n \<Rightarrow> n),
          ro_Description := (case ur_Description opt of None \<Rightarrow> ro_Description role | Some d \<Rightarrow> d),
          ro_Policies := (case ur_Policies opt of
             None \<Rightarrow> ro_Policies role
           | Some ps \<Rightarrow> map (\<lambda>p. \<lparr>rp_PermissionKey = rp_PermissionKey p, rp_Self = rp_Self p,
                                 rp_K8SNamespace = rp_K8SNamespace p,
                                 rp_PolicyNamespace = rp_PolicyNamespace p\<rparr>) ps),
          be_UpdaterID := operatorID\<rparr>"

definition svcUpdateRole ::
  "'w auth_env \<Rightarrow> int \<Rightarrow> Claims \<Rightarrow> string \<Rightarrow> UpdateRoleOptions \<Rightarrow> 'w auth_state
     \<Rightarrow> auth_error option \<times> 'w auth_state" where
  "svcUpdateRole env now operator roleID opt st =
     (case GetBsonObjectUID env operator of
        Inl e \<Rightarrow> (Some (HTTPError 401 ''unauthorized''), st)
      | Inr operatorID \<Rightarrow>
          (case getRolesByIDs env [roleID] st of
             Inl e \<Rightarrow> (Some e, st)
           | Inr [] \<Rightarrow> (Some (HTTPError 422 ''role not found''), st)
           | Inr (role # _) \<Rightarrow>
               (case UpdateRole (ae_db env) now (Some (updatedRole opt operatorID role)) (as_world st) of
                  (r, w) \<Rightarrow> outcome (map_sum DbError id r, st\<lparr>as_world := w\<rparr>))))"

definition DeleteRole :: "'w auth_env \<Rightarrow> Claims \<Rightarrow> string \<Rightarrow> 'w auth_state \<Rightarrow> auth_error option \<times> 'w auth_state" where
  "DeleteRole env operator roleID st = (Some NotImplemented, st)"

definition svcQueryPermissions ::
  "'w auth_env \<Rightarrow> QueryPermissionOptions \<Rightarrow> 'w auth_state \<Rightarrow> auth_error + Permission list" where
  "svcQueryPermissions env q st = map_sum DbError id (QueryPermissions (ae_db env) (Some q) (as_world st))"


section \<open>Access check\<close>

definition noPolicy :: RolePolicy where
  "noPolicy = \<lparr>rp_PermissionKey = [], rp_Self = False, rp_K8SNamespace = [], rp_PolicyNamespace = []\<rparr>"

text \<open>The nested loop over the roles and their policies: the first policy with the key.\<close>

fun firstPolicy :: "string \<Rightarrow> Role list \<Rightarrow> RolePolicy option" where
  "firstPolicy key [] = None"
| "firstPolicy key (r # rs) =
     (case find (\<lambda>p. rp_PermissionKey p = key) (ro_Policies r) of
        Some p \<Rightarrow> Some p
      | None \<Rightarrow> firstPolicy key rs)"

definition VerifyJWTToken ::
  "'w auth_env \<Rightarrow> int \<Rightarrow> string \<Rightarrow> string \<Rightarrow> 'w auth_state \<Rightarrow> auth_error + Claims \<times> RolePolicy" where
  "VerifyJWTToken env now tokenString permissionKey st =
     (case parseAndValidateToken env now tokenString of
        Inl e \<Rightarrow> Inl e
      | Inr claims \<Rightarrow>
          (if cl_TokenType claims \<noteq> ''access'' then Inl (HTTPError 401 ''invalid token type'')
           else if permissionKey \<noteq> ChangeOwnPassword \<and> cl_NeedChangePassword claims
           then Inl (HTTPError 403 ''password change required'')
           else case GetBsonObjectUID env claims of
                  Inl e \<Rightarrow> Inl e
                | Inr uid \<Rightarrow>
                    (case getUserByID env uid st of
                       Inl e \<Rightarrow> Inl e
                     | Inr user \<Rightarrow>
                         (if us_TokenVersion user \<noteq> cl_TokenVersion claims
                          then Inl (HTTPError 401 ''token revoked'')
                          else if permissionKey = [] \<or> permissionKey = ChangeOwnPassword
                          then Inr (claims, noPolicy)
                          else case getRolesByNames env (us_Roles user) st of
                                 Inl e \<Rightarrow> Inl e
                               | Inr roles \<Rightarrow>
                                   (if roles = [] then Inl (HTTPError 403 ''permission denied'')
                                    else case firstPolicy permissionKey roles of
                                           None \<Rightarrow> Inl (HTTPError 403 ''permission denied'')
                                         | Some policy \<Rightarrow> Inr (claims, policy))))))"

end
