(* ===== verification/Mgr_Sessions.thy ===== *)
theory Mgr_Sessions
  imports Mgr_Auth
begin

text \<open>
  Sequences of account operations.  Every operation of the service interface
  (\<open>domain.Service\<close>) on accounts and roles is a step of a transition relation; the lemmas show
  what such steps can do to the sessions and the token version of a user, hence that a refresh
  token that was used or logged out, and every token issued before \<open>LogoutAll\<close>, is refused in
  all later states.
\<close>

section \<open>Operations as steps\<close>

datatype auth_op =
    OpCreateNewUser Claims string string
  | OpCreateAdmin string string
  | OpLogin string string
  | OpRefresh string
  | OpLogout string
  | OpLogoutAll Claims
  | OpChangePassword Claims string string
  | OpResetPassword Claims string string
  | OpUpdatePermissions Claims string UpdateUserPermissionsOptions
  | OpCreateRole Claims Role
  | OpUpdateRole Claims string UpdateRoleOptions

fun runAuthOp :: "'w auth_env \<Rightarrow> int \<Rightarrow> auth_op \<Rightarrow> 'w auth_state \<Rightarrow> 'w auth_state" where
  "runAuthOp env now (OpCreateNewUser c n p) st = snd (CreateNewUser env now c n p st)"
| "runAuthOp env now (OpCreateAdmin n p) st = snd (CreateAdminUserIfNotExists env now n p st)"
| "runAuthOp env now (OpLogin n p) st = snd (Login env now n p st)"
| "runAuthOp env now (OpRefresh t) st = snd (RefreshToken env now t st)"
| "runAuthOp env now (OpLogout t) st = snd (Logout env now t st)"
| "runAuthOp env now (OpLogoutAll c) st = snd (LogoutAll env now c st)"
| "runAuthOp env now (OpChangePassword c a b) st = snd (ChangePassword env now c a b st)"
| "runAuthOp env now (OpResetPassword c i p) st = snd (ResetPassword env now c i p st)"
| "runAuthOp env now (OpUpdatePermissions c i opt) st = snd (UpdateUserPermissions env now c i opt st)"
| "runAuthOp env now (OpCreateRole c r) st = snd (svcCreateRole env now c r st)"
| "runAuthOp env now (OpUpdateRole c i opt) st = snd (svcUpdateRole env now c i opt st)"

inductive authReach :: "'w auth_env \<Rightarrow> 'w auth_state \<Rightarrow> 'w auth_state \<Rightarrow> bool" for env where
  reach_refl: "authReach env st st"
| reach_step: "authReach env st st1 \<Longrightarrow> authReach env st (runAuthOp env now op st1)"


section \<open>What a step does to a user\<close>

text \<open>Sessions are kept in order, possibly revoked, possibly dropped, and at most one is added,
  whose ID is taken from \<open>N\<close>.\<close>

definition sessionsFrom :: "string set \<Rightarrow> RefreshSession list \<Rightarrow> RefreshSession list \<Rightarrow> bool" where
  "sessionsFrom N ss ss' \<longleftrightarrow>
     (\<exists>kept new. ss' = kept @ new \<and> subseq (map rs_JTI kept) (map rs_JTI ss) \<and>
        (\<forall>s \<in> set kept. \<exists>s0 \<in> set ss. rs_JTI s0 = rs_JTI s \<and> (rs_Revoked s0 \<longrightarrow> rs_Revoked s)) \<and>
        (new = [] \<or> (\<exists>s. new = [s] \<and> rs_JTI s \<in> N)))"

definition userEvolves :: "string set \<Rightarrow> User \<Rightarrow> User \<Rightarrow> bool" where
  "userEvolves N u u' \<longleftrightarrow>
     us_TokenVersion u \<le> us_TokenVersion u' \<and> sessionsFrom N (us_RefreshTokens u) (us_RefreshTokens u')"

definition drawn :: "'w auth_env \<Rightarrow> nat \<Rightarrow> nat \<Rightarrow> string set" where
  "drawn env n n' = ae_xid env ` {n..<n'}"

text \<open>At most one user document is written: a new one without sessions, or the evolution of the
  one it replaces.\<close>

definition userStep :: "'w auth_env \<Rightarrow> 'w db_view \<Rightarrow> 'w auth_state \<Rightarrow> 'w auth_state \<Rightarrow> bool" where
  "userStep env v st st' \<longleftrightarrow>
     as_xids st \<le> as_xids st' \<and>
     (dv_users v (as_world st') = dv_users v (as_world st) \<or>
      (\<exists>doc. userWritten v doc (as_world st) (as_world st') \<and>
        (case dv_users v (as_world st) (be_ID doc) of
           None \<Rightarrow> us_RefreshTokens doc = []
         | Some u \<Rightarrow> userEvolves (drawn env (as_xids st) (as_xids st')) u doc)))"

lemma sessionsFrom_refl [simp]: "sessionsFrom N ss ss"
  unfolding sessionsFrom_def by (intro exI [of _ ss] exI [of _ "[]"]) auto

lemma sessionsFrom_Nil [simp]: "sessionsFrom N ss []"
  unfolding sessionsFrom_def by (intro exI [of _ "[]"]) auto

lemma userStep_same: "as_xids st \<le> as_xids st' \<Longrightarrow> dv_users v (as_world st') = dv_users v (as_world st) \<Longrightarrow> userStep env v st st'"
  by (simp add: userStep_def)

lemma useSession_from: "useSession j h now ss = Inr ss' \<Longrightarrow> map rs_JTI ss' = map rs_JTI ss \<and>
    (\<forall>s \<in> set ss'. \<exists>s0 \<in> set ss. rs_JTI s0 = rs_JTI s \<and> (rs_Revoked s0 \<longrightarrow> rs_Revoked s))"
proof (induction ss arbitrary: ss')
  case (Cons s ss)
  show ?case
  proof (cases "rs_JTI s = j")
    case True
    then have "ss' = s\<lparr>rs_Revoked := True\<rparr> # ss" using Cons.prems by (auto split: if_splits)
    then show ?thesis by auto
  next
    case False
    then obtain ss1 where ss1: "useSession j h now ss = Inr ss1" "ss' = s # ss1"
      using Cons.prems by (cases "useSession j h now ss") auto
    then show ?thesis using Cons.IH [OF ss1(1)] by auto
  qed
qed simp

lemma revokeSession_from: "revokeSession j h ss = Some ss' \<Longrightarrow> map rs_JTI ss' = map rs_JTI ss \<and>
    (\<forall>s \<in> set ss'. \<exists>s0 \<in> set ss. rs_JTI s0 = rs_JTI s \<and> (rs_Revoked s0 \<longrightarrow> rs_Revoked s))"
proof (induction ss arbitrary: ss')
  case (Cons s ss)
  show ?case
  proof (cases "rs_JTI s = j \<and> rs_TokenHash s = h")
    case True
    then have "ss' = s\<lparr>rs_Revoked := True\<rparr> # ss" using Cons.prems by auto
    then show ?thesis by auto
  next
    case False
    then obtain ss1 where ss1: "revokeSession j h ss = Some ss1" "ss' = s # ss1"
      using Cons.prems by auto
    then show ?thesis using Cons.IH [OF ss1(1)] by auto
  qed
qed simp

lemma sessionsFrom_mapped:
  assumes "map rs_JTI ss' = map rs_JTI ss \<and>
    (\<forall>s \<in> set ss'. \<exists>s0 \<in> set ss. rs_JTI s0 = rs_JTI s \<and> (rs_Revoked s0 \<longrightarrow> rs_Revoked s))"
  shows "sessionsFrom N ss ss'"
  unfolding sessionsFrom_def using assms by (intro exI [of _ ss'] exI [of _ "[]"]) auto

lemma sessionsFrom_issue:
  assumes "rs_JTI s \<in> N"
  shows "sessionsFrom N ss (pruneRefreshSessions ss now @ [s])"
  unfolding sessionsFrom_def
  using assms by (intro exI [of _ "pruneRefreshSessions ss now"] exI [of _ "[s]"])
    (auto simp: pruneRefreshSessions_def intro: subseq_map subseq_filter_left)


section \<open>Reading a user\<close>

lemma getUserByID_view:
  assumes "db_laws (ae_db env) v" "getUserByID env i st = Inr u"
  shows "dv_users v (as_world st) i = Some u" "be_ID u = i"
proof -
  obtain us where q: "QueryUsers (ae_db env) (Some \<lparr>qu_IDs = [i], qu_UserNames = []\<rparr>) (as_world st) = Inr us" "us \<noteq> []" "hd us = u"
    using assms(2) by (auto simp: getUserByID_def split: sum.splits list.splits)
  then show "dv_users v (as_world st) i = Some u"
    using QueryUsers_byID [OF assms(1) q(1)] by (auto split: option.splits)
  then show "be_ID u = i" by (rule ud.view_id [OF db_lawsD(1) [OF assms(1)]])
qed

lemma getUserByUserName_view:
  assumes "db_laws (ae_db env) v" "getUserByUserName env n st = Inr u"
  shows "dv_users v (as_world st) (be_ID u) = Some u" "us_UserName u = n"
proof -
  obtain us where q: "QueryUsers (ae_db env) (Some \<lparr>qu_IDs = [], qu_UserNames = [n]\<rparr>) (as_world st) = Inr us" "u \<in> set us"
    using assms(2) by (auto simp: getUserByUserName_def split: sum.splits list.splits)
  then have "u \<in> ran (dv_users v (as_world st))" "us_UserName u = n"
    using QueryUsers_set(2) [OF assms(1) q(1)] by auto
  then show "dv_users v (as_world st) (be_ID u) = Some u" "us_UserName u = n"
    using ud.view_id [OF db_lawsD(1) [OF assms(1)]] by (auto simp: ran_def)
qed


section \<open>Writing a user\<close>

definition sameSessions :: "User \<Rightarrow> User \<Rightarrow> bool" where
  "sameSessions u u' \<longleftrightarrow> be_ID u' = be_ID u \<and> us_TokenVersion u' = us_TokenVersion u \<and> us_RefreshTokens u' = us_RefreshTokens u"

lemma repoUpdateUser_xids: "repoUpdateUser env now u st = (r, st') \<Longrightarrow> as_xids st' = as_xids st"
  by (auto simp: repoUpdateUser_def split: prod.splits)

lemma repoUpdateUser_result: "repoUpdateUser env now u st = (Inr u', st') \<Longrightarrow> db_laws (ae_db env) v \<Longrightarrow> u' = u\<lparr>be_UpdatedTime := now\<rparr>"
proof -
  assume run: "repoUpdateUser env now u st = (Inr u', st')" and v: "db_laws (ae_db env) v"
  obtain r w where upd: "UpdateUser (ae_db env) (ae_argon2 env) (ae_params env) now (ae_salt env (as_salts st)) (Some u) (as_world st) = (r, w)"
    by fastforce
  then have "r = Inr u'" using run by (cases r) (auto simp: repoUpdateUser_def)
  then show ?thesis using UpdateUser_cases(2) [OF v upd] by auto
qed

lemma repoUpdateUser_written:
  assumes v: "db_laws (ae_db env) v" and run: "repoUpdateUser env now u st = (r, st')"
  shows "dv_users v (as_world st') = dv_users v (as_world st) \<and> isl r \<or>
    dv_users v (as_world st) (be_ID u) \<noteq> None \<and>
    (\<exists>doc. sameSessions u doc \<and> us_Status doc = us_Status u \<and> us_Roles doc = us_Roles u \<and>
       userWritten v doc (as_world st) (as_world st'))"
proof -
  obtain q w where upd: "UpdateUser (ae_db env) (ae_argon2 env) (ae_params env) now (ae_salt env (as_salts st)) (Some u) (as_world st) = (q, w)"
    by fastforce
  then have st': "as_world st' = w" "isl r = isl q"
    using run by (auto simp: repoUpdateUser_def isl_map_sum)
  from UpdateUser_cases(2) [OF v upd] show ?thesis
  proof (elim disjE conjE exE)
    assume "dv_users v w = dv_users v (as_world st)" "isl q"
    then show ?thesis using st' by simp
  next
    fix doc
    assume doc: "marshalUser (ae_argon2 env) (ae_params env) (ae_salt env (as_salts st)) (u\<lparr>be_UpdatedTime := now\<rparr>) = Inr doc"
      and "dv_users v (as_world st) (be_ID u) \<noteq> None" "userWritten v doc (as_world st) w"
    moreover have "sameSessions u doc" "us_Status doc = us_Status u" "us_Roles doc = us_Roles u"
      using marshalUser_ID [OF doc] marshalUser_keeps [OF doc] by (simp_all add: sameSessions_def)
    ultimately show ?thesis using st' by blast
  next
    fix doc
    assume doc: "marshalUser (ae_argon2 env) (ae_params env) (ae_salt env (as_salts st)) (u\<lparr>be_UpdatedTime := now\<rparr>) = Inr doc"
      and "dv_users v (as_world st) (be_ID u) \<noteq> None" "userWritten v doc (as_world st) w"
    moreover have "sameSessions u doc" "us_Status doc = us_Status u" "us_Roles doc = us_Roles u"
      using marshalUser_ID [OF doc] marshalUser_keeps [OF doc] by (simp_all add: sameSessions_def)
    ultimately show ?thesis using st' by blast
  qed
qed

lemma repoUpdateUser_step:
  assumes v: "db_laws (ae_db env) v" and run: "repoUpdateUser env now u st = (r, st')"
    and old: "dv_users v (as_world st0) (be_ID u) = Some u0" "as_world st = as_world st0" "as_xids st0 \<le> as_xids st"
    and ev: "userEvolves (drawn env (as_xids st0) (as_xids st)) u0 u"
  shows "userStep env v st0 st'"
  using repoUpdateUser_written [OF v run]
proof (elim disjE conjE exE)
  assume "dv_users v (as_world st') = dv_users v (as_world st)"
  then show ?thesis using old repoUpdateUser_xids [OF run] by (simp add: userStep_same)
next
  fix doc
  assume doc: "sameSessions u doc" "userWritten v doc (as_world st) (as_world st')"
  then have "userEvolves (drawn env (as_xids st0) (as_xids st)) u0 doc" "be_ID doc = be_ID u"
    using ev by (auto simp: userEvolves_def sameSessions_def)
  then show ?thesis
    unfolding userStep_def using doc(2) old repoUpdateUser_xids [OF run]
    by (intro conjI disjI2 exI [of _ doc]) auto
qed

lemma repoCreateUser_step:
  assumes v: "db_laws (ae_db env) v" and u: "us_RefreshTokens u = []"
  shows "userStep env v st (snd (repoCreateUser env now u st))"
proof -
  obtain r w where cr: "CreateUser (ae_db env) (ae_argon2 env) (ae_params env) now (ae_oid env (as_oids st)) (ae_salt env (as_salts st))
      (Some u) (as_world st) = (r, w)" by fastforce
  then have st': "as_world (snd (repoCreateUser env now u st)) = w" "as_xids (snd (repoCreateUser env now u st)) = as_xids st"
    by (simp_all add: repoCreateUser_def)
  have *: "userStep env v st (snd (repoCreateUser env now u st))"
    if "marshalUser (ae_argon2 env) (ae_params env) (ae_salt env (as_salts st)) (stampNew now (ae_oid env (as_oids st)) u) = Inr doc"
      "dv_users v (as_world st) (be_ID doc) = None" "userWritten v doc (as_world st) w" for doc
    unfolding userStep_def st'
    using that u marshalUser_keeps(5) [OF that(1)]
    by (intro conjI disjI2 exI [of _ doc]) (auto simp: stampNew_def)
  from CreateUser_cases(2) [OF v cr] show ?thesis
  proof (elim disjE conjE exE)
    assume "dv_users v w = dv_users v (as_world st)"
    then show ?thesis using st' by (simp add: userStep_same)
  qed (rule *; assumption)+
qed

lemma issueTokenPair_step:
  assumes v: "db_laws (ae_db env) v"
    and old: "dv_users v (as_world st) (be_ID u) = Some u0" "us_TokenVersion u0 = us_TokenVersion u" "us_RefreshTokens u0 = us_RefreshTokens u"
  shows "userStep env v st (snd (issueTokenPair env now u st))"
proof -
  have same: "userStep env v st st" "userStep env v st (st\<lparr>as_xids := as_xids st + 1\<rparr>)"
    by (simp_all add: userStep_same)
  have ev: "userStep env v st st2"
    if "repoUpdateUser env now (u\<lparr>us_RefreshTokens := pruneRefreshSessions (us_RefreshTokens u) now @ [s], be_UpdatedTime := now\<rparr>)
        (st\<lparr>as_xids := as_xids st + 1\<rparr>) = (r, st2)" "rs_JTI s = ae_xid env (as_xids st)" for s r st2
  proof (rule repoUpdateUser_step [OF v that(1), of st])
    have "rs_JTI s \<in> drawn env (as_xids st) (as_xids st + 1)" using that(2) by (simp add: drawn_def)
    then show "userEvolves (drawn env (as_xids st) (as_xids (st\<lparr>as_xids := as_xids st + 1\<rparr>))) u0
        (u\<lparr>us_RefreshTokens := pruneRefreshSessions (us_RefreshTokens u) now @ [s], be_UpdatedTime := now\<rparr>)"
      using old sessionsFrom_issue by (simp add: userEvolves_def)
  qed (use old in simp_all)
  show ?thesis
    using same ev
    by (auto simp: issueTokenPair_def Let_def genRefreshToken_def tokenClaims_def split: sum.splits prod.splits)
qed

lemma roleOps_step:
  assumes v: "db_laws (ae_db env) v"
  shows "userStep env v st (snd (svcCreateRole env now c role st))"
    and "userStep env v st (snd (svcUpdateRole env now c i opt st))"
proof -
  have k: "keeps (db_roles (ae_db env)) (dv_users v)" by (rule db_lawsD(6) [OF v])
  have "dv_users v (as_world (snd (svcCreateRole env now c role st))) = dv_users v (as_world st)"
    by (auto simp: svcCreateRole_def CreateRole_def outcome_def Let_def keepsD(1) [OF k]
        split: sum.splits prod.splits option.splits)
  moreover have "as_xids (snd (svcCreateRole env now c role st)) = as_xids st"
    by (auto simp: svcCreateRole_def outcome_def split: sum.splits prod.splits)
  ultimately show "userStep env v st (snd (svcCreateRole env now c role st))"
    by (simp add: userStep_same)
  have "dv_users v (as_world (snd (svcUpdateRole env now c i opt st))) = dv_users v (as_world st)"
    by (auto simp: svcUpdateRole_def UpdateRole_def outcome_def Let_def keepsD(2) [OF k]
        split: sum.splits prod.splits list.splits if_splits)
  moreover have "as_xids (snd (svcUpdateRole env now c i opt st)) = as_xids st"
    by (auto simp: svcUpdateRole_def outcome_def split: sum.splits prod.splits list.splits)
  ultimately show "userStep env v st (snd (svcUpdateRole env now c i opt st))"
    by (simp add: userStep_same)
qed

text \<open>Reading a user by ID and writing it back with sessions derived from the stored ones.\<close>

lemma readWrite_step:
  assumes v: "db_laws (ae_db env) v" and u: "getUserByID env i st = Inr u"
    and u': "be_ID u' = be_ID u" "us_TokenVersion u \<le> us_TokenVersion u'"
      "sessionsFrom {} (us_RefreshTokens u) (us_RefreshTokens u')"
  shows "userStep env v st (snd (repoUpdateUser env now u' st))"
proof -
  obtain r st' where run: "repoUpdateUser env now u' st = (r, st')" by fastforce
  have "userEvolves (drawn env (as_xids st) (as_xids st)) u u'"
    using u' by (simp add: userEvolves_def drawn_def)
  then show ?thesis
    using repoUpdateUser_step [OF v run, of st u] getUserByID_view [OF v u] u'(1) run by simp
qed

lemma snd_outcome [simp]: "snd (outcome r) = snd r"
  by (auto simp: outcome_def split: prod.splits sum.splits)

lemma fst_outcome: "fst (outcome r) = None \<longleftrightarrow> \<not> isl (fst r)"
  by (auto simp: outcome_def split: prod.splits sum.splits)

lemma Login_step:
  assumes v: "db_laws (ae_db env) v"
  shows "userStep env v st (snd (Login env now n p st))"
proof (cases "getUserByUserName env n st")
  case (Inr u)
  have "userStep env v st (snd (issueTokenPair env now u st))"
    using issueTokenPair_step [OF v getUserByUserName_view(1) [OF v Inr]] by simp
  then show ?thesis using Inr by (auto simp: Login_def userStep_same split: sum.splits)
qed (simp add: Login_def userStep_same)

lemma refreshCheck_view:
  assumes v: "db_laws (ae_db env) v" and c: "refreshCheck env now t st = Inr u"
  obtains claims uid u0 ss where
    "parseAndValidateToken env now t = Inr claims" "cl_TokenType claims = ''refresh''" "cl_ID claims \<noteq> []"
    "ae_fromHex env (cl_UID claims) = Some uid" "dv_users v (as_world st) uid = Some u0" "be_ID u0 = uid"
    "us_TokenVersion u0 = cl_TokenVersion claims"
    "useSession (cl_ID claims) (hashToken env t) now (us_RefreshTokens u0) = Inr ss"
    "u = u0\<lparr>us_RefreshTokens := ss, be_UpdatedTime := now\<rparr>"
  using c by (auto simp: refreshCheck_def GetBsonObjectUID_def split: sum.splits if_splits option.splits
      intro!: that dest: getUserByID_view [OF v])

lemma RefreshToken_steps:
  assumes v: "db_laws (ae_db env) v"
  shows "(userStep env v)\<^sup>*\<^sup>* st (snd (RefreshToken env now t st))"
proof (cases "refreshCheck env now t st")
  case (Inl e)
  then show ?thesis by (simp add: RefreshToken_def)
next
  case (Inr u)
  obtain claims :: Claims and uid u0 ss where r: "dv_users v (as_world st) uid = Some u0" "be_ID u0 = uid"
    "useSession (cl_ID claims) (hashToken env t) now (us_RefreshTokens u0) = Inr ss"
    "u = u0\<lparr>us_RefreshTokens := ss, be_UpdatedTime := now\<rparr>"
    by (rule refreshCheck_view [OF v Inr]) blast
  obtain q st1 where run: "repoUpdateUser env now u st = (q, st1)" by fastforce
  have ev: "userEvolves (drawn env (as_xids st) (as_xids st)) u0 u"
    using sessionsFrom_mapped [OF useSession_from [OF r(3)]] r(4) by (simp add: userEvolves_def)
  have one: "userStep env v st st1"
    using repoUpdateUser_step [OF v run _ _ _ ev] r by simp
  show ?thesis
  proof (cases q)
    case (Inl e)
    then show ?thesis using Inr run one by (simp add: RefreshToken_def refreshCommit_def r_into_rtranclp)
  next
    fix u1 assume q: "q = Inr u1"
    have u1: "u1 = u\<lparr>be_UpdatedTime := now\<rparr>" using repoUpdateUser_result run q v by blast
    obtain doc where doc: "sameSessions u doc" "userWritten v doc (as_world st) (as_world st1)"
      using repoUpdateUser_written [OF v run] q by auto
    have "userStep env v st1 (snd (issueTokenPair env now u1 st1))"
      using doc u1 by (intro issueTokenPair_step [OF v, of st1 u1 doc]) (auto simp: userWritten_def sameSessions_def)
    then show ?thesis using Inr run q one by (simp add: RefreshToken_def refreshCommit_def)
  qed
qed

lemma runAuthOp_steps:
  assumes v: "db_laws (ae_db env) v"
  shows "(userStep env v)\<^sup>*\<^sup>* st (runAuthOp env now op st)"
proof (cases op)
  case (OpRefresh t)
  then show ?thesis using RefreshToken_steps [OF v] by simp
next
  case (OpCreateNewUser c n p)
  then show ?thesis
    using repoCreateUser_step [OF v] by (auto simp: CreateNewUser_def mkUser_def BaseEntity.defs User.defs split: sum.split)
next
  case (OpCreateAdmin n p)
  then show ?thesis
    using repoCreateUser_step [OF v] by (auto simp: CreateAdminUserIfNotExists_def mkUser_def BaseEntity.defs User.defs split: sum.split)
next
  case (OpLogin n p)
  then show ?thesis using Login_step [OF v] by (simp add: r_into_rtranclp)
next
  case (OpLogout t)
  have "userStep env v st (snd (Logout env now t st))"
    using userStep_same [of st st]
    by (auto simp: Logout_def split: sum.split option.split
        intro!: readWrite_step [OF v] sessionsFrom_mapped [OF revokeSession_from])
  then show ?thesis using OpLogout by (simp add: r_into_rtranclp)
next
  case (OpLogoutAll c)
  then show ?thesis
    using readWrite_step [OF v] by (auto simp: LogoutAll_def split: sum.split)
next
  case (OpChangePassword c a b)
  then show ?thesis
    using readWrite_step [OF v] by (auto simp: ChangePassword_def split: sum.split)
next
  case (OpResetPassword c i p)
  then show ?thesis
    using readWrite_step [OF v] by (auto simp: ResetPassword_def split: sum.split option.split)
next
  case (OpUpdatePermissions c i opt)
  then show ?thesis
    using readWrite_step [OF v]
    by (auto simp: UpdateUserPermissions_def rolesChecked_def Let_def split: sum.split option.split)
next
  case (OpCreateRole c r)
  then show ?thesis using roleOps_step [OF v] by (simp add: r_into_rtranclp)
next
  case (OpUpdateRole c i opt)
  then show ?thesis using roleOps_step [OF v] by (simp add: r_into_rtranclp)
qed

lemma authReach_steps:
  assumes v: "db_laws (ae_db env) v" and "authReach env st st'"
  shows "(userStep env v)\<^sup>*\<^sup>* st st'"
  using assms(2) by induction (auto intro: rtranclp_trans runAuthOp_steps [OF v])

lemma steps_preserve:
  assumes "(userStep env v)\<^sup>*\<^sup>* st st'" "P st" "\<And>a b. userStep env v a b \<Longrightarrow> P a \<Longrightarrow> P b"
  shows "P st'"
  using assms by (induction rule: rtranclp_induct) auto


section \<open>Invariants\<close>

text \<open>Session IDs are distinct and were drawn before.\<close>

definition goodSessions :: "'w auth_env \<Rightarrow> nat \<Rightarrow> RefreshSession list \<Rightarrow> bool" where
  "goodSessions env n ss \<longleftrightarrow> distinct (map rs_JTI ss) \<and> rs_JTI ` set ss \<subseteq> drawn env 0 n"

definition sessionInv :: "'w auth_env \<Rightarrow> 'w db_view \<Rightarrow> 'w auth_state \<Rightarrow> bool" where
  "sessionInv env v st \<longleftrightarrow>
     (\<forall>u \<in> ran (dv_users v (as_world st)). goodSessions env (as_xids st) (us_RefreshTokens u))"

text \<open>A session that can no longer be used: its ID was drawn, and the user's sessions with it are
  revoked.\<close>

definition deadSession :: "'w auth_env \<Rightarrow> 'w db_view \<Rightarrow> oid \<Rightarrow> string \<Rightarrow> 'w auth_state \<Rightarrow> bool" where
  "deadSession env v uid j st \<longleftrightarrow>
     j \<in> drawn env 0 (as_xids st) \<and>
     (\<forall>u. dv_users v (as_world st) uid = Some u \<longrightarrow> (\<forall>s \<in> set (us_RefreshTokens u). rs_JTI s = j \<longrightarrow> rs_Revoked s))"

definition versionAbove :: "'w db_view \<Rightarrow> oid \<Rightarrow> int \<Rightarrow> 'w auth_state \<Rightarrow> bool" where
  "versionAbove v uid n st \<longleftrightarrow> (\<exists>u. dv_users v (as_world st) uid = Some u \<and> n < us_TokenVersion u)"

lemma drawn_mono: "n \<le> n' \<Longrightarrow> drawn env 0 n \<subseteq> drawn env 0 n'"
  by (auto simp: drawn_def)

lemma drawn_fresh: "inj (ae_xid env) \<Longrightarrow> drawn env 0 n \<inter> drawn env n n' = {}"
  by (auto simp: drawn_def inj_eq)

lemma subseq_keeps: "subseq xs ys \<Longrightarrow> set xs \<subseteq> set ys \<and> (distinct ys \<longrightarrow> distinct xs)"
  by (auto simp: subseq_conv_nths dest: in_set_nthsD)

lemma goodSessions_from:
  assumes x: "inj (ae_xid env)" and n: "n \<le> n'" and g: "goodSessions env n ss"
    and f: "sessionsFrom (drawn env n n') ss ss'"
  shows "goodSessions env n' ss'"
proof -
  obtain kept new where k: "ss' = kept @ new" "subseq (map rs_JTI kept) (map rs_JTI ss)"
    "new = [] \<or> (\<exists>s. new = [s] \<and> rs_JTI s \<in> drawn env n n')"
    using f unfolding sessionsFrom_def by blast
  have "distinct (map rs_JTI kept)" "rs_JTI ` set kept \<subseteq> drawn env 0 n"
    using subseq_keeps [OF k(2)] g by (auto simp: goodSessions_def)
  moreover have "drawn env n n' \<subseteq> drawn env 0 n'" by (auto simp: drawn_def)
  ultimately show ?thesis
    using k(1,3) drawn_fresh [OF x, of n n'] drawn_mono [OF n, of env]
    by (auto simp: goodSessions_def) (metis IntI empty_iff image_subset_iff)
qed

lemma sessionInv_step:
  assumes x: "inj (ae_xid env)" and s: "userStep env v st st'" and i: "sessionInv env v st"
  shows "sessionInv env v st'"
proof -
  have n: "as_xids st \<le> as_xids st'" using s by (simp add: userStep_def)
  have old: "goodSessions env (as_xids st') ss" if "goodSessions env (as_xids st) ss" for ss
    using goodSessions_from [OF x n that, of ss] by simp
  show ?thesis
    using s unfolding userStep_def
  proof (elim conjE disjE exE)
    assume "dv_users v (as_world st') = dv_users v (as_world st)"
    then show ?thesis using i old by (simp add: sessionInv_def)
  next
    fix doc
    assume w: "userWritten v doc (as_world st) (as_world st')" and
      d: "case dv_users v (as_world st) (be_ID doc) of None \<Rightarrow> us_RefreshTokens doc = []
         | Some u \<Rightarrow> userEvolves (drawn env (as_xids st) (as_xids st')) u doc"
    have "goodSessions env (as_xids st') (us_RefreshTokens doc)"
    proof (cases "dv_users v (as_world st) (be_ID doc)")
      case None
      then show ?thesis using d by (simp add: goodSessions_def)
    next
      case (Some u)
      then have "goodSessions env (as_xids st) (us_RefreshTokens u)"
        using i by (auto simp: sessionInv_def ran_def)
      then show ?thesis using goodSessions_from [OF x n] d Some by (simp add: userEvolves_def)
    qed
    then show ?thesis
      using w i old by (auto simp: sessionInv_def userWritten_def ran_def split: if_splits)
  qed
qed

lemma deadSession_step:
  assumes x: "inj (ae_xid env)" and s: "userStep env v st st'" and d: "deadSession env v uid j st"
  shows "deadSession env v uid j st'"
proof -
  have n: "as_xids st \<le> as_xids st'" using s by (simp add: userStep_def)
  have j: "j \<in> drawn env 0 (as_xids st')" "j \<notin> drawn env (as_xids st) (as_xids st')"
    using d drawn_mono [OF n, of env] drawn_fresh [OF x, of "as_xids st" "as_xids st'"]
    by (auto simp: deadSession_def)
  have "\<forall>s \<in> set (us_RefreshTokens u). rs_JTI s = j \<longrightarrow> rs_Revoked s" if u: "dv_users v (as_world st') uid = Some u" for u
    using s unfolding userStep_def
  proof (elim conjE disjE exE)
    assume "dv_users v (as_world st') = dv_users v (as_world st)"
    then show ?thesis using d u by (simp add: deadSession_def)
  next
    fix doc
    assume w: "userWritten v doc (as_world st) (as_world st')" and
      e: "case dv_users v (as_world st) (be_ID doc) of None \<Rightarrow> us_RefreshTokens doc = []
         | Some u \<Rightarrow> userEvolves (drawn env (as_xids st) (as_xids st')) u doc"
    show ?thesis
    proof (cases "uid = be_ID doc")
      case False
      then show ?thesis using d u w by (simp add: deadSession_def userWritten_def)
    next
      case True
      then have doc: "u = doc" using u w by (simp add: userWritten_def)
      show ?thesis
      proof (cases "dv_users v (as_world st) uid")
        case None
        then show ?thesis using e doc True by simp
      next
        case (Some u0)
        then have "sessionsFrom (drawn env (as_xids st) (as_xids st')) (us_RefreshTokens u0) (us_RefreshTokens u)"
          using e doc True by (simp add: userEvolves_def)
        then show ?thesis
          using j(2) d Some unfolding sessionsFrom_def deadSession_def by fastforce
      qed
    qed
  qed
  then show ?thesis using j(1) by (simp add: deadSession_def)
qed

lemma versionAbove_step:
  assumes s: "userStep env v st st'" and a: "versionAbove v uid n st"
  shows "versionAbove v uid n st'"
  using s unfolding userStep_def
proof (elim conjE disjE exE)
  assume "dv_users v (as_world st') = dv_users v (as_world st)"
  then show ?thesis using a by (simp add: versionAbove_def)
next
  fix doc
  assume w: "userWritten v doc (as_world st) (as_world st')" and
    e: "case dv_users v (as_world st) (be_ID doc) of None \<Rightarrow> us_RefreshTokens doc = []
       | Some u \<Rightarrow> userEvolves (drawn env (as_xids st) (as_xids st')) u doc"
  show ?thesis
    using a e w by (cases "uid = be_ID doc") (auto simp: versionAbove_def userWritten_def userEvolves_def)
qed


section \<open>Revocation\<close>

text \<open>The claims in a token do not depend on when it is read.\<close>

definition parse_stable :: "'w auth_env \<Rightarrow> bool" where
  "parse_stable env \<longleftrightarrow>
     (\<forall>t now now' c c'. parseAndValidateToken env now t = Inr c \<longrightarrow> parseAndValidateToken env now' t = Inr c' \<longrightarrow> c = c')"

lemma useSession_dead: "(\<forall>s \<in> set ss. rs_JTI s = j \<longrightarrow> rs_Revoked s) \<Longrightarrow> isl (useSession j h now ss)"
  by (induction ss) (auto simp: isl_map_sum)

lemma useSession_kills:
  "useSession j h now ss = Inr ss' \<Longrightarrow> distinct (map rs_JTI ss) \<Longrightarrow>
     j \<in> rs_JTI ` set ss \<and> (\<forall>s \<in> set ss'. rs_JTI s = j \<longrightarrow> rs_Revoked s)"
proof (induction ss arbitrary: ss')
  case (Cons s ss)
  show ?case
  proof (cases "rs_JTI s = j")
    case True
    then have "ss' = s\<lparr>rs_Revoked := True\<rparr> # ss" using Cons.prems(1) by (auto split: if_splits)
    then show ?thesis using True Cons.prems(2) by (auto simp: image_iff)
  next
    case False
    then obtain ss1 where "useSession j h now ss = Inr ss1" "ss' = s # ss1"
      using Cons.prems(1) by (cases "useSession j h now ss") auto
    then show ?thesis using Cons.IH [of ss1] Cons.prems(2) False by auto
  qed
qed simp

lemma revokeSession_kills:
  "revokeSession j h ss = Some ss' \<Longrightarrow> distinct (map rs_JTI ss) \<Longrightarrow>
     j \<in> rs_JTI ` set ss \<and> (\<forall>s \<in> set ss'. rs_JTI s = j \<longrightarrow> rs_Revoked s)"
proof (induction ss arbitrary: ss')
  case (Cons s ss)
  show ?case
  proof (cases "rs_JTI s = j \<and> rs_TokenHash s = h")
    case True
    then have "ss' = s\<lparr>rs_Revoked := True\<rparr> # ss" using Cons.prems(1) by auto
    then show ?thesis using True Cons.prems(2) by (auto simp: image_iff)
  next
    case False
    then obtain ss1 where ss1: "revokeSession j h ss = Some ss1" "ss' = s # ss1"
      using Cons.prems(1) by auto
    then have "j \<in> rs_JTI ` set ss" "\<forall>s \<in> set ss1. rs_JTI s = j \<longrightarrow> rs_Revoked s"
      using Cons.IH [OF ss1(1)] Cons.prems(2) by auto
    then show ?thesis using ss1(2) Cons.prems(2) by auto
  qed
qed simp

text \<open>Writing back a user whose session \<open>j\<close> was just revoked.\<close>

lemma revoked_write:
  assumes v: "db_laws (ae_db env) v" and i: "sessionInv env v st"
    and u0: "dv_users v (as_world st) uid = Some u0" and u: "be_ID u = uid"
    and k: "j \<in> rs_JTI ` set (us_RefreshTokens u0)" "\<forall>s \<in> set (us_RefreshTokens u). rs_JTI s = j \<longrightarrow> rs_Revoked s"
    and run: "repoUpdateUser env now u st = (Inr u1, st1)"
  shows "deadSession env v uid j st1"
proof -
  obtain doc where doc: "sameSessions u doc" "userWritten v doc (as_world st) (as_world st1)"
    using repoUpdateUser_written [OF v run] by auto
  have "j \<in> drawn env 0 (as_xids st)"
    using i u0 k(1) by (auto simp: sessionInv_def goodSessions_def ran_def)
  then show ?thesis
    using doc u k(2) repoUpdateUser_xids [OF run] by (simp add: deadSession_def userWritten_def sameSessions_def)
qed

lemma good_user: "sessionInv env v st \<Longrightarrow> dv_users v (as_world st) uid = Some u \<Longrightarrow> distinct (map rs_JTI (us_RefreshTokens u))"
  by (auto simp: sessionInv_def goodSessions_def ran_def)

lemma RefreshToken_kills:
  assumes v: "db_laws (ae_db env) v" and x: "inj (ae_xid env)" and i: "sessionInv env v st"
    and run: "RefreshToken env now t st = (Inr pair, st1)"
  obtains claims uid where "parseAndValidateToken env now t = Inr claims"
    "ae_fromHex env (cl_UID claims) = Some uid" "deadSession env v uid (cl_ID claims) st1"
proof -
  obtain u where c: "refreshCheck env now t st = Inr u"
    using run by (auto simp: RefreshToken_def split: sum.splits)
  obtain claims uid u0 ss where r: "parseAndValidateToken env now t = Inr claims"
    "ae_fromHex env (cl_UID claims) = Some uid" "dv_users v (as_world st) uid = Some u0" "be_ID u0 = uid"
    "useSession (cl_ID claims) (hashToken env t) now (us_RefreshTokens u0) = Inr ss"
    "u = u0\<lparr>us_RefreshTokens := ss, be_UpdatedTime := now\<rparr>"
    by (rule refreshCheck_view [OF v c])
  obtain u1 sta where w: "repoUpdateUser env now u st = (Inr u1, sta)" "issueTokenPair env now u1 sta = (Inr pair, st1)"
    using run c by (auto simp: RefreshToken_def refreshCommit_def split: prod.splits sum.splits)
  have "j \<in> rs_JTI ` set (us_RefreshTokens u0)" "\<forall>s \<in> set (us_RefreshTokens u). rs_JTI s = j \<longrightarrow> rs_Revoked s" if "j = cl_ID claims" for j
    using useSession_kills [OF r(5) good_user [OF i r(3)]] r(6) that by auto
  then have dead: "deadSession env v uid (cl_ID claims) sta"
    using revoked_write [OF v i r(3) _ _ _ w(1)] r(4,6) by simp
  obtain doc where doc: "sameSessions u doc" "userWritten v doc (as_world st) (as_world sta)"
    using repoUpdateUser_written [OF v w(1)] by auto
  have "u1 = u\<lparr>be_UpdatedTime := now\<rparr>" by (rule repoUpdateUser_result [OF w(1) v])
  then have "userStep env v sta (snd (issueTokenPair env now u1 sta))"
    using doc by (intro issueTokenPair_step [OF v, of sta u1 doc]) (auto simp: userWritten_def sameSessions_def)
  then have "deadSession env v uid (cl_ID claims) st1"
    using deadSession_step [OF x _ dead] w(2) by simp
  then show thesis using that r(1,2) by blast
qed

lemma Logout_kills:
  assumes v: "db_laws (ae_db env) v" and i: "sessionInv env v st" and run: "Logout env now t st = (None, st1)"
  obtains claims uid where "parseAndValidateToken env now t = Inr claims"
    "ae_fromHex env (cl_UID claims) = Some uid" "deadSession env v uid (cl_ID claims) st1"
proof -
  obtain claims uid u0 ss where r: "parseAndValidateToken env now t = Inr claims"
    "ae_fromHex env (cl_UID claims) = Some uid" "getUserByID env uid st = Inr u0"
    "revokeSession (cl_ID claims) (hashToken env t) (us_RefreshTokens u0) = Some ss"
    "outcome (repoUpdateUser env now (u0\<lparr>us_RefreshTokens := ss, be_UpdatedTime := now\<rparr>) st) = (None, st1)"
    using run by (auto simp: Logout_def GetBsonObjectUID_def split: sum.splits if_splits option.splits)
  obtain u1 where w: "repoUpdateUser env now (u0\<lparr>us_RefreshTokens := ss, be_UpdatedTime := now\<rparr>) st = (Inr u1, st1)"
    using r(5) by (auto simp: outcome_def split: prod.splits sum.splits)
  note u0 = getUserByID_view [OF v r(3)]
  have "deadSession env v uid (cl_ID claims) st1"
    using revoked_write [OF v i u0(1) _ _ _ w] revokeSession_kills [OF r(4) good_user [OF i u0(1)]] u0(2) by simp
  then show thesis using that r(1,2) by blast
qed

lemma dead_refused:
  assumes v: "db_laws (ae_db env) v" and p: "parse_stable env"
    and t: "parseAndValidateToken env now0 t = Inr claims" "ae_fromHex env (cl_UID claims) = Some uid"
    and d: "deadSession env v uid (cl_ID claims) st"
  shows "\<exists>e. RefreshToken env now t st = (Inl e, st)"
proof (cases "refreshCheck env now t st")
  case (Inl e)
  then show ?thesis by (simp add: RefreshToken_def)
next
  case (Inr u)
  obtain claims' uid' u0 ss where r: "parseAndValidateToken env now t = Inr claims'"
    "ae_fromHex env (cl_UID claims') = Some uid'" "dv_users v (as_world st) uid' = Some u0"
    "useSession (cl_ID claims') (hashToken env t) now (us_RefreshTokens u0) = Inr ss"
    by (rule refreshCheck_view [OF v Inr])
  have "claims' = claims" using p t(1) r(1) unfolding parse_stable_def by metis
  then have "isl (useSession (cl_ID claims') (hashToken env t) now (us_RefreshTokens u0))"
    using useSession_dead d r(2,3) t(2) by (simp add: deadSession_def)
  then show ?thesis using r(4) by simp
qed

text \<open>A bumped token version locks out every token that carries an older one.\<close>

lemma LogoutAll_bumps:
  assumes v: "db_laws (ae_db env) v" and run: "LogoutAll env now c st = (None, st1)"
    and uid: "ae_fromHex env (cl_UID c) = Some uid"
  obtains u where "dv_users v (as_world st) uid = Some u" "versionAbove v uid (us_TokenVersion u) st1"
proof -
  obtain u where u: "getUserByID env uid st = Inr u"
    "outcome (repoUpdateUser env now
       (u\<lparr>us_TokenVersion := us_TokenVersion u + 1, us_RefreshTokens := [], be_UpdatedTime := now\<rparr>) st) = (None, st1)"
    using run uid by (auto simp: LogoutAll_def GetBsonObjectUID_def split: sum.splits)
  then obtain u1 where w: "repoUpdateUser env now
       (u\<lparr>us_TokenVersion := us_TokenVersion u + 1, us_RefreshTokens := [], be_UpdatedTime := now\<rparr>) st = (Inr u1, st1)"
    by (auto simp: outcome_def split: prod.splits sum.splits)
  note view = getUserByID_view [OF v u(1)]
  have "versionAbove v uid (us_TokenVersion u) st1"
    using repoUpdateUser_written [OF v w] view(2) by (auto simp: versionAbove_def userWritten_def sameSessions_def)
  then show thesis using that view(1) by blast
qed

lemma old_version_refused:
  assumes v: "db_laws (ae_db env) v"
    and t: "parseAndValidateToken env now t = Inr claims" "ae_fromHex env (cl_UID claims) = Some uid"
    and a: "versionAbove v uid n st" "cl_TokenVersion claims \<le> n"
  shows "isl (fst (RefreshToken env now t st))" "isl (VerifyJWTToken env now t key st)"
proof -
  have *: "us_TokenVersion u \<noteq> cl_TokenVersion claims" if "getUserByID env uid st = Inr u" for u
    using getUserByID_view(1) [OF v that] a by (auto simp: versionAbove_def)
  show "isl (fst (RefreshToken env now t st))"
    using * t by (auto simp: RefreshToken_def refreshCheck_def GetBsonObjectUID_def split: sum.splits if_splits)
  show "isl (VerifyJWTToken env now t key st)"
    using * t by (auto simp: VerifyJWTToken_def GetBsonObjectUID_def split: sum.splits if_splits)
qed

end
