(* ===== verification/Mgr_Access.thy ===== *)
theory Mgr_Access
  imports Mgr_Sessions
begin

text \<open>
  The access decision and the life of an account over a database that answers: what
  \<open>VerifyJWTToken\<close> grants, what a new account can do, and what changes of roles and status do.
\<close>

section \<open>A database that answers\<close>

definition collAnswers :: "('w, 'd) collection \<Rightarrow> bool" where
  "collAnswers c \<longleftrightarrow> (\<forall>f w. \<exists>ds. co_Find c f w = Inr (Inr ds)) \<and> (\<forall>i d w. \<not> isl (fst (co_ReplaceOne c i d w)))"

definition healthy :: "'w auth_env \<Rightarrow> bool" where
  "healthy env \<longleftrightarrow> collAnswers (db_users (ae_db env)) \<and> collAnswers (db_roles (ae_db env))"

lemma runFind_answers: "collAnswers c \<Longrightarrow> \<exists>ds. runFind c f w = Inr ds"
  by (auto simp: collAnswers_def runFind_def) (metis old.sum.simps(6))

lemma QueryUsers_healthy: "healthy env \<Longrightarrow> \<exists>us. QueryUsers (ae_db env) (Some q) w = Inr us"
  by (auto simp: QueryUsers_def healthy_def intro: runFind_answers)

lemma QueryRoles_healthy: "healthy env \<Longrightarrow> \<exists>rs. QueryRoles (ae_db env) (Some q) w = Inr rs"
  by (auto simp: QueryRoles_def healthy_def intro: runFind_answers)

lemma getUserByID_healthy:
  assumes h: "healthy env" and v: "db_laws (ae_db env) v"
  shows "getUserByID env i st =
    (case dv_users v (as_world st) i of None \<Rightarrow> Inl (HTTPError 401 ''user not found'') | Some u \<Rightarrow> Inr u)"
proof -
  obtain us where us: "QueryUsers (ae_db env) (Some \<lparr>qu_IDs = [i], qu_UserNames = []\<rparr>) (as_world st) = Inr us"
    using QueryUsers_healthy [OF h] by blast
  then show ?thesis
    using QueryUsers_byID [OF v us] by (simp add: getUserByID_def split: option.split)
qed

lemma repoUpdateUser_healthy:
  assumes h: "healthy env" and v: "db_laws (ae_db env) v"
    and u: "be_ID u \<noteq> zeroOID" "dv_users v (as_world st) (be_ID u) \<noteq> None"
    and m: "marshalUser (ae_argon2 env) (ae_params env) (ae_salt env (as_salts st)) (u\<lparr>be_UpdatedTime := now\<rparr>) = Inr doc"
  obtains st' where "repoUpdateUser env now u st = (Inr (u\<lparr>be_UpdatedTime := now\<rparr>), st')"
    "userWritten v doc (as_world st) (as_world st')" "as_xids st' = as_xids st" "as_salts st' = as_salts st + 1"
    "as_oids st' = as_oids st" "dv_roles v (as_world st') = dv_roles v (as_world st)"
proof -
  have id: "be_ID doc = be_ID u" using marshalUser_ID [OF m] by simp
  obtain q w1 where rep: "co_ReplaceOne (db_users (ae_db env)) (be_ID u) doc (as_world st) = (q, w1)" by fastforce
  have q: "\<not> isl q" using h rep unfolding healthy_def collAnswers_def by (metis fst_conv)
  from ud.replace_view [OF db_lawsD(1) [OF v], of doc "as_world st" q w1, unfolded id, OF rep]
  have w: "q = Inr 1" "userWritten v doc (as_world st) w1"
    using q u(2) id by (auto simp: userWritten_def)
  have roles: "dv_roles v w1 = dv_roles v (as_world st)" by (rule keepsD(2) [OF db_lawsD(5) [OF v] rep])
  show thesis
  proof (rule that)
    show "repoUpdateUser env now u st = (Inr (u\<lparr>be_UpdatedTime := now\<rparr>), st\<lparr>as_world := w1, as_salts := as_salts st + 1\<rparr>)"
      using u(1) m rep w(1) by (simp add: repoUpdateUser_def UpdateUser_def Let_def)
  qed (use w roles in simp_all)
qed

lemma issueTokenPair_healthy:
  assumes h: "healthy env" and v: "db_laws (ae_db env) v"
    and u: "be_ID u \<noteq> zeroOID" "dv_users v (as_world st) (be_ID u) \<noteq> None" "storedPassword u"
    and sign: "ae_sign env (tokenClaims now 60 ''access'' [] u) = Inr a"
      "ae_sign env (tokenClaims now 86400 ''refresh'' (ae_xid env (as_xids st)) u) = Inr r"
  obtains st' s where "issueTokenPair env now u st = (Inr \<lparr>tp_AccessToken = a, tp_RefreshToken = r\<rparr>, st')"
    "rs_JTI s = ae_xid env (as_xids st)" "rs_TokenHash s = hashToken env r" "\<not> rs_Revoked s"
    "userWritten v (u\<lparr>us_RefreshTokens := pruneRefreshSessions (us_RefreshTokens u) now @ [s], be_UpdatedTime := now\<rparr>)
       (as_world st) (as_world st')"
    "as_xids st' = as_xids st + 1" "dv_roles v (as_world st') = dv_roles v (as_world st)"
proof -
  define s where "s = \<lparr>rs_JTI = ae_xid env (as_xids st), rs_TokenHash = hashToken env r,
    rs_ExpiresAt = unixSec (now + 86400 * 1000), rs_Revoked = False\<rparr>"
  let ?u = "u\<lparr>us_RefreshTokens := pruneRefreshSessions (us_RefreshTokens u) now @ [s], be_UpdatedTime := now\<rparr>"
  let ?st = "st\<lparr>as_xids := as_xids st + 1\<rparr>"
  have m: "marshalUser (ae_argon2 env) (ae_params env) (ae_salt env (as_salts ?st)) (?u\<lparr>be_UpdatedTime := now\<rparr>) = Inr ?u"
    using u(3) by (simp add: marshalUser_stored storedPassword_def)
  obtain st' where st': "repoUpdateUser env now ?u ?st = (Inr (?u\<lparr>be_UpdatedTime := now\<rparr>), st')"
    "userWritten v ?u (as_world ?st) (as_world st')" "as_xids st' = as_xids ?st"
    "dv_roles v (as_world st') = dv_roles v (as_world ?st)"
    using repoUpdateUser_healthy [OF h v _ _ m] u(1,2) by auto
  show thesis
  proof (rule that)
    show "issueTokenPair env now u st = (Inr \<lparr>tp_AccessToken = a, tp_RefreshToken = r\<rparr>, st')"
      using sign st'(1)
      by (simp add: issueTokenPair_def genAccessToken_def genRefreshToken_def Let_def s_def) (simp add: tokenClaims_def)
    show "rs_JTI s = ae_xid env (as_xids st)" "rs_TokenHash s = hashToken env r" "\<not> rs_Revoked s"
      by (simp_all add: s_def)
  qed (use st' in simp_all)
qed


section \<open>The access decision\<close>

lemma firstPolicy_Some: "firstPolicy key rs = Some p \<Longrightarrow> \<exists>r \<in> set rs. p \<in> set (ro_Policies r) \<and> rp_PermissionKey p = key"
  by (induction rs) (auto split: option.splits simp: find_Some_iff dest: nth_mem)

lemma firstPolicy_None: "firstPolicy key rs = None \<longleftrightarrow> (\<forall>r \<in> set rs. \<forall>p \<in> set (ro_Policies r). rp_PermissionKey p \<noteq> key)"
  by (induction rs) (auto split: option.splits simp: find_None_iff, (fastforce simp: find_Some_iff dest: nth_mem)+)

text \<open>The role assigned to a user that carries a policy for a key.\<close>

definition grants :: "'w db_view \<Rightarrow> 'w \<Rightarrow> User \<Rightarrow> string \<Rightarrow> RolePolicy \<Rightarrow> bool" where
  "grants v w u key p \<longleftrightarrow>
     (\<exists>r \<in> ran (dv_roles v w). ro_Name r \<in> set (us_Roles u) \<and> p \<in> set (ro_Policies r) \<and> rp_PermissionKey p = key)"

lemma getRolesByNames_set:
  assumes "db_laws (ae_db env) v" "getRolesByNames env names st = Inr rs"
  shows "set rs = {r \<in> ran (dv_roles v (as_world st)). ro_Name r \<in> set names}"
proof (cases "names = []")
  case False
  then obtain rs' where "QueryRoles (ae_db env) (Some \<lparr>qr_IDs = [], qr_Names = names\<rparr>) (as_world st) = Inr rs'" "rs = rs'"
    using assms(2) by (auto simp: getRolesByNames_def svcQueryRoles_def map_sum_def split: sum.splits)
  then show ?thesis using QueryRoles_set(2) [OF assms(1)] False by auto
qed (use assms(2) in \<open>auto simp: getRolesByNames_def\<close>)

lemma getRolesByNames_healthy: "healthy env \<Longrightarrow> \<exists>rs. getRolesByNames env names st = Inr rs"
  using QueryRoles_healthy [of env] by (auto simp: getRolesByNames_def svcQueryRoles_def) (metis map_sum.simps(2))

definition plainKey :: "string \<Rightarrow> bool" where
  "plainKey key \<longleftrightarrow> key \<noteq> [] \<and> key \<noteq> ChangeOwnPassword"

text \<open>What every granted request has in common.\<close>

definition validAccess :: "'w auth_env \<Rightarrow> 'w db_view \<Rightarrow> int \<Rightarrow> string \<Rightarrow> 'w auth_state \<Rightarrow> Claims \<Rightarrow> User \<Rightarrow> bool" where
  "validAccess env v now t st c u \<longleftrightarrow>
     parseAndValidateToken env now t = Inr c \<and> cl_TokenType c = ''access'' \<and>
     (\<exists>uid. ae_fromHex env (cl_UID c) = Some uid \<and> dv_users v (as_world st) uid = Some u) \<and>
     us_TokenVersion u = cl_TokenVersion c"

lemma Verify_sound:
  assumes v: "db_laws (ae_db env) v" and run: "VerifyJWTToken env now t key st = Inr (c, p)" and k: "plainKey key"
  obtains u where "validAccess env v now t st c u" "\<not> cl_NeedChangePassword c" "grants v (as_world st) u key p"
proof -
  obtain uid u rs where r: "parseAndValidateToken env now t = Inr c" "cl_TokenType c = ''access''" "\<not> cl_NeedChangePassword c"
    "ae_fromHex env (cl_UID c) = Some uid" "getUserByID env uid st = Inr u" "us_TokenVersion u = cl_TokenVersion c"
    "getRolesByNames env (us_Roles u) st = Inr rs" "firstPolicy key rs = Some p"
    using run k by (auto simp: VerifyJWTToken_def GetBsonObjectUID_def plainKey_def split: sum.splits if_splits option.splits)
  have "grants v (as_world st) u key p"
    using firstPolicy_Some [OF r(8)] getRolesByNames_set [OF v r(7)] by (auto simp: grants_def)
  then show thesis
    using that [of u] r getUserByID_view(1) [OF v r(5)] by (auto simp: validAccess_def)
qed

lemma Verify_complete:
  assumes v: "db_laws (ae_db env) v" and h: "healthy env" and k: "plainKey key"
    and a: "validAccess env v now t st c u" "\<not> cl_NeedChangePassword c" "grants v (as_world st) u key p"
  shows "\<exists>p'. VerifyJWTToken env now t key st = Inr (c, p')"
proof -
  obtain uid where uid: "ae_fromHex env (cl_UID c) = Some uid" "dv_users v (as_world st) uid = Some u"
    using a(1) by (auto simp: validAccess_def)
  obtain rs where rs: "getRolesByNames env (us_Roles u) st = Inr rs"
    using getRolesByNames_healthy [OF h] by blast
  then have "firstPolicy key rs \<noteq> None" "rs \<noteq> []"
    using a(3) getRolesByNames_set [OF v rs] by (auto simp: firstPolicy_None grants_def)
  then show ?thesis
    using a(1,2) k uid rs by (auto simp: VerifyJWTToken_def GetBsonObjectUID_def plainKey_def validAccess_def
      getUserByID_healthy [OF h v])
qed

lemma Verify_password:
  assumes v: "db_laws (ae_db env) v" and h: "healthy env" and a: "validAccess env v now t st c u"
  shows "VerifyJWTToken env now t ChangeOwnPassword st = Inr (c, noPolicy)"
    and "cl_NeedChangePassword c \<Longrightarrow> key \<noteq> ChangeOwnPassword \<Longrightarrow>
      VerifyJWTToken env now t key st = Inl (HTTPError 403 ''password change required'')"
  using a by (auto simp: VerifyJWTToken_def GetBsonObjectUID_def validAccess_def getUserByID_healthy [OF h v])


section \<open>A new account\<close>

text \<open>What the service relies on of the JWT library: a signed token is read back with its claims
  between its \<open>nbf\<close> and \<open>exp\<close> times.\<close>

definition jwt_laws :: "'w auth_env \<Rightarrow> bool" where
  "jwt_laws env \<longleftrightarrow>
     (\<forall>c t now. ae_sign env c = Inr t \<and> cl_NotBefore c \<le> unixSec now \<and> unixSec now < cl_ExpiresAt c \<longrightarrow>
        ae_parse env rsaKey now t = Inr (c, True)) \<and>
     (\<forall>c. \<exists>t. ae_sign env c = Inr t)"

lemma jwt_lawsD:
  assumes "jwt_laws env" "ae_sign env c = Inr t" "cl_NotBefore c \<le> unixSec now" "unixSec now < cl_ExpiresAt c"
  shows "parseAndValidateToken env now t = Inr c"
proof -
  have "ae_parse env rsaKey now t = Inr (c, True)" using assms unfolding jwt_laws_def by blast
  then show ?thesis by (simp add: parseAndValidateToken_def)
qed

lemma getUserByUserName_only:
  assumes v: "db_laws (ae_db env) v" and h: "healthy env"
    and u: "dv_users v (as_world st) i = Some u" "us_UserName u = n"
    and only: "\<And>u'. u' \<in> ran (dv_users v (as_world st)) \<Longrightarrow> us_UserName u' = n \<Longrightarrow> u' = u"
  shows "getUserByUserName env n st = Inr u"
proof -
  obtain us where us: "QueryUsers (ae_db env) (Some \<lparr>qu_IDs = [], qu_UserNames = [n]\<rparr>) (as_world st) = Inr us"
    using QueryUsers_healthy [OF h] by blast
  have "set us = {u}" "distinct us"
    using QueryUsers_set [OF v us] u only by (auto simp: ran_def)
  then have "us = [u]" by (simp add: distinct_single)
  then show ?thesis using us by (simp add: getUserByUserName_def)
qed

lemma mkUser_simps [simp]:
  "be_ID (mkUser now a b n p s rs) = zeroOID" "us_UserName (mkUser now a b n p s rs) = n"
  "us_Password (mkUser now a b n p s rs) = p" "us_Status (mkUser now a b n p s rs) = s"
  "us_Roles (mkUser now a b n p s rs) = rs" "us_TokenVersion (mkUser now a b n p s rs) = 0"
  "us_RefreshTokens (mkUser now a b n p s rs) = []" "be_CreatedTime (mkUser now a b n p s rs) = now"
  by (simp_all add: mkUser_def BaseEntity.defs User.defs NewBaseEntity_def)

lemma CreateNewUser_doc:
  assumes v: "db_laws (ae_db env) v"
    and pw: "MarshalPassword (ae_argon2 env) (ae_params env) (ae_salt env (as_salts st)) password = Inr h" "IsArgon2Hash h"
    and ne: "password \<noteq> []"
    and run: "CreateNewUser env now operator username password st = (None, st1)"
  obtains doc where "dv_users v (as_world st) (ae_oid env (as_oids st)) = None" "userWritten v doc (as_world st) (as_world st1)"
    "be_ID doc = ae_oid env (as_oids st)" "us_UserName doc = username" "us_Password doc = h"
    "us_Status doc = UserStatusWaitChangePassword" "us_TokenVersion doc = 0" "us_RefreshTokens doc = []"
proof -
  obtain op where run1: "outcome (repoCreateUser env now (mkUser now op op username password UserStatusWaitChangePassword []) st) = (None, st1)"
    using run by (auto simp: CreateNewUser_def split: sum.splits)
  let ?u = "mkUser now op op username password UserStatusWaitChangePassword []"
  obtain r w where cr: "CreateUser (ae_db env) (ae_argon2 env) (ae_params env) now (ae_oid env (as_oids st)) (ae_salt env (as_salts st))
      (Some ?u) (as_world st) = (r, w)" by fastforce
  have r: "\<not> isl r" "as_world st1 = w"
    using run1 cr fst_outcome [of "repoCreateUser env now ?u st"] snd_outcome [of "repoCreateUser env now ?u st"]
    by (auto simp: repoCreateUser_def isl_map_sum)
  let ?s = "stampNew now (ae_oid env (as_oids st)) ?u"
  obtain doc where doc: "marshalUser (ae_argon2 env) (ae_params env) (ae_salt env (as_salts st)) ?s = Inr doc"
    "dv_users v (as_world st) (be_ID doc) = None" "userWritten v doc (as_world st) w"
    using CreateUser_cases(2) [OF v cr] r(1) by blast
  have "doc = ?s\<lparr>us_Password := h\<rparr>" using doc(1) pw(1) ne by (simp add: marshalUser_def stampNew_def)
  then show thesis
    using that [of doc] doc(2,3) r(2) by (simp add: stampNew_def)
qed

lemma jwt_signs: "jwt_laws env \<Longrightarrow> \<exists>t. ae_sign env c = Inr t"
  by (simp add: jwt_laws_def)

lemma Login_healthy:
  assumes v: "db_laws (ae_db env) v" and h: "healthy env" and j: "jwt_laws env"
    and u: "getUserByUserName env n st = Inr u" "us_Status u \<noteq> UserStatusInactive" "Cmp (ae_argon2 env) (us_Password u) pw = Inr True"
    and id: "be_ID u \<noteq> zeroOID" "storedPassword u"
  obtains a r st' doc where "Login env now n pw st = (Inr \<lparr>tp_AccessToken = a, tp_RefreshToken = r\<rparr>, st')"
    "ae_sign env (tokenClaims now 60 ''access'' [] u) = Inr a"
    "dv_users v (as_world st') (be_ID u) = Some doc" "us_TokenVersion doc = us_TokenVersion u" "be_ID doc = be_ID u"
proof -
  obtain a r where s: "ae_sign env (tokenClaims now 60 ''access'' [] u) = Inr a"
    "ae_sign env (tokenClaims now 86400 ''refresh'' (ae_xid env (as_xids st)) u) = Inr r"
    using jwt_signs [OF j] by metis
  have "dv_users v (as_world st) (be_ID u) \<noteq> None" using getUserByUserName_view(1) [OF v u(1)] by simp
  then obtain st' s where st': "issueTokenPair env now u st = (Inr \<lparr>tp_AccessToken = a, tp_RefreshToken = r\<rparr>, st')"
    "userWritten v (u\<lparr>us_RefreshTokens := pruneRefreshSessions (us_RefreshTokens u) now @ [s], be_UpdatedTime := now\<rparr>)
       (as_world st) (as_world st')"
    using issueTokenPair_healthy [OF h v id(1) _ id(2) s] by metis
  show thesis
  proof (rule that)
    show "Login env now n pw st = (Inr \<lparr>tp_AccessToken = a, tp_RefreshToken = r\<rparr>, st')"
      using u st'(1) by (simp add: Login_def)
    show "dv_users v (as_world st') (be_ID u) =
        Some (u\<lparr>us_RefreshTokens := pruneRefreshSessions (us_RefreshTokens u) now @ [s], be_UpdatedTime := now\<rparr>)"
      using st'(2) by (simp add: userWritten_def)
  qed (use s in simp_all)
qed

lemma issued_access_valid:
  assumes j: "jwt_laws env" and a: "ae_sign env (tokenClaims now 60 ''access'' [] u) = Inr a"
    and time: "unixSec now \<le> unixSec t" "unixSec t < unixSec (now + 60000)"
    and hex: "ae_fromHex env (be_ID u) = Some (be_ID u)"
    and doc: "dv_users v (as_world st) (be_ID u) = Some doc" "us_TokenVersion doc = us_TokenVersion u"
  shows "validAccess env v t a st (tokenClaims now 60 ''access'' [] u) doc"
  using jwt_lawsD [OF j a, of t] time hex doc by (simp add: validAccess_def tokenClaims_def)


section \<open>Overlapping refreshes\<close>

text \<open>Two requests with the same refresh token that both read the user before either writes.\<close>

lemma refreshCommit_healthy:
  assumes v: "db_laws (ae_db env) v" and h: "healthy env" and j: "jwt_laws env"
    and u: "be_ID u \<noteq> zeroOID" "dv_users v (as_world st) (be_ID u) \<noteq> None" "storedPassword u"
  obtains a r st' s where "refreshCommit env now u st = (Inr \<lparr>tp_AccessToken = a, tp_RefreshToken = r\<rparr>, st')"
    "rs_JTI s = ae_xid env (as_xids st)" "as_xids st' = as_xids st + 1"
    "userWritten v (u\<lparr>us_RefreshTokens := pruneRefreshSessions (us_RefreshTokens u) now @ [s], be_UpdatedTime := now\<rparr>)
       (as_world st) (as_world st')"
proof -
  let ?u = "u\<lparr>be_UpdatedTime := now\<rparr>"
  have m: "marshalUser (ae_argon2 env) (ae_params env) (ae_salt env (as_salts st)) ?u = Inr ?u"
    using u(3) by (simp add: marshalUser_stored storedPassword_def)
  obtain st1 where st1: "repoUpdateUser env now u st = (Inr ?u, st1)" "userWritten v ?u (as_world st) (as_world st1)"
    "as_xids st1 = as_xids st"
    using repoUpdateUser_healthy [OF h v u(1,2) m] by metis
  obtain a r where s: "ae_sign env (tokenClaims now 60 ''access'' [] ?u) = Inr a"
    "ae_sign env (tokenClaims now 86400 ''refresh'' (ae_xid env (as_xids st1)) ?u) = Inr r"
    using jwt_signs [OF j] by metis
  have pre: "be_ID ?u \<noteq> zeroOID" "dv_users v (as_world st1) (be_ID ?u) \<noteq> None" "storedPassword ?u"
    using u st1(2) by (simp_all add: userWritten_def storedPassword_def)
  obtain st' s where st': "issueTokenPair env now ?u st1 = (Inr \<lparr>tp_AccessToken = a, tp_RefreshToken = r\<rparr>, st')"
    "rs_JTI s = ae_xid env (as_xids st1)" "as_xids st' = as_xids st1 + 1"
    "userWritten v (?u\<lparr>us_RefreshTokens := pruneRefreshSessions (us_RefreshTokens ?u) now @ [s], be_UpdatedTime := now\<rparr>)
       (as_world st1) (as_world st')"
    using issueTokenPair_healthy [OF h v pre s] by metis
  show thesis
  proof (rule that)
    show "refreshCommit env now u st = (Inr \<lparr>tp_AccessToken = a, tp_RefreshToken = r\<rparr>, st')"
      using st1(1) st'(1) by (simp add: refreshCommit_def)
    show "userWritten v (u\<lparr>us_RefreshTokens := pruneRefreshSessions (us_RefreshTokens u) now @ [s], be_UpdatedTime := now\<rparr>)
       (as_world st) (as_world st')"
      using st'(4) st1(2) by (simp add: userWritten_def)
  qed (use st' st1 in simp_all)
qed


section \<open>Roles and status\<close>

lemma rolesChecked_healthy:
  assumes v: "db_laws (ae_db env) v" and h: "healthy env"
  shows "\<not> isl (rolesChecked env (Some names) u st) \<longleftrightarrow>
    length names = card {r \<in> ran (dv_roles v (as_world st)). names = [] \<or> ro_Name r \<in> set names}"
proof -
  obtain rs where rs: "QueryRoles (ae_db env) (Some \<lparr>qr_IDs = [], qr_Names = names\<rparr>) (as_world st) = Inr rs"
    using QueryRoles_healthy [OF h] by blast
  have "length rs = card {r \<in> ran (dv_roles v (as_world st)). names = [] \<or> ro_Name r \<in> set names}"
    using QueryRoles_set [OF v rs] distinct_card [of rs] by simp
  then show ?thesis using rs by (simp add: rolesChecked_def svcQueryRoles_def)
qed

text \<open>When role names are unique, a non-empty list of names is accepted exactly if it has no
  repetition and every name is that of a role.\<close>

lemma card_named:
  assumes inj: "inj_on f R"
  shows "length names = card {r \<in> R. f r \<in> set names} \<longleftrightarrow> distinct names \<and> set names \<subseteq> f ` R"
proof -
  have c: "card {r \<in> R. f r \<in> set names} = card (f ` R \<inter> set names)"
  proof -
    have "f ` {r \<in> R. f r \<in> set names} = f ` R \<inter> set names" by auto
    moreover have "inj_on f {r \<in> R. f r \<in> set names}" using inj by (auto intro: inj_on_subset)
    ultimately show ?thesis by (metis card_image)
  qed
  have le: "card (f ` R \<inter> set names) \<le> card (set names)" "card (set names) \<le> length names"
    by (auto intro: card_mono card_length)
  show ?thesis
  proof
    assume "length names = card {r \<in> R. f r \<in> set names}"
    then have "card (set names) = length names" "card (f ` R \<inter> set names) = card (set names)"
      using c le by linarith+
    then show "distinct names \<and> set names \<subseteq> f ` R"
      using card_subset_eq [of "set names" "f ` R \<inter> set names"] by (auto intro: card_distinct)
  next
    assume a: "distinct names \<and> set names \<subseteq> f ` R"
    then have "f ` R \<inter> set names = set names" by blast
    then show "length names = card {r \<in> R. f r \<in> set names}"
      using c a by (simp add: distinct_card)
  qed
qed

end
