(* ===== verification/Auth_Examples.thy ===== *)
theory Auth_Examples
  imports Mgr_Access
begin

text \<open>
  A concrete account service for the runs shown beside the properties: collections in memory,
  tokens that carry their claims in hexadecimal, and a key derivation that pads the password.
  All promises asked of the database driver, the JWT library and the Argon2 package hold here.
\<close>

section \<open>Collections in memory\<close>

fun firsts :: "('d \<Rightarrow> oid) \<Rightarrow> 'd list \<Rightarrow> 'd list" where
  "firsts f [] = []"
| "firsts f (d # ds) = d # filter (\<lambda>x. f x \<noteq> f d) (firsts f ds)"

definition lookupDoc :: "('d \<Rightarrow> oid) \<Rightarrow> 'd list \<Rightarrow> oid \<rightharpoonup> 'd" where
  "lookupDoc f ds i = find (\<lambda>d. f d = i) ds"

definition mem_coll ::
  "('w \<Rightarrow> 'd list) \<Rightarrow> ('d list \<Rightarrow> 'w \<Rightarrow> 'w) \<Rightarrow> ('d \<Rightarrow> oid) \<Rightarrow> (string \<Rightarrow> 'd \<Rightarrow> string) \<Rightarrow> (string \<Rightarrow> 'd \<Rightarrow> int)
     \<Rightarrow> ('w, 'd) collection" where
  "mem_coll get put f sf nf =
     \<lparr>co_InsertOne = (\<lambda>d w. if lookupDoc f (get w) (f d) = None then (Inr (Some (f d)), put (get w @ [d]) w)
                           else (Inl ''duplicate key'', w)),
      co_ReplaceOne = (\<lambda>i d w. if lookupDoc f (get w) i = None then (Inr 0, w)
                           else (Inr 1, put (map (\<lambda>x. if f x = i then d else x) (get w)) w)),
      co_Find = (\<lambda>q w. Inr (Inr (filter (\<lambda>d. \<forall>x \<in> set q. condHolds sf nf d x) (firsts f (get w)))))\<rparr>"

lemma lookupDoc_simps [simp]:
  "lookupDoc f [] i = None" "lookupDoc f (d # ds) i = (if f d = i then Some d else lookupDoc f ds i)"
  by (simp_all add: lookupDoc_def)

lemma lookupDoc_id: "lookupDoc f ds i = Some d \<Longrightarrow> f d = i"
  by (induction ds) (auto split: if_splits)

lemma lookupDoc_append: "lookupDoc f ds (f d) = None \<Longrightarrow> lookupDoc f (ds @ [d]) = (lookupDoc f ds)(f d \<mapsto> d)"
  by (induction ds) (auto simp: fun_eq_iff)

lemma lookupDoc_replace:
  "lookupDoc f ds (f d) \<noteq> None \<Longrightarrow> lookupDoc f (map (\<lambda>x. if f x = f d then d else x) ds) = (lookupDoc f ds)(f d \<mapsto> d)"
proof (rule ext)
  fix i
  have *: "lookupDoc f (map (\<lambda>x. if f x = f d then d else x) ds) i = lookupDoc f ds i" if "i \<noteq> f d"
    using that by (induction ds) auto
  have "lookupDoc f ds (f d) \<noteq> None \<Longrightarrow> lookupDoc f (map (\<lambda>x. if f x = f d then d else x) ds) (f d) = Some d"
    by (induction ds) (auto split: if_splits)
  then show "lookupDoc f ds (f d) \<noteq> None \<Longrightarrow>
      lookupDoc f (map (\<lambda>x. if f x = f d then d else x) ds) i = ((lookupDoc f ds)(f d \<mapsto> d)) i"
    using * by (cases "i = f d") auto
qed

lemma set_firsts: "set (firsts f ds) = ran (lookupDoc f ds)"
proof (induction ds)
  case (Cons d ds)
  have eq: "ran (lookupDoc f (d # ds)) = insert d {x \<in> ran (lookupDoc f ds). f x \<noteq> f d}"
    by (auto simp: ran_def dest: lookupDoc_id split: if_splits) (metis lookupDoc_id)
  show ?case unfolding eq using Cons by auto
qed (simp add: ran_def)

lemma distinct_firsts [simp]: "distinct (firsts f ds)"
  by (induction ds) auto

lemma mem_coll_laws:
  assumes gp: "\<And>xs w. get (put xs w) = xs"
  shows "coll_laws f sf nf (mem_coll get put f sf nf) (\<lambda>w. lookupDoc f (get w))"
proof -
  have "find_law sf nf (mem_coll get put f sf nf) (\<lambda>w. lookupDoc f (get w))"
    by (auto simp: find_law_def mem_coll_def set_firsts)
  moreover have "insert_law f (mem_coll get put f sf nf) (\<lambda>w. lookupDoc f (get w))"
    by (auto simp: insert_law_def mem_coll_def gp lookupDoc_append)
  moreover have "replace_law f (mem_coll get put f sf nf) (\<lambda>w. lookupDoc f (get w))"
    by (auto simp: replace_law_def mem_coll_def gp lookupDoc_replace)
  ultimately show ?thesis by (auto simp: coll_laws_def lookupDoc_id)
qed

lemma mem_coll_keeps: "(\<And>xs w. view (put xs w) = view w) \<Longrightarrow> keeps (mem_coll get put f sf nf) view"
  by (simp add: keeps_def mem_coll_def)

lemma mem_coll_answers: "collAnswers (mem_coll get put f sf nf)"
  by (auto simp: collAnswers_def mem_coll_def)

record acc_world =
  aw_users :: "User list"
  aw_roles :: "Role list"
  aw_permissions :: "Permission list"
  aw_logs :: "AuditLog list"

definition acc_db :: "acc_world mongo_db" where
  "acc_db =
     \<lparr>db_users = mem_coll aw_users (\<lambda>xs w. w\<lparr>aw_users := xs\<rparr>) be_ID userField noNumber,
      db_roles = mem_coll aw_roles (\<lambda>xs w. w\<lparr>aw_roles := xs\<rparr>) be_ID roleField noNumber,
      db_permissions = mem_coll aw_permissions (\<lambda>xs w. w\<lparr>aw_permissions := xs\<rparr>) pm_ID permissionField noNumber,
      db_audit_logs = mem_coll aw_logs (\<lambda>xs w. w\<lparr>aw_logs := xs\<rparr>) al_ID auditField auditTime\<rparr>"

definition acc_view :: "acc_world db_view" where
  "acc_view =
     \<lparr>dv_users = (\<lambda>w. lookupDoc be_ID (aw_users w)), dv_roles = (\<lambda>w. lookupDoc be_ID (aw_roles w)),
      dv_permissions = (\<lambda>w. lookupDoc pm_ID (aw_permissions w)), dv_audit_logs = (\<lambda>w. lookupDoc al_ID (aw_logs w))\<rparr>"

lemma acc_laws: "db_laws acc_db acc_view"
  by (simp add: db_laws_def acc_db_def acc_view_def mem_coll_laws mem_coll_keeps)


section \<open>Tokens and keys\<close>

definition encInt :: "int \<Rightarrow> string" where
  "encInt i = (if i < 0 then CHR ''-'' # Utoa (nat (- i)) else CHR ''+'' # Utoa (nat i))"

definition decInt :: "string \<Rightarrow> int option" where
  "decInt s = (case s of [] \<Rightarrow> None | c # cs \<Rightarrow>
     map_option (\<lambda>n. if c = CHR ''-'' then - int n else int n) (parse_digits 0 cs))"

lemma decInt_encInt [simp]: "decInt (encInt i) = Some i"
  by (simp add: decInt_def encInt_def)

definition acc_sign :: "Claims \<Rightarrow> string + string" where
  "acc_sign c = Inr (Join (map hex_encode
     [cl_UID c, if cl_NeedChangePassword c then ''y'' else ''n'', encInt (cl_TokenVersion c), cl_TokenType c,
      encInt (cl_ExpiresAt c), encInt (cl_IssuedAt c), encInt (cl_NotBefore c), cl_Issuer c, cl_Subject c, cl_ID c]) ''.'')"

definition readClaims :: "string list \<Rightarrow> Claims option" where
  "readClaims fs =
     (case fs of
        [u, n, v, k, e, i, b, iss, sub, j] \<Rightarrow>
          (case (decInt v, decInt e, decInt i, decInt b) of
             (Some v', Some e', Some i', Some b') \<Rightarrow>
               Some \<lparr>cl_UID = u, cl_NeedChangePassword = (n = ''y''), cl_TokenVersion = v', cl_TokenType = k,
                     cl_ExpiresAt = e', cl_IssuedAt = i', cl_NotBefore = b', cl_Issuer = iss, cl_Subject = sub, cl_ID = j\<rparr>
           | _ \<Rightarrow> None)
      | _ \<Rightarrow> None)"

definition acc_parse :: "(signing_method \<Rightarrow> string + unit) \<Rightarrow> int \<Rightarrow> string \<Rightarrow> jwt_error list + Claims \<times> bool" where
  "acc_parse keyfunc now t =
     (case those (map hex_decode (Split t (CHR ''.''))) of
        None \<Rightarrow> Inl [ErrTokenMalformed]
      | Some fs \<Rightarrow>
          (case readClaims fs of
             None \<Rightarrow> Inl [ErrTokenMalformed]
           | Some c \<Rightarrow>
               (if keyfunc SigningMethodRSA \<noteq> Inr () then Inl [ErrTokenUnverifiable]
                else if unixSec now < cl_NotBefore c then Inl [ErrTokenNotValidYet]
                else if unixSec now \<ge> cl_ExpiresAt c then Inl [ErrTokenExpired]
                else Inr (c, True))))"

definition acc_argon2 :: argon2 where
  "acc_argon2 =
     \<lparr>a2_Version = 19,
      a2_IDKey = (\<lambda>pw salt t m p k. if t = 0 \<or> p = 0 then None
                   else Some (take (unat k) (pw @ replicate (unat k) (CHR ''x''))))\<rparr>"

lemma acc_argon2_laws: "argon2_laws acc_argon2"
  by (auto simp: argon2_laws_def acc_argon2_def min_def)

definition acc_env :: "acc_world auth_env" where
  "acc_env =
     \<lparr>ae_db = acc_db, ae_argon2 = acc_argon2, ae_params = defaultArgon2idParams, ae_sha = id,
      ae_fromHex = Some, ae_sign = acc_sign, ae_parse = acc_parse,
      ae_oid = (\<lambda>n. ''id'' @ Utoa n), ae_xid = (\<lambda>n. ''jti'' @ Utoa n),
      ae_salt = (\<lambda>n. Some (replicate 16 (CHR ''s'')))\<rparr>"

lemma acc_sels [simp]:
  "ae_db acc_env = acc_db" "ae_argon2 acc_env = acc_argon2" "ae_params acc_env = defaultArgon2idParams"
  "ae_fromHex acc_env = Some" "ae_sign acc_env = acc_sign" "ae_parse acc_env = acc_parse"
  "ae_oid acc_env n = ''id'' @ Utoa n" "ae_xid acc_env n = ''jti'' @ Utoa n"
  "ae_salt acc_env n = Some (replicate 16 (CHR ''s''))"
  by (simp_all add: acc_env_def)

lemma acc_healthy: "healthy acc_env"
  by (simp add: healthy_def acc_db_def mem_coll_answers)

lemma acc_inj: "inj (ae_xid acc_env)"
  by (simp add: inj_def acc_env_def)

lemma dot_notin_hex: "CHR ''.'' \<notin> set (hex_encode s)"
proof -
  have "CHR ''.'' \<noteq> hex_digit n" if "n < 16" for n
  proof -
    have "unhex_digit (CHR ''.'') = None" by (simp add: unhex_digit_def)
    then show ?thesis using unhex_hex_digit [OF that] by auto
  qed
  moreover have "(of_char b :: nat) div 16 < 16" for b :: char
    using of_char_less_256 [of b] by linarith
  ultimately show ?thesis by (induction s rule: hex_encode.induct) (simp_all add: Let_def)
qed

lemma Split_Join_fields: "fs \<noteq> [] \<Longrightarrow> (\<And>f. f \<in> set fs \<Longrightarrow> c \<notin> set f) \<Longrightarrow> Split (Join fs [c]) c = fs"
  by (induction fs "[c]" rule: Join.induct) (auto simp: Split_plain Split_append)

lemma acc_parse_sign:
  assumes "acc_sign c = Inr t" "cl_NotBefore c \<le> unixSec now" "unixSec now < cl_ExpiresAt c"
  shows "acc_parse rsaKey now t = Inr (c, True)"
proof -
  define fs where "fs = [cl_UID c, if cl_NeedChangePassword c then ''y'' else ''n'', encInt (cl_TokenVersion c), cl_TokenType c,
      encInt (cl_ExpiresAt c), encInt (cl_IssuedAt c), encInt (cl_NotBefore c), cl_Issuer c, cl_Subject c, cl_ID c]"
  have t: "t = Join (map hex_encode fs) ''.''" using assms(1) by (simp add: acc_sign_def fs_def)
  have "Split t (CHR ''.'') = map hex_encode fs"
    unfolding t by (rule Split_Join_fields) (auto simp: fs_def dot_notin_hex)
  then have "those (map hex_decode (Split t (CHR ''.''))) = Some fs"
    using those_map_Some [of fs "hex_decode \<circ> hex_encode" id] by simp
  moreover have "readClaims fs = Some c" by (simp add: readClaims_def fs_def)
  ultimately show ?thesis using assms(2,3) by (simp add: acc_parse_def)
qed

lemma acc_jwt_laws: "jwt_laws acc_env"
  using acc_parse_sign by (auto simp: jwt_laws_def) (simp add: acc_sign_def)

lemma acc_parse_stable: "parse_stable acc_env"
  by (auto simp: parse_stable_def parseAndValidateToken_def acc_parse_def split: option.splits if_splits sum.splits prod.splits)


section \<open>A state with one administrator\<close>

definition accUserWith :: "RefreshSession list \<Rightarrow> User" where
  "accUserWith ss =
     (mkUser 0 zeroOID zeroOID ''alice'' [] UserStatusActive [''admin''])\<lparr>be_ID := ''id0'', us_RefreshTokens := ss\<rparr>"

definition accClaims :: "string \<Rightarrow> int \<Rightarrow> string \<Rightarrow> Claims" where
  "accClaims kind ttl jti = tokenClaims 0 ttl kind jti (accUserWith [])"

definition accRefresh :: string where
  "accRefresh = projr (acc_sign (accClaims ''refresh'' 86400 ''jti0''))"

definition accAccess :: string where
  "accAccess = projr (acc_sign (accClaims ''access'' 60 []))"

definition accSession :: RefreshSession where
  "accSession = \<lparr>rs_JTI = ''jti0'', rs_TokenHash = hashToken acc_env accRefresh, rs_ExpiresAt = 86400, rs_Revoked = False\<rparr>"

definition accUser :: User where
  "accUser = accUserWith [accSession]"

definition accRole :: Role where
  "accRole =
     BaseEntity.extend ((NewBaseEntity 0 zeroOID zeroOID)\<lparr>be_ID := ''role0''\<rparr>)
       (Role.fields ''admin'' [] [\<lparr>rp_PermissionKey = ''role.create'', rp_Self = False, rp_K8SNamespace = [], rp_PolicyNamespace = []\<rparr>])"

definition accState :: "acc_world auth_state" where
  "accState =
     \<lparr>as_world = \<lparr>aw_users = [accUser], aw_roles = [accRole], aw_permissions = [], aw_logs = []\<rparr>,
      as_oids = 1, as_xids = 1, as_salts = 0\<rparr>"

lemma accState_simps [simp]:
  "dv_users acc_view (as_world accState) = [''id0'' \<mapsto> accUser]" "dv_roles acc_view (as_world accState) = [''role0'' \<mapsto> accRole]"
  "as_xids accState = 1" "as_oids accState = 1" "as_salts accState = 0"
  by (auto simp: accState_def acc_view_def accUser_def accUserWith_def accRole_def BaseEntity.defs Role.defs)

lemma accUser_simps [simp]:
  "be_ID accUser = ''id0''" "us_RefreshTokens accUser = [accSession]" "us_TokenVersion accUser = 0" "us_Password accUser = []"
  "us_UserName accUser = ''alice''" "us_Roles accUser = [''admin'']" "us_Status accUser = UserStatusActive"
  by (simp_all add: accUser_def accUserWith_def)

lemma accRole_simps [simp]: "ro_Name accRole = ''admin''" "be_ID accRole = ''role0''"
  "ro_Policies accRole = [\<lparr>rp_PermissionKey = ''role.create'', rp_Self = False, rp_K8SNamespace = [], rp_PolicyNamespace = []\<rparr>]"
  by (simp_all add: accRole_def BaseEntity.defs Role.defs)

lemma accSession_simps [simp]:
  "rs_JTI accSession = ''jti0''" "rs_TokenHash accSession = hashToken acc_env accRefresh" "rs_ExpiresAt accSession = 86400"
  "\<not> rs_Revoked accSession"
  by (simp_all add: accSession_def)

lemma accClaims_simps [simp]:
  "cl_UID (accClaims k n j) = ''id0''" "cl_TokenType (accClaims k n j) = k" "cl_ID (accClaims k n j) = j"
  "cl_TokenVersion (accClaims k n j) = 0" "cl_NotBefore (accClaims k n j) = 0" "cl_ExpiresAt (accClaims k n j) = n"
  "\<not> cl_NeedChangePassword (accClaims k n j)"
  by (simp_all add: accClaims_def tokenClaims_def accUserWith_def unixSec_def UserStatusActive_def UserStatusWaitChangePassword_def)

lemma accTokens:
  "0 \<le> now \<Longrightarrow> now < 86400000 \<Longrightarrow> parseAndValidateToken acc_env now accRefresh = Inr (accClaims ''refresh'' 86400 ''jti0'')"
  "0 \<le> now \<Longrightarrow> now < 60000 \<Longrightarrow> parseAndValidateToken acc_env now accAccess = Inr (accClaims ''access'' 60 [])"
proof -
  have "acc_sign c = Inr (projr (acc_sign c))" for c by (simp add: acc_sign_def)
  then have s: "ae_sign acc_env (accClaims ''refresh'' 86400 ''jti0'') = Inr accRefresh"
    "ae_sign acc_env (accClaims ''access'' 60 []) = Inr accAccess"
    by (simp_all add: accRefresh_def accAccess_def)
  show "0 \<le> now \<Longrightarrow> now < 86400000 \<Longrightarrow> parseAndValidateToken acc_env now accRefresh = Inr (accClaims ''refresh'' 86400 ''jti0'')"
    by (rule jwt_lawsD [OF acc_jwt_laws s(1)]) (simp_all add: unixSec_def)
  show "0 \<le> now \<Longrightarrow> now < 60000 \<Longrightarrow> parseAndValidateToken acc_env now accAccess = Inr (accClaims ''access'' 60 [])"
    by (rule jwt_lawsD [OF acc_jwt_laws s(2)]) (simp_all add: unixSec_def)
qed

lemma Utoa_0: "Utoa 0 = ''0''" and Utoa_1: "Utoa 1 = ''1''"
  by code_simp+

lemma acc_inv: "sessionInv acc_env acc_view accState"
  by (simp add: sessionInv_def goodSessions_def drawn_def Utoa_0)

lemma acc_getUser: "getUserByID acc_env ''id0'' accState = Inr accUser"
  using getUserByID_healthy [OF acc_healthy, of acc_view "''id0''" accState] by (simp add: acc_laws)

lemma acc_refreshCheck:
  assumes "0 \<le> now" "now < 86400000"
  shows "refreshCheck acc_env now accRefresh accState =
    Inr (accUser\<lparr>us_RefreshTokens := [accSession\<lparr>rs_Revoked := True\<rparr>], be_UpdatedTime := now\<rparr>)"
proof -
  have "\<not> IsExpired accSession now" using assms by (simp add: IsExpired_def unixSec_def)
  then show ?thesis
    using accTokens(1) [OF assms] acc_getUser by (simp add: refreshCheck_def GetBsonObjectUID_def)
qed

lemma acc_stored: "storedPassword accUser" "''id0'' \<noteq> zeroOID"
  by (simp_all add: storedPassword_def zeroOID_def numeral_eq_Suc)

end
