(* ===== verification/K8s_Adapter.thy ===== *)
theory K8s_Adapter
  imports Mgr_Strategy Go_Strings "HOL-Library.AList"
begin

text \<open>
  The Kubernetes adapter of the manager (\<open>src/api/manager/k8s_adapter/adapter.go\<close>): the pod
  cache kept by a watcher, the pod and node queries, the choice of the decision maker's port
  and the matching of device selectors.

  \<open>k8s_api\<close> bundles what the adapter calls of the Kubernetes libraries: \<open>labels.Parse\<close> with
  the selector's \<open>String\<close> and \<open>Matches\<close>, the List calls of the typed and of the dynamic client,
  and the readers of unstructured objects (\<open>None\<close> when the field is absent or of another type).
  \<open>ka_range\<close> is the order in which Go iterates over the keys of the cache.
\<close>

section \<open>Data\<close>

text \<open>The fields of the API objects that the adapter reads.\<close>

record k8sPort =
  kp_Name :: string
  kp_ContainerPort :: int

record k8sContainer =
  kc_Name :: string
  kc_Command :: "string list"
  kc_Args :: "string list"
  kc_Ports :: "k8sPort list"

record k8sPod =
  k_UID :: string
  k_Name :: string
  k_Namespace :: string
  k_Labels :: labels
  k_NodeName :: string
  k_Containers :: "k8sContainer list"
  k_ContainerStatuses :: "(string \<times> string) list"
  k_PodIP :: string
  k_HostIP :: string
  k_Phase :: string

record k8sNode =
  kn_Name :: string
  kn_Labels :: labels
  kn_Conditions :: "(string \<times> string) list"

record 'sel k8s_api =
  ka_parse :: "string \<Rightarrow> string + 'sel"
  ka_selectorString :: "'sel \<Rightarrow> string"
  ka_matches :: "'sel \<Rightarrow> labels \<Rightarrow> bool"
  ka_listPods :: "string \<Rightarrow> string \<Rightarrow> string + k8sPod list"
  ka_listNodes :: "string \<Rightarrow> string + k8sNode list"
  ka_listSlices :: "string + json list"
  ka_nestedString :: "json \<Rightarrow> string list \<Rightarrow> string option"
  ka_nestedSlice :: "json \<Rightarrow> string list \<Rightarrow> json list option"
  ka_nestedMap :: "json \<Rightarrow> string list \<Rightarrow> (string \<times> json) list option"
  ka_range :: "string list \<Rightarrow> string list"

text \<open>The adapter: whether its two clients are set, and the cache by UID.\<close>

record Adapter =
  ad_client :: bool
  ad_dynamicClient :: bool
  ad_podCache :: "(string \<times> k8sPod) list"
  ad_cacheHasSynced :: bool

record Container =
  con_ContainerID :: string
  con_Name :: string
  con_Command :: "string list"

record ClusterPod = Pod +
  pod_Containers :: "Container list"

record QueryPodsOptions =
  qp_K8SNamespace :: "string list"
  qp_LabelSelectors :: labels

record QueryDecisionMakerPodsOptions =
  qd_K8SNamespace :: "string list"
  qd_NodeIDs :: "string list"
  qd_DecisionMakerLabel :: "string \<times> string"

record QueryNodesOptions =
  qn_NodeSelectors :: labels
  qn_NodeNames :: "string list"

datatype k8s_error =
    ErrNilQueryInput
  | ErrNoClient
  | ParseSelectorError string string
  | ListPodsError string string
  | ListNodesError string
  | ListSlicesError string
  | NilClientPanic


section \<open>The pod cache\<close>

definition setPodCache :: "k8sPod \<Rightarrow> Adapter \<Rightarrow> Adapter" where
  "setPodCache pod a = a\<lparr>ad_podCache := AList.update (k_UID pod) pod (ad_podCache a)\<rparr>"

definition deletePodCache :: "string \<Rightarrow> Adapter \<Rightarrow> Adapter" where
  "deletePodCache uid a = a\<lparr>ad_podCache := AList.delete uid (ad_podCache a)\<rparr>"

text \<open>What the informer hands to the event handlers; \<open>None\<close> is an object that is no pod.\<close>

datatype watch_event =
    AddFunc "k8sPod option"
  | UpdateFunc "k8sPod option"
  | DeleteFunc k8sPod
  | DeleteFinalStateUnknown "k8sPod option"
  | DeleteOther

fun onEvent :: "Adapter \<Rightarrow> watch_event \<Rightarrow> Adapter" where
  "onEvent a (AddFunc (Some pod)) = setPodCache pod a"
| "onEvent a (AddFunc None) = a"
| "onEvent a (UpdateFunc (Some pod)) = setPodCache pod a"
| "onEvent a (UpdateFunc None) = a"
| "onEvent a (DeleteFunc pod) = deletePodCache (k_UID pod) a"
| "onEvent a (DeleteFinalStateUnknown (Some pod)) = deletePodCache (k_UID pod) a"
| "onEvent a (DeleteFinalStateUnknown None) = a"
| "onEvent a DeleteOther = a"

text \<open>A new adapter has both clients and an empty cache; the watcher's start ends with the result of
  the cache synchronisation.\<close>

definition NewAdapter :: Adapter where
  "NewAdapter = \<lparr>ad_client = True, ad_dynamicClient = True, ad_podCache = [], ad_cacheHasSynced = False\<rparr>"

definition cacheSynced :: "bool \<Rightarrow> Adapter \<Rightarrow> Adapter" where
  "cacheSynced synced a = a\<lparr>ad_cacheHasSynced := synced\<rparr>"


section \<open>Pod queries\<close>

fun selectorTexts :: "labels \<Rightarrow> string list" where
  "selectorTexts [] = []"
| "selectorTexts ((key, val) # sels) =
     (if key = [] then selectorTexts sels
      else if val = [] then key # selectorTexts sels
      else (key @ ''='' @ val) # selectorTexts sels)"

definition k8sLabelSelector :: "labels \<Rightarrow> string" where
  "k8sLabelSelector selectors = Join (selectorTexts selectors) '',''"

definition podsFromCache :: "'sel k8s_api \<Rightarrow> string list \<Rightarrow> 'sel \<Rightarrow> Adapter \<Rightarrow> k8sPod list" where
  "podsFromCache api namespaces selector a =
     (let nsAll = (namespaces = [] \<or> (length namespaces = 1 \<and> hd namespaces = [])) in
      filter (\<lambda>pod. (nsAll \<or> k_Namespace pod \<in> set namespaces) \<and>
                (ka_selectorString api selector = [] \<or> ka_matches api selector (k_Labels pod)))
        (somes (map (map_of (ad_podCache a)) (ka_range api (map fst (ad_podCache a))))))"

fun listPodsLive :: "'sel k8s_api \<Rightarrow> string \<Rightarrow> string list \<Rightarrow> Adapter \<Rightarrow> k8sPod list \<Rightarrow> (k8s_error + k8sPod list) \<times> Adapter" where
  "listPodsLive api sel [] a results = (Inr results, a)"
| "listPodsLive api sel (ns # nss) a results =
     (case ka_listPods api ns sel of
        Inl e \<Rightarrow> (Inl (ListPodsError ns e), a)
      | Inr pods \<Rightarrow> listPodsLive api sel nss (fold setPodCache pods a) (results @ pods))"

definition listPods :: "'sel k8s_api \<Rightarrow> string list \<Rightarrow> string \<Rightarrow> Adapter \<Rightarrow> (k8s_error + k8sPod list) \<times> Adapter" where
  "listPods api namespaces labelSelector a =
     (case ka_parse api labelSelector of
        Inl e \<Rightarrow> (Inl (ParseSelectorError labelSelector e), a)
      | Inr selector \<Rightarrow>
          if ad_cacheHasSynced a then (Inr (podsFromCache api namespaces selector a), a)
          else listPodsLive api labelSelector namespaces a [])"

text \<open>A map of labels has no order here, and an empty map is the nil map.\<close>

definition copyLabels :: "labels \<Rightarrow> labels" where
  "copyLabels ls = (if ls = [] then [] else ls)"

definition buildContainers :: "k8sPod \<Rightarrow> Container list" where
  "buildContainers pod =
     (let statusByName = map_of (rev (k_ContainerStatuses pod)) in
      map (\<lambda>container.
          \<lparr>con_ContainerID = (case statusByName (kc_Name container) of Some i \<Rightarrow> i | None \<Rightarrow> []),
           con_Name = kc_Name container, con_Command = kc_Command container @ kc_Args container\<rparr>)
        (k_Containers pod))"

definition podToDomain :: "k8sPod \<Rightarrow> ClusterPod" where
  "podToDomain pod =
     \<lparr>pod_Name = k_Name pod, pod_K8SNamespace = k_Namespace pod, pod_Labels = copyLabels (k_Labels pod),
      pod_PodID = k_UID pod, pod_NodeID = k_NodeName pod, pod_Containers = buildContainers pod\<rparr>"

definition allNamespaces :: "string list \<Rightarrow> string list" where
  "allNamespaces namespaces = (if namespaces = [] then [[]] else namespaces)"

definition QueryPods ::
  "'sel k8s_api \<Rightarrow> QueryPodsOptions option \<Rightarrow> Adapter option \<Rightarrow> (k8s_error + ClusterPod list) \<times> Adapter option" where
  "QueryPods api opt a =
     (case opt of
        None \<Rightarrow> (Inl ErrNilQueryInput, a)
      | Some o1 \<Rightarrow>
          (case a of
             None \<Rightarrow> (Inl ErrNoClient, a)
           | Some ad \<Rightarrow>
               if \<not> ad_client ad then (Inl ErrNoClient, a)
               else
                 (case listPods api (allNamespaces (qp_K8SNamespace o1))
                         (k8sLabelSelector (qp_LabelSelectors o1)) ad of
                    (Inl e, ad') \<Rightarrow> (Inl e, Some ad')
                  | (Inr pods, ad') \<Rightarrow> (Inr (map podToDomain pods), Some ad'))))"

definition decisionMakerPortNames :: "string list" where
  "decisionMakerPortNames = [''http'', ''api'', ''sidecar'', ''dm'', ''decisionmaker'']"

definition excludedPortNames :: "string list" where
  "excludedPortNames = [''monitor-metrics'', ''metrics'', ''prometheus'']"

text \<open>The loop of \<open>firstContainerPort\<close> over all ports of all containers, with its variables
  \<open>fallback\<close> and \<open>nonExcluded\<close>.\<close>

fun scanPorts :: "k8sPort list \<Rightarrow> int \<Rightarrow> int \<Rightarrow> int" where
  "scanPorts [] fallback nonExcluded = (if nonExcluded \<noteq> 0 then nonExcluded else fallback)"
| "scanPorts (port # ports) fallback nonExcluded =
     (let fallback' = (if fallback = 0 then kp_ContainerPort port else fallback) in
      if kp_Name port \<in> set excludedPortNames then scanPorts ports fallback' nonExcluded
      else if kp_Name port \<in> set decisionMakerPortNames then kp_ContainerPort port
      else scanPorts ports fallback' (if nonExcluded = 0 then kp_ContainerPort port else nonExcluded))"

definition firstContainerPort :: "k8sPod \<Rightarrow> int" where
  "firstContainerPort pod = scanPorts (concat (map kc_Ports (k_Containers pod))) 0 0"

definition mapPodState :: "string \<Rightarrow> NodeState" where
  "mapPodState phase =
     (if phase = ''Running'' then NodeStateOnline
      else if phase = ''Pending'' then NodeStateUnknown
      else NodeStateOffline)"

definition dmPod :: "k8sPod \<Rightarrow> DecisionMakerPod" where
  "dmPod pod =
     \<lparr>dmp_NodeID = k_NodeName pod, dmp_Port = firstContainerPort pod,
      dmp_Host = (if k_PodIP pod = [] then k_HostIP pod else k_PodIP pod),
      dmp_State = mapPodState (k_Phase pod)\<rparr>"

definition QueryDecisionMakerPods ::
  "'sel k8s_api \<Rightarrow> QueryDecisionMakerPodsOptions option \<Rightarrow> Adapter option \<Rightarrow>
   (k8s_error + DecisionMakerPod list) \<times> Adapter option" where
  "QueryDecisionMakerPods api opt a =
     (case opt of
        None \<Rightarrow> (Inl ErrNilQueryInput, a)
      | Some o1 \<Rightarrow>
          (case a of
             None \<Rightarrow> (Inl ErrNoClient, a)
           | Some ad \<Rightarrow>
               if \<not> ad_client ad then (Inl ErrNoClient, a)
               else
                 (case listPods api (allNamespaces (qd_K8SNamespace o1))
                         (k8sLabelSelector [qd_DecisionMakerLabel o1]) ad of
                    (Inl e, ad') \<Rightarrow> (Inl e, Some ad')
                  | (Inr pods, ad') \<Rightarrow>
                      (Inr (map dmPod (filter (\<lambda>pod. qd_NodeIDs o1 = [] \<or> k_NodeName pod \<in> set (qd_NodeIDs o1)) pods)),
                       Some ad'))))"


section \<open>Node queries\<close>

definition nodeStatus :: "(string \<times> string) list \<Rightarrow> string" where
  "nodeStatus conditions =
     (case find (\<lambda>(type, status). type = ''Ready'') conditions of
        None \<Rightarrow> ''Unknown''
      | Some (type, status) \<Rightarrow> if status = ''True'' then ''Ready'' else ''NotReady'')"

definition nodeToDomain :: "k8sNode \<Rightarrow> Node" where
  "nodeToDomain node =
     \<lparr>node_Name = kn_Name node, node_Labels = copyLabels (kn_Labels node), node_Status = nodeStatus (kn_Conditions node)\<rparr>"

definition ListNodes :: "'sel k8s_api \<Rightarrow> Adapter option \<Rightarrow> k8s_error + Node list" where
  "ListNodes api a =
     (case a of
        None \<Rightarrow> Inl ErrNoClient
      | Some ad \<Rightarrow>
          if \<not> ad_client ad then Inl ErrNoClient
          else case ka_listNodes api [] of Inl e \<Rightarrow> Inl (ListNodesError e) | Inr nodes \<Rightarrow> Inr (map nodeToDomain nodes))"

definition QueryNodesBySelectors :: "'sel k8s_api \<Rightarrow> QueryNodesOptions option \<Rightarrow> Adapter option \<Rightarrow> k8s_error + Node list" where
  "QueryNodesBySelectors api opt a =
     (case opt of
        None \<Rightarrow> Inl ErrNilQueryInput
      | Some o1 \<Rightarrow>
          (case a of
             None \<Rightarrow> Inl ErrNoClient
           | Some ad \<Rightarrow>
               if \<not> ad_client ad then Inl ErrNoClient
               else
                 (case ka_listNodes api (k8sLabelSelector (qn_NodeSelectors o1)) of
                    Inl e \<Rightarrow> Inl (ListNodesError e)
                  | Inr nodes \<Rightarrow>
                      Inr (map nodeToDomain
                        (filter (\<lambda>n. qn_NodeNames o1 = [] \<or> kn_Name n \<in> set (qn_NodeNames o1)) nodes)))))"

text \<open>\<open>fmt.Sprintf("%v", v)\<close> of a decoded JSON value: maps print with sorted keys.\<close>

fun Sprintv :: "json \<Rightarrow> string" where
  "Sprintv JNull = ''<nil>''"
| "Sprintv (JBool b) = (if b then ''true'' else ''false'')"
| "Sprintv (JInt i) = Itoa i"
| "Sprintv (JStr s) = s"
| "Sprintv (JArr vs) = ''['' @ Join (map Sprintv vs) '' '' @ '']''"
| "Sprintv (JObj fs) =
     ''map['' @ Join (map (\<lambda>(k, t). k @ '':'' @ t)
        (sort_key fst (map (\<lambda>kv. (fst kv, Sprintv (snd kv))) fs))) '' '' @ '']''"

definition attributeValueToString :: "json \<Rightarrow> string" where
  "attributeValueToString raw =
     (case raw of
        JObj m \<Rightarrow>
          (case somes (map (map_of m) [''string'', ''int'', ''bool'', ''version'']) of
             [] \<Rightarrow> []
           | v # _ \<Rightarrow> Sprintv v)
      | _ \<Rightarrow> Sprintv raw)"

fun deviceAttributesMatch :: "(string \<times> json) list \<Rightarrow> labels \<Rightarrow> bool" where
  "deviceAttributesMatch attrs [] = True"
| "deviceAttributesMatch attrs ((key, val) # wanted) =
     (case map_of attrs key of
        None \<Rightarrow> False
      | Some raw \<Rightarrow>
          if val = [] then deviceAttributesMatch attrs wanted
          else if attributeValueToString raw \<noteq> val then False
          else deviceAttributesMatch attrs wanted)"

definition getUnstructuredStr :: "'sel k8s_api \<Rightarrow> json \<Rightarrow> string list \<Rightarrow> string" where
  "getUnstructuredStr api obj path = (case ka_nestedString api obj path of Some v \<Rightarrow> v | None \<Rightarrow> [])"

text \<open>The loop over the devices of a slice.\<close>

fun anyDeviceMatches :: "'sel k8s_api \<Rightarrow> labels \<Rightarrow> json list \<Rightarrow> bool" where
  "anyDeviceMatches api wanted [] = False"
| "anyDeviceMatches api wanted (d # devices) =
     (case d of
        JObj fs \<Rightarrow>
          (case ka_nestedMap api d [''basic'', ''attributes''] of
             None \<Rightarrow> anyDeviceMatches api wanted devices
           | Some attrs \<Rightarrow> if deviceAttributesMatch attrs wanted then True else anyDeviceMatches api wanted devices)
      | _ \<Rightarrow> anyDeviceMatches api wanted devices)"

definition resourceSliceMatchesSelector :: "'sel k8s_api \<Rightarrow> json \<Rightarrow> DRASelector \<Rightarrow> bool" where
  "resourceSliceMatchesSelector api rslice selector =
     (if dra_DeviceClass selector \<noteq> [] \<and> getUnstructuredStr api rslice [''spec'', ''driver''] \<noteq> dra_DeviceClass selector
      then False
      else if dra_Attributes selector = [] then True
      else case ka_nestedSlice api rslice [''spec'', ''devices''] of
          None \<Rightarrow> False
        | Some devices \<Rightarrow> anyDeviceMatches api (dra_Attributes selector) devices)"

text \<open>The set \<open>matchedNodeNames\<close>, in order of discovery.\<close>

fun matchedNodeNames :: "'sel k8s_api \<Rightarrow> DRASelector list \<Rightarrow> json list \<Rightarrow> string list" where
  "matchedNodeNames api sels [] = []"
| "matchedNodeNames api sels (rslice # slices) =
     (let nodeName = getUnstructuredStr api rslice [''spec'', ''nodeName''] in
      if list_ex (resourceSliceMatchesSelector api rslice) sels \<and> nodeName \<noteq> []
      then nodeName # matchedNodeNames api sels slices
      else matchedNodeNames api sels slices)"

definition QueryNodesByDRA :: "'sel k8s_api \<Rightarrow> DRASelector list option \<Rightarrow> Adapter option \<Rightarrow> k8s_error + Node list" where
  "QueryNodesByDRA api opt a =
     (case opt of
        None \<Rightarrow> Inl ErrNilQueryInput
      | Some sels \<Rightarrow>
          (case a of
             None \<Rightarrow> Inl ErrNoClient
           | Some ad \<Rightarrow>
               if \<not> ad_dynamicClient ad then Inl ErrNoClient
               else if sels = [] then Inr []
               else
                 (case ka_listSlices api of
                    Inl e \<Rightarrow> Inl (ListSlicesError e)
                  | Inr slices \<Rightarrow>
                      let names = matchedNodeNames api sels slices in
                      if names = [] then Inr []
                      else if \<not> ad_client ad then Inl NilClientPanic
                      else
                        (case ka_listNodes api [] of
                           Inl e \<Rightarrow> Inl (ListNodesError e)
                         | Inr nodes \<Rightarrow> Inr (map nodeToDomain (filter (\<lambda>n. kn_Name n \<in> set names) nodes))))))"


section \<open>The cache follows the cluster\<close>

text \<open>The informer's contract: which event sequences it may deliver while the cluster's pods,
  by UID, develop from none to \<open>c\<close>.  A deletion that was missed is reported with the last known
  object, which need not be the latest; objects that are no pods may be reported at any time.\<close>

inductive watched :: "(string \<rightharpoonup> k8sPod) \<Rightarrow> watch_event list \<Rightarrow> bool" where
  start: "watched Map.empty []"
| created: "watched c evs \<Longrightarrow> k_UID p \<notin> dom c \<Longrightarrow> watched (c(k_UID p \<mapsto> p)) (evs @ [AddFunc (Some p)])"
| modified: "watched c evs \<Longrightarrow> k_UID p \<in> dom c \<Longrightarrow> watched (c(k_UID p \<mapsto> p)) (evs @ [UpdateFunc (Some p)])"
| removed: "watched c evs \<Longrightarrow> watched (c(k_UID p := None)) (evs @ [DeleteFunc p])"
| removed_unseen: "watched c evs \<Longrightarrow> watched (c(k_UID p := None)) (evs @ [DeleteFinalStateUnknown (Some p)])"
| unrelated: "watched c evs \<Longrightarrow> ev \<in> {AddFunc None, UpdateFunc None, DeleteFinalStateUnknown None, DeleteOther} \<Longrightarrow>
    watched c (evs @ [ev])"

definition cacheInv :: "(string \<rightharpoonup> k8sPod) \<Rightarrow> Adapter \<Rightarrow> bool" where
  "cacheInv c a \<longleftrightarrow> map_of (ad_podCache a) = c \<and> distinct (map fst (ad_podCache a)) \<and>
     (\<forall>(uid, p) \<in> set (ad_podCache a). uid = k_UID p)"

lemma update_subset: "set (AList.update k v al) \<subseteq> insert (k, v) (set al)"
  by (induction al) auto

lemma cacheInv_set: "cacheInv c a \<Longrightarrow> cacheInv (c(k_UID p \<mapsto> p)) (setPodCache p a)"
  unfolding cacheInv_def setPodCache_def
  by (auto simp: update_conv' distinct_update dest: subsetD [OF update_subset])

lemma cacheInv_delete: "cacheInv c a \<Longrightarrow> cacheInv (c(uid := None)) (deletePodCache uid a)"
  by (auto simp: cacheInv_def deletePodCache_def delete_conv' distinct_delete) (auto simp: AList.delete_eq)

lemma onEvent_keeps_step:
  "ad_client (onEvent a ev) = ad_client a \<and> ad_dynamicClient (onEvent a ev) = ad_dynamicClient a \<and>
   ad_cacheHasSynced (onEvent a ev) = ad_cacheHasSynced a"
  by (induction a ev rule: onEvent.induct) (simp_all add: setPodCache_def deletePodCache_def)

lemma onEvent_keeps [simp]:
  "ad_client (foldl onEvent a evs) = ad_client a" "ad_dynamicClient (foldl onEvent a evs) = ad_dynamicClient a"
  "ad_cacheHasSynced (foldl onEvent a evs) = ad_cacheHasSynced a"
  by (induction evs arbitrary: a) (simp_all add: onEvent_keeps_step)

lemma cache_follows:
  assumes "watched c evs" "ad_podCache a = []"
  shows "cacheInv c (foldl onEvent a evs)"
  using assms
proof (induction rule: watched.induct)
  case start
  then show ?case by (simp add: cacheInv_def)
qed (auto intro: cacheInv_set cacheInv_delete)


section \<open>What a pod query returns\<close>

text \<open>A selector list asks for every key, with its value unless the value is empty.\<close>

definition selectorsHold :: "labels \<Rightarrow> labels \<Rightarrow> bool" where
  "selectorsHold sels ls =
     list_all (\<lambda>(k, v). k = [] \<or> (case map_of ls k of None \<Rightarrow> False | Some w \<Rightarrow> v = [] \<or> w = v)) sels"

text \<open>Label keys without prefix and label values, in the syntax of Kubernetes names.\<close>

definition alnum :: "char \<Rightarrow> bool" where
  "alnum c =
     list_ex (\<lambda>(lo, hi). lo \<le> c \<and> c \<le> hi) [(CHR ''0'', CHR ''9''), (CHR ''A'', CHR ''Z''), (CHR ''a'', CHR ''z'')]"

definition labelName :: "string \<Rightarrow> bool" where
  "labelName s =
     (s \<noteq> [] \<and> length s \<le> 63 \<and> alnum (hd s) \<and> alnum (last s) \<and>
      list_all (\<lambda>c. alnum c \<or> c \<in> {CHR ''-'', CHR ''_'', CHR ''.''}) s)"

definition validSelector :: "string \<times> string \<Rightarrow> bool" where
  "validSelector sel =
     (fst sel = [] \<or> labelName (fst sel) \<and> fst sel \<notin> {''in'', ''notin''} \<and> (snd sel = [] \<or> labelName (snd sel)))"

text \<open>The documented behaviour of \<open>labels.Parse\<close> on a list of equality and existence
  requirements, and of the iteration over a map.\<close>

definition parse_law :: "'sel k8s_api \<Rightarrow> bool" where
  "parse_law api \<longleftrightarrow>
     (\<forall>sels. list_all validSelector sels \<longrightarrow>
        (\<exists>s. ka_parse api (k8sLabelSelector sels) = Inr s \<and>
             (\<forall>ls. ka_matches api s ls = selectorsHold sels ls)))"

definition range_law :: "'sel k8s_api \<Rightarrow> bool" where
  "range_law api \<longleftrightarrow> (\<forall>xs. mset (ka_range api xs) = mset xs)"

text \<open>An empty selector text selects everything: \<open>String\<close> of a parsed selector is empty only then.\<close>

definition empty_law :: "'sel k8s_api \<Rightarrow> bool" where
  "empty_law api \<longleftrightarrow> (\<forall>s ls. ka_selectorString api s = [] \<longrightarrow> ka_matches api s ls)"

definition inNamespaces :: "string list \<Rightarrow> k8sPod \<Rightarrow> bool" where
  "inNamespaces namespaces pod = (namespaces = [] \<or> namespaces = [[]] \<or> k_Namespace pod \<in> set namespaces)"

lemma somes_eq: "somes xs = map the (filter (\<lambda>x. x \<noteq> None) xs)"
  by (induction xs rule: somes.induct) auto

lemma cached_pods:
  assumes inv: "cacheInv c a" and rng: "range_law api"
  defines "ps \<equiv> somes (map (map_of (ad_podCache a)) (ka_range api (map fst (ad_podCache a))))"
  shows "set ps = ran c" "distinct (map k_UID ps)"
proof -
  let ?keys = "ka_range api (map fst (ad_podCache a))"
  have m: "mset ?keys = mset (map fst (ad_podCache a))" using rng by (simp add: range_law_def)
  have c: "map_of (ad_podCache a) = c" using inv by (simp add: cacheInv_def)
  have k: "set ?keys = dom c" using mset_eq_setD [OF m] by (simp add: c [symmetric] dom_map_of_conv_image_fst)
  have d: "distinct ?keys" using inv mset_eq_imp_distinct_iff [OF m] by (simp add: cacheInv_def)
  have "filter (\<lambda>x. x \<noteq> None) (map c ?keys) = map c ?keys" using k by (intro filter_True) auto
  then have ps: "ps = map (\<lambda>k. the (c k)) ?keys" by (simp add: ps_def c somes_eq)
  show "set ps = ran c" using k by (force simp: ps ran_def)
  have "k_UID (the (c k)) = k" if "k \<in> dom c" for k
    using that inv by (auto simp: cacheInv_def dest: map_of_SomeD)
  then have "map k_UID ps = ?keys" unfolding ps map_map using k by (intro map_idI) (simp add: comp_def)
  then show "distinct (map k_UID ps)" using d by simp
qed

lemma nsAll_eq: "(namespaces = [] \<or> (length namespaces = 1 \<and> hd namespaces = [])) = (namespaces = [] \<or> namespaces = [[]])"
  by (cases namespaces) auto

lemma podsFromCache_exact:
  assumes inv: "cacheInv c a" and rng: "range_law api" and e: "empty_law api"
  shows "set (podsFromCache api nss s a) = {p \<in> ran c. inNamespaces nss p \<and> ka_matches api s (k_Labels p)}"
    "distinct (map k_UID (podsFromCache api nss s a))"
proof -
  note c = cached_pods [OF inv rng]
  have "(ka_selectorString api s = [] \<or> ka_matches api s ls) = ka_matches api s ls" for ls
    using e by (auto simp: empty_law_def)
  then show "set (podsFromCache api nss s a) = {p \<in> ran c. inNamespaces nss p \<and> ka_matches api s (k_Labels p)}"
    unfolding podsFromCache_def Let_def nsAll_eq set_filter c(1) by (auto simp: inNamespaces_def)
  show "distinct (map k_UID (podsFromCache api nss s a))"
    unfolding podsFromCache_def Let_def using c(2) by (rule distinct_map_filter)
qed

lemma inNamespaces_all: "inNamespaces (allNamespaces nss) = inNamespaces nss"
  by (auto simp: inNamespaces_def allNamespaces_def fun_eq_iff)

lemma QueryPods_cached:
  assumes inv: "cacheInv c a" and laws: "parse_law api" "range_law api" "empty_law api"
    and a: "ad_client a" "ad_cacheHasSynced a" and v: "list_all validSelector sels"
  obtains ps where "QueryPods api (Some \<lparr>qp_K8SNamespace = nss, qp_LabelSelectors = sels\<rparr>) (Some a) = (Inr (map podToDomain ps), Some a)"
    "set ps = {p \<in> ran c. inNamespaces nss p \<and> selectorsHold sels (k_Labels p)}" "distinct (map k_UID ps)"
proof -
  obtain s where s: "ka_parse api (k8sLabelSelector sels) = Inr s" "\<And>ls. ka_matches api s ls = selectorsHold sels ls"
    using laws(1) v unfolding parse_law_def by blast
  let ?ps = "podsFromCache api (allNamespaces nss) s a"
  have "QueryPods api (Some \<lparr>qp_K8SNamespace = nss, qp_LabelSelectors = sels\<rparr>) (Some a) = (Inr (map podToDomain ?ps), Some a)"
    by (simp add: QueryPods_def listPods_def s(1) a)
  moreover note podsFromCache_exact [OF inv laws(2,3), of "allNamespaces nss" s, unfolded inNamespaces_all s(2)]
  ultimately show thesis by (rule that)
qed


section \<open>Live listing\<close>

text \<open>The server's List call answers with the pods of the namespace, or of all namespaces for the
  empty name, that the selector matches.\<close>

definition list_pods_law :: "'sel k8s_api \<Rightarrow> (string \<rightharpoonup> k8sPod) \<Rightarrow> bool" where
  "list_pods_law api c \<longleftrightarrow>
     (\<forall>ns txt s. ka_parse api txt = Inr s \<longrightarrow>
        (\<exists>ps. ka_listPods api ns txt = Inr ps \<and>
          set ps = {p \<in> ran c. (ns = [] \<or> k_Namespace p = ns) \<and> ka_matches api s (k_Labels p)}))"

lemma fold_setPodCache_keeps [simp]:
  "ad_client (fold setPodCache ps a) = ad_client a" "ad_dynamicClient (fold setPodCache ps a) = ad_dynamicClient a"
  "ad_cacheHasSynced (fold setPodCache ps a) = ad_cacheHasSynced a"
  by (induction ps arbitrary: a) (simp_all add: setPodCache_def)

lemma listPodsLive_exact:
  assumes law: "list_pods_law api c" and s: "ka_parse api txt = Inr s"
  shows "\<exists>ps a'. listPodsLive api txt nss a acc = (Inr ps, a') \<and>
    set ps = set acc \<union> {p \<in> ran c. ([] \<in> set nss \<or> k_Namespace p \<in> set nss) \<and> ka_matches api s (k_Labels p)}"
proof (induction nss arbitrary: a acc)
  case (Cons ns nss)
  obtain qs where q: "ka_listPods api ns txt = Inr qs"
    "set qs = {p \<in> ran c. (ns = [] \<or> k_Namespace p = ns) \<and> ka_matches api s (k_Labels p)}"
    using law s unfolding list_pods_law_def by blast
  obtain ps a' where "listPodsLive api txt nss (fold setPodCache qs a) (acc @ qs) = (Inr ps, a')"
    "set ps = set (acc @ qs) \<union> {p \<in> ran c. ([] \<in> set nss \<or> k_Namespace p \<in> set nss) \<and> ka_matches api s (k_Labels p)}"
    using Cons.IH by blast
  then show ?case using q by auto
qed simp

text \<open>Cached and live answers contain the same pods, unless the empty namespace is listed beside
  others: the live listing then takes it for all namespaces, the cache for a name.\<close>

lemma cached_live_agree:
  assumes inv: "cacheInv c a" and laws: "range_law api" "empty_law api" "list_pods_law api c"
    and s: "ka_parse api txt = Inr s" and a: "ad_cacheHasSynced a"
    and ns: "nss \<noteq> []" "[] \<in> set nss \<longrightarrow> nss = [[]]"
  obtains ps qs b' where "listPods api nss txt a = (Inr ps, a)"
    "listPods api nss txt (a\<lparr>ad_cacheHasSynced := False\<rparr>) = (Inr qs, b')" "set ps = set qs"
proof -
  obtain qs b' where q: "listPodsLive api txt nss (a\<lparr>ad_cacheHasSynced := False\<rparr>) [] = (Inr qs, b')"
    "set qs = set [] \<union> {p \<in> ran c. ([] \<in> set nss \<or> k_Namespace p \<in> set nss) \<and> ka_matches api s (k_Labels p)}"
    using listPodsLive_exact [OF laws(3) s] by blast
  have "set (podsFromCache api nss s a) = set qs"
    unfolding q(2) podsFromCache_exact(1) [OF inv laws(1,2)] using ns by (auto simp: inNamespaces_def)
  moreover have "listPods api nss txt a = (Inr (podsFromCache api nss s a), a)" by (simp add: listPods_def s a)
  moreover have "listPods api nss txt (a\<lparr>ad_cacheHasSynced := False\<rparr>) = (Inr qs, b')" by (simp add: listPods_def s q(1))
  ultimately show thesis using that by blast
qed


section \<open>The decision maker's port\<close>

definition firstPort :: "(string \<Rightarrow> bool) \<Rightarrow> k8sPort list \<Rightarrow> int" where
  "firstPort ok ports = (case find (\<lambda>p. ok (kp_Name p) \<and> kp_ContainerPort p \<noteq> 0) ports of Some p \<Rightarrow> kp_ContainerPort p | None \<Rightarrow> 0)"

lemma scanPorts_spec:
  "scanPorts ports fallback nonExcluded =
     (case find (\<lambda>p. kp_Name p \<in> set decisionMakerPortNames) ports of
        Some p \<Rightarrow> kp_ContainerPort p
      | None \<Rightarrow>
          (let ne = (if nonExcluded \<noteq> 0 then nonExcluded else firstPort (\<lambda>n. n \<notin> set excludedPortNames) ports) in
           if ne \<noteq> 0 then ne else if fallback \<noteq> 0 then fallback else firstPort (\<lambda>n. True) ports))"
proof (induction ports fallback nonExcluded rule: scanPorts.induct)
  case (2 port ports fallback nonExcluded)
  have d: "kp_Name port \<in> set excludedPortNames \<Longrightarrow> kp_Name port \<notin> set decisionMakerPortNames"
    by (auto simp: excludedPortNames_def decisionMakerPortNames_def)
  consider "kp_Name port \<in> set excludedPortNames"
    | "kp_Name port \<notin> set excludedPortNames" "kp_Name port \<in> set decisionMakerPortNames"
    | "kp_Name port \<notin> set excludedPortNames" "kp_Name port \<notin> set decisionMakerPortNames" by blast
  then show ?case
  proof cases
    case 1
    with d 2(1) show ?thesis by (auto simp: Let_def firstPort_def split: option.splits)
  next
    case 2
    then show ?thesis by simp
  next
    case 3
    with 2 show ?thesis by (auto simp: Let_def firstPort_def split: option.splits)
  qed
qed (simp add: firstPort_def)


section \<open>Device selectors\<close>

definition attributeHolds :: "(string \<times> json) list \<Rightarrow> string \<times> string \<Rightarrow> bool" where
  "attributeHolds attrs sel =
     (case map_of attrs (fst sel) of None \<Rightarrow> False | Some raw \<Rightarrow> snd sel = [] \<or> attributeValueToString raw = snd sel)"

lemma deviceAttributesMatch_iff: "deviceAttributesMatch attrs wanted = list_all (attributeHolds attrs) wanted"
  by (induction attrs wanted rule: deviceAttributesMatch.induct) (auto simp: attributeHolds_def split: option.splits)

definition deviceOffers :: "'sel k8s_api \<Rightarrow> labels \<Rightarrow> json \<Rightarrow> bool" where
  "deviceOffers api wanted d =
     (case d of
        JObj fs \<Rightarrow>
          (case ka_nestedMap api d [''basic'', ''attributes''] of
             None \<Rightarrow> False
           | Some attrs \<Rightarrow> list_all (attributeHolds attrs) wanted)
      | _ \<Rightarrow> False)"

lemma anyDeviceMatches_iff: "anyDeviceMatches api wanted devices = list_ex (deviceOffers api wanted) devices"
  by (induction api wanted devices rule: anyDeviceMatches.induct)
    (auto simp: deviceOffers_def deviceAttributesMatch_iff split: json.splits option.splits)

text \<open>What a slice must publish for a selector: the driver, and one device with all attributes.\<close>

definition sliceOffers :: "'sel k8s_api \<Rightarrow> DRASelector \<Rightarrow> json \<Rightarrow> bool" where
  "sliceOffers api sel rslice =
     ((dra_DeviceClass sel = [] \<or> getUnstructuredStr api rslice [''spec'', ''driver''] = dra_DeviceClass sel) \<and>
      (dra_Attributes sel = [] \<or>
       (case ka_nestedSlice api rslice [''spec'', ''devices''] of
          None \<Rightarrow> False
        | Some devices \<Rightarrow> list_ex (deviceOffers api (dra_Attributes sel)) devices)))"

lemma resourceSliceMatchesSelector_iff: "resourceSliceMatchesSelector api rslice sel = sliceOffers api sel rslice"
  by (auto simp: resourceSliceMatchesSelector_def sliceOffers_def anyDeviceMatches_iff split: option.splits)

lemma set_matchedNodeNames:
  "set (matchedNodeNames api sels slices) =
     {n. n \<noteq> [] \<and> (\<exists>r \<in> set slices. getUnstructuredStr api r [''spec'', ''nodeName''] = n \<and> (\<exists>sel \<in> set sels. sliceOffers api sel r))}"
  by (induction slices) (auto simp: list_ex_iff resourceSliceMatchesSelector_iff Let_def)

lemma matchedNodeNames_none [simp]: "matchedNodeNames api [] slices = []"
  by (induction slices) (simp_all add: Let_def)

lemma QueryNodesByDRA_exact:
  assumes "ad_client a" "ad_dynamicClient a" "ka_listSlices api = Inr slices" "ka_listNodes api [] = Inr nodes"
    "\<forall>n \<in> set nodes. kn_Name n \<noteq> []"
  shows "QueryNodesByDRA api (Some sels) (Some a) =
    Inr (map nodeToDomain (filter (\<lambda>n. \<exists>sel \<in> set sels. \<exists>r \<in> set slices.
      getUnstructuredStr api r [''spec'', ''nodeName''] = kn_Name n \<and> sliceOffers api sel r) nodes))"
proof -
  have f: "filter (\<lambda>n. kn_Name n \<in> set (matchedNodeNames api sels slices)) nodes =
    filter (\<lambda>n. \<exists>sel \<in> set sels. \<exists>r \<in> set slices.
      getUnstructuredStr api r [''spec'', ''nodeName''] = kn_Name n \<and> sliceOffers api sel r) nodes"
    unfolding set_matchedNodeNames using assms(5) by (intro filter_cong) auto
  show ?thesis
    by (auto simp: QueryNodesByDRA_def assms Let_def f [symmetric])
qed


section \<open>The manager on top of the adapter\<close>

text \<open>The pod query of the manager's service is the adapter's.\<close>

definition usesAdapter :: "'w mgr_env \<Rightarrow> 'sel k8s_api \<Rightarrow> Adapter \<Rightarrow> bool" where
  "usesAdapter env api a \<longleftrightarrow>
     (\<forall>nss sels ps. fst (QueryPods api (Some \<lparr>qp_K8SNamespace = nss, qp_LabelSelectors = sels\<rparr>) (Some a)) = Inr ps \<longrightarrow>
        me_pods env nss sels = Inr (map Pod.truncate ps))"

lemma watcher_inv:
  assumes "watched c evs"
  shows "cacheInv c (cacheSynced b (foldl onEvent NewAdapter evs))"
  using cache_follows [OF assms, of NewAdapter] by (simp add: NewAdapter_def cacheSynced_def cacheInv_def)

lemma watcher_state [simp]:
  "ad_client (cacheSynced b (foldl onEvent NewAdapter evs))" "ad_dynamicClient (cacheSynced b (foldl onEvent NewAdapter evs))"
  "ad_cacheHasSynced (cacheSynced b a) = b"
  by (simp_all add: cacheSynced_def NewAdapter_def)

lemma PodID_podToDomain [simp]: "pod_PodID (podToDomain p) = k_UID p" "pod_PodID (Pod.truncate cp) = pod_PodID cp"
  by (simp_all add: podToDomain_def Pod.defs)

lemma CreateScheduleStrategy_cluster:
  assumes w: "watched c evs" and api: "parse_law api" "range_law api" "empty_law api"
    and env: "usesAdapter env api (cacheSynced True (foldl onEvent NewAdapter evs))"
    and v: "list_all validSelector (st_LabelSelectors s)"
    and laws: "cr_laws (me_client env) view"
    and store: "intentStore (me_fromHex env) view (ms_store st) db" "strategyStore (me_fromHex env) view (ms_store st) sdb"
    and hex: "me_fromHex env uid = Some op" "validOID (me_fromHex env) op"
    and fresh: "\<forall>n. validOID (me_fromHex env) (me_fresh env n)"
    and ok: "CreateScheduleStrategy env uid s st = (None, st')"
  shows "\<exists>s' dbNew db'. sdb (be_ID s') = None \<and> be_CreatorID s' = op \<and>
    strategyStore (me_fromHex env) view (ms_store st') (sdb(be_ID s' \<mapsto> s')) \<and>
    (\<forall>i \<in> ran dbNew. si_StrategyID i = be_ID s') \<and>
    si_PodID ` ran dbNew = k_UID ` {p \<in> ran c. inNamespaces (st_K8sNamespace s) p \<and> selectorsHold (st_LabelSelectors s) (k_Labels p)} \<and>
    dom db \<inter> dom dbNew = {} \<and> sameIntents (db ++ dbNew) db' \<and>
    intentStore (me_fromHex env) view (ms_store st') db'"
proof -
  let ?a = "cacheSynced True (foldl onEvent NewAdapter evs)"
  obtain ps where q: "QueryPods api (Some \<lparr>qp_K8SNamespace = st_K8sNamespace s, qp_LabelSelectors = st_LabelSelectors s\<rparr>)
      (Some ?a) = (Inr (map podToDomain ps), Some ?a)"
    "set ps = {p \<in> ran c. inNamespaces (st_K8sNamespace s) p \<and> selectorsHold (st_LabelSelectors s) (k_Labels p)}"
    by (rule QueryPods_cached [OF watcher_inv [OF w] api, of True _ "st_K8sNamespace s"]) (use v in simp_all)
  have me: "me_pods env (st_K8sNamespace s) (st_LabelSelectors s) = Inr (map Pod.truncate (map podToDomain ps))"
    using env q(1) unfolding usesAdapter_def by (metis fst_conv)
  have ids: "pod_PodID ` set (map Pod.truncate (map podToDomain ps)) = k_UID ` set ps" by (simp add: image_image)
  from CreateScheduleStrategy_ok [OF laws store hex fresh ok] show ?thesis
    unfolding me sum.inject q(2) [symmetric] ids [symmetric] by metis
qed

end
