(* ===== verification/K8s_Examples.thy ===== *)
theory K8s_Examples
  imports K8s_Adapter Examples
begin

text \<open>
  A concrete Kubernetes library for the adapter: a selector is the list of its requirements,
  parsed at commas and equal signs, and the watcher has seen two pods come and one go.
\<close>

definition exParse :: "string \<Rightarrow> string + labels" where
  "exParse s =
     Inr (if s = [] then []
          else map (\<lambda>t. case SplitN2 t (CHR ''='') of k # v # _ \<Rightarrow> (k, v) | _ \<Rightarrow> (t, [])) (Split s (CHR '','')))"

definition exWeb :: k8sPod where
  "exWeb = \<lparr>k_UID = ''p2'', k_Name = ''web-2'', k_Namespace = ''d'', k_Labels = [(''app'', ''web'')], k_NodeName = ''n1'',
     k_Containers = [], k_ContainerStatuses = [], k_PodIP = ''10.0.0.1'', k_HostIP = [], k_Phase = ''Running''\<rparr>"

definition exDb :: k8sPod where
  "exDb = exWeb\<lparr>k_UID := ''p3'', k_Name := ''db-0'', k_Labels := [(''app'', ''db'')]\<rparr>"

definition exEvents :: "watch_event list" where
  "exEvents = [AddFunc (Some (exWeb\<lparr>k_Phase := ''Pending''\<rparr>)), AddFunc (Some exDb), UpdateFunc (Some exWeb), DeleteFunc exDb,
     AddFunc (Some exDb)]"

definition exCluster :: "string \<rightharpoonup> k8sPod" where
  "exCluster = [''p2'' \<mapsto> exWeb, ''p3'' \<mapsto> exDb]"

definition exApi :: "labels k8s_api" where
  "exApi = \<lparr>ka_parse = exParse, ka_selectorString = k8sLabelSelector, ka_matches = selectorsHold,
     ka_listPods = (\<lambda>ns txt. Inr (filter (\<lambda>p. (ns = [] \<or> k_Namespace p = ns) \<and>
         (case exParse txt of Inr s \<Rightarrow> selectorsHold s (k_Labels p) | Inl _ \<Rightarrow> False)) [exWeb, exDb])),
     ka_listNodes = (\<lambda>_. Inr []), ka_listSlices = Inr [], ka_nestedString = (\<lambda>_ _. None), ka_nestedSlice = (\<lambda>_ _. None),
     ka_nestedMap = (\<lambda>_ _. None), ka_range = rev\<rparr>"

lemma exApi_simps [simp]:
  "ka_parse exApi = exParse" "ka_selectorString exApi = k8sLabelSelector" "ka_matches exApi = selectorsHold" "ka_range exApi = rev"
  by (simp_all add: exApi_def)


section \<open>The laws hold\<close>

lemma SplitN2_app: "c \<notin> set t \<Longrightarrow> SplitN2 (t @ c # s) c = [t, s]"
  by (induction t) auto

lemma SplitN2_single: "c \<notin> set t \<Longrightarrow> SplitN2 t c = [t]"
  by (induction t) auto

lemma labelName_chars: "labelName s \<Longrightarrow> s \<noteq> [] \<and> CHR '','' \<notin> set s \<and> CHR ''='' \<notin> set s"
  by (auto simp: labelName_def list_all_iff alnum_def less_eq_char_def)

definition named :: "labels \<Rightarrow> labels" where
  "named sels = filter (\<lambda>sel. fst sel \<noteq> []) sels"

definition selectorText :: "string \<times> string \<Rightarrow> string" where
  "selectorText sel = (if snd sel = [] then fst sel else fst sel @ ''='' @ snd sel)"

lemma selectorTexts_eq: "selectorTexts sels = map selectorText (named sels)"
  by (induction sels rule: selectorTexts.induct) (auto simp: named_def selectorText_def)

lemma selectorsHold_named: "selectorsHold (named sels) ls = selectorsHold sels ls"
  by (induction sels) (auto simp: selectorsHold_def named_def)

lemma exParse_build: "list_all validSelector sels \<Longrightarrow> exParse (k8sLabelSelector sels) = Inr (named sels)"
proof -
  assume v: "list_all validSelector sels"
  let ?ts = "map selectorText (named sels)"
  let ?f = "\<lambda>t. case SplitN2 t (CHR ''='') of k # v # _ \<Rightarrow> (k, v) | _ \<Rightarrow> (t, [])"
  have ok: "CHR '','' \<notin> set (selectorText sel) \<and> selectorText sel \<noteq> [] \<and> ?f (selectorText sel) = sel"
    if "sel \<in> set (named sels)" for sel
  proof -
    have "fst sel \<noteq> []" "validSelector sel" using that v by (auto simp: named_def list_all_iff)
    then have n: "labelName (fst sel)" "snd sel = [] \<or> labelName (snd sel)" by (auto simp: validSelector_def)
    note f = labelName_chars [OF n(1)]
    show ?thesis
    proof (cases "snd sel = []")
      case True
      with f show ?thesis by (simp add: selectorText_def SplitN2_single prod_eq_iff)
    next
      case False
      then have "CHR '','' \<notin> set (snd sel)" using n(2) labelName_chars by blast
      with False f show ?thesis by (simp add: selectorText_def SplitN2_app)
    qed
  qed
  show ?thesis
  proof (cases "named sels")
    case Nil
    then show ?thesis by (simp add: exParse_def k8sLabelSelector_def selectorTexts_eq)
  next
    case (Cons x xs)
    then have "Join ?ts '','' \<noteq> []" using ok [of x] by (cases xs) auto
    moreover have "Split (Join ?ts '','') (CHR '','') = ?ts" using Cons ok by (intro Split_Join_id) auto
    moreover have "map ?f ?ts = named sels" using ok by (simp add: map_idI comp_def)
    ultimately show ?thesis by (simp add: exParse_def k8sLabelSelector_def selectorTexts_eq)
  qed
qed

lemma exApi_laws: "parse_law exApi" "range_law exApi" "empty_law exApi"
proof -
  show "parse_law exApi" by (auto simp: parse_law_def exParse_build selectorsHold_named)
  show "range_law exApi" by (simp add: range_law_def)
  have "selectorsHold s ls" if "k8sLabelSelector s = []" for s ls
  proof -
    have "named s = []"
    proof (rule ccontr)
      assume "named s \<noteq> []"
      then obtain x xs where n: "named s = x # xs" by (cases "named s") auto
      then have "fst x \<noteq> []" by (auto simp: named_def dest: filter_eq_ConsD)
      with that n show False by (cases xs) (auto simp: k8sLabelSelector_def selectorTexts_eq selectorText_def split: if_splits)
    qed
    then show ?thesis using selectorsHold_named [of s ls] by (simp add: selectorsHold_def)
  qed
  then show "empty_law exApi" by (simp add: empty_law_def)
qed

lemma exWatched: "watched exCluster exEvents"
proof -
  let ?w = "exWeb\<lparr>k_Phase := ''Pending''\<rparr>"
  have u: "k_UID ?w = ''p2''" "k_UID exWeb = ''p2''" "k_UID exDb = ''p3''" by (simp_all add: exWeb_def exDb_def)
  have 1: "watched [''p2'' \<mapsto> ?w] [AddFunc (Some ?w)]" using watched.created [OF watched.start, of ?w] by (simp add: u)
  have 2: "watched [''p2'' \<mapsto> ?w, ''p3'' \<mapsto> exDb] [AddFunc (Some ?w), AddFunc (Some exDb)]"
    using watched.created [OF 1, of exDb] by (simp add: u)
  have 3: "watched [''p3'' \<mapsto> exDb, ''p2'' \<mapsto> exWeb] [AddFunc (Some ?w), AddFunc (Some exDb), UpdateFunc (Some exWeb)]"
    using watched.modified [OF 2, of exWeb] by (simp add: u fun_upd_twist)
  have 4: "watched [''p2'' \<mapsto> exWeb] [AddFunc (Some ?w), AddFunc (Some exDb), UpdateFunc (Some exWeb), DeleteFunc exDb]"
    using watched.removed [OF 3, of exDb] by (simp add: u fun_upd_twist)
  show ?thesis
    using watched.created [OF 4, of exDb] by (simp add: u exCluster_def exEvents_def)
qed

lemma exApi_list: "list_pods_law exApi exCluster"
proof -
  have r: "ran exCluster = {exWeb, exDb}" by (simp add: exCluster_def insert_commute)
  have "\<exists>ps. ka_listPods exApi ns t = Inr ps \<and>
      set ps = {p \<in> ran exCluster. (ns = [] \<or> k_Namespace p = ns) \<and> ka_matches exApi s (k_Labels p)}"
    if s: "exParse t = Inr s" for ns t s
    by (rule exI [of _ "filter (\<lambda>p. (ns = [] \<or> k_Namespace p = ns) \<and> selectorsHold s (k_Labels p)) [exWeb, exDb]"],
        simp add: exApi_def s r del: filter.simps)
  then show ?thesis by (simp add: list_pods_law_def)
qed


section \<open>The manager of the example on this cluster\<close>

definition exAdapter :: Adapter where
  "exAdapter = cacheSynced True (foldl onEvent NewAdapter exEvents)"

definition exPodQuery :: "string list \<Rightarrow> labels \<Rightarrow> string + Pod list" where
  "exPodQuery nss sels =
     (case fst (QueryPods exApi (Some \<lparr>qp_K8SNamespace = nss, qp_LabelSelectors = sels\<rparr>) (Some exAdapter)) of
        Inl e \<Rightarrow> Inl ''query failed''
      | Inr ps \<Rightarrow> Inr (map Pod.truncate ps))"

definition exClusterEnv :: "mem mgr_env" where
  "exClusterEnv = exEnv\<lparr>me_pods := exPodQuery\<rparr>"

lemma exClusterEnv_simps [simp]:
  "me_client exClusterEnv = mem_client" "me_fromHex exClusterEnv = exHex" "me_fresh exClusterEnv n = CHR ''f'' # Utoa n"
  by (simp_all add: exClusterEnv_def)

lemma exClusterEnv_adapter: "usesAdapter exClusterEnv exApi exAdapter"
  by (simp add: usesAdapter_def exClusterEnv_def exPodQuery_def)

lemma exSelectors_valid: "list_all validSelector (st_LabelSelectors exStrategy)"
  by (simp add: exStrategy_def validSelector_def labelName_def alnum_def less_eq_char_def)

lemma exCluster_query: "exPodQuery (st_K8sNamespace exStrategy) (st_LabelSelectors exStrategy) = Inr [exPod]"
proof -
  have a: "ad_podCache exAdapter = [(''p2'', exWeb), (''p3'', exDb)]"
    by (simp add: exAdapter_def exEvents_def cacheSynced_def NewAdapter_def setPodCache_def deletePodCache_def exWeb_def exDb_def)
  have f: "ad_client exAdapter" "ad_cacheHasSynced exAdapter" by (simp_all add: exAdapter_def)
  have p: "exParse ''app=web'' = Inr [(''app'', ''web'')]"
    using exParse_build [OF exSelectors_valid] by (simp add: exStrategy_def named_def k8sLabelSelector_def)
  show ?thesis
    by (simp add: exPodQuery_def QueryPods_def listPods_def p f podsFromCache_def a exStrategy_def allNamespaces_def
        exWeb_def exDb_def selectorsHold_def k8sLabelSelector_def podToDomain_def copyLabels_def exPod_def Pod.defs)
qed

lemma sendGroups_pods: "sendGroups (env\<lparr>me_pods := f\<rparr>) gs st = sendGroups env gs st"
  by (induction env gs st rule: sendGroups.induct) (auto split: prod.splits option.splits)

lemma dispatchIntents_pods: "dispatchIntents (env\<lparr>me_pods := f\<rparr>) ns ins st = dispatchIntents env ns ins st"
proof -
  have "hostGroups (env\<lparr>me_pods := f\<rparr>) g dms ins = hostGroups env g dms ins" for g dms by (simp add: hostGroups_def)
  then show ?thesis unfolding dispatchIntents_def sendGroups_pods by (simp split: sum.split)
qed

lemma exCluster_create: "\<exists>st'. CreateScheduleStrategy exClusterEnv ''u1'' exStrategy exState = (None, st')"
proof -
  have "me_pods exClusterEnv (st_K8sNamespace exStrategy) (st_LabelSelectors exStrategy) = Inr [exPod]"
    by (simp add: exClusterEnv_def exCluster_query)
  then have "CreateScheduleStrategy exClusterEnv ''u1'' exStrategy exState = CreateScheduleStrategy exEnv ''u1'' exStrategy exState"
    unfolding CreateScheduleStrategy_def exClusterEnv_def dispatchIntents_pods freshFrom_def
    by (simp add: exHex_def Let_def)
  with exCreate show ?thesis by simp
qed

end
