(* ===== verification/Runtime_Config.thy ===== *)
theory Runtime_Config
  imports Go_Strings
begin

text \<open>
  The scheduler's runtime configuration as the manager and the decision maker know it
  (\<open>src/api/manager/domain/runtime_config.go\<close> and
  \<open>src/api/decisionmaker/domain/runtime_config.go\<close>, which declare the same type with the same
  methods), and the form in which the decision maker posts it to the node's daemon, where JSON
  fields marked \<open>omitempty\<close> are absent when they hold the zero value.
\<close>

section \<open>Configuration\<close>

definition SchedulerModeNone :: string where "SchedulerModeNone = ''none''"
definition SchedulerModeGthulhu :: string where "SchedulerModeGthulhu = ''gthulhu''"
definition SchedulerModeSimple :: string where "SchedulerModeSimple = ''simple''"
definition SchedulerModeSCX :: string where "SchedulerModeSCX = ''scx''"

lemmas mode_defs = SchedulerModeNone_def SchedulerModeGthulhu_def SchedulerModeSimple_def SchedulerModeSCX_def

record RuntimeSchedulerConfig =
  rc_ConfigVersion :: string
  rc_Mode :: string
  rc_SchedulerName :: string
  rc_SliceNsDefault :: "64 word"
  rc_SliceNsMin :: "64 word"
  rc_KernelMode :: bool
  rc_MaxTimeWatchdog :: bool
  rc_EarlyProcessing :: bool
  rc_BuiltinIdle :: bool
  rc_SchedulerEnabled :: bool
  rc_MonitoringEnabled :: bool

text \<open>The first half of \<open>Normalize\<close>: trimming and the default mode.\<close>

definition defaultMode :: "RuntimeSchedulerConfig \<Rightarrow> RuntimeSchedulerConfig" where
  "defaultMode c =
     (let c1 = c\<lparr>rc_Mode := TrimSpace (rc_Mode c), rc_SchedulerName := TrimSpace (rc_SchedulerName c)\<rparr> in
      if rc_Mode c1 = [] then
        c1\<lparr>rc_Mode := (if rc_SchedulerEnabled c1 then SchedulerModeGthulhu else SchedulerModeNone)\<rparr>
      else c1)"

definition Normalize :: "RuntimeSchedulerConfig \<Rightarrow> RuntimeSchedulerConfig" where
  "Normalize c =
     (let c1 = defaultMode c in
      if rc_Mode c1 = SchedulerModeNone then c1\<lparr>rc_SchedulerEnabled := False, rc_SchedulerName := []\<rparr>
      else if rc_Mode c1 = SchedulerModeGthulhu \<or> rc_Mode c1 = SchedulerModeSimple
      then c1\<lparr>rc_SchedulerEnabled := True, rc_SchedulerName := []\<rparr>
      else if rc_Mode c1 = SchedulerModeSCX then c1\<lparr>rc_SchedulerEnabled := True\<rparr>
      else c1)"

datatype config_error =
    SchedulerNameRequired
  | SchedulerNameNotBinary
  | SchedulerNameNotSCX
  | ModeUnknown

definition Validate :: "RuntimeSchedulerConfig \<Rightarrow> config_error option" where
  "Validate c =
     (if rc_Mode c \<in> {SchedulerModeNone, SchedulerModeGthulhu, SchedulerModeSimple} then None
      else if rc_Mode c = SchedulerModeSCX then
        (if rc_SchedulerName c = [] then Some SchedulerNameRequired
         else if Contains (rc_SchedulerName c) ''/'' \<or> Contains (rc_SchedulerName c) [CHR 0x5C] then Some SchedulerNameNotBinary
         else if \<not> HasPrefix (rc_SchedulerName c) ''scx_'' then Some SchedulerNameNotSCX
         else None)
      else Some ModeUnknown)"


section \<open>The request to the daemon\<close>

text \<open>\<open>runtimeConfigRequest\<close> of \<open>src/internal/daemon/domain.go\<close>: a pointer is \<open>None\<close> when nil.\<close>

record runtimeConfigRequest =
  rr_ConfigVersion :: string
  rr_Mode :: string
  rr_SchedulerName :: string
  rr_SliceNsDefault :: "64 word"
  rr_SliceNsMin :: "64 word"
  rr_KernelMode :: "bool option"
  rr_MaxTimeWatchdog :: "bool option"
  rr_EarlyProcessing :: "bool option"
  rr_BuiltinIdle :: "bool option"
  rr_SchedulerEnabled :: "bool option"
  rr_MonitoringEnabled :: "bool option"

text \<open>A bool field marked \<open>omitempty\<close>, read back into a pointer; marshalling the configuration
  and unmarshalling it as a request.  The other fields read back as they were, an omitted one as
  its zero value.\<close>

definition omitEmpty :: "bool \<Rightarrow> bool option" where
  "omitEmpty b = (if b then Some True else None)"

definition marshalConfig :: "RuntimeSchedulerConfig \<Rightarrow> runtimeConfigRequest" where
  "marshalConfig c =
     \<lparr>rr_ConfigVersion = rc_ConfigVersion c, rr_Mode = rc_Mode c, rr_SchedulerName = rc_SchedulerName c,
      rr_SliceNsDefault = rc_SliceNsDefault c, rr_SliceNsMin = rc_SliceNsMin c,
      rr_KernelMode = omitEmpty (rc_KernelMode c), rr_MaxTimeWatchdog = omitEmpty (rc_MaxTimeWatchdog c),
      rr_EarlyProcessing = omitEmpty (rc_EarlyProcessing c), rr_BuiltinIdle = omitEmpty (rc_BuiltinIdle c),
      rr_SchedulerEnabled = Some (rc_SchedulerEnabled c), rr_MonitoringEnabled = Some (rc_MonitoringEnabled c)\<rparr>"


section \<open>Facts\<close>

lemma TrimSpace_idem [simp]: "TrimSpace (TrimSpace s) = TrimSpace s"
proof -
  let ?L = space_runes and ?R = "map rev space_runes"
  let ?t = "trim_with ?L s"
  let ?u = "rev (trim_with ?R (rev ?t))"
  have "prefix ?u ?t" using trim_with_suffix [of ?R "rev ?t"] by (simp add: suffix_to_prefix)
  then have "find (\<lambda>p. p \<noteq> [] \<and> prefix p ?u) ?L = None"
    using trim_with_done [of ?L s] by (auto simp: find_None_iff intro: prefix_order.trans)
  then have "trim_with ?L ?u = ?u" by (rule trim_with_None)
  then show ?thesis by (simp add: TrimSpace_def)
qed

lemma TrimSpace_modes:
  "TrimSpace SchedulerModeNone = SchedulerModeNone" "TrimSpace SchedulerModeGthulhu = SchedulerModeGthulhu"
  "TrimSpace SchedulerModeSimple = SchedulerModeSimple" "TrimSpace SchedulerModeSCX = SchedulerModeSCX"
  by (simp_all add: TrimSpace_def mode_defs trim_with.simps space_runes_def)

lemma modes_distinct:
  "SchedulerModeNone \<noteq> SchedulerModeGthulhu" "SchedulerModeNone \<noteq> SchedulerModeSimple" "SchedulerModeNone \<noteq> SchedulerModeSCX"
  "SchedulerModeGthulhu \<noteq> SchedulerModeSimple" "SchedulerModeGthulhu \<noteq> SchedulerModeSCX" "SchedulerModeSimple \<noteq> SchedulerModeSCX"
  "SchedulerModeNone \<noteq> []" "SchedulerModeGthulhu \<noteq> []" "SchedulerModeSimple \<noteq> []" "SchedulerModeSCX \<noteq> []"
  by (simp_all add: mode_defs)

text \<open>What a normal form looks like: the mode is trimmed and set, and it decides the flag and
  whether there is a scheduler name.\<close>

definition normalForm :: "RuntimeSchedulerConfig \<Rightarrow> bool" where
  "normalForm c \<longleftrightarrow>
     rc_Mode c \<noteq> [] \<and> TrimSpace (rc_Mode c) = rc_Mode c \<and> TrimSpace (rc_SchedulerName c) = rc_SchedulerName c \<and>
     (rc_Mode c = SchedulerModeNone \<longrightarrow> \<not> rc_SchedulerEnabled c \<and> rc_SchedulerName c = []) \<and>
     (rc_Mode c = SchedulerModeGthulhu \<or> rc_Mode c = SchedulerModeSimple \<longrightarrow> rc_SchedulerEnabled c \<and> rc_SchedulerName c = []) \<and>
     (rc_Mode c = SchedulerModeSCX \<longrightarrow> rc_SchedulerEnabled c)"

lemma defaultMode_facts:
  "rc_Mode (defaultMode c) \<noteq> []" "TrimSpace (rc_Mode (defaultMode c)) = rc_Mode (defaultMode c)"
  "TrimSpace (rc_SchedulerName (defaultMode c)) = rc_SchedulerName (defaultMode c)"
  by (simp_all add: defaultMode_def Let_def TrimSpace_modes modes_distinct)

lemma Normalize_normal: "normalForm (Normalize c)"
  using defaultMode_facts [of c] modes_distinct
  by (auto simp: normalForm_def Normalize_def Let_def)

lemma Normalize_id: "normalForm c \<Longrightarrow> Normalize c = c"
proof -
  assume n: "normalForm c"
  then have "defaultMode c = c" by (simp add: defaultMode_def Let_def normalForm_def)
  then show ?thesis using n by (auto simp: Normalize_def Let_def normalForm_def)
qed

lemma Normalize_idem [simp]: "Normalize (Normalize c) = Normalize c"
  by (rule Normalize_id) (rule Normalize_normal)

lemma Normalize_keeps [simp]:
  "rc_ConfigVersion (Normalize c) = rc_ConfigVersion c" "rc_SliceNsDefault (Normalize c) = rc_SliceNsDefault c"
  "rc_SliceNsMin (Normalize c) = rc_SliceNsMin c" "rc_KernelMode (Normalize c) = rc_KernelMode c"
  "rc_MaxTimeWatchdog (Normalize c) = rc_MaxTimeWatchdog c" "rc_EarlyProcessing (Normalize c) = rc_EarlyProcessing c"
  "rc_BuiltinIdle (Normalize c) = rc_BuiltinIdle c" "rc_MonitoringEnabled (Normalize c) = rc_MonitoringEnabled c"
  by (simp_all add: Normalize_def defaultMode_def Let_def)

text \<open>In a valid normal form the flag says whether the mode is other than none.\<close>

lemma valid_modes:
  "Validate c = None \<Longrightarrow> rc_Mode c \<in> {SchedulerModeNone, SchedulerModeGthulhu, SchedulerModeSimple, SchedulerModeSCX}"
  by (auto simp: Validate_def split: if_splits)

lemma valid_enabled:
  assumes "normalForm c" "Validate c = None"
  shows "rc_SchedulerEnabled c \<longleftrightarrow> rc_Mode c \<noteq> SchedulerModeNone"
  using assms valid_modes [OF assms(2)] by (auto simp: normalForm_def)

lemma valid_name:
  assumes "normalForm c" "Validate c = None"
  shows "rc_SchedulerName c \<noteq> [] \<longleftrightarrow> rc_Mode c = SchedulerModeSCX"
  using assms valid_modes [OF assms(2)] modes_distinct by (auto simp: normalForm_def Validate_def split: if_splits)

end
