(* ===== verification/Daemon_Config.thy ===== *)
theory Daemon_Config
  imports Runtime_Config
begin

text \<open>
  The configuration file of the node: the structures and \<open>LoadConfig\<close> of
  \<open>src/internal/config/config.go\<close>, the atomic replacement of the file
  (\<open>atomicWriteConfigFile\<close>, \<open>writeConfigFile\<close> of \<open>src/internal/daemon/daemon.go\<close>) and the
  lexical path functions of \<open>path/filepath\<close> the daemon uses.

  The file system is a map from paths to files; \<open>os_fails\<close> says which system call fails.  The
  YAML library is an argument; \<open>yaml_law\<close> states what its documentation says of struct tags:
  a field marked \<open>omitempty\<close> is not written when it is zero, and a field that is absent from
  the document keeps the value it had before decoding.
\<close>

section \<open>Paths\<close>

fun cleanComps :: "bool \<Rightarrow> string list \<Rightarrow> string list \<Rightarrow> string list" where
  "cleanComps rooted out [] = rev out"
| "cleanComps rooted out (c # cs) =
     (if c = [] \<or> c = ''.'' then cleanComps rooted out cs
      else if c = ''..'' then
        (case out of
           p # ps \<Rightarrow> if p \<noteq> ''..'' then cleanComps rooted ps cs else cleanComps rooted (''..'' # out) cs
         | [] \<Rightarrow> if rooted then cleanComps rooted [] cs else cleanComps rooted [''..''] cs)
      else cleanComps rooted (c # out) cs)"

definition Clean :: "string \<Rightarrow> string" where
  "Clean path =
     (if path = [] then ''.''
      else
        (let rooted = (hd path = CHR ''/'');
             body = Join (cleanComps rooted [] (Split path (CHR ''/''))) ''/''
         in if rooted then CHR ''/'' # body else if body = [] then ''.'' else body))"

definition Base :: "string \<Rightarrow> string" where
  "Base path =
     (if path = [] then ''.''
      else let stripped = rev (dropWhile (\<lambda>c. c = CHR ''/'') (rev path));
               b = rev (takeWhile (\<lambda>c. c \<noteq> CHR ''/'') (rev stripped))
           in if b = [] then ''/'' else b)"

definition Dir :: "string \<Rightarrow> string" where
  "Dir path = Clean (rev (dropWhile (\<lambda>c. c \<noteq> CHR ''/'') (rev path)))"

definition JoinPath :: "string \<Rightarrow> string \<Rightarrow> string" where
  "JoinPath a b = (if a \<noteq> [] then Clean (a @ ''/'' @ b) else if b \<noteq> [] then Clean b else [])"


section \<open>Configuration structures\<close>

record SchedulerConfig =
  sc_SliceNsDefault :: "64 word"
  sc_SliceNsMin :: "64 word"
  sc_Mode :: string
  sc_SchedulerName :: string
  sc_KernelMode :: bool
  sc_MaxTimeWatchdog :: bool

record MonitorConfig =
  mc_Enabled :: bool
  mc_BPFObjectPath :: string
  mc_CollectionIntervalSec :: int
  mc_MonitorAll :: bool
  mc_StreamEvents :: bool
  mc_PrometheusPort :: int
  mc_EnableCRDWatcher :: bool
  mc_KubeConfigPath :: string

record MTLSConfig =
  tls_Enable :: bool
  tls_CertPem :: string
  tls_KeyPem :: string
  tls_CAPem :: string

record ApiConfig =
  api_Url :: string
  api_Interval :: int
  api_PublicKeyPath :: string
  api_Enabled :: bool
  api_AuthEnabled :: bool
  api_MTLS :: MTLSConfig

record Config =
  cf_Scheduler :: SchedulerConfig
  cf_EnableFifo :: bool
  cf_Monitor :: MonitorConfig
  cf_Debug :: bool
  cf_EarlyProcessing :: bool
  cf_BuiltinIdle :: bool
  cf_Api :: ApiConfig

definition zeroMTLS :: MTLSConfig where
  "zeroMTLS = \<lparr>tls_Enable = False, tls_CertPem = [], tls_KeyPem = [], tls_CAPem = []\<rparr>"

definition DefaultConfig :: Config where
  "DefaultConfig =
     \<lparr>cf_Scheduler =
        \<lparr>sc_SliceNsDefault = 20000 * 1000, sc_SliceNsMin = 1000 * 1000, sc_Mode = [], sc_SchedulerName = [],
         sc_KernelMode = False, sc_MaxTimeWatchdog = True\<rparr>,
      cf_EnableFifo = False,
      cf_Monitor =
        \<lparr>mc_Enabled = True, mc_BPFObjectPath = ''sched_monitor.bpf.o'', mc_CollectionIntervalSec = 10,
         mc_MonitorAll = False, mc_StreamEvents = False, mc_PrometheusPort = 9090, mc_EnableCRDWatcher = False,
         mc_KubeConfigPath = []\<rparr>,
      cf_Debug = False, cf_EarlyProcessing = False, cf_BuiltinIdle = False,
      cf_Api = \<lparr>api_Url = [], api_Interval = 0, api_PublicKeyPath = [], api_Enabled = False, api_AuthEnabled = False,
        api_MTLS = zeroMTLS\<rparr>\<rparr>"

definition IsMonitorEnabled :: "Config \<Rightarrow> bool" where
  "IsMonitorEnabled c = mc_Enabled (cf_Monitor c)"

definition IsSchedulerEnabled :: "Config \<Rightarrow> bool" where
  "IsSchedulerEnabled c = (sc_Mode (cf_Scheduler c) \<noteq> [] \<and> sc_Mode (cf_Scheduler c) \<noteq> ''none'')"


section \<open>Files\<close>

record os_file =
  of_content :: string
  of_mtime :: int
  of_perm :: nat
  of_isDir :: bool

type_synonym os_files = "string \<rightharpoonup> os_file"

datatype sys_call = SysOpen string | SysStat string | SysMkdirAll string | SysCreateTemp | SysChmod | SysWrite | SysSync
  | SysClose | SysRename | SysRemove

text \<open>\<open>os_tmp\<close> is the name \<open>os.CreateTemp\<close> chooses for the file it is asked for, \<open>os_partial\<close>
  what a failing write has written, \<open>os_now\<close> the modification time given to a written file.\<close>

record os_env =
  os_fails :: "sys_call \<Rightarrow> bool"
  os_tmp :: "string \<Rightarrow> string \<Rightarrow> string"
  os_partial :: string
  os_now :: int

record yaml_lib =
  ym_marshal :: "Config \<Rightarrow> string + string"
  ym_decode :: "string \<Rightarrow> Config \<Rightarrow> string + Config"

datatype load_error = OpenFailed string | DecodeFailed string

definition LoadConfig :: "yaml_lib \<Rightarrow> os_env \<Rightarrow> string \<Rightarrow> os_files \<Rightarrow> load_error + Config" where
  "LoadConfig ym env filename fs =
     (if filename = [] then Inr DefaultConfig
      else if os_fails env (SysOpen filename) then Inl (OpenFailed filename)
      else case fs filename of
          None \<Rightarrow> Inr DefaultConfig
        | Some file \<Rightarrow>
            (case ym_decode ym (of_content file) DefaultConfig of
               Inl e \<Rightarrow> Inl (DecodeFailed e)
             | Inr c \<Rightarrow> Inr c))"

text \<open>The calls on the temporary file after its creation, in the order of the code; each either
  fails or takes effect.\<close>

definition callEffect :: "os_env \<Rightarrow> string \<Rightarrow> string \<Rightarrow> string \<Rightarrow> sys_call \<Rightarrow> os_files \<Rightarrow> os_files" where
  "callEffect env tmp path content call fs =
     (case fs tmp of
        None \<Rightarrow> fs
      | Some file \<Rightarrow>
          (case call of
             SysChmod \<Rightarrow> fs(tmp \<mapsto> file\<lparr>of_perm := 384\<rparr>)
           | SysWrite \<Rightarrow> fs(tmp \<mapsto> file\<lparr>of_content := content, of_mtime := os_now env\<rparr>)
           | SysRename \<Rightarrow> fs(path \<mapsto> file, tmp := None)
           | _ \<Rightarrow> fs))"

definition failEffect :: "os_env \<Rightarrow> string \<Rightarrow> sys_call \<Rightarrow> os_files \<Rightarrow> os_files" where
  "failEffect env tmp call fs =
     (case (call, fs tmp) of
        (SysWrite, Some file) \<Rightarrow> fs(tmp \<mapsto> file\<lparr>of_content := os_partial env\<rparr>)
      | _ \<Rightarrow> fs)"

text \<open>\<open>runCalls\<close> returns the failed call, if any, and the states the file system goes through.\<close>

fun runCalls :: "os_env \<Rightarrow> string \<Rightarrow> string \<Rightarrow> string \<Rightarrow> sys_call list \<Rightarrow> os_files \<Rightarrow> sys_call option \<times> os_files list" where
  "runCalls env tmp path content [] fs = (None, [fs])"
| "runCalls env tmp path content (call # calls) fs =
     (if os_fails env call then (Some call, [fs, failEffect env tmp call fs])
      else case runCalls env tmp path content calls (callEffect env tmp path content call fs) of
        (r, states) \<Rightarrow> (r, fs # states))"

definition atomicWriteConfigFile :: "os_env \<Rightarrow> string \<Rightarrow> string \<Rightarrow> os_files \<Rightarrow> sys_call option \<times> os_files list" where
  "atomicWriteConfigFile env path content fs =
     (if os_fails env SysCreateTemp then (Some SysCreateTemp, [fs])
      else
        (let tmp = os_tmp env (Dir path) (Base path @ ''.tmp-*'');
             fs1 = fs(tmp \<mapsto> \<lparr>of_content = [], of_mtime = os_now env, of_perm = 384, of_isDir = False\<rparr>)
         in case runCalls env tmp path content [SysChmod, SysWrite, SysSync, SysClose, SysRename] fs1 of
              (None, states) \<Rightarrow> (None, fs # states)
            | (Some call, states) \<Rightarrow>
                (Some call, fs # states @ (if os_fails env SysRemove then [] else [(last states)(tmp := None)]))))"

datatype write_error = MarshalFailed string | CallFailed sys_call

definition writeConfigFile :: "yaml_lib \<Rightarrow> os_env \<Rightarrow> string \<Rightarrow> Config \<Rightarrow> os_files \<Rightarrow> write_error option \<times> os_files" where
  "writeConfigFile ym env path cfg fs =
     (case ym_marshal ym cfg of
        Inl e \<Rightarrow> (Some (MarshalFailed e), fs)
      | Inr yamlBytes \<Rightarrow>
          (case atomicWriteConfigFile env path yamlBytes fs of
             (r, states) \<Rightarrow> (map_option CallFailed r, last states)))"


section \<open>The file is replaced atomically\<close>

text \<open>The temporary file is a new one.\<close>

definition tmp_law :: "os_env \<Rightarrow> string \<Rightarrow> os_files \<Rightarrow> bool" where
  "tmp_law env path fs \<longleftrightarrow>
     (let tmp = os_tmp env (Dir path) (Base path @ ''.tmp-*'') in tmp \<noteq> path \<and> fs tmp = None)"

definition othersKept :: "string \<Rightarrow> string \<Rightarrow> os_files \<Rightarrow> os_files \<Rightarrow> bool" where
  "othersKept tmp path fs fs' \<longleftrightarrow> (\<forall>p. p \<noteq> tmp \<longrightarrow> p \<noteq> path \<longrightarrow> fs' p = fs p)"

definition newFile :: "os_env \<Rightarrow> string \<Rightarrow> os_file" where
  "newFile env content = \<lparr>of_content = content, of_mtime = os_now env, of_perm = 384, of_isDir = False\<rparr>"

lemma atomicWrite_cases:
  assumes "tmp_law env path fs" "atomicWriteConfigFile env path content fs = (r, states)"
  defines "tmp \<equiv> os_tmp env (Dir path) (Base path @ ''.tmp-*'')"
  shows "\<forall>fs' \<in> set states. (fs' path = fs path \<or> fs' path = Some (newFile env content)) \<and> othersKept tmp path fs fs'"
    and "r = None \<Longrightarrow> last states = fs(path \<mapsto> newFile env content)"
    and "r \<noteq> None \<Longrightarrow> last states path = fs path \<and> (\<not> os_fails env SysRemove \<longrightarrow> last states = fs)"
    and "r = None \<longleftrightarrow> list_all (\<lambda>call. \<not> os_fails env call) [SysCreateTemp, SysChmod, SysWrite, SysSync, SysClose, SysRename]"
proof -
  have t: "os_tmp env (Dir path) (Base path @ ''.tmp-*'') = tmp" "tmp \<noteq> path" "fs tmp = None" "fs(tmp := None) = fs" "path \<noteq> tmp"
    using assms(1) by (auto simp: tmp_law_def tmp_def Let_def)
  note d = atomicWriteConfigFile_def t Let_def callEffect_def failEffect_def othersKept_def newFile_def
  have a: "(r, states) = atomicWriteConfigFile env path content fs" using assms(2) by simp
  show "\<forall>fs' \<in> set states. (fs' path = fs path \<or> fs' path = Some (newFile env content)) \<and> othersKept tmp path fs fs'"
    using a t(2,5) by (simp add: d split: if_splits)
  show "r = None \<Longrightarrow> last states = fs(path \<mapsto> newFile env content)"
    using a t(2-5) by (simp add: d fun_upd_twist split: if_splits)
  show "r \<noteq> None \<Longrightarrow> last states path = fs path \<and> (\<not> os_fails env SysRemove \<longrightarrow> last states = fs)"
    using a t(2-5) by (simp add: d split: if_splits)
  show "r = None \<longleftrightarrow> list_all (\<lambda>call. \<not> os_fails env call) [SysCreateTemp, SysChmod, SysWrite, SysSync, SysClose, SysRename]"
    using a by (simp add: d split: if_splits)
qed


section \<open>What a written configuration reads back as\<close>

text \<open>Writing \<open>c\<close> and decoding it over \<open>d\<close>, field by field after the struct tags of the
  configuration types: \<open>keepZero\<close> is a field marked \<open>omitempty\<close>, whose zero value is
  not written.\<close>

definition keepZero :: "'a \<Rightarrow> 'a \<Rightarrow> 'a \<Rightarrow> 'a" where
  "keepZero zero c d = (if c = zero then d else c)"

definition overlay :: "Config \<Rightarrow> Config \<Rightarrow> Config" where
  "overlay c d =
     \<lparr>cf_Scheduler =
        \<lparr>sc_SliceNsDefault = sc_SliceNsDefault (cf_Scheduler c), sc_SliceNsMin = sc_SliceNsMin (cf_Scheduler c),
         sc_Mode = keepZero [] (sc_Mode (cf_Scheduler c)) (sc_Mode (cf_Scheduler d)),
         sc_SchedulerName = keepZero [] (sc_SchedulerName (cf_Scheduler c)) (sc_SchedulerName (cf_Scheduler d)),
         sc_KernelMode = keepZero False (sc_KernelMode (cf_Scheduler c)) (sc_KernelMode (cf_Scheduler d)),
         sc_MaxTimeWatchdog = keepZero False (sc_MaxTimeWatchdog (cf_Scheduler c)) (sc_MaxTimeWatchdog (cf_Scheduler d))\<rparr>,
      cf_EnableFifo = keepZero False (cf_EnableFifo c) (cf_EnableFifo d),
      cf_Monitor =
        \<lparr>mc_Enabled = mc_Enabled (cf_Monitor c),
         mc_BPFObjectPath = keepZero [] (mc_BPFObjectPath (cf_Monitor c)) (mc_BPFObjectPath (cf_Monitor d)),
         mc_CollectionIntervalSec = keepZero 0 (mc_CollectionIntervalSec (cf_Monitor c)) (mc_CollectionIntervalSec (cf_Monitor d)),
         mc_MonitorAll = keepZero False (mc_MonitorAll (cf_Monitor c)) (mc_MonitorAll (cf_Monitor d)),
         mc_StreamEvents = keepZero False (mc_StreamEvents (cf_Monitor c)) (mc_StreamEvents (cf_Monitor d)),
         mc_PrometheusPort = keepZero 0 (mc_PrometheusPort (cf_Monitor c)) (mc_PrometheusPort (cf_Monitor d)),
         mc_EnableCRDWatcher = keepZero False (mc_EnableCRDWatcher (cf_Monitor c)) (mc_EnableCRDWatcher (cf_Monitor d)),
         mc_KubeConfigPath = keepZero [] (mc_KubeConfigPath (cf_Monitor c)) (mc_KubeConfigPath (cf_Monitor d))\<rparr>,
      cf_Debug = keepZero False (cf_Debug c) (cf_Debug d),
      cf_EarlyProcessing = keepZero False (cf_EarlyProcessing c) (cf_EarlyProcessing d),
      cf_BuiltinIdle = keepZero False (cf_BuiltinIdle c) (cf_BuiltinIdle d),
      cf_Api =
        \<lparr>api_Url = api_Url (cf_Api c), api_Interval = api_Interval (cf_Api c), api_PublicKeyPath = api_PublicKeyPath (cf_Api c),
         api_Enabled = keepZero False (api_Enabled (cf_Api c)) (api_Enabled (cf_Api d)),
         api_AuthEnabled = keepZero False (api_AuthEnabled (cf_Api c)) (api_AuthEnabled (cf_Api d)),
         api_MTLS = keepZero zeroMTLS (api_MTLS (cf_Api c)) (api_MTLS (cf_Api d))\<rparr>\<rparr>"

definition yaml_law :: "yaml_lib \<Rightarrow> bool" where
  "yaml_law ym \<longleftrightarrow> (\<forall>c. \<exists>t. ym_marshal ym c = Inr t \<and> (\<forall>d. ym_decode ym t d = Inr (overlay c d)))"

text \<open>Only four fields can change on the way through the file.\<close>

definition survives :: "Config \<Rightarrow> bool" where
  "survives c \<longleftrightarrow>
     sc_MaxTimeWatchdog (cf_Scheduler c) \<and> mc_BPFObjectPath (cf_Monitor c) \<noteq> [] \<and>
     mc_CollectionIntervalSec (cf_Monitor c) \<noteq> 0 \<and> mc_PrometheusPort (cf_Monitor c) \<noteq> 0"

definition afterFile :: "Config \<Rightarrow> Config" where
  "afterFile c =
     c\<lparr>cf_Scheduler := (cf_Scheduler c)\<lparr>sc_MaxTimeWatchdog := True\<rparr>,
       cf_Monitor := (cf_Monitor c)
         \<lparr>mc_BPFObjectPath := keepZero [] (mc_BPFObjectPath (cf_Monitor c)) ''sched_monitor.bpf.o'',
          mc_CollectionIntervalSec := keepZero 0 (mc_CollectionIntervalSec (cf_Monitor c)) 10,
          mc_PrometheusPort := keepZero 0 (mc_PrometheusPort (cf_Monitor c)) 9090\<rparr>\<rparr>"

lemma keepZero_same [simp]: "keepZero z c z = c" by (simp add: keepZero_def)

lemma overlay_default: "overlay c DefaultConfig = afterFile c"
  by (simp add: overlay_def DefaultConfig_def afterFile_def keepZero_def)

lemma survives_iff: "afterFile c = c \<longleftrightarrow> survives c"
proof -
  have "afterFile c = c \<longleftrightarrow>
      (cf_Scheduler c)\<lparr>sc_MaxTimeWatchdog := True\<rparr> = cf_Scheduler c \<and>
      cf_Monitor (afterFile c) = cf_Monitor c"
    by (cases c) (simp add: afterFile_def)
  also have "(cf_Scheduler c)\<lparr>sc_MaxTimeWatchdog := True\<rparr> = cf_Scheduler c \<longleftrightarrow> sc_MaxTimeWatchdog (cf_Scheduler c)"
    by (cases "cf_Scheduler c") simp
  also have "cf_Monitor (afterFile c) = cf_Monitor c \<longleftrightarrow> mc_BPFObjectPath (cf_Monitor c) \<noteq> [] \<and>
      mc_CollectionIntervalSec (cf_Monitor c) \<noteq> 0 \<and> mc_PrometheusPort (cf_Monitor c) \<noteq> 0"
    by (cases "cf_Monitor c") (auto simp: afterFile_def keepZero_def)
  finally show ?thesis by (simp add: survives_def)
qed

lemma survives_afterFile [simp]: "survives (afterFile c)"
  by (auto simp: survives_def afterFile_def keepZero_def)

lemma write_then_load:
  assumes ym: "yaml_law ym" and t: "tmp_law env path fs" and p: "path \<noteq> []" "\<not> os_fails env2 (SysOpen path)"
    and w: "writeConfigFile ym env path cfg fs = (None, fs')"
  shows "LoadConfig ym env2 path fs' = Inr (afterFile cfg)"
    "fs' = fs(path \<mapsto> newFile env (case ym_marshal ym cfg of Inr y \<Rightarrow> y | Inl _ \<Rightarrow> []))"
proof -
  obtain y where y: "ym_marshal ym cfg = Inr y" "\<And>d. ym_decode ym y d = Inr (overlay cfg d)"
    using ym unfolding yaml_law_def by blast
  obtain r states where a: "atomicWriteConfigFile env path y fs = (r, states)" by (metis surj_pair)
  with w y have "r = None" "fs' = last states" by (auto simp: writeConfigFile_def)
  with atomicWrite_cases(2) [OF t a] have f: "fs' = fs(path \<mapsto> newFile env y)" by simp
  then show "LoadConfig ym env2 path fs' = Inr (afterFile cfg)"
    using p by (simp add: LoadConfig_def newFile_def y(2) overlay_default)
  show "fs' = fs(path \<mapsto> newFile env (case ym_marshal ym cfg of Inr y \<Rightarrow> y | Inl _ \<Rightarrow> []))" by (simp add: f y)
qed

lemma write_failed:
  assumes t: "tmp_law env path fs" and w: "writeConfigFile ym env path cfg fs = (Some e, fs')"
  shows "fs' path = fs path"
proof (cases "ym_marshal ym cfg")
  case (Inl e')
  with w show ?thesis by (simp add: writeConfigFile_def)
next
  case (Inr y)
  obtain r states where a: "atomicWriteConfigFile env path y fs = (r, states)" by (metis surj_pair)
  with w Inr have "r \<noteq> None" "fs' = last states" by (auto simp: writeConfigFile_def)
  with atomicWrite_cases(3) [OF t a] show ?thesis by simp
qed

end
