(* ===== verification/Daemon.thy ===== *)
theory Daemon
  imports Daemon_Config
begin

text \<open>
  The node's daemon (\<open>src/internal/daemon\<close>): validation of the scheduler choice and the search
  for its binary, the update of the runtime configuration file, the control state with its status
  snapshots, the handlers of the control API, and the supervisor loop of \<open>Run\<close> as a step relation
  that interleaves with the handlers.

  \<open>daemon_env\<close> holds what does not change while the daemon runs: the YAML library, the paths and
  the result of the kernel check.  The texts of errors and of times are arguments.
\<close>

section \<open>The scheduler's binary\<close>

datatype daemon_error =
    LoadFailed load_error
  | MkdirFailed string
  | WriteFailed write_error
  | NameRequired
  | NotBinaryName string
  | NotAllowed string
  | UnsupportedMode string
  | OutsideDir string
  | BinaryNotFound string
  | BinaryStatFailed string
  | BinaryIsDir string
  | NotExecutable string
  | SchedExtUnsupported

definition allowedSCXSchedulers :: "string list" where
  "allowedSCXSchedulers =
     [''scx_beerland'', ''scx_bpfland'', ''scx_cake'', ''scx_chaos'', ''scx_cosmos'', ''scx_flash'', ''scx_lavd'',
      ''scx_layered'', ''scx_mitosis'', ''scx_p2dq'', ''scx_pandemonium'', ''scx_rlfifo'', ''scx_rustland'',
      ''scx_rusty'', ''scx_tickless'', ''scx_timely'', ''scx_wd40'']"

definition validateScheduler :: "string \<Rightarrow> string \<Rightarrow> daemon_error option" where
  "validateScheduler mode0 schedulerName =
     (let mode1 = TrimSpace mode0; mode = (if mode1 = [] then ''gthulhu'' else mode1) in
      if mode \<in> {''none'', ''gthulhu'', ''simple''} then None
      else if mode = ''scx'' then
        (let name = TrimSpace schedulerName in
         if name = [] then Some NameRequired
         else if Base name \<noteq> name \<or> Contains name ''/'' then Some (NotBinaryName schedulerName)
         else if name \<notin> set allowedSCXSchedulers then Some (NotAllowed name)
         else None)
      else Some (UnsupportedMode mode))"

definition ensureExecutable :: "os_env \<Rightarrow> string \<Rightarrow> os_files \<Rightarrow> daemon_error option" where
  "ensureExecutable env path fs =
     (if os_fails env (SysStat path) then Some (BinaryStatFailed path)
      else case fs path of
          None \<Rightarrow> Some (BinaryNotFound path)
        | Some info \<Rightarrow>
            if of_isDir info then Some (BinaryIsDir path)
            else if Bit_Operations.and (of_perm info) 73 = 0 then Some (NotExecutable path)
            else None)"

definition ensureExecutableInDir :: "os_env \<Rightarrow> string \<Rightarrow> string \<Rightarrow> os_files \<Rightarrow> daemon_error + string" where
  "ensureExecutableInDir env dir name fs =
     (let cleanDir = Clean dir;
          cleanPath = Clean (JoinPath cleanDir name)
      in if \<not> HasPrefix cleanPath (cleanDir @ ''/'') then Inl (OutsideDir name)
         else case ensureExecutable env cleanPath fs of
             Some e \<Rightarrow> Inl e
           | None \<Rightarrow> Inr cleanPath)"


section \<open>The runtime configuration file\<close>

definition initializeRuntimeConfig ::
  "yaml_lib \<Rightarrow> os_env \<Rightarrow> string \<Rightarrow> string \<Rightarrow> os_files \<Rightarrow> daemon_error option \<times> os_files" where
  "initializeRuntimeConfig ym env bootstrapConfigPath runtimeConfigPath fs =
     (case LoadConfig ym env bootstrapConfigPath fs of
        Inl e \<Rightarrow> (Some (LoadFailed e), fs)
      | Inr cfg \<Rightarrow>
          if os_fails env (SysMkdirAll (Dir runtimeConfigPath)) then (Some (MkdirFailed (Dir runtimeConfigPath)), fs)
          else case writeConfigFile ym env runtimeConfigPath cfg fs of
              (Some e, fs') \<Rightarrow> (Some (WriteFailed e), fs')
            | (None, fs') \<Rightarrow> (None, fs'))"

text \<open>The assignments of the request's fields, before validation; the monitor flag follows after it.\<close>

definition mergeRequest :: "runtimeConfigRequest \<Rightarrow> Config \<Rightarrow> Config" where
  "mergeRequest req cfg =
     (let sch = cf_Scheduler cfg;
          mode1 = (if rr_Mode req \<noteq> [] then rr_Mode req else sc_Mode sch);
          mode2 = (case rr_SchedulerEnabled req of
                     None \<Rightarrow> mode1
                   | Some enabled \<Rightarrow> if mode1 \<noteq> [] then mode1 else if enabled then ''gthulhu'' else ''none'')
      in cfg\<lparr>cf_Scheduler := sch
           \<lparr>sc_Mode := mode2,
            sc_SchedulerName := (if rr_SchedulerName req \<noteq> [] then rr_SchedulerName req else sc_SchedulerName sch),
            sc_SliceNsDefault := (if rr_SliceNsDefault req \<noteq> 0 then rr_SliceNsDefault req else sc_SliceNsDefault sch),
            sc_SliceNsMin := (if rr_SliceNsMin req \<noteq> 0 then rr_SliceNsMin req else sc_SliceNsMin sch),
            sc_KernelMode := (case rr_KernelMode req of Some b \<Rightarrow> b | None \<Rightarrow> sc_KernelMode sch),
            sc_MaxTimeWatchdog := (case rr_MaxTimeWatchdog req of Some b \<Rightarrow> b | None \<Rightarrow> sc_MaxTimeWatchdog sch)\<rparr>,
         cf_EarlyProcessing := (case rr_EarlyProcessing req of Some b \<Rightarrow> b | None \<Rightarrow> cf_EarlyProcessing cfg),
         cf_BuiltinIdle := (case rr_BuiltinIdle req of Some b \<Rightarrow> b | None \<Rightarrow> cf_BuiltinIdle cfg)\<rparr>)"

definition mergeMonitor :: "runtimeConfigRequest \<Rightarrow> Config \<Rightarrow> Config" where
  "mergeMonitor req cfg =
     (case rr_MonitoringEnabled req of
        Some b \<Rightarrow> cfg\<lparr>cf_Monitor := (cf_Monitor cfg)\<lparr>mc_Enabled := b\<rparr>\<rparr>
      | None \<Rightarrow> cfg)"

definition configChanged :: "Config \<Rightarrow> Config \<Rightarrow> bool" where
  "configChanged prev cfg \<longleftrightarrow>
     sc_Mode (cf_Scheduler prev) \<noteq> sc_Mode (cf_Scheduler cfg) \<or>
     sc_SchedulerName (cf_Scheduler prev) \<noteq> sc_SchedulerName (cf_Scheduler cfg) \<or>
     sc_SliceNsDefault (cf_Scheduler prev) \<noteq> sc_SliceNsDefault (cf_Scheduler cfg) \<or>
     sc_SliceNsMin (cf_Scheduler prev) \<noteq> sc_SliceNsMin (cf_Scheduler cfg) \<or>
     sc_KernelMode (cf_Scheduler prev) \<noteq> sc_KernelMode (cf_Scheduler cfg) \<or>
     sc_MaxTimeWatchdog (cf_Scheduler prev) \<noteq> sc_MaxTimeWatchdog (cf_Scheduler cfg) \<or>
     cf_EarlyProcessing prev \<noteq> cf_EarlyProcessing cfg \<or>
     cf_BuiltinIdle prev \<noteq> cf_BuiltinIdle cfg \<or>
     mc_Enabled (cf_Monitor prev) \<noteq> mc_Enabled (cf_Monitor cfg)"

definition applyRuntimeConfigToFile ::
  "yaml_lib \<Rightarrow> os_env \<Rightarrow> string \<Rightarrow> string \<Rightarrow> runtimeConfigRequest \<Rightarrow> os_files \<Rightarrow> (bool \<times> daemon_error option) \<times> os_files" where
  "applyRuntimeConfigToFile ym env runtimeConfigPath schedulerBinPath req fs =
     (case LoadConfig ym env runtimeConfigPath fs of
        Inl e \<Rightarrow> ((False, Some (LoadFailed e)), fs)
      | Inr prev \<Rightarrow>
          (let cfg1 = mergeRequest req prev in
           case validateScheduler (sc_Mode (cf_Scheduler cfg1)) (sc_SchedulerName (cf_Scheduler cfg1)) of
             Some e \<Rightarrow> ((False, Some e), fs)
           | None \<Rightarrow>
               (case (if sc_Mode (cf_Scheduler cfg1) = ''scx''
                      then ensureExecutableInDir env (Dir schedulerBinPath) (sc_SchedulerName (cf_Scheduler cfg1)) fs
                      else Inr []) of
                  Inl e \<Rightarrow> ((False, Some e), fs)
                | Inr _ \<Rightarrow>
                    (let cfg = mergeMonitor req cfg1 in
                     if \<not> configChanged prev cfg then ((False, None), fs)
                     else case writeConfigFile ym env runtimeConfigPath cfg fs of
                         (Some e, fs') \<Rightarrow> ((True, Some (WriteFailed e)), fs')
                       | (None, fs') \<Rightarrow> ((True, None), fs')))))"

definition modeScheduler :: string where "modeScheduler = ''scheduler''"

text \<open>The child's command, or \<open>None\<close> when the scheduler is disabled; \<open>supported\<close> is the result of
  the kernel check.\<close>

definition schedulerCommandFromConfig ::
  "yaml_lib \<Rightarrow> os_env \<Rightarrow> bool \<Rightarrow> string \<Rightarrow> string \<Rightarrow> os_files \<Rightarrow> daemon_error + (string \<times> string list) option" where
  "schedulerCommandFromConfig ym env supported configPath gthulhuBin fs =
     (case LoadConfig ym env configPath fs of
        Inl e \<Rightarrow> Inl (LoadFailed e)
      | Inr cfg \<Rightarrow>
          (let mode1 = TrimSpace (sc_Mode (cf_Scheduler cfg));
               mode = (if mode1 = [] then ''gthulhu'' else mode1);
               gthulhu = Inr (Some (gthulhuBin, [modeScheduler, ''-config'', configPath]))
           in if mode = ''none'' then (if IsMonitorEnabled cfg then gthulhu else Inr None)
              else case validateScheduler mode (sc_SchedulerName (cf_Scheduler cfg)) of
                  Some e \<Rightarrow> Inl e
                | None \<Rightarrow>
                    if \<not> supported then (if IsMonitorEnabled cfg then gthulhu else Inl SchedExtUnsupported)
                    else if mode = ''gthulhu'' \<or> mode = ''simple'' then gthulhu
                    else if mode = ''scx'' then
                      (case ensureExecutableInDir env (Dir gthulhuBin) (sc_SchedulerName (cf_Scheduler cfg)) fs of
                         Inl e \<Rightarrow> Inl e
                       | Inr path \<Rightarrow> Inr (Some (path, [])))
                    else Inl (UnsupportedMode mode)))"


section \<open>Control state\<close>

record currentConfig =
  cu_Mode :: string
  cu_SchedulerName :: string
  cu_SliceNsDefault :: "64 word"
  cu_SliceNsMin :: "64 word"
  cu_KernelMode :: bool
  cu_MaxTimeWatchdog :: bool
  cu_EarlyProcessing :: bool
  cu_BuiltinIdle :: bool
  cu_SchedulerEnabled :: bool
  cu_MonitoringEnabled :: bool

text \<open>\<open>cs_appliedAt\<close> is \<open>None\<close> for the zero time.\<close>

record controlState =
  cs_configVersion :: string
  cs_applied :: bool
  cs_appliedAt :: "int option"
  cs_restartCount :: int
  cs_lastError :: string
  cs_runtimeConfigPath :: string
  cs_cachedConfig :: "currentConfig option"
  cs_cachedConfigMTime :: int

definition currentOf :: "Config \<Rightarrow> currentConfig" where
  "currentOf cfg =
     \<lparr>cu_Mode = sc_Mode (cf_Scheduler cfg), cu_SchedulerName = sc_SchedulerName (cf_Scheduler cfg),
      cu_SliceNsDefault = sc_SliceNsDefault (cf_Scheduler cfg), cu_SliceNsMin = sc_SliceNsMin (cf_Scheduler cfg),
      cu_KernelMode = sc_KernelMode (cf_Scheduler cfg), cu_MaxTimeWatchdog = sc_MaxTimeWatchdog (cf_Scheduler cfg),
      cu_EarlyProcessing = cf_EarlyProcessing cfg, cu_BuiltinIdle = cf_BuiltinIdle cfg,
      cu_SchedulerEnabled = IsSchedulerEnabled cfg, cu_MonitoringEnabled = mc_Enabled (cf_Monitor cfg)\<rparr>"

definition readCurrentConfig ::
  "yaml_lib \<Rightarrow> os_env \<Rightarrow> os_files \<Rightarrow> controlState \<Rightarrow> currentConfig option \<times> controlState" where
  "readCurrentConfig ym env fs s =
     (if cs_runtimeConfigPath s = [] \<or> os_fails env (SysStat (cs_runtimeConfigPath s)) then (None, s)
      else case fs (cs_runtimeConfigPath s) of
          None \<Rightarrow> (None, s)
        | Some fi \<Rightarrow>
            (case cs_cachedConfig s of
               Some cached \<Rightarrow>
                 if of_mtime fi = cs_cachedConfigMTime s then (Some cached, s)
                 else
                   (case LoadConfig ym env (cs_runtimeConfigPath s) fs of
                      Inl e \<Rightarrow> (None, s)
                    | Inr cfg \<Rightarrow> (Some (currentOf cfg), s\<lparr>cs_cachedConfig := Some (currentOf cfg), cs_cachedConfigMTime := of_mtime fi\<rparr>))
             | None \<Rightarrow>
                 (case LoadConfig ym env (cs_runtimeConfigPath s) fs of
                    Inl e \<Rightarrow> (None, s)
                  | Inr cfg \<Rightarrow> (Some (currentOf cfg), s\<lparr>cs_cachedConfig := Some (currentOf cfg), cs_cachedConfigMTime := of_mtime fi\<rparr>))))"

definition set_state :: "int \<Rightarrow> string \<Rightarrow> bool \<Rightarrow> controlState \<Rightarrow> controlState" where
  "set_state now version applied s =
     (let s1 = s\<lparr>cs_configVersion := version, cs_applied := applied\<rparr> in
      if applied then s1\<lparr>cs_appliedAt := Some now, cs_lastError := []\<rparr> else s1)"

definition recordError :: "string \<Rightarrow> controlState \<Rightarrow> controlState" where
  "recordError errMsg s = s\<lparr>cs_lastError := errMsg\<rparr>"

definition recordRestart :: "controlState \<Rightarrow> controlState" where
  "recordRestart s = s\<lparr>cs_restartCount := cs_restartCount s + 1\<rparr>"

text \<open>The status payload, as a reader gets it; \<open>ds_Config\<close> is \<open>None\<close> when \<open>configAvailable\<close> is false.
  All its flags are pointers to the values, so that false is written.\<close>

record daemonStatus =
  ds_ConfigVersion :: string
  ds_Applied :: bool
  ds_AppliedAt :: string
  ds_RestartCount :: int
  ds_LastError :: string
  ds_Config :: "currentConfig option"

definition controlSnapshot ::
  "yaml_lib \<Rightarrow> os_env \<Rightarrow> (int \<Rightarrow> string) \<Rightarrow> os_files \<Rightarrow> controlState \<Rightarrow> daemonStatus \<times> controlState" where
  "controlSnapshot ym env fmtTime fs s =
     (case readCurrentConfig ym env fs s of
        (cfg, s') \<Rightarrow>
          (\<lparr>ds_ConfigVersion = cs_configVersion s, ds_Applied = cs_applied s,
            ds_AppliedAt = (case cs_appliedAt s of None \<Rightarrow> [] | Some t \<Rightarrow> fmtTime t),
            ds_RestartCount = cs_restartCount s, ds_LastError = cs_lastError s, ds_Config = cfg\<rparr>, s'))"


definition detailedSnapshot ::
  "yaml_lib \<Rightarrow> os_env \<Rightarrow> (int \<Rightarrow> string) \<Rightarrow> os_files \<Rightarrow> controlState \<Rightarrow> daemonStatus \<times> controlState" where
  "detailedSnapshot ym env fmtTime fs s =
     (case readCurrentConfig ym env fs s of
        (cfg, s') \<Rightarrow>
          (\<lparr>ds_ConfigVersion = cs_configVersion s, ds_Applied = cs_applied s,
            ds_AppliedAt = (case cs_appliedAt s of None \<Rightarrow> [] | Some t \<Rightarrow> fmtTime t),
            ds_RestartCount = cs_restartCount s, ds_LastError = cs_lastError s, ds_Config = cfg\<rparr>, s'))"


section \<open>Control API\<close>

text \<open>The daemon's data: control state, files and the restart channel, which holds at most one
  request.\<close>

record daemon =
  dn_state :: controlState
  dn_files :: os_files
  dn_restart :: bool

record daemon_env =
  dv_yaml :: yaml_lib
  dv_os :: os_env
  dv_path :: string
  dv_bin :: string
  dv_now :: int
  dv_fmtTime :: "int \<Rightarrow> string"
  dv_errText :: "daemon_error \<Rightarrow> string"

datatype control_reply =
    ReplyError int string
  | ReplyApplied bool
  | ReplyStatus daemonStatus

definition handleStatus :: "daemon_env \<Rightarrow> string \<Rightarrow> daemon \<Rightarrow> control_reply \<times> daemon" where
  "handleStatus env meth d =
     (if meth \<noteq> ''GET'' then (ReplyError 405 ''method not allowed'', d)
      else case detailedSnapshot (dv_yaml env) (dv_os env) (dv_fmtTime env) (dn_files d) (dn_state d) of
          (st, s') \<Rightarrow> (ReplyStatus st, d\<lparr>dn_state := s'\<rparr>))"

datatype request_body = Unreadable | Malformed | Decoded runtimeConfigRequest

definition postRuntimeConfig :: "daemon_env \<Rightarrow> runtimeConfigRequest \<Rightarrow> daemon \<Rightarrow> control_reply \<times> daemon" where
  "postRuntimeConfig env req d =
     (if rr_ConfigVersion req = [] then (ReplyError 400 ''configVersion is required'', d)
      else if cs_applied (dn_state d) \<and> cs_configVersion (dn_state d) = rr_ConfigVersion req then (ReplyApplied True, d)
      else case applyRuntimeConfigToFile (dv_yaml env) (dv_os env) (dv_path env) (dv_bin env) req (dn_files d) of
          ((changed, Some e), fs') \<Rightarrow>
            (ReplyError 500 (dv_errText env e), d\<lparr>dn_files := fs', dn_state := recordError (dv_errText env e) (dn_state d)\<rparr>)
        | ((changed, None), fs') \<Rightarrow>
            (ReplyApplied (\<not> changed),
             d\<lparr>dn_files := fs', dn_state := set_state (dv_now env) (rr_ConfigVersion req) True (dn_state d),
               dn_restart := dn_restart d \<or> changed\<rparr>))"

definition handleRuntimeConfig :: "daemon_env \<Rightarrow> string \<Rightarrow> request_body \<Rightarrow> daemon \<Rightarrow> control_reply \<times> daemon" where
  "handleRuntimeConfig env meth body d =
     (if meth = ''GET'' then
        (case controlSnapshot (dv_yaml env) (dv_os env) (dv_fmtTime env) (dn_files d) (dn_state d) of
           (st, s') \<Rightarrow> (ReplyStatus st, d\<lparr>dn_state := s'\<rparr>))
      else if meth = ''POST'' then
        (case body of
           Unreadable \<Rightarrow> (ReplyError 400 ''invalid request body'', d)
         | Malformed \<Rightarrow> (ReplyError 400 ''invalid request payload'', d)
         | Decoded req \<Rightarrow> postRuntimeConfig env req d)
      else (ReplyError 405 ''method not allowed'', d))"


section \<open>Supervisor\<close>

text \<open>The loop of \<open>Run\<close>.  \<open>Waiting\<close> is a select on the signal and restart channels alone,
  \<open>Running\<close> the select that also watches the child; both remember the files the command was resolved
  from.  A handler that has changed the file but not yet sent its restart request is in flight, so
  that the supervisor may run in between.\<close>

datatype phase =
    Resolving
  | Waiting os_files
  | Running "string \<times> string list" os_files
  | Stopped

record supervisor =
  su_files :: os_files
  su_restart :: bool
  su_inFlight :: nat
  su_phase :: phase

definition isUnsupportedSchedExtExit :: "int option \<Rightarrow> bool" where
  "isUnsupportedSchedExtExit exitCode = (exitCode = Some 78)"

inductive supStep :: "yaml_lib \<Rightarrow> bool \<Rightarrow> string \<Rightarrow> string \<Rightarrow> supervisor \<Rightarrow> supervisor \<Rightarrow> bool"
  for ym supported path bin where
  resolve_disabled: "su_phase s = Resolving \<Longrightarrow>
    schedulerCommandFromConfig ym env supported path bin (su_files s) = Inr None \<Longrightarrow>
    supStep ym supported path bin s (s\<lparr>su_phase := Waiting (su_files s)\<rparr>)"
| resolve_unsupported: "su_phase s = Resolving \<Longrightarrow>
    schedulerCommandFromConfig ym env supported path bin (su_files s) = Inl SchedExtUnsupported \<Longrightarrow>
    supStep ym supported path bin s (s\<lparr>su_phase := Waiting (su_files s)\<rparr>)"
| resolve_failed: "su_phase s = Resolving \<Longrightarrow>
    schedulerCommandFromConfig ym env supported path bin (su_files s) = Inl e \<Longrightarrow> e \<noteq> SchedExtUnsupported \<Longrightarrow>
    supStep ym supported path bin s (s\<lparr>su_phase := Stopped\<rparr>)"
| resolve_start: "su_phase s = Resolving \<Longrightarrow>
    schedulerCommandFromConfig ym env supported path bin (su_files s) = Inr (Some cmd) \<Longrightarrow>
    supStep ym supported path bin s (s\<lparr>su_phase := Running cmd (su_files s)\<rparr>)"
| resolve_start_failed: "su_phase s = Resolving \<Longrightarrow>
    schedulerCommandFromConfig ym env supported path bin (su_files s) = Inr (Some cmd) \<Longrightarrow>
    supStep ym supported path bin s (s\<lparr>su_phase := Stopped\<rparr>)"
| sig_waiting: "su_phase s = Waiting seen \<Longrightarrow> supStep ym supported path bin s (s\<lparr>su_phase := Stopped\<rparr>)"
| restart_waiting: "su_phase s = Waiting seen \<Longrightarrow> su_restart s \<Longrightarrow>
    supStep ym supported path bin s (s\<lparr>su_phase := Resolving, su_restart := False\<rparr>)"
| sig_running: "su_phase s = Running cmd seen \<Longrightarrow> supStep ym supported path bin s (s\<lparr>su_phase := Stopped\<rparr>)"
| restart_running: "su_phase s = Running cmd seen \<Longrightarrow> su_restart s \<Longrightarrow>
    supStep ym supported path bin s (s\<lparr>su_phase := Resolving, su_restart := False\<rparr>)"
| child_unsupported: "su_phase s = Running cmd seen \<Longrightarrow> isUnsupportedSchedExtExit code \<Longrightarrow>
    supStep ym supported path bin s (s\<lparr>su_phase := Waiting seen\<rparr>)"
| child_exit: "su_phase s = Running cmd seen \<Longrightarrow> \<not> isUnsupportedSchedExtExit code \<Longrightarrow>
    supStep ym supported path bin s (s\<lparr>su_phase := Resolving\<rparr>)"
| handler_write: "tmp_law env path (su_files s) \<Longrightarrow>
    applyRuntimeConfigToFile ym env path bin req (su_files s) = ((True, None), fs') \<Longrightarrow>
    supStep ym supported path bin s (s\<lparr>su_files := fs', su_inFlight := su_inFlight s + 1\<rparr>)"
| handler_failed: "tmp_law env path (su_files s) \<Longrightarrow> \<not> os_fails env SysRemove \<Longrightarrow>
    applyRuntimeConfigToFile ym env path bin req (su_files s) = ((changed, Some e), fs') \<Longrightarrow>
    supStep ym supported path bin s (s\<lparr>su_files := fs'\<rparr>)"
| handler_signal: "su_inFlight s > 0 \<Longrightarrow>
    supStep ym supported path bin s (s\<lparr>su_inFlight := su_inFlight s - 1, su_restart := True\<rparr>)"

definition supInit :: "os_files \<Rightarrow> supervisor" where
  "supInit fs = \<lparr>su_files = fs, su_restart = False, su_inFlight = 0, su_phase = Resolving\<rparr>"


section \<open>No update is lost\<close>

definition quiet :: "supervisor \<Rightarrow> bool" where
  "quiet s \<longleftrightarrow> \<not> su_restart s \<and> su_inFlight s = 0"

text \<open>Every command comes from files that are current unless a restart is due.\<close>

definition supInv :: "yaml_lib \<Rightarrow> bool \<Rightarrow> string \<Rightarrow> string \<Rightarrow> supervisor \<Rightarrow> bool" where
  "supInv ym supported path bin s \<longleftrightarrow>
     (case su_phase s of
        Running cmd seen \<Rightarrow>
          (\<exists>env. schedulerCommandFromConfig ym env supported path bin seen = Inr (Some cmd)) \<and> (quiet s \<longrightarrow> su_files s = seen)
      | Waiting seen \<Rightarrow> quiet s \<longrightarrow> su_files s = seen
      | _ \<Rightarrow> True)"

lemma apply_failed_keeps:
  assumes "tmp_law env path fs" "\<not> os_fails env SysRemove"
    "applyRuntimeConfigToFile ym env path bin req fs = ((changed, Some e), fs')"
  shows "fs' = fs"
proof -
  have w: "fs'' = fs" if w: "writeConfigFile ym env path cfg fs = (Some we, fs'')" for cfg we fs''
  proof (cases "ym_marshal ym cfg")
    case (Inl x)
    with w show ?thesis by (simp add: writeConfigFile_def)
  next
    case (Inr y)
    obtain r states where a: "atomicWriteConfigFile env path y fs = (r, states)" by (metis surj_pair)
    with w Inr have "r \<noteq> None" "fs'' = last states" by (auto simp: writeConfigFile_def)
    with atomicWrite_cases(3) [OF assms(1) a] assms(2) show ?thesis by simp
  qed
  show ?thesis
    using assms(3) by (auto simp: applyRuntimeConfigToFile_def Let_def split: sum.splits option.splits if_splits prod.splits dest: w)
qed

lemma supStep_inv:
  assumes "supStep ym supported path bin s s'" "supInv ym supported path bin s"
  shows "supInv ym supported path bin s'"
  using assms
proof (cases rule: supStep.cases)
  case (handler_failed env req changed e fs')
  then have "fs' = su_files s" using apply_failed_keeps by blast
  with handler_failed assms(2) show ?thesis by (simp add: supInv_def quiet_def)
next
  case (handler_write env req fs')
  with assms(2) show ?thesis by (auto simp: supInv_def quiet_def split: phase.splits)
next
  case handler_signal
  with assms(2) show ?thesis by (auto simp: supInv_def quiet_def split: phase.splits)
next
  case (resolve_start env cmd)
  with assms(2) show ?thesis by (auto simp: supInv_def)
qed (use assms(2) in \<open>auto simp: supInv_def quiet_def\<close>)

lemma supervise_inv:
  assumes "(supStep ym supported path bin)\<^sup>*\<^sup>* (supInit fs) s"
  shows "supInv ym supported path bin s"
  using assms
proof (induction rule: rtranclp_induct)
  case base
  show ?case by (simp add: supInv_def supInit_def)
next
  case (step s s')
  then show ?case using supStep_inv by blast
qed

end
