(* ===== verification/Daemon_Facts.thy ===== *)
theory Daemon_Facts
  imports Daemon
begin

text \<open>
  What the daemon guarantees: the scheduler binary is a listed name directly inside the daemon's
  own directory, an accepted request changes the configuration in a known way, and the status it
  reports is the content of the file.
\<close>

section \<open>Cleaned paths\<close>

lemma Join_snoc: "xs \<noteq> [] \<Longrightarrow> Join (xs @ [y]) sep = Join xs sep @ sep @ y"
proof (induction xs)
  case (Cons x xs)
  then show ?case by (cases xs) auto
qed simp

definition special :: "string \<Rightarrow> bool" where
  "special c \<longleftrightarrow> c = [] \<or> c = ''.'' \<or> c = ''..''"

lemma clean_snoc: "\<not> special n \<Longrightarrow> cleanComps r out (xs @ [n]) = cleanComps r out xs @ [n]"
  by (induction r out xs rule: cleanComps.induct) (auto simp: special_def split: list.split)

text \<open>The form of cleaned components: leading parent steps, in relative paths only, then names.\<close>

definition okComps :: "bool \<Rightarrow> string list \<Rightarrow> bool" where
  "okComps r cs \<longleftrightarrow> (\<exists>k ns. cs = replicate k ''..'' @ ns \<and> (r \<longrightarrow> k = 0) \<and> (\<forall>n \<in> set ns. \<not> special n))"

lemma okComps_Nil [simp]: "okComps r []"
  by (auto simp: okComps_def intro: exI [of _ 0])

lemma okComps_snoc: "okComps r cs \<Longrightarrow> \<not> special n \<Longrightarrow> okComps r (cs @ [n])"
proof -
  assume n: "\<not> special n" and "okComps r cs"
  then obtain k ns where "cs = replicate k ''..'' @ ns" "r \<longrightarrow> k = 0" "\<forall>n \<in> set ns. \<not> special n" by (auto simp: okComps_def)
  with n show ?thesis unfolding okComps_def by (intro exI [of _ k] exI [of _ "ns @ [n]"]) auto
qed

lemma okComps_butlast: "okComps r (cs @ [n]) \<Longrightarrow> okComps r cs"
proof -
  assume "okComps r (cs @ [n])"
  then obtain k ns where k: "cs @ [n] = replicate k ''..'' @ ns" "r \<longrightarrow> k = 0" "\<forall>n \<in> set ns. \<not> special n"
    by (auto simp: okComps_def)
  show ?thesis
  proof (cases ns rule: rev_cases)
    case Nil
    with k obtain j where "k = Suc j" by (cases k) auto
    with k Nil have "cs = replicate j ''..'' @ []" "r \<longrightarrow> j = 0" by (simp_all add: replicate_append_same [symmetric])
    then show ?thesis unfolding okComps_def by fastforce
  next
    case (snoc ms m)
    with k show ?thesis by (auto simp: okComps_def)
  qed
qed

lemma okComps_parent: "okComps False (cs @ [''..'']) \<Longrightarrow> okComps False (cs @ [''..'', ''..''])"
proof -
  assume "okComps False (cs @ [''..''])"
  then obtain k ns where k: "cs @ [''..''] = replicate k ''..'' @ ns" "\<forall>n \<in> set ns. \<not> special n"
    by (auto simp: okComps_def)
  then have "ns = []" by (cases ns rule: rev_cases) (auto simp: special_def)
  with k have "cs @ [''..'', ''..''] = replicate (Suc k) ''..'' @ []" by (metis append.assoc append_Cons append_Nil append_Nil2 replicate_Suc replicate_append_same)
  then show ?thesis unfolding okComps_def by fastforce
qed

lemma okComps_rooted: "okComps True (cs @ [''..'']) \<Longrightarrow> False"
  by (auto simp: okComps_def special_def)

lemma cleanComps_ok: "okComps r (rev out) \<Longrightarrow> okComps r (cleanComps r out xs)"
proof (induction r out xs rule: cleanComps.induct)
  case (2 rooted out c cs)
  show ?case
  proof (cases "special c")
    case False
    with 2 show ?thesis by (simp add: special_def okComps_snoc)
  next
    case True
    then consider "c = [] \<or> c = ''.''" | "c = ''..''" by (auto simp: special_def)
    then show ?thesis
    proof cases
      case 1
      with 2 show ?thesis by auto
    next
      case up: 2
      show ?thesis
      proof (cases out)
        case Nil
        have "okComps False [''..'']" unfolding okComps_def by (intro exI [of _ 1] exI [of _ "[]"]) simp
        with 2 up Nil show ?thesis by auto
      next
        case (Cons p ps)
        note p = this
        show ?thesis
        proof (cases "p = ''..''")
          case True
          with 2 up p have "\<not> rooted" using okComps_rooted by (cases rooted) auto
          with 2 up p True okComps_parent [of "rev ps"] show ?thesis by simp
        next
          case False
          with 2 up p show ?thesis using okComps_butlast [of rooted "rev ps" p] by simp
        qed
      qed
    qed
  qed
qed simp

lemma cleanComps_parents: "\<forall>x \<in> set out. x = ''..'' \<Longrightarrow> cleanComps False out (replicate k ''..'' @ ns) = cleanComps False (replicate k ''..'' @ out) ns"
proof (induction k arbitrary: out)
  case (Suc k)
  have "cleanComps False out (''..'' # replicate k ''..'' @ ns) = cleanComps False (''..'' # out) (replicate k ''..'' @ ns)"
    using Suc.prems by (cases out) auto
  with Suc show ?case by (simp add: replicate_app_Cons_same)
qed simp

lemma cleanComps_names: "\<forall>n \<in> set ns. \<not> special n \<Longrightarrow> cleanComps r out ns = rev out @ ns"
  by (induction ns arbitrary: out) (auto simp: special_def)

lemma cleanComps_id: "okComps r cs \<Longrightarrow> cleanComps r [] cs = cs"
proof -
  assume "okComps r cs"
  then obtain k ns where k: "cs = replicate k ''..'' @ ns" "r \<longrightarrow> k = 0" "\<forall>n \<in> set ns. \<not> special n"
    by (auto simp: okComps_def)
  show ?thesis
  proof (cases r)
    case True
    with k show ?thesis by (simp add: cleanComps_names)
  next
    case False
    with k show ?thesis by (simp add: cleanComps_parents cleanComps_names)
  qed
qed

lemma cleanComps_no_slash:
  "\<forall>c \<in> set out \<union> set xs. CHR ''/'' \<notin> set c \<Longrightarrow> \<forall>c \<in> set (cleanComps r out xs). CHR ''/'' \<notin> set c"
  by (induction r out xs rule: cleanComps.induct) (auto split: list.splits)

lemma okComps_nonempty: "okComps r cs \<Longrightarrow> c \<in> set cs \<Longrightarrow> c \<noteq> []"
proof -
  assume "okComps r cs" and c: "c \<in> set cs"
  then obtain k ns where "cs = replicate k ''..'' @ ns" "\<forall>n \<in> set ns. \<not> special n" by (auto simp: okComps_def)
  with c have "c = ''..'' \<or> \<not> special c" by (auto simp: in_set_replicate)
  then show "c \<noteq> []" by (auto simp: special_def)
qed

lemma Join_Nil_iff: "\<forall>c \<in> set cs. c \<noteq> [] \<Longrightarrow> Join cs sep = [] \<longleftrightarrow> cs = []"
proof (cases cs)
  case (Cons a as)
  then show "\<forall>c \<in> set cs. c \<noteq> [] \<Longrightarrow> ?thesis" by (cases as) auto
qed simp

text \<open>A cleaned path, by its components.\<close>

definition pathOf :: "bool \<Rightarrow> string list \<Rightarrow> string" where
  "pathOf r cs = (if r then CHR ''/'' # Join cs ''/'' else if cs = [] then ''.'' else Join cs ''/'')"

lemma Clean_pathOf:
  assumes "p \<noteq> []"
  shows "Clean p = pathOf (hd p = CHR ''/'') (cleanComps (hd p = CHR ''/'') [] (Split p (CHR ''/'')))"
  using assms Join_Nil_iff okComps_nonempty [OF cleanComps_ok [of "hd p = CHR ''/''" "[]"]]
  by (auto simp: Clean_def Let_def pathOf_def)

lemma hd_Join: "cs \<noteq> [] \<Longrightarrow> hd cs \<noteq> [] \<Longrightarrow> hd (Join cs sep @ rest) = hd (hd cs)"
proof (cases cs)
  case (Cons a as)
  then show "hd cs \<noteq> [] \<Longrightarrow> ?thesis" by (cases as) auto
qed simp

lemma comps_pathOf:
  assumes ok: "okComps r cs" and sl: "\<forall>c \<in> set cs. CHR ''/'' \<notin> set c"
  shows "cleanComps r [] (Split (pathOf r cs) (CHR ''/'')) = cs" "pathOf r cs \<noteq> []"
    "hd (pathOf r cs @ rest) = CHR ''/'' \<longleftrightarrow> r"
proof -
  show "pathOf r cs \<noteq> []" using Join_Nil_iff okComps_nonempty [OF ok] by (auto simp: pathOf_def)
  show "cleanComps r [] (Split (pathOf r cs) (CHR ''/'')) = cs"
    using cleanComps_id [OF ok] Split_Join_id [of cs "CHR ''/''"] sl
    by (cases "cs = []") (auto simp: pathOf_def)
  show "hd (pathOf r cs @ rest) = CHR ''/'' \<longleftrightarrow> r"
  proof (cases "r \<or> cs = []")
    case False
    then have "hd cs \<in> set cs" "hd cs \<noteq> []" using okComps_nonempty [OF ok] by auto
    with sl have "hd (hd cs) \<noteq> CHR ''/''" by (metis hd_in_set)
    with False \<open>hd cs \<noteq> []\<close> show ?thesis by (simp add: pathOf_def hd_Join)
  qed (auto simp: pathOf_def)
qed

lemma Clean_form: obtains r cs where "Clean p = pathOf r cs" "okComps r cs" "\<forall>c \<in> set cs. CHR ''/'' \<notin> set c"
proof (cases "p = []")
  case True
  then show thesis using that [of False "[]"] by (simp add: Clean_def pathOf_def)
next
  case False
  have "\<forall>c \<in> set (Split p (CHR ''/'')). CHR ''/'' \<notin> set c" using Split_no_sep by blast
  then have "\<forall>c \<in> set (cleanComps (hd p = CHR ''/'') [] (Split p (CHR ''/''))). CHR ''/'' \<notin> set c"
    by (intro cleanComps_no_slash) simp
  with False show thesis by (intro that [OF Clean_pathOf] cleanComps_ok) simp_all
qed

lemma Clean_idem [simp]: "Clean (Clean p) = Clean p"
proof -
  obtain r cs where c: "Clean p = pathOf r cs" "okComps r cs" "\<forall>c \<in> set cs. CHR ''/'' \<notin> set c" by (rule Clean_form)
  note f = comps_pathOf [OF c(2,3)]
  show ?thesis using Clean_pathOf [OF f(2)] f(1) f(3) [of "[]"] by (simp add: c(1))
qed

lemma Join_child:
  assumes n: "\<not> special n" "CHR ''/'' \<notin> set n"
  shows "JoinPath (Clean dir) n =
    (if Clean dir = ''/'' then CHR ''/'' # n else if Clean dir = ''.'' then n else Clean dir @ ''/'' @ n)"
proof -
  obtain r cs where c: "Clean dir = pathOf r cs" "okComps r cs" "\<forall>c \<in> set cs. CHR ''/'' \<notin> set c" by (rule Clean_form)
  note f = comps_pathOf [OF c(2,3)]
  let ?d = "pathOf r cs"
  have "JoinPath ?d n = Clean (?d @ ''/'' @ n)" using f(2) by (simp add: JoinPath_def)
  also have "\<dots> = pathOf r (cs @ [n])"
    using Clean_pathOf [of "?d @ ''/'' @ n"] f(3) [of "''/'' @ n"] clean_snoc [OF n(1)] f(1) Split_plain [OF n(2)]
    by (simp add: Split_append)
  also have "\<dots> = (if ?d = ''/'' then CHR ''/'' # n else if ?d = ''.'' then n else ?d @ ''/'' @ n)"
  proof (cases "cs = []")
    case False
    have "cs = [''.''] \<Longrightarrow> False" using c(2) cleanComps_id [OF c(2)] by auto
    moreover have "Join cs ''/'' = ''.'' \<Longrightarrow> cs = [''.'']" using okComps_nonempty [OF c(2)]
      by (cases cs rule: remdups_adj.cases) (auto simp: Cons_eq_append_conv append_eq_Cons_conv)
    moreover have "Join cs ''/'' \<noteq> []" using False Join_Nil_iff okComps_nonempty [OF c(2)] by blast
    moreover have "hd (Join cs ''/'') \<noteq> CHR ''/''" if "\<not> r"
      using f(3) [of "[]"] False that by (simp add: pathOf_def)
    ultimately show ?thesis using False by (auto simp: pathOf_def Join_snoc)
  qed (simp add: pathOf_def)
  finally show ?thesis by (simp add: c(1))
qed


section \<open>The binary stays in the daemon's directory\<close>

lemma trim_with_split: "\<exists>x. s = x @ trim_with ps s \<and> set x \<subseteq> (\<Union>p \<in> set ps. set p)"
proof (induction ps s rule: trim_with.induct)
  case (1 ps s)
  show ?case
  proof (cases "find (\<lambda>p. p \<noteq> [] \<and> prefix p s) ps")
    case None
    then show ?thesis by (simp add: trim_with_None)
  next
    case (Some p)
    then have p: "p \<in> set ps" "prefix p s" by (auto simp: find_Some_iff)
    obtain x where x: "drop (length p) s = x @ trim_with ps (drop (length p) s)" "set x \<subseteq> (\<Union>p \<in> set ps. set p)"
      using 1 Some by blast
    have t: "trim_with ps s = trim_with ps (drop (length p) s)" by (subst trim_with.simps) (simp add: Some)
    have "s = p @ drop (length p) s" using p(2) by (auto simp: prefix_def)
    with x t have "s = (p @ x) @ trim_with ps s" by simp
    moreover have "set (p @ x) \<subseteq> (\<Union>p \<in> set ps. set p)" using x(2) p(1) by auto
    ultimately show ?thesis by blast
  qed
qed

lemma TrimSpace_chars: "CHR ''/'' \<in> set s \<Longrightarrow> CHR ''/'' \<in> set (TrimSpace s)"
proof -
  assume s: "CHR ''/'' \<in> set s"
  let ?t = "trim_with space_runes s"
  have sp: "CHR ''/'' \<notin> (\<Union>p \<in> set space_runes. set p)" "CHR ''/'' \<notin> (\<Union>p \<in> set (map rev space_runes). set p)"
    by (auto simp: space_runes_def)
  obtain x where x: "s = x @ ?t" "set x \<subseteq> (\<Union>p \<in> set space_runes. set p)" using trim_with_split by blast
  have "CHR ''/'' \<notin> set x" using x(2) sp(1) by blast
  then have t: "CHR ''/'' \<in> set ?t" using s arg_cong [OF x(1), of set] by simp
  let ?v = "trim_with (map rev space_runes) (rev ?t)"
  obtain y where y: "rev ?t = y @ ?v" "set y \<subseteq> (\<Union>p \<in> set (map rev space_runes). set p)" using trim_with_split by blast
  have "CHR ''/'' \<notin> set y" using y(2) sp(2) by blast
  then have "CHR ''/'' \<in> set ?v" using t arg_cong [OF y(1), of set] by simp
  then show ?thesis by (simp add: TrimSpace_def)
qed

lemma length_TrimSpace: "length (TrimSpace s) \<le> length s"
  unfolding TrimSpace_def length_rev
  by (rule order_trans [OF suffix_length_le [OF trim_with_suffix]]) (simp add: suffix_length_le [OF trim_with_suffix])

lemma allowed_shape: "n \<in> set allowedSCXSchedulers \<Longrightarrow> 7 < length n \<and> CHR ''/'' \<notin> set n"
  by (auto simp: allowedSCXSchedulers_def)

lemma allowed_plain: "TrimSpace n \<in> set allowedSCXSchedulers \<Longrightarrow> \<not> special n \<and> CHR ''/'' \<notin> set n"
proof -
  assume "TrimSpace n \<in> set allowedSCXSchedulers"
  note a = allowed_shape [OF this]
  have "7 < length n" using a length_TrimSpace [of n] by linarith
  with a show ?thesis using TrimSpace_chars by (auto simp: special_def)
qed

definition executable :: "os_files \<Rightarrow> string \<Rightarrow> bool" where
  "executable fs path \<longleftrightarrow> (\<exists>f. fs path = Some f \<and> \<not> of_isDir f \<and> Bit_Operations.and (of_perm f) 73 \<noteq> 0)"

lemma ensureExecutable_None: "ensureExecutable env path fs = None \<Longrightarrow> executable fs path"
  by (auto simp: ensureExecutable_def executable_def split: if_splits option.splits)

lemma ensure_child:
  assumes n: "\<not> special n" "CHR ''/'' \<notin> set n" and e: "ensureExecutableInDir env dir n fs = Inr path"
  shows "path = Clean dir @ ''/'' @ n" "executable fs path" "Clean dir \<noteq> ''/''" "Clean dir \<noteq> ''.''"
proof -
  let ?c = "JoinPath (Clean dir) n"
  have "Clean dir \<noteq> []" by (simp add: Clean_def Let_def)
  then have idem: "Clean ?c = ?c" by (simp add: JoinPath_def)
  have pre: "HasPrefix ?c (Clean dir @ ''/'')" and p: "path = ?c" and x: "ensureExecutable env ?c fs = None"
    using e by (auto simp: ensureExecutableInDir_def Let_def idem split: if_splits option.splits)
  have "n \<noteq> []" using n(1) by (simp add: special_def)
  with n(2) have h: "hd n \<noteq> CHR ''/''" by (cases n) auto
  show root: "Clean dir \<noteq> ''/''"
  proof
    assume "Clean dir = ''/''"
    with pre have "prefix ''//'' (CHR ''/'' # n)" unfolding Join_child [OF n] HasPrefix_def by simp
    with h \<open>n \<noteq> []\<close> show False by (cases n) auto
  qed
  show dot: "Clean dir \<noteq> ''.''"
  proof
    assume "Clean dir = ''.''"
    with pre have "prefix ''./'' n" unfolding Join_child [OF n] HasPrefix_def by simp
    with n(2) show False by (auto simp: prefix_def)
  qed
  show "path = Clean dir @ ''/'' @ n" using root dot by (simp add: p Join_child [OF n])
  show "executable fs path" using x p by (simp add: ensureExecutable_None)
qed

lemma validate_scx: "validateScheduler ''scx'' n = None \<Longrightarrow> TrimSpace n \<in> set allowedSCXSchedulers"
  using TrimSpace_modes by (auto simp: validateScheduler_def Let_def SchedulerModeSCX_def split: if_splits)

lemma resolved_command:
  assumes "schedulerCommandFromConfig ym env supported path bin fs = Inr (Some (exe, args))"
  shows "exe = bin \<and> args = [modeScheduler, ''-config'', path] \<or>
    (\<exists>n. TrimSpace n \<in> set allowedSCXSchedulers \<and> CHR ''/'' \<notin> set n \<and> exe = Clean (Dir bin) @ ''/'' @ n \<and>
         args = [] \<and> supported \<and> executable fs exe)"
proof -
  obtain cfg where l: "LoadConfig ym env path fs = Inr cfg"
    using assms by (auto simp: schedulerCommandFromConfig_def split: sum.splits)
  let ?n = "sc_SchedulerName (cf_Scheduler cfg)"
  show ?thesis
  proof (cases "TrimSpace (sc_Mode (cf_Scheduler cfg)) = ''scx''")
    case True
    show ?thesis
    proof (cases "supported \<and> validateScheduler ''scx'' ?n = None")
      case ok: True
      note a = validate_scx [OF conjunct2 [OF ok]] allowed_plain [OF validate_scx [OF conjunct2 [OF ok]]]
      have "ensureExecutableInDir env (Dir bin) ?n fs = Inr exe \<and> args = []"
        using assms l True ok by (auto simp: schedulerCommandFromConfig_def Let_def split: sum.splits)
      with ensure_child [of ?n env "Dir bin" fs exe] a ok show ?thesis by blast
    next
      case False
      with assms l True show ?thesis by (auto simp: schedulerCommandFromConfig_def Let_def split: option.splits if_splits)
    qed
  next
    case False
    with assms l show ?thesis by (auto simp: schedulerCommandFromConfig_def Let_def split: option.splits if_splits sum.splits)
  qed
qed


section \<open>What an accepted request does to the configuration\<close>

lemma LoadConfig_env:
  "\<not> os_fails env (SysOpen path) \<Longrightarrow> \<not> os_fails env2 (SysOpen path) \<Longrightarrow> LoadConfig ym env path fs = LoadConfig ym env2 path fs"
  by (simp add: LoadConfig_def)

lemma LoadConfig_path: "fs path = fs' path \<Longrightarrow> LoadConfig ym env path fs = LoadConfig ym env path fs'"
  by (simp add: LoadConfig_def)

text \<open>The configuration after a request, as the next reader of the file sees it.\<close>

definition merged :: "runtimeConfigRequest \<Rightarrow> Config \<Rightarrow> Config" where
  "merged req prev = mergeMonitor req (mergeRequest req prev)"

lemma unchanged_merge:
  assumes "\<not> configChanged prev (merged req prev)"
  shows "merged req prev = prev"
proof -
  have "cf_Scheduler (merged req prev) = cf_Scheduler prev"
    using assms by (intro SchedulerConfig.equality) (simp_all add: configChanged_def)
  moreover have "cf_Monitor (merged req prev) = cf_Monitor prev"
  proof (rule MonitorConfig.equality)
    show "mc_Enabled (cf_Monitor (merged req prev)) = mc_Enabled (cf_Monitor prev)" using assms by (simp add: configChanged_def)
  qed (simp_all add: merged_def mergeMonitor_def mergeRequest_def Let_def split: option.split)
  moreover have "cf_EarlyProcessing (merged req prev) = cf_EarlyProcessing prev" "cf_BuiltinIdle (merged req prev) = cf_BuiltinIdle prev"
    using assms by (simp_all add: configChanged_def)
  ultimately show ?thesis
    by (intro Config.equality) (simp_all add: merged_def mergeMonitor_def mergeRequest_def Let_def split: option.split)
qed

lemma apply_ok:
  assumes ym: "yaml_law ym" and t: "tmp_law env path fs" and p: "path \<noteq> []"
    and l: "LoadConfig ym env path fs = Inr prev" "survives prev"
    and a: "applyRuntimeConfigToFile ym env path bin req fs = ((changed, None), fs')"
    and e2: "\<not> os_fails env2 (SysOpen path)"
  shows "LoadConfig ym env2 path fs' = Inr (afterFile (merged req prev))"
    and "changed \<longleftrightarrow> configChanged prev (merged req prev)"
    and "\<not> changed \<Longrightarrow> fs' = fs"
    and "validateScheduler (sc_Mode (cf_Scheduler (mergeRequest req prev))) (sc_SchedulerName (cf_Scheduler (mergeRequest req prev))) = None"
proof -
  have e: "\<not> os_fails env (SysOpen path)" using l(1) p by (auto simp: LoadConfig_def split: if_splits)
  show v: "validateScheduler (sc_Mode (cf_Scheduler (mergeRequest req prev))) (sc_SchedulerName (cf_Scheduler (mergeRequest req prev))) = None"
    using a l(1) by (auto simp: applyRuntimeConfigToFile_def Let_def split: option.splits)
  have c: "if configChanged prev (merged req prev) then changed \<and> writeConfigFile ym env path (merged req prev) fs = (None, fs')
      else \<not> changed \<and> fs' = fs"
    using a l(1) v by (auto simp: applyRuntimeConfigToFile_def Let_def merged_def [symmetric] split: sum.splits option.splits if_splits prod.splits)
  then show "changed \<longleftrightarrow> configChanged prev (merged req prev)" "\<not> changed \<Longrightarrow> fs' = fs" by (auto split: if_splits)
  show "LoadConfig ym env2 path fs' = Inr (afterFile (merged req prev))"
  proof (cases "configChanged prev (merged req prev)")
    case True
    with c write_then_load(1) [OF ym t p e2] show ?thesis by simp
  next
    case False
    have "afterFile prev = prev" using l(2) survives_iff by blast
    with c False unchanged_merge [OF False] l(1) LoadConfig_env [OF e e2, of ym fs] show ?thesis by simp
  qed
qed

text \<open>The effect of a normal, valid configuration that arrives through the decision maker: a flag
  that is false there leaves the node's flag as it is.\<close>

definition nodeEffect :: "RuntimeSchedulerConfig \<Rightarrow> Config \<Rightarrow> currentConfig" where
  "nodeEffect c prev =
     \<lparr>cu_Mode = rc_Mode c,
      cu_SchedulerName = (if rc_SchedulerName c \<noteq> [] then rc_SchedulerName c else sc_SchedulerName (cf_Scheduler prev)),
      cu_SliceNsDefault = (if rc_SliceNsDefault c \<noteq> 0 then rc_SliceNsDefault c else sc_SliceNsDefault (cf_Scheduler prev)),
      cu_SliceNsMin = (if rc_SliceNsMin c \<noteq> 0 then rc_SliceNsMin c else sc_SliceNsMin (cf_Scheduler prev)),
      cu_KernelMode = (rc_KernelMode c \<or> sc_KernelMode (cf_Scheduler prev)),
      cu_MaxTimeWatchdog = True,
      cu_EarlyProcessing = (rc_EarlyProcessing c \<or> cf_EarlyProcessing prev),
      cu_BuiltinIdle = (rc_BuiltinIdle c \<or> cf_BuiltinIdle prev),
      cu_SchedulerEnabled = rc_SchedulerEnabled c,
      cu_MonitoringEnabled = rc_MonitoringEnabled c\<rparr>"

lemma current_merged:
  assumes n: "normalForm c" "Validate c = None"
  shows "currentOf (afterFile (merged (marshalConfig c) prev)) = nodeEffect c prev"
proof -
  have "rc_Mode c \<noteq> []" using n(1) by (simp add: normalForm_def)
  then show ?thesis
    using valid_enabled [OF n]
    by (auto simp: currentOf_def afterFile_def merged_def mergeMonitor_def mergeRequest_def marshalConfig_def nodeEffect_def
        Let_def omitEmpty_def IsSchedulerEnabled_def SchedulerModeNone_def)
qed


section \<open>The daemon's invariant\<close>

text \<open>The file exists and holds a configuration that survives rewriting; a cached configuration with
  the file's modification time is that configuration.\<close>

definition fileHolds :: "yaml_lib \<Rightarrow> string \<Rightarrow> os_files \<Rightarrow> Config \<Rightarrow> bool" where
  "fileHolds ym path fs cfg \<longleftrightarrow> (\<forall>env. \<not> os_fails env (SysOpen path) \<longrightarrow> LoadConfig ym env path fs = Inr cfg)"

definition daemonInv :: "daemon_env \<Rightarrow> daemon \<Rightarrow> Config \<Rightarrow> bool" where
  "daemonInv env d cfg \<longleftrightarrow>
     dv_path env \<noteq> [] \<and> cs_runtimeConfigPath (dn_state d) = dv_path env \<and>
     fileHolds (dv_yaml env) (dv_path env) (dn_files d) cfg \<and> survives cfg \<and>
     (case dn_files d (dv_path env) of
        None \<Rightarrow> False
      | Some f \<Rightarrow>
          (case cs_cachedConfig (dn_state d) of
             None \<Rightarrow> True
           | Some c \<Rightarrow> cs_cachedConfigMTime (dn_state d) \<le> of_mtime f \<and>
               (cs_cachedConfigMTime (dn_state d) = of_mtime f \<longrightarrow> c = currentOf cfg)))"

text \<open>The time moves on between writes.\<close>

definition laterThan :: "daemon_env \<Rightarrow> daemon \<Rightarrow> bool" where
  "laterThan env d \<longleftrightarrow> (\<forall>f. dn_files d (dv_path env) = Some f \<longrightarrow> of_mtime f < os_now (dv_os env))"

lemma fileHolds_write:
  assumes ym: "yaml_law ym" and t: "tmp_law env path fs" and p: "path \<noteq> []"
    and w: "writeConfigFile ym env path cfg fs = (None, fs')"
  shows "fileHolds ym path fs' (afterFile cfg)" "\<exists>f. fs' path = Some f \<and> of_mtime f = os_now env"
  using write_then_load [OF ym t p _ w] write_then_load(2) [OF ym t p _ w, of "env\<lparr>os_fails := (\<lambda>_. False)\<rparr>"]
  by (auto simp: fileHolds_def newFile_def)

lemma initialize_inv:
  assumes ym: "yaml_law ym" and t: "tmp_law env path fs" and p: "path \<noteq> []"
    and i: "initializeRuntimeConfig ym env boot path fs = (None, fs')" and l: "LoadConfig ym env boot fs = Inr cfg"
  shows "fileHolds ym path fs' (afterFile cfg)" "fs' path \<noteq> None"
proof -
  have w: "writeConfigFile ym env path cfg fs = (None, fs')"
    using i l by (auto simp: initializeRuntimeConfig_def split: if_splits prod.splits option.splits)
  show "fileHolds ym path fs' (afterFile cfg)" "fs' path \<noteq> None" using fileHolds_write [OF ym t p w] by auto
qed

lemma status_read_exact:
  assumes inv: "daemonInv env d cfg" and ok: "\<not> os_fails (dv_os env) (SysStat (dv_path env))" "\<not> os_fails (dv_os env) (SysOpen (dv_path env))"
  obtains s' where "readCurrentConfig (dv_yaml env) (dv_os env) (dn_files d) (dn_state d) = (Some (currentOf cfg), s')"
    "daemonInv env (d\<lparr>dn_state := s'\<rparr>) cfg"
proof -
  obtain f where f: "dn_files d (dv_path env) = Some f" using inv by (auto simp: daemonInv_def split: option.splits)
  have l: "LoadConfig (dv_yaml env) (dv_os env) (dv_path env) (dn_files d) = Inr cfg"
    using inv ok(2) by (auto simp: daemonInv_def fileHolds_def)
  have p: "cs_runtimeConfigPath (dn_state d) = dv_path env" "dv_path env \<noteq> []" using inv by (auto simp: daemonInv_def)
  note d = readCurrentConfig_def p ok f l
  show thesis
  proof (cases "\<exists>c. cs_cachedConfig (dn_state d) = Some c \<and> of_mtime f = cs_cachedConfigMTime (dn_state d)")
    case True
    then obtain c where c: "cs_cachedConfig (dn_state d) = Some c" "of_mtime f = cs_cachedConfigMTime (dn_state d)" by blast
    with inv f have "c = currentOf cfg" by (simp add: daemonInv_def)
    with c inv show thesis by (intro that [of "dn_state d"]) (simp_all add: d)
  next
    case False
    let ?s = "(dn_state d)\<lparr>cs_cachedConfig := Some (currentOf cfg), cs_cachedConfigMTime := of_mtime f\<rparr>"
    have "readCurrentConfig (dv_yaml env) (dv_os env) (dn_files d) (dn_state d) = (Some (currentOf cfg), ?s)"
      using False by (auto simp: d split: option.split)
    moreover have "daemonInv env (d\<lparr>dn_state := ?s\<rparr>) cfg" using inv f by (simp add: daemonInv_def)
    ultimately show thesis by (rule that)
  qed
qed

lemma post_cases:
  assumes "postRuntimeConfig env req d = (reply, d')"
  obtains (early) "d' = d" "reply = ReplyApplied True \<or> (\<exists>c m. reply = ReplyError c m)"
    | (failed) ch e fs' where
        "applyRuntimeConfigToFile (dv_yaml env) (dv_os env) (dv_path env) (dv_bin env) req (dn_files d) = ((ch, Some e), fs')"
        "reply = ReplyError 500 (dv_errText env e)"
        "d' = d\<lparr>dn_files := fs', dn_state := recordError (dv_errText env e) (dn_state d)\<rparr>"
    | (applied) ch fs' where
        "applyRuntimeConfigToFile (dv_yaml env) (dv_os env) (dv_path env) (dv_bin env) req (dn_files d) = ((ch, None), fs')"
        "reply = ReplyApplied (\<not> ch)"
        "d' = d\<lparr>dn_files := fs', dn_state := set_state (dv_now env) (rr_ConfigVersion req) True (dn_state d), dn_restart := dn_restart d \<or> ch\<rparr>"
proof -
  let ?a = "applyRuntimeConfigToFile (dv_yaml env) (dv_os env) (dv_path env) (dv_bin env) req (dn_files d)"
  obtain ch r fs' where a: "?a = ((ch, r), fs')" by (metis surj_pair)
  consider (v) "rr_ConfigVersion req = []"
    | (same) "rr_ConfigVersion req \<noteq> []" "cs_applied (dn_state d) \<and> cs_configVersion (dn_state d) = rr_ConfigVersion req"
    | (go) "rr_ConfigVersion req \<noteq> []" "\<not> (cs_applied (dn_state d) \<and> cs_configVersion (dn_state d) = rr_ConfigVersion req)"
    by blast
  then show thesis
  proof cases
    case go
    show thesis
    proof (cases r)
      case None
      with go a assms have "reply = ReplyApplied (\<not> ch)"
        "d' = d\<lparr>dn_files := fs', dn_state := set_state (dv_now env) (rr_ConfigVersion req) True (dn_state d), dn_restart := dn_restart d \<or> ch\<rparr>"
        by (auto simp: postRuntimeConfig_def split: if_splits)
      with a None applied show thesis by blast
    next
      case (Some e)
      with go a assms have "reply = ReplyError 500 (dv_errText env e)"
        "d' = d\<lparr>dn_files := fs', dn_state := recordError (dv_errText env e) (dn_state d)\<rparr>"
        by (auto simp: postRuntimeConfig_def split: if_splits)
      with a Some failed show thesis by blast
    qed
  qed (use assms early in \<open>auto simp: postRuntimeConfig_def\<close>)
qed

lemma apply_failed_path:
  assumes "tmp_law env path fs" "applyRuntimeConfigToFile ym env path bin req fs = ((ch, Some e), fs')"
  shows "fs' path = fs path"
  using assms(2) write_failed [OF assms(1)]
  by (auto simp: applyRuntimeConfigToFile_def Let_def split: sum.splits option.splits if_splits prod.splits)

lemma apply_loaded:
  assumes "fileHolds ym path fs cfg" "path \<noteq> []" "applyRuntimeConfigToFile ym env path bin req fs = ((ch, None), fs')"
  shows "LoadConfig ym env path fs = Inr cfg"
proof -
  obtain c where "LoadConfig ym env path fs = Inr c"
    using assms(3) by (auto simp: applyRuntimeConfigToFile_def split: sum.splits)
  then have "\<not> os_fails env (SysOpen path)" using assms(2) by (auto simp: LoadConfig_def split: if_splits)
  then show ?thesis using assms(1) by (simp add: fileHolds_def)
qed

lemma post_inv:
  assumes inv: "daemonInv env d cfg" and ym: "yaml_law (dv_yaml env)"
    and t: "tmp_law (dv_os env) (dv_path env) (dn_files d)" and late: "laterThan env d"
    and post: "postRuntimeConfig env req d = (reply, d')"
  shows "daemonInv env d' (case reply of
      ReplyApplied noop \<Rightarrow> if noop then cfg else afterFile (merged req cfg) | _ \<Rightarrow> cfg)"
proof -
  have p: "dv_path env \<noteq> []" and fh: "fileHolds (dv_yaml env) (dv_path env) (dn_files d) cfg" "survives cfg"
    using inv by (auto simp: daemonInv_def)
  obtain f where f: "dn_files d (dv_path env) = Some f" using inv by (auto simp: daemonInv_def split: option.splits)
  from post show ?thesis
  proof (cases rule: post_cases)
    case early
    with inv show ?thesis by auto
  next
    case (failed ch e fs')
    have k: "fs' (dv_path env) = dn_files d (dv_path env)" by (rule apply_failed_path [OF t failed(1)])
    have "LoadConfig (dv_yaml env) e (dv_path env) fs' = LoadConfig (dv_yaml env) e (dv_path env) (dn_files d)" for e
      by (rule LoadConfig_path) (rule k)
    then have "fileHolds (dv_yaml env) (dv_path env) fs' cfg" using fh(1) by (simp add: fileHolds_def)
    then show ?thesis using failed inv k f by (simp add: daemonInv_def recordError_def split: option.splits)
  next
    case (applied ch fs')
    note l = apply_loaded [OF fh(1) p applied(1)]
    note ok = apply_ok [OF ym t p l fh(2) applied(1)]
    show ?thesis
    proof (cases ch)
      case False
      with ok(3) [of "(dv_os env)\<lparr>os_fails := (\<lambda>_. False)\<rparr>"] applied inv f show ?thesis by (simp add: daemonInv_def set_state_def Let_def split: option.splits)
    next
      case True
      have w: "writeConfigFile (dv_yaml env) (dv_os env) (dv_path env) (merged req cfg) (dn_files d) = (None, fs')"
        using applied(1) l True by (auto simp: applyRuntimeConfigToFile_def Let_def merged_def [symmetric] split: sum.splits option.splits if_splits prod.splits)
      obtain g where g: "fs' (dv_path env) = Some g" "of_mtime g = os_now (dv_os env)"
        using fileHolds_write(2) [OF ym t p w] by blast
      have "of_mtime f < of_mtime g" using late f g(2) by (simp add: laterThan_def)
      with inv f g(1) fileHolds_write(1) [OF ym t p w] True applied(2,3) show ?thesis
        by (auto simp: daemonInv_def set_state_def Let_def split: option.splits)
    qed
  qed
qed

end
