(* ===== verification/Mgr_Runtime.thy ===== *)
theory Mgr_Runtime
  imports Daemon_Facts DM_Api
begin

text \<open>
  Runtime configuration from the manager to the node: the service of the decision maker
  (\<open>ApplyRuntimeConfig\<close>, \<open>GetRuntimeConfigStatus\<close> of \<open>src/api/decisionmaker/service/service.go\<close>
  with the handlers of \<open>runtime_config_handler.go\<close>), the manager's client calls
  (\<open>src/api/manager/client/deicison_maker.go\<close>), the repository
  (\<open>src/api/manager/repository/runtime_config_repo.go\<close>), the manager's service
  (\<open>src/api/manager/service/runtime_config_svc.go\<close>) and the step of the reconciliation that
  applies stored configurations again (\<open>cron_svc.go\<close>).

  A node is the decision maker's remembered configuration and the daemon behind it.  The MongoDB
  collection is a record of two calls over an opaque state; \<open>rt_laws\<close> states their documented
  behaviour relative to a view by node.
\<close>

section \<open>The decision maker\<close>

record rt_node =
  rn_config :: "RuntimeSchedulerConfig option"
  rn_daemon :: daemon

datatype rt_error =
    VersionRequired
  | InvalidConfig config_error
  | DaemonUnreachable
  | DaemonStatus int string

text \<open>\<open>reach\<close> tells whether the daemon's control port answers.\<close>

definition ApplyRuntimeConfigDM ::
  "daemon_env \<Rightarrow> bool \<Rightarrow> RuntimeSchedulerConfig \<Rightarrow> rt_node \<Rightarrow> rt_error option \<times> rt_node" where
  "ApplyRuntimeConfigDM env reach config0 node =
     (if rc_ConfigVersion config0 = [] then (Some VersionRequired, node)
      else
        (let config = Normalize config0 in
         case Validate config of
           Some e \<Rightarrow> (Some (InvalidConfig e), node)
         | None \<Rightarrow>
             if \<not> reach then (Some DaemonUnreachable, node)
             else
               (case handleRuntimeConfig env ''POST'' (Decoded (marshalConfig config)) (rn_daemon node) of
                  (ReplyError code msg, d) \<Rightarrow> (Some (DaemonStatus code msg), node\<lparr>rn_daemon := d\<rparr>)
                | (_, d) \<Rightarrow>
                    (None,
                     node\<lparr>rn_daemon := d,
                       rn_config :=
                         (case rn_config node of
                            Some cur \<Rightarrow> if rc_ConfigVersion cur = rc_ConfigVersion config then Some cur else Some config
                          | None \<Rightarrow> Some config)\<rparr>))))"

record RuntimeConfigStatus =
  rst_ConfigVersion :: string
  rst_Applied :: bool
  rst_AppliedAt :: string
  rst_RestartCount :: int
  rst_LastError :: string
  rst_Config :: "RuntimeSchedulerConfig option"

definition statusConfig :: "string \<Rightarrow> currentConfig \<Rightarrow> RuntimeSchedulerConfig" where
  "statusConfig version cu =
     \<lparr>rc_ConfigVersion = version, rc_Mode = cu_Mode cu, rc_SchedulerName = cu_SchedulerName cu,
      rc_SliceNsDefault = cu_SliceNsDefault cu, rc_SliceNsMin = cu_SliceNsMin cu, rc_KernelMode = cu_KernelMode cu,
      rc_MaxTimeWatchdog = cu_MaxTimeWatchdog cu, rc_EarlyProcessing = cu_EarlyProcessing cu,
      rc_BuiltinIdle = cu_BuiltinIdle cu, rc_SchedulerEnabled = cu_SchedulerEnabled cu,
      rc_MonitoringEnabled = cu_MonitoringEnabled cu\<rparr>"

definition cachedStatus :: "RuntimeSchedulerConfig option \<Rightarrow> RuntimeConfigStatus" where
  "cachedStatus cfg =
     \<lparr>rst_ConfigVersion = (case cfg of None \<Rightarrow> [] | Some c \<Rightarrow> rc_ConfigVersion c), rst_Applied = (cfg \<noteq> None),
      rst_AppliedAt = [], rst_RestartCount = 0, rst_LastError = [], rst_Config = cfg\<rparr>"

definition GetRuntimeConfigStatusDM :: "daemon_env \<Rightarrow> bool \<Rightarrow> rt_node \<Rightarrow> RuntimeConfigStatus \<times> rt_node" where
  "GetRuntimeConfigStatusDM env reach node =
     (if reach then
        (case handleStatus env ''GET'' (rn_daemon node) of
           (ReplyStatus st, d) \<Rightarrow>
             (\<lparr>rst_ConfigVersion = ds_ConfigVersion st, rst_Applied = ds_Applied st, rst_AppliedAt = ds_AppliedAt st,
               rst_RestartCount = ds_RestartCount st, rst_LastError = ds_LastError st,
               rst_Config = map_option (statusConfig (ds_ConfigVersion st)) (ds_Config st)\<rparr>,
              node\<lparr>rn_daemon := d\<rparr>)
         | (_, d) \<Rightarrow> (cachedStatus (rn_config node), node\<lparr>rn_daemon := d\<rparr>))
      else (cachedStatus (rn_config node), node))"

text \<open>The decision maker's handlers: the decoded request is the configuration, and every error is
  answered with status 400.  The status response carries the configuration with the status version.\<close>

definition ApplyRuntimeConfigHandler ::
  "daemon_env \<Rightarrow> bool \<Rightarrow> RuntimeSchedulerConfig option \<Rightarrow> rt_node \<Rightarrow> nat \<times> rt_node" where
  "ApplyRuntimeConfigHandler env reach body node =
     (case body of
        None \<Rightarrow> (400, node)
      | Some config \<Rightarrow>
          (case ApplyRuntimeConfigDM env reach config node of
             (Some e, node') \<Rightarrow> (400, node')
           | (None, node') \<Rightarrow> (200, node')))"

definition GetRuntimeConfigHandler :: "daemon_env \<Rightarrow> bool \<Rightarrow> rt_node \<Rightarrow> RuntimeConfigStatus \<times> rt_node" where
  "GetRuntimeConfigHandler env reach node = GetRuntimeConfigStatusDM env reach node"


section \<open>The manager's client\<close>

record RuntimeConfigApplyResult =
  ra_NodeID :: string
  ra_Host :: string
  ra_Success :: bool
  ra_Error :: string
  ra_ConfigVersion :: string
  ra_AppliedAt :: string
  ra_RestartCount :: int
  ra_LastError :: string
  ra_Config :: "RuntimeSchedulerConfig option"
  ra_DesiredConfig :: "RuntimeSchedulerConfig option"
  ra_Drift :: bool

definition emptyResult :: "string \<Rightarrow> string \<Rightarrow> RuntimeConfigApplyResult" where
  "emptyResult nodeID host =
     \<lparr>ra_NodeID = nodeID, ra_Host = host, ra_Success = False, ra_Error = [], ra_ConfigVersion = [], ra_AppliedAt = [],
      ra_RestartCount = 0, ra_LastError = [], ra_Config = None, ra_DesiredConfig = None, ra_Drift = False\<rparr>"

record rt_net =
  rt_daemonEnv :: "dm_addr \<Rightarrow> daemon_env"
  rt_reach :: "dm_addr \<Rightarrow> bool"
  rt_tokenOk :: "dm_addr \<Rightarrow> bool"
  rt_delivery :: "dm_addr \<Rightarrow> delivery"
  rt_at :: "dm_addr \<Rightarrow> rt_node"

definition ApplyRuntimeConfigClient ::
  "DecisionMakerPod \<Rightarrow> RuntimeSchedulerConfig \<Rightarrow> rt_net \<Rightarrow> client_error option \<times> rt_net" where
  "ApplyRuntimeConfigClient dm config net =
     (let a = addrOf dm in
      if \<not> rt_tokenOk net a then (Some NoToken, net)
      else
        (case ApplyRuntimeConfigHandler (rt_daemonEnv net a) (rt_reach net a) (Some config) (rt_at net a) of
           (status, node') \<Rightarrow>
             (let net' = net\<lparr>rt_at := (rt_at net)(a := node')\<rparr> in
              case rt_delivery net a of
                NotDelivered \<Rightarrow> (Some Transport, net)
              | ReplyLost \<Rightarrow> (Some Transport, net')
              | Delivered \<Rightarrow> if status = 200 then (None, net') else (Some (NonOK status), net'))))"

definition clientResult :: "DecisionMakerPod \<Rightarrow> RuntimeConfigStatus \<Rightarrow> RuntimeConfigApplyResult" where
  "clientResult dm st =
     (emptyResult (dmp_NodeID dm) (dmp_Host dm))
       \<lparr>ra_ConfigVersion := rst_ConfigVersion st, ra_AppliedAt := rst_AppliedAt st, ra_RestartCount := rst_RestartCount st,
        ra_LastError := rst_LastError st, ra_Success := rst_Applied st,
        ra_Error := (if rst_Applied st then [] else if rst_LastError st \<noteq> [] then rst_LastError st
                     else ''runtime config not applied yet''),
        ra_Config := map_option (\<lambda>c. c\<lparr>rc_ConfigVersion := rst_ConfigVersion st\<rparr>) (rst_Config st)\<rparr>"

definition GetRuntimeConfigStatusClient ::
  "DecisionMakerPod \<Rightarrow> rt_net \<Rightarrow> (client_error + RuntimeConfigApplyResult) \<times> rt_net" where
  "GetRuntimeConfigStatusClient dm net =
     (let a = addrOf dm in
      if \<not> rt_tokenOk net a then (Inl NoToken, net)
      else
        (case GetRuntimeConfigHandler (rt_daemonEnv net a) (rt_reach net a) (rt_at net a) of
           (st, node') \<Rightarrow>
             (let net' = net\<lparr>rt_at := (rt_at net)(a := node')\<rparr> in
              case rt_delivery net a of
                NotDelivered \<Rightarrow> (Inl Transport, net)
              | ReplyLost \<Rightarrow> (Inl Transport, net')
              | Delivered \<Rightarrow> (Inr (clientResult dm st), net'))))"


section \<open>Repository\<close>

record NodeRuntimeConfig =
  nr_NodeID :: string
  nr_ConfigVersion :: string
  nr_Config :: RuntimeSchedulerConfig
  nr_UpdatedBy :: string
  nr_UpdatedAt :: int
  nr_LastApplyResult :: RuntimeConfigApplyResult

text \<open>\<open>ReplaceOne\<close> with upsert on the filter \<open>nodeId\<close>, and \<open>Find\<close> with the filter \<open>nodeId $in\<close> when
  node IDs are given.\<close>

record 'w rt_coll =
  rp_replaceOne :: "string \<Rightarrow> NodeRuntimeConfig \<Rightarrow> 'w \<Rightarrow> string option \<times> 'w"
  rp_find :: "string list option \<Rightarrow> 'w \<Rightarrow> string + NodeRuntimeConfig list"

definition UpsertNodeRuntimeConfig :: "'w rt_coll \<Rightarrow> NodeRuntimeConfig option \<Rightarrow> 'w \<Rightarrow> string option \<times> 'w" where
  "UpsertNodeRuntimeConfig coll cfg w =
     (case cfg of
        None \<Rightarrow> (Some ''nil node runtime config'', w)
      | Some c \<Rightarrow> rp_replaceOne coll (nr_NodeID c) c w)"

definition QueryNodeRuntimeConfigs :: "'w rt_coll \<Rightarrow> string list option \<Rightarrow> 'w \<Rightarrow> string + NodeRuntimeConfig list" where
  "QueryNodeRuntimeConfigs coll opt w =
     (case opt of
        None \<Rightarrow> Inl ''nil query options''
      | Some nodeIDs \<Rightarrow> rp_find coll (if nodeIDs = [] then None else Some nodeIDs) w)"


section \<open>The manager's service\<close>

record 'w rt_env =
  rv_k8s :: bool
  rv_dmAdapter :: bool
  rv_repo :: "'w rt_coll option"
  rv_dms :: "string list \<Rightarrow> string + DecisionMakerPod list"
  rv_now :: int
  rv_range :: "string list \<Rightarrow> string list"
  rv_errText :: "client_error \<Rightarrow> string"

record 'w rt_state =
  rs_store :: 'w
  rs_net :: rt_net

datatype rt_svc_error =
    RtNoClient
  | RtHTTP int string
  | RtConfig config_error
  | RtK8s string
  | RtRepo string

definition desiredConfig :: "'w rt_env \<Rightarrow> string \<Rightarrow> RuntimeSchedulerConfig \<Rightarrow> string \<Rightarrow> RuntimeConfigApplyResult \<Rightarrow> NodeRuntimeConfig" where
  "desiredConfig env updatedBy config nodeID res =
     \<lparr>nr_NodeID = nodeID, nr_ConfigVersion = rc_ConfigVersion config, nr_Config = config, nr_UpdatedBy = updatedBy,
      nr_UpdatedAt = rv_now env, nr_LastApplyResult = res\<rparr>"

definition persistUnreachableRuntimeConfig ::
  "'w rt_env \<Rightarrow> 'w rt_coll \<Rightarrow> string \<Rightarrow> RuntimeSchedulerConfig \<Rightarrow> string \<Rightarrow> string \<Rightarrow> 'w \<Rightarrow> RuntimeConfigApplyResult \<times> 'w" where
  "persistUnreachableRuntimeConfig env repo nodeID config updatedBy errMsg w =
     (let res = (emptyResult nodeID [])\<lparr>ra_Error := errMsg, ra_ConfigVersion := rc_ConfigVersion config,
                  ra_DesiredConfig := Some config, ra_Drift := True\<rparr>
      in case UpsertNodeRuntimeConfig repo (Some (desiredConfig env updatedBy config nodeID res)) w of
           (Some e, w') \<Rightarrow> (res\<lparr>ra_Error := ''persist desired runtime config: '' @ e\<rparr>, w')
         | (None, w') \<Rightarrow> (res, w'))"

fun persistAll ::
  "'w rt_env \<Rightarrow> 'w rt_coll \<Rightarrow> RuntimeSchedulerConfig \<Rightarrow> string \<Rightarrow> string list \<Rightarrow> 'w \<Rightarrow> RuntimeConfigApplyResult list \<times> 'w" where
  "persistAll env repo config updatedBy [] w = ([], w)"
| "persistAll env repo config updatedBy (nodeID # nodeIDs) w =
     (case persistUnreachableRuntimeConfig env repo nodeID config updatedBy ''decision maker is not discovered'' w of
        (r, w1) \<Rightarrow> (case persistAll env repo config updatedBy nodeIDs w1 of (rs, w2) \<Rightarrow> (r # rs, w2)))"

definition upsertOpt :: "'w rt_env \<Rightarrow> NodeRuntimeConfig \<Rightarrow> 'w \<Rightarrow> string option \<times> 'w" where
  "upsertOpt env cfg w = (case rv_repo env of None \<Rightarrow> (None, w) | Some repo \<Rightarrow> UpsertNodeRuntimeConfig repo (Some cfg) w)"

text \<open>The body of the loop over the decision makers.\<close>

definition applyToDM ::
  "'w rt_env \<Rightarrow> RuntimeSchedulerConfig \<Rightarrow> string \<Rightarrow> DecisionMakerPod \<Rightarrow> 'w rt_state \<Rightarrow> RuntimeConfigApplyResult \<times> 'w rt_state" where
  "applyToDM env config updatedBy dm st =
     (let res0 = emptyResult (dmp_NodeID dm) (dmp_Host dm);
          zeroRes = emptyResult [] []
      in case upsertOpt env (desiredConfig env updatedBy config (dmp_NodeID dm) zeroRes) (rs_store st) of
           (Some e, w) \<Rightarrow> (res0\<lparr>ra_Error := ''persist desired runtime config: '' @ e\<rparr>, st\<lparr>rs_store := w\<rparr>)
         | (None, w) \<Rightarrow>
             if dmp_State dm \<noteq> NodeStateOnline then
               (let res = res0\<lparr>ra_Error := ''decision maker is offline'', ra_DesiredConfig := Some config\<rparr> in
                (res, st\<lparr>rs_store := snd (upsertOpt env (desiredConfig env updatedBy config (dmp_NodeID dm) res) w)\<rparr>))
             else
               (case ApplyRuntimeConfigClient dm config (rs_net st) of
                  (r, net) \<Rightarrow>
                    (let res = res0\<lparr>ra_Success := (r = None),
                                 ra_Error := (case r of None \<Rightarrow> [] | Some e \<Rightarrow> rv_errText env e),
                                 ra_ConfigVersion := rc_ConfigVersion config, ra_DesiredConfig := Some config\<rparr> in
                     (res, st\<lparr>rs_net := net,
                        rs_store := snd (upsertOpt env (desiredConfig env updatedBy config (dmp_NodeID dm) res) w)\<rparr>))))"

fun applyToDMs ::
  "'w rt_env \<Rightarrow> RuntimeSchedulerConfig \<Rightarrow> string \<Rightarrow> DecisionMakerPod list \<Rightarrow> 'w rt_state
     \<Rightarrow> RuntimeConfigApplyResult list \<times> 'w rt_state" where
  "applyToDMs env config updatedBy [] st = ([], st)"
| "applyToDMs env config updatedBy (dm # dms) st =
     (case applyToDM env config updatedBy dm st of
        (r, st1) \<Rightarrow> (case applyToDMs env config updatedBy dms st1 of (rs, st2) \<Rightarrow> (r # rs, st2)))"

record RuntimeConfigApplyOptions =
  ro_NodeIDs :: "string list"
  ro_Config :: RuntimeSchedulerConfig

definition ApplyRuntimeConfig ::
  "'w rt_env \<Rightarrow> string option \<Rightarrow> RuntimeConfigApplyOptions option \<Rightarrow> 'w rt_state
     \<Rightarrow> (rt_svc_error + RuntimeConfigApplyResult list) \<times> 'w rt_state" where
  "ApplyRuntimeConfig env operator opt st =
     (if \<not> rv_k8s env then (Inl RtNoClient, st)
      else case opt of
          None \<Rightarrow> (Inl (RtHTTP 400 ''invalid request''), st)
        | Some o1 \<Rightarrow>
            if rc_ConfigVersion (ro_Config o1) = [] then (Inl (RtHTTP 400 ''configVersion is required''), st)
            else
              (let config = Normalize (ro_Config o1) in
               case Validate config of
                 Some e \<Rightarrow> (Inl (RtConfig e), st)
               | None \<Rightarrow>
                   if \<not> rv_dmAdapter env then (Inl (RtHTTP 501 ''decision maker runtime config adapter is not enabled''), st)
                   else
                     (let updatedBy = (case operator of None \<Rightarrow> [] | Some uid \<Rightarrow> uid) in
                      case rv_dms env (ro_NodeIDs o1) of
                        Inl e \<Rightarrow> (Inl (RtK8s e), st)
                      | Inr dms \<Rightarrow>
                          if dms = [] then
                            (case rv_repo env of
                               None \<Rightarrow> (Inl (RtHTTP 404 ''no decision maker pods found''), st)
                             | Some repo \<Rightarrow>
                                 if ro_NodeIDs o1 = [] then (Inl (RtHTTP 404 ''no decision maker pods found''), st)
                                 else case persistAll env repo config updatedBy (ro_NodeIDs o1) (rs_store st) of
                                     (rs, w) \<Rightarrow> (Inr rs, st\<lparr>rs_store := w\<rparr>))
                          else
                            (case applyToDMs env config updatedBy dms st of
                               (rs, st1) \<Rightarrow>
                                 (case rv_repo env of
                                    None \<Rightarrow> (Inr rs, st1)
                                  | Some repo \<Rightarrow>
                                      (case persistAll env repo config updatedBy
                                              (filter (\<lambda>n. n \<notin> dmp_NodeID ` set dms) (ro_NodeIDs o1)) (rs_store st1) of
                                         (rs2, w) \<Rightarrow> (Inr (rs @ rs2), st1\<lparr>rs_store := w\<rparr>)))))))"

definition attachDesiredRuntimeConfig :: "NodeRuntimeConfig option \<Rightarrow> RuntimeConfigApplyResult \<Rightarrow> RuntimeConfigApplyResult" where
  "attachDesiredRuntimeConfig desired res =
     (case desired of
        None \<Rightarrow> res
      | Some d \<Rightarrow>
          (let res1 = res\<lparr>ra_DesiredConfig := Some (Normalize (nr_Config d))\<rparr> in
           case ra_Config res of
             None \<Rightarrow> res\<lparr>ra_DesiredConfig := Some (nr_Config d), ra_Drift := True\<rparr>
           | Some applied \<Rightarrow> res1\<lparr>ra_Drift := (Normalize (nr_Config d) \<noteq> Normalize applied)\<rparr>))"

definition statusOfDM ::
  "'w rt_env \<Rightarrow> (string \<rightharpoonup> NodeRuntimeConfig) \<Rightarrow> DecisionMakerPod \<Rightarrow> rt_net \<Rightarrow> RuntimeConfigApplyResult \<times> rt_net" where
  "statusOfDM env desiredByNode dm net =
     (let desired = desiredByNode (dmp_NodeID dm);
          res0 = emptyResult (dmp_NodeID dm) (dmp_Host dm)
      in if dmp_State dm \<noteq> NodeStateOnline then
           (attachDesiredRuntimeConfig desired (res0\<lparr>ra_Error := ''decision maker is offline''\<rparr>), net)
         else
           (case GetRuntimeConfigStatusClient dm net of
              (Inl e, net') \<Rightarrow> (attachDesiredRuntimeConfig desired (res0\<lparr>ra_Error := rv_errText env e\<rparr>), net')
            | (Inr res, net') \<Rightarrow>
                (let res1 = (if ra_NodeID res = [] then res\<lparr>ra_NodeID := dmp_NodeID dm\<rparr> else res);
                     res2 = (if ra_Host res1 = [] then res1\<lparr>ra_Host := dmp_Host dm\<rparr> else res1)
                 in (attachDesiredRuntimeConfig desired res2, net'))))"

fun statusOfDMs ::
  "'w rt_env \<Rightarrow> (string \<rightharpoonup> NodeRuntimeConfig) \<Rightarrow> DecisionMakerPod list \<Rightarrow> rt_net \<Rightarrow> RuntimeConfigApplyResult list \<times> rt_net" where
  "statusOfDMs env desiredByNode [] net = ([], net)"
| "statusOfDMs env desiredByNode (dm # dms) net =
     (case statusOfDM env desiredByNode dm net of
        (r, net1) \<Rightarrow> (case statusOfDMs env desiredByNode dms net1 of (rs, net2) \<Rightarrow> (r # rs, net2)))"

definition GetRuntimeConfigStatus ::
  "'w rt_env \<Rightarrow> string list \<Rightarrow> 'w rt_state \<Rightarrow> (rt_svc_error + RuntimeConfigApplyResult list) \<times> 'w rt_state" where
  "GetRuntimeConfigStatus env nodeIDs st =
     (if \<not> rv_k8s env then (Inl RtNoClient, st)
      else if \<not> rv_dmAdapter env then (Inl (RtHTTP 501 ''decision maker runtime config adapter is not enabled''), st)
      else case rv_dms env nodeIDs of
          Inl e \<Rightarrow> (Inl (RtK8s e), st)
        | Inr dms \<Rightarrow>
            (case (case rv_repo env of None \<Rightarrow> Inr [] | Some repo \<Rightarrow> QueryNodeRuntimeConfigs repo (Some nodeIDs) (rs_store st)) of
               Inl e \<Rightarrow> (Inl (RtRepo e), st)
             | Inr found \<Rightarrow>
                 (let desiredByNode = map_of (rev (map (\<lambda>d. (nr_NodeID d, d)) found)) in
                  case statusOfDMs env desiredByNode dms (rs_net st) of
                    (rs, net) \<Rightarrow>
                      (let missing = filter (\<lambda>n. n \<notin> dmp_NodeID ` set dms) (rv_range env (remdups (map nr_NodeID found))) in
                       (Inr (rs @ map (\<lambda>n. attachDesiredRuntimeConfig (desiredByNode n)
                               ((emptyResult n [])\<lparr>ra_Error := ''decision maker is not discovered''\<rparr>)) missing),
                        st\<lparr>rs_net := net\<rparr>)))))"


section \<open>Reconciliation\<close>

text \<open>The loop of \<open>resyncRuntimeConfigsToDMs\<close>; \<open>dmByNode\<close> keeps the last decision maker of a node.\<close>

fun resyncEach ::
  "'w rt_env \<Rightarrow> 'w rt_coll \<Rightarrow> (string \<rightharpoonup> DecisionMakerPod) \<Rightarrow> NodeRuntimeConfig list \<Rightarrow> 'w rt_state \<Rightarrow> 'w rt_state" where
  "resyncEach env repo dmByNode [] st = st"
| "resyncEach env repo dmByNode (desired # ds) st =
     (case dmByNode (nr_NodeID desired) of
        None \<Rightarrow> resyncEach env repo dmByNode ds st
      | Some dm \<Rightarrow>
          if dmp_State dm \<noteq> NodeStateOnline then resyncEach env repo dmByNode ds st
          else
            (case ApplyRuntimeConfigClient dm (nr_Config desired) (rs_net st) of
               (r, net) \<Rightarrow>
                 (let res = (emptyResult (dmp_NodeID dm) (dmp_Host dm))
                        \<lparr>ra_ConfigVersion := nr_ConfigVersion desired, ra_Success := (r = None),
                         ra_Error := (case r of None \<Rightarrow> [] | Some e \<Rightarrow> rv_errText env e)\<rparr>
                  in resyncEach env repo dmByNode ds
                       (st\<lparr>rs_net := net,
                          rs_store := snd (UpsertNodeRuntimeConfig repo (Some (desired\<lparr>nr_LastApplyResult := res\<rparr>)) (rs_store st))\<rparr>))))"

definition resyncRuntimeConfigsToDMs :: "'w rt_env \<Rightarrow> 'w rt_state \<Rightarrow> rt_svc_error option \<times> 'w rt_state" where
  "resyncRuntimeConfigsToDMs env st =
     (case rv_repo env of
        None \<Rightarrow> (None, st)
      | Some repo \<Rightarrow>
          if \<not> rv_dmAdapter env then (None, st)
          else case QueryNodeRuntimeConfigs repo (Some []) (rs_store st) of
              Inl e \<Rightarrow> (Some (RtRepo e), st)
            | Inr found \<Rightarrow>
                if found = [] then (None, st)
                else case rv_dms env [] of
                    Inl e \<Rightarrow> (Some (RtK8s e), st)
                  | Inr dms \<Rightarrow>
                      (None, resyncEach env repo (map_of (rev (map (\<lambda>dm. (dmp_NodeID dm, dm)) dms))) found st))"

end
