(* ===== verification/Mgr_Runtime_Facts.thy ===== *)
theory Mgr_Runtime_Facts
  imports Mgr_Runtime
begin

text \<open>
  Runtime configuration end to end: what a successful application leaves on the node, when the
  manager reports drift, and that the desired configuration of every addressed node is stored.
\<close>

section \<open>Applying through the decision maker\<close>

text \<open>The assumptions on one node: its files follow the daemon's invariant and its system calls
  for reading succeed.\<close>

definition nodeOk :: "daemon_env \<Rightarrow> daemon \<Rightarrow> Config \<Rightarrow> bool" where
  "nodeOk env d cfg \<longleftrightarrow>
     daemonInv env d cfg \<and> yaml_law (dv_yaml env) \<and> tmp_law (dv_os env) (dv_path env) (dn_files d) \<and> laterThan env d \<and>
     \<not> os_fails (dv_os env) (SysStat (dv_path env)) \<and> \<not> os_fails (dv_os env) (SysOpen (dv_path env))"

definition atVersion :: "daemon \<Rightarrow> string \<Rightarrow> bool" where
  "atVersion d v \<longleftrightarrow> cs_applied (dn_state d) \<and> cs_configVersion (dn_state d) = v"

lemma post_applied:
  assumes ok: "nodeOk env d prev" and n: "normalForm c" "Validate c = None" and v: "rc_ConfigVersion c \<noteq> []"
    and new: "\<not> atVersion d (rc_ConfigVersion c)"
    and post: "postRuntimeConfig env (marshalConfig c) d = (ReplyApplied noop, d')"
  obtains cfg where "daemonInv env d' cfg" "currentOf cfg = nodeEffect c prev" "atVersion d' (rc_ConfigVersion c)"
proof -
  let ?req = "marshalConfig c"
  have o: "daemonInv env d prev" "yaml_law (dv_yaml env)" "tmp_law (dv_os env) (dv_path env) (dn_files d)" "laterThan env d"
    using ok by (simp_all add: nodeOk_def)
  have inv: "daemonInv env d' (if noop then prev else afterFile (merged ?req prev))"
    using post_inv [OF o post] by simp
  have new': "\<not> (cs_applied (dn_state d) \<and> cs_configVersion (dn_state d) = rr_ConfigVersion ?req)" "rr_ConfigVersion ?req \<noteq> []"
    using new v by (simp_all add: atVersion_def marshalConfig_def)
  obtain ch fs' where a: "applyRuntimeConfigToFile (dv_yaml env) (dv_os env) (dv_path env) (dv_bin env) ?req (dn_files d) = ((ch, None), fs')"
    and ch: "noop = (\<not> ch)"
    and d': "d' = d\<lparr>dn_files := fs', dn_state := set_state (dv_now env) (rr_ConfigVersion ?req) True (dn_state d), dn_restart := dn_restart d \<or> ch\<rparr>"
    using post new' by (auto simp: postRuntimeConfig_def split: if_splits prod.splits option.splits)
  have p: "dv_path env \<noteq> []" and fh: "fileHolds (dv_yaml env) (dv_path env) (dn_files d) prev" "survives prev"
    using o(1) by (auto simp: daemonInv_def)
  note ap = apply_ok [OF o(2,3) p apply_loaded [OF fh(1) p a] fh(2) a, of "(dv_os env)\<lparr>os_fails := (\<lambda>_. False)\<rparr>"]
  have "(if noop then prev else afterFile (merged ?req prev)) = afterFile (merged ?req prev)"
  proof (cases ch)
    case False
    then have "merged ?req prev = prev" using ap(2) unchanged_merge by simp
    moreover have "afterFile prev = prev" using fh(2) survives_iff by blast
    ultimately show ?thesis using False ch by simp
  qed (simp add: ch)
  with inv have "daemonInv env d' (afterFile (merged ?req prev))" by simp
  moreover have "atVersion d' (rc_ConfigVersion c)" by (simp add: d' atVersion_def set_state_def marshalConfig_def)
  ultimately show thesis using that current_merged [OF n] by blast
qed

lemma ApplyDM_applied:
  assumes ok: "nodeOk env (rn_daemon node) prev" and n: "normalForm c" "Validate c = None" and v: "rc_ConfigVersion c \<noteq> []"
    and new: "\<not> atVersion (rn_daemon node) (rc_ConfigVersion c)"
    and ap: "ApplyRuntimeConfigDM env reach c node = (None, node')"
  obtains cfg where "daemonInv env (rn_daemon node') cfg" "currentOf cfg = nodeEffect c prev"
    "atVersion (rn_daemon node') (rc_ConfigVersion c)"
proof -
  have N: "Normalize c = c" by (rule Normalize_id [OF n(1)])
  obtain reply d where h: "postRuntimeConfig env (marshalConfig c) (rn_daemon node) = (reply, d)" by (metis surj_pair)
  then have H: "handleRuntimeConfig env ''POST'' (Decoded (marshalConfig c)) (rn_daemon node) = (reply, d)"
    by (simp add: handleRuntimeConfig_def)
  have "\<not> (\<exists>st. reply = ReplyStatus st)"
    using post_cases [OF h] by (metis control_reply.distinct(3) control_reply.distinct(5))
  moreover have "\<not> (\<exists>cd m. reply = ReplyError cd m)" and d: "rn_daemon node' = d"
    using ap v n(2) H by (auto simp: ApplyRuntimeConfigDM_def N split: if_splits control_reply.splits)
  ultimately obtain noop where r: "reply = ReplyApplied noop" by (cases reply) auto
  show thesis by (rule post_applied [OF ok n v new h [unfolded r]]) (rule that, simp_all add: d)
qed


section \<open>When drift is reported\<close>

definition appliesFully :: "RuntimeSchedulerConfig \<Rightarrow> Config \<Rightarrow> bool" where
  "appliesFully c prev \<longleftrightarrow>
     (rc_SliceNsDefault c \<noteq> 0 \<or> sc_SliceNsDefault (cf_Scheduler prev) = 0) \<and>
     (rc_SliceNsMin c \<noteq> 0 \<or> sc_SliceNsMin (cf_Scheduler prev) = 0) \<and>
     (sc_KernelMode (cf_Scheduler prev) \<longrightarrow> rc_KernelMode c) \<and> rc_MaxTimeWatchdog c \<and>
     (cf_EarlyProcessing prev \<longrightarrow> rc_EarlyProcessing c) \<and> (cf_BuiltinIdle prev \<longrightarrow> rc_BuiltinIdle c)"

lemma Normalize_status:
  assumes n: "normalForm c" "Validate c = None"
  shows "Normalize (statusConfig v (nodeEffect c prev)) = (statusConfig v (nodeEffect c prev))\<lparr>rc_SchedulerName := rc_SchedulerName c\<rparr>"
proof -
  let ?x = "statusConfig v (nodeEffect c prev)"
  have m: "rc_Mode ?x = rc_Mode c" "TrimSpace (rc_Mode c) = rc_Mode c" "rc_Mode c \<noteq> []" "TrimSpace (rc_SchedulerName c) = rc_SchedulerName c"
    "rc_SchedulerEnabled ?x = rc_SchedulerEnabled c" "rc_SchedulerName c \<noteq> [] \<Longrightarrow> rc_SchedulerName ?x = rc_SchedulerName c"
    using n(1) by (auto simp: statusConfig_def nodeEffect_def normalForm_def)
  have d: "defaultMode ?x = ?x\<lparr>rc_SchedulerName := TrimSpace (rc_SchedulerName ?x)\<rparr>"
    using m by (simp add: defaultMode_def Let_def)
  note e = valid_enabled [OF n] valid_name [OF n]
  from valid_modes [OF n(2)] consider "rc_Mode c = SchedulerModeNone" | "rc_Mode c = SchedulerModeGthulhu"
    | "rc_Mode c = SchedulerModeSimple" | "rc_Mode c = SchedulerModeSCX" by auto
  then show ?thesis
    by cases (use m e modes_distinct in \<open>auto simp: Normalize_def Let_def d\<close>)
qed

lemma status_matches:
  assumes n: "normalForm c" "Validate c = None"
  shows "Normalize (statusConfig (rc_ConfigVersion c) (nodeEffect c prev)) = c \<longleftrightarrow> appliesFully c prev"
  unfolding Normalize_status [OF n]
  by (cases c) (auto simp: statusConfig_def nodeEffect_def appliesFully_def)

lemma GetStatusDM_exact:
  assumes ok: "nodeOk env (rn_daemon node) cfg"
  obtains st node' where "GetRuntimeConfigStatusDM env True node = (st, node')"
    "rst_Config st = Some (statusConfig (cs_configVersion (dn_state (rn_daemon node))) (currentOf cfg))"
    "rst_ConfigVersion st = cs_configVersion (dn_state (rn_daemon node))" "rst_Applied st = cs_applied (dn_state (rn_daemon node))"
proof -
  have o: "daemonInv env (rn_daemon node) cfg" "\<not> os_fails (dv_os env) (SysStat (dv_path env))" "\<not> os_fails (dv_os env) (SysOpen (dv_path env))"
    using ok by (simp_all add: nodeOk_def)
  obtain s' where "readCurrentConfig (dv_yaml env) (dv_os env) (dn_files (rn_daemon node)) (dn_state (rn_daemon node)) = (Some (currentOf cfg), s')"
    using status_read_exact [OF o] by blast
  then show thesis
    by (intro that [of "fst (GetRuntimeConfigStatusDM env True node)" "snd (GetRuntimeConfigStatusDM env True node)"])
      (simp_all add: GetRuntimeConfigStatusDM_def handleStatus_def detailedSnapshot_def)
qed

text \<open>A reachable decision maker that answers.\<close>

definition reachable :: "rt_net \<Rightarrow> DecisionMakerPod \<Rightarrow> bool" where
  "reachable net dm \<longleftrightarrow>
     rt_tokenOk net (addrOf dm) \<and> rt_delivery net (addrOf dm) = Delivered \<and> rt_reach net (addrOf dm) \<and> dmp_State dm = NodeStateOnline"

lemma drift_exact:
  assumes ok: "nodeOk (rt_daemonEnv net (addrOf dm)) (rn_daemon (rt_at net (addrOf dm))) cfg" and r: "reachable net dm"
    and d: "desiredByNode (dmp_NodeID dm) = Some desired"
  shows "ra_Drift (fst (statusOfDM env desiredByNode dm net)) \<longleftrightarrow>
    Normalize (nr_Config desired) \<noteq>
      Normalize (statusConfig (cs_configVersion (dn_state (rn_daemon (rt_at net (addrOf dm))))) (currentOf cfg))"
proof -
  obtain st node' where s: "GetRuntimeConfigStatusDM (rt_daemonEnv net (addrOf dm)) True (rt_at net (addrOf dm)) = (st, node')"
    "rst_Config st = Some (statusConfig (cs_configVersion (dn_state (rn_daemon (rt_at net (addrOf dm))))) (currentOf cfg))"
    "rst_ConfigVersion st = cs_configVersion (dn_state (rn_daemon (rt_at net (addrOf dm))))"
    by (rule GetStatusDM_exact [OF ok])
  show ?thesis
    using r by (simp add: statusOfDM_def reachable_def Let_def GetRuntimeConfigStatusClient_def GetRuntimeConfigHandler_def s
        clientResult_def attachDesiredRuntimeConfig_def d statusConfig_def)
qed


section \<open>Apply, then ask\<close>

lemma clientApply_ok:
  assumes r: "reachable net dm" and ap: "ApplyRuntimeConfigClient dm c net = (None, net')"
  obtains node' where
    "ApplyRuntimeConfigDM (rt_daemonEnv net (addrOf dm)) True c (rt_at net (addrOf dm)) = (None, node')"
    "net' = net\<lparr>rt_at := (rt_at net)(addrOf dm := node')\<rparr>"
proof -
  obtain e node' where a: "ApplyRuntimeConfigDM (rt_daemonEnv net (addrOf dm)) True c (rt_at net (addrOf dm)) = (e, node')"
    by (metis surj_pair)
  then have "e = None \<and> net' = net\<lparr>rt_at := (rt_at net)(addrOf dm := node')\<rparr>"
    using r ap by (cases e) (auto simp: ApplyRuntimeConfigClient_def reachable_def Let_def ApplyRuntimeConfigHandler_def)
  with a that show thesis by blast
qed

lemma apply_then_status:
  assumes ok: "nodeOk (rt_daemonEnv net (addrOf dm)) (rn_daemon (rt_at net (addrOf dm))) prev"
    and r: "reachable net dm" and n: "normalForm c" "Validate c = None" "rc_ConfigVersion c \<noteq> []"
    and new: "\<not> atVersion (rn_daemon (rt_at net (addrOf dm))) (rc_ConfigVersion c)"
    and ap: "ApplyRuntimeConfigClient dm c net = (None, net')"
    and d: "desiredByNode (dmp_NodeID dm) = Some desired" "nr_Config desired = c"
  shows "ra_Drift (fst (statusOfDM env desiredByNode dm net')) \<longleftrightarrow> \<not> appliesFully c prev"
proof -
  let ?a = "addrOf dm"
  let ?env = "rt_daemonEnv net ?a"
  obtain node' where a: "ApplyRuntimeConfigDM ?env True c (rt_at net ?a) = (None, node')"
    "net' = net\<lparr>rt_at := (rt_at net)(?a := node')\<rparr>"
    by (rule clientApply_ok [OF r ap])
  obtain cfg where cfg: "daemonInv ?env (rn_daemon node') cfg" "currentOf cfg = nodeEffect c prev" "atVersion (rn_daemon node') (rc_ConfigVersion c)"
    by (rule ApplyDM_applied [OF ok n new a(1)])
  obtain s' where s: "readCurrentConfig (dv_yaml ?env) (dv_os ?env) (dn_files (rn_daemon node')) (dn_state (rn_daemon node')) = (Some (currentOf cfg), s')"
    using status_read_exact [OF cfg(1)] ok by (auto simp: nodeOk_def)
  have N: "Normalize c = c" by (rule Normalize_id [OF n(1)])
  have "ra_Drift (fst (statusOfDM env desiredByNode dm net')) \<longleftrightarrow>
    c \<noteq> Normalize (statusConfig (rc_ConfigVersion c) (nodeEffect c prev))"
    using r cfg(3) by (simp add: statusOfDM_def reachable_def Let_def GetRuntimeConfigStatusClient_def GetRuntimeConfigHandler_def
        GetRuntimeConfigStatusDM_def handleStatus_def detailedSnapshot_def s a(2) clientResult_def attachDesiredRuntimeConfig_def
        d N statusConfig_def cfg(2) atVersion_def)
  with status_matches [OF n(1,2), of prev] show ?thesis by metis
qed


section \<open>Desired configurations are stored\<close>

type_synonym 'w rt_view = "'w \<Rightarrow> string \<rightharpoonup> NodeRuntimeConfig"

definition rt_laws :: "'w rt_coll \<Rightarrow> 'w rt_view \<Rightarrow> bool" where
  "rt_laws coll view \<longleftrightarrow>
     (\<forall>c w. view (snd (rp_replaceOne coll (nr_NodeID c) c w)) =
        (case fst (rp_replaceOne coll (nr_NodeID c) c w) of None \<Rightarrow> (view w)(nr_NodeID c \<mapsto> c) | Some e \<Rightarrow> view w)) \<and>
     (\<forall>sel w found. rp_find coll sel w = Inr found \<longrightarrow>
        distinct (map nr_NodeID found) \<and>
        (\<forall>n c. c \<in> set found \<and> nr_NodeID c = n \<longleftrightarrow>
           view w n = Some c \<and> (case sel of None \<Rightarrow> True | Some ns \<Rightarrow> n \<in> set ns)))"

definition storedFor :: "RuntimeSchedulerConfig \<Rightarrow> NodeRuntimeConfig option \<Rightarrow> bool" where
  "storedFor c d \<longleftrightarrow> (case d of None \<Rightarrow> False | Some x \<Rightarrow> nr_Config x = c \<and> nr_ConfigVersion x = rc_ConfigVersion c)"

definition stored :: "'w rt_view \<Rightarrow> RuntimeSchedulerConfig \<Rightarrow> 'w \<Rightarrow> string set" where
  "stored view c w = {n. storedFor c (view w n)}"

lemma upsert_desired:
  assumes "rt_laws coll view" "nr_NodeID x = n" "nr_Config x = c" "nr_ConfigVersion x = rc_ConfigVersion c"
    "UpsertNodeRuntimeConfig coll (Some x) w = (r, w')"
  shows "stored view c w \<subseteq> stored view c w'" "r = None \<Longrightarrow> n \<in> stored view c w'"
    "\<And>m. m \<noteq> n \<Longrightarrow> view w' m = view w m"
proof -
  have r: "rp_replaceOne coll n x w = (r, w')" using assms(2,5) by (simp add: UpsertNodeRuntimeConfig_def)
  have "view (snd (rp_replaceOne coll (nr_NodeID x) x w)) =
      (case fst (rp_replaceOne coll (nr_NodeID x) x w) of None \<Rightarrow> (view w)(nr_NodeID x \<mapsto> x) | Some e \<Rightarrow> view w)"
    using assms(1) unfolding rt_laws_def by blast
  then have "view w' = (case r of None \<Rightarrow> (view w)(n \<mapsto> x) | Some e \<Rightarrow> view w)"
    unfolding r fst_conv snd_conv assms(2) .
  then show "stored view c w \<subseteq> stored view c w'" "r = None \<Longrightarrow> n \<in> stored view c w'"
    "\<And>m. m \<noteq> n \<Longrightarrow> view w' m = view w m"
    using assms(3,4) by (auto simp: stored_def storedFor_def split: option.splits)
qed

text \<open>A result whose error text does not report a failed write.\<close>

definition persisted :: "RuntimeConfigApplyResult \<Rightarrow> bool" where
  "persisted res \<longleftrightarrow> \<not> HasPrefix (ra_Error res) ''persist desired runtime config: ''"


lemma desiredConfig_simps [simp]:
  "nr_NodeID (desiredConfig env u c n res) = n" "nr_Config (desiredConfig env u c n res) = c"
  "nr_ConfigVersion (desiredConfig env u c n res) = rc_ConfigVersion c"
  by (simp_all add: desiredConfig_def)

lemma emptyResult_simps [simp]: "ra_NodeID (emptyResult n h) = n" "ra_Error (emptyResult n h) = []"
  by (simp_all add: emptyResult_def)

lemma persistUnreachable_stored:
  assumes laws: "rt_laws coll view" and p: "persistUnreachableRuntimeConfig env coll n c u msg w = (res, w')"
  shows "stored view c w \<subseteq> stored view c w'" "persisted res \<Longrightarrow> n \<in> stored view c w'" "ra_NodeID res = n"
proof -
  let ?r = "(emptyResult n [])\<lparr>ra_Error := msg, ra_ConfigVersion := rc_ConfigVersion c, ra_DesiredConfig := Some c, ra_Drift := True\<rparr>"
  obtain r w1 where up: "UpsertNodeRuntimeConfig coll (Some (desiredConfig env u c n ?r)) w = (r, w1)" by (metis surj_pair)
  then have w: "w' = w1" and res: "res = (case r of None \<Rightarrow> ?r | Some e \<Rightarrow> ?r\<lparr>ra_Error := ''persist desired runtime config: '' @ e\<rparr>)"
    using p by (auto simp: persistUnreachableRuntimeConfig_def Let_def split: option.splits)
  note f = upsert_desired [OF laws _ _ _ up, simplified, OF refl refl refl]
  show "stored view c w \<subseteq> stored view c w'" using f(1) w by simp
  show "persisted res \<Longrightarrow> n \<in> stored view c w'" using f(2) w by (cases r) (simp_all add: res persisted_def HasPrefix_def)
  show "ra_NodeID res = n" by (simp add: res emptyResult_def split: option.split)
qed

lemma persistAll_stored:
  assumes "rt_laws coll view" "persistAll env coll c u ns w = (rs, w')"
  shows "stored view c w \<subseteq> stored view c w' \<and> map ra_NodeID rs = ns \<and>
    (\<forall>res \<in> set rs. persisted res \<longrightarrow> ra_NodeID res \<in> stored view c w')"
  using assms
proof (induction env coll c u ns w arbitrary: rs w' rule: persistAll.induct)
  case (2 env repo c u n ns w)
  obtain r w1 where r: "persistUnreachableRuntimeConfig env repo n c u ''decision maker is not discovered'' w = (r, w1)" by (metis surj_pair)
  obtain rs1 w2 where rs: "persistAll env repo c u ns w1 = (rs1, w2)" by (metis surj_pair)
  note f = persistUnreachable_stored [OF "2.prems"(1) r]
  note g = "2.IH" [OF r [symmetric] "2.prems"(1) rs]
  have "rs = r # rs1" "w' = w2" using "2.prems"(2) r rs by simp_all
  with f g show ?case by auto
qed simp

lemma upsertOpt_Some: "rv_repo env = Some coll \<Longrightarrow> upsertOpt env x w = UpsertNodeRuntimeConfig coll (Some x) w"
  by (simp add: upsertOpt_def)

lemma applyToDM_stored:
  assumes laws: "rt_laws coll view" and repo: "rv_repo env = Some coll" and ap: "applyToDM env c u dm st = (res, st')"
  shows "stored view c (rs_store st) \<subseteq> stored view c (rs_store st')"
    "persisted res \<Longrightarrow> dmp_NodeID dm \<in> stored view c (rs_store st')" "ra_NodeID res = dmp_NodeID dm"
proof -
  let ?n = "dmp_NodeID dm"
  obtain r w where up: "UpsertNodeRuntimeConfig coll (Some (desiredConfig env u c ?n (emptyResult [] []))) (rs_store st) = (r, w)"
    by (metis surj_pair)
  note f = upsert_desired [OF laws _ _ _ up, simplified, OF refl refl refl]
  have second: "stored view c w \<subseteq> stored view c (snd (UpsertNodeRuntimeConfig coll (Some (desiredConfig env u c ?n x)) w))" for x
  proof -
    obtain r2 w2 where up2: "UpsertNodeRuntimeConfig coll (Some (desiredConfig env u c ?n x)) w = (r2, w2)" by (metis surj_pair)
    from upsert_desired(1) [OF laws _ _ _ this, simplified, OF refl refl refl] show ?thesis by (simp add: up2)
  qed
  note d = applyToDM_def Let_def upsertOpt_Some [OF repo] up
  have "(\<exists>e. r = Some e \<and> res = (emptyResult ?n (dmp_Host dm))\<lparr>ra_Error := ''persist desired runtime config: '' @ e\<rparr> \<and> rs_store st' = w) \<or>
      (r = None \<and> ra_NodeID res = ?n \<and> (\<exists>x. rs_store st' = snd (UpsertNodeRuntimeConfig coll (Some (desiredConfig env u c ?n x)) w)))"
    using ap by (cases r) (auto simp: d split: if_splits prod.splits)
  then show "stored view c (rs_store st) \<subseteq> stored view c (rs_store st')"
    "persisted res \<Longrightarrow> dmp_NodeID dm \<in> stored view c (rs_store st')" "ra_NodeID res = dmp_NodeID dm"
    using f second by (auto simp: persisted_def HasPrefix_def) (meson subsetD)+
qed

lemma applyToDMs_stored:
  assumes "rt_laws coll view" "rv_repo env = Some coll" "applyToDMs env c u dms st = (rs, st')"
  shows "stored view c (rs_store st) \<subseteq> stored view c (rs_store st') \<and> map ra_NodeID rs = map dmp_NodeID dms \<and>
    (\<forall>res \<in> set rs. persisted res \<longrightarrow> ra_NodeID res \<in> stored view c (rs_store st'))"
  using assms
proof (induction env c u dms st arbitrary: rs st' rule: applyToDMs.induct)
  case (2 env c u dm dms st)
  obtain r st1 where r: "applyToDM env c u dm st = (r, st1)" by (metis surj_pair)
  obtain rs1 st2 where rs: "applyToDMs env c u dms st1 = (rs1, st2)" by (metis surj_pair)
  note f = applyToDM_stored [OF "2.prems"(1,2) r]
  note g = "2.IH" [OF r [symmetric] "2.prems"(1,2) rs]
  have "rs = r # rs1" "st' = st2" using "2.prems"(3) r rs by simp_all
  with f g show ?case by auto
qed simp

lemma desired_stored:
  assumes laws: "rt_laws coll view" and repo: "rv_repo env = Some coll"
    and ap: "ApplyRuntimeConfig env operator (Some opt) st = (Inr results, st')"
  shows "set (ro_NodeIDs opt) \<subseteq> ra_NodeID ` set results"
    "\<forall>res \<in> set results. persisted res \<longrightarrow> ra_NodeID res \<in> stored view (Normalize (ro_Config opt)) (rs_store st')"
proof -
  let ?c = "Normalize (ro_Config opt)"
  let ?u = "case operator of None \<Rightarrow> [] | Some uid \<Rightarrow> uid"
  obtain dms where dms: "rv_dms env (ro_NodeIDs opt) = Inr dms"
    using ap by (auto simp: ApplyRuntimeConfig_def Let_def split: if_splits option.splits sum.splits)
  show "set (ro_NodeIDs opt) \<subseteq> ra_NodeID ` set results"
    "\<forall>res \<in> set results. persisted res \<longrightarrow> ra_NodeID res \<in> stored view ?c (rs_store st')"
  proof (atomize (full), cases "dms = []")
    case True
    obtain rs w where p: "persistAll env coll ?c ?u (ro_NodeIDs opt) (rs_store st) = (rs, w)" by (metis surj_pair)
    have "results = rs" "st' = st\<lparr>rs_store := w\<rparr>"
      using ap dms True p by (auto simp: ApplyRuntimeConfig_def Let_def repo split: if_splits option.splits)
    with persistAll_stored [OF laws p] show "set (ro_NodeIDs opt) \<subseteq> ra_NodeID ` set results \<and>
      (\<forall>res \<in> set results. persisted res \<longrightarrow> ra_NodeID res \<in> stored view ?c (rs_store st'))" by (auto simp flip: list.set_map)
  next
    case False
    obtain rs st1 where a: "applyToDMs env ?c ?u dms st = (rs, st1)" by (metis surj_pair)
    let ?rest = "filter (\<lambda>n. n \<notin> dmp_NodeID ` set dms) (ro_NodeIDs opt)"
    obtain rs2 w where p: "persistAll env coll ?c ?u ?rest (rs_store st1) = (rs2, w)" by (metis surj_pair)
    have e: "results = rs @ rs2" "st' = st1\<lparr>rs_store := w\<rparr>"
      using ap dms False a p by (auto simp: ApplyRuntimeConfig_def Let_def repo split: if_splits option.splits)
    note f = applyToDMs_stored [OF laws repo a] persistAll_stored [OF laws p]
    have "ra_NodeID ` set rs = dmp_NodeID ` set dms" "ra_NodeID ` set rs2 = set ?rest"
      using f by (metis list.set_map)+
    with f show "set (ro_NodeIDs opt) \<subseteq> ra_NodeID ` set results \<and>
      (\<forall>res \<in> set results. persisted res \<longrightarrow> ra_NodeID res \<in> stored view ?c (rs_store st'))"
      unfolding e by (auto simp: image_Un)
  qed
qed

end
