(* ===== verification/Daemon_Examples.thy ===== *)
theory Daemon_Examples
  imports Mgr_Runtime_Facts
begin

text \<open>
  A concrete document format for configurations that obeys \<open>yaml_law\<close>, and one node with a
  daemon, a decision maker and a manager on which the hypotheses of the properties are
  discharged.
\<close>

section \<open>A document format\<close>

definition encB :: "bool \<Rightarrow> string" where "encB b = (if b then ''1'' else ''0'')"
definition decB :: "string \<Rightarrow> bool" where "decB s = (s = ''1'')"

definition decS :: "string \<Rightarrow> string" where
  "decS s = (case hex_decode s of Some x \<Rightarrow> x | None \<Rightarrow> [])"

definition decN :: "string \<Rightarrow> nat" where
  "decN s = (case parse_digits 0 s of Some n \<Rightarrow> n | None \<Rightarrow> 0)"

definition decI :: "string \<Rightarrow> int" where
  "decI s = (case s of c # cs \<Rightarrow> if c = CHR ''-'' then - int (decN cs) else int (decN s) | [] \<Rightarrow> 0)"

lemma decB_encB [simp]: "decB (encB b) = b" by (simp add: decB_def encB_def)

lemma decS_hex [simp]: "decS (hex_encode s) = s" by (simp add: decS_def)

lemma decI_Itoa [simp]: "decI (Itoa i) = i"
proof (cases "i < 0")
  case True
  then show ?thesis by (simp add: Itoa_def decI_def decN_def)
next
  case False
  obtain c cs where u: "Utoa (nat i) = c # cs" by (cases "Utoa (nat i)") auto
  then have "c \<noteq> CHR ''-''" using hd_Utoa [OF u] by auto
  moreover have "decN (c # cs) = nat i" using u by (metis decN_def option.simps(5) parse_Utoa)
  ultimately show ?thesis using False by (simp add: Itoa_def decI_def u)
qed

lemma bar_notin_hex [simp]: "CHR ''|'' \<notin> set (hex_encode s)"
proof (induction s)
  case (Cons b bs)
  have "hex_digit n \<noteq> CHR ''|''" if "n < 16" for n
    using unhex_hex_digit [OF that] by (auto simp: unhex_digit_def)
  moreover have "(of_char b :: nat) div 16 < 16" using of_char_less_256 [of b] by (simp add: less_mult_imp_div_less)
  ultimately show ?case using Cons by (simp add: Let_def) (metis mod_less_divisor zero_less_numeral)
qed simp

lemma bar_notin_bool [simp]: "CHR ''|'' \<notin> set (encB b)" by (simp add: encB_def)

definition configFields :: "Config \<Rightarrow> string list" where
  "configFields c =
     [Itoa (uint (sc_SliceNsDefault (cf_Scheduler c))), Itoa (uint (sc_SliceNsMin (cf_Scheduler c))),
      hex_encode (sc_Mode (cf_Scheduler c)), hex_encode (sc_SchedulerName (cf_Scheduler c)),
      encB (sc_KernelMode (cf_Scheduler c)), encB (sc_MaxTimeWatchdog (cf_Scheduler c)),
      encB (cf_EnableFifo c), encB (mc_Enabled (cf_Monitor c)), hex_encode (mc_BPFObjectPath (cf_Monitor c)),
      Itoa (mc_CollectionIntervalSec (cf_Monitor c)), encB (mc_MonitorAll (cf_Monitor c)),
      encB (mc_StreamEvents (cf_Monitor c)), Itoa (mc_PrometheusPort (cf_Monitor c)),
      encB (mc_EnableCRDWatcher (cf_Monitor c)), hex_encode (mc_KubeConfigPath (cf_Monitor c)),
      encB (cf_Debug c), encB (cf_EarlyProcessing c), encB (cf_BuiltinIdle c),
      hex_encode (api_Url (cf_Api c)), Itoa (api_Interval (cf_Api c)), hex_encode (api_PublicKeyPath (cf_Api c)),
      encB (api_Enabled (cf_Api c)), encB (api_AuthEnabled (cf_Api c)),
      encB (tls_Enable (api_MTLS (cf_Api c))), hex_encode (tls_CertPem (api_MTLS (cf_Api c))),
      hex_encode (tls_KeyPem (api_MTLS (cf_Api c))), hex_encode (tls_CAPem (api_MTLS (cf_Api c)))]"

definition fieldsConfig :: "string list \<Rightarrow> Config" where
  "fieldsConfig f =
     \<lparr>cf_Scheduler = \<lparr>sc_SliceNsDefault = word_of_int (decI (f ! 0)), sc_SliceNsMin = word_of_int (decI (f ! 1)),
        sc_Mode = decS (f ! 2), sc_SchedulerName = decS (f ! 3), sc_KernelMode = decB (f ! 4), sc_MaxTimeWatchdog = decB (f ! 5)\<rparr>,
      cf_EnableFifo = decB (f ! 6),
      cf_Monitor = \<lparr>mc_Enabled = decB (f ! 7), mc_BPFObjectPath = decS (f ! 8), mc_CollectionIntervalSec = decI (f ! 9),
        mc_MonitorAll = decB (f ! 10), mc_StreamEvents = decB (f ! 11), mc_PrometheusPort = decI (f ! 12),
        mc_EnableCRDWatcher = decB (f ! 13), mc_KubeConfigPath = decS (f ! 14)\<rparr>,
      cf_Debug = decB (f ! 15), cf_EarlyProcessing = decB (f ! 16), cf_BuiltinIdle = decB (f ! 17),
      cf_Api = \<lparr>api_Url = decS (f ! 18), api_Interval = decI (f ! 19), api_PublicKeyPath = decS (f ! 20),
        api_Enabled = decB (f ! 21), api_AuthEnabled = decB (f ! 22),
        api_MTLS = \<lparr>tls_Enable = decB (f ! 23), tls_CertPem = decS (f ! 24), tls_KeyPem = decS (f ! 25), tls_CAPem = decS (f ! 26)\<rparr>\<rparr>\<rparr>"

lemma fieldsConfig_id: "fieldsConfig (configFields c) = c"
  by (simp add: fieldsConfig_def configFields_def)

definition exYaml :: yaml_lib where
  "exYaml = \<lparr>ym_marshal = (\<lambda>c. Inr (Join (configFields c) ''|'')),
     ym_decode = (\<lambda>t d. Inr (overlay (fieldsConfig (Split t (CHR ''|''))) d))\<rparr>"

lemma exYaml_law: "yaml_law exYaml"
proof -
  have "Split (Join (configFields c) ''|'') (CHR ''|'') = configFields c" for c
    by (rule Split_Join_id) (auto simp: configFields_def)
  then show ?thesis by (simp add: yaml_law_def exYaml_def fieldsConfig_id)
qed


section \<open>A node\<close>

definition exOs :: os_env where
  "exOs = \<lparr>os_fails = (\<lambda>_. False), os_tmp = (\<lambda>d b. ''/tmp/new''), os_partial = [], os_now = 5\<rparr>"

definition exDaemonEnv :: daemon_env where
  "exDaemonEnv = \<lparr>dv_yaml = exYaml, dv_os = exOs, dv_path = ''/run/c'', dv_bin = ''/bin/gthulhu'', dv_now = 5,
     dv_fmtTime = Itoa, dv_errText = (\<lambda>_. ''error'')\<rparr>"

definition exNodeFiles :: os_files where
  "exNodeFiles = [''/run/c'' \<mapsto> \<lparr>of_content = Join (configFields DefaultConfig) ''|'', of_mtime = 1, of_perm = 384, of_isDir = False\<rparr>]"

definition exDaemon :: daemon where
  "exDaemon = \<lparr>dn_state = \<lparr>cs_configVersion = ''bootstrap'', cs_applied = False, cs_appliedAt = None, cs_restartCount = 0,
      cs_lastError = [], cs_runtimeConfigPath = ''/run/c'', cs_cachedConfig = None, cs_cachedConfigMTime = 0\<rparr>,
    dn_files = exNodeFiles, dn_restart = False\<rparr>"

lemma exDaemonEnv_simps [simp]:
  "dv_yaml exDaemonEnv = exYaml" "dv_os exDaemonEnv = exOs" "dv_path exDaemonEnv = ''/run/c''" "dv_bin exDaemonEnv = ''/bin/gthulhu''"
  by (simp_all add: exDaemonEnv_def)

lemma exOs_simps [simp]: "os_fails exOs c = False" "os_tmp exOs d b = ''/tmp/new''" "os_now exOs = 5"
  by (simp_all add: exOs_def)

lemma survives_Default: "survives DefaultConfig" by (simp add: survives_def DefaultConfig_def)

lemma exFile: "fileHolds exYaml ''/run/c'' exNodeFiles DefaultConfig"
proof -
  have "ym_decode exYaml (Join (configFields DefaultConfig) ''|'') DefaultConfig = Inr (overlay DefaultConfig DefaultConfig)"
    using exYaml_law unfolding yaml_law_def by (metis exYaml_def old.sum.inject(2) yaml_lib.select_convs(1))
  moreover have "overlay DefaultConfig DefaultConfig = DefaultConfig" using survives_Default survives_iff overlay_default by metis
  ultimately show ?thesis by (simp add: fileHolds_def LoadConfig_def exNodeFiles_def)
qed

lemma exTmp: "tmp_law exOs ''/run/c'' exNodeFiles" by (simp add: tmp_law_def exNodeFiles_def)

text \<open>The same node with one of the listed sched-ext schedulers beside the daemon.\<close>

definition exScxConfig :: Config where
  "exScxConfig = DefaultConfig\<lparr>cf_Scheduler := (cf_Scheduler DefaultConfig)\<lparr>sc_Mode := ''scx'', sc_SchedulerName := ''scx_lavd''\<rparr>\<rparr>"

definition exScxFiles :: os_files where
  "exScxFiles =
     [''/run/c'' \<mapsto> \<lparr>of_content = Join (configFields exScxConfig) ''|'', of_mtime = 1, of_perm = 384, of_isDir = False\<rparr>,
      ''/bin/scx_lavd'' \<mapsto> \<lparr>of_content = ''ELF'', of_mtime = 1, of_perm = 493, of_isDir = False\<rparr>]"

lemma exScxConfig_load: "LoadConfig exYaml exOs ''/run/c'' exScxFiles = Inr exScxConfig"
proof -
  have "ym_decode exYaml (Join (configFields exScxConfig) ''|'') DefaultConfig = Inr (overlay exScxConfig DefaultConfig)"
    using exYaml_law unfolding yaml_law_def by (metis exYaml_def old.sum.inject(2) yaml_lib.select_convs(1))
  moreover have "overlay exScxConfig DefaultConfig = exScxConfig"
    unfolding overlay_default survives_iff using survives_Default by (simp add: exScxConfig_def survives_def)
  ultimately show ?thesis by (simp add: LoadConfig_def exScxFiles_def)
qed

lemma exScx_binary: "ensureExecutableInDir exOs (Dir ''/bin/gthulhu'') ''scx_lavd'' exScxFiles = Inr ''/bin/scx_lavd''"
  by (simp add: ensureExecutableInDir_def ensureExecutable_def exScxFiles_def Dir_def Clean_def JoinPath_def HasPrefix_def Let_def)

lemma exScx_trim: "TrimSpace ''scx'' = ''scx''" "TrimSpace ''scx_lavd'' = ''scx_lavd''"
  by (simp_all add: TrimSpace_def trim_with.simps space_runes_def)

lemma exScx_valid: "validateScheduler ''scx'' ''scx_lavd'' = None"
proof -
  have "\<not> Contains ''scx_lavd'' ''/''" by (auto simp: Contains_def dest!: set_mono_sublist)
  then show ?thesis by (simp add: validateScheduler_def exScx_trim allowedSCXSchedulers_def Base_def)
qed

lemma exScx_command:
  "schedulerCommandFromConfig exYaml exOs True ''/run/c'' ''/bin/gthulhu'' exScxFiles = Inr (Some (''/bin/scx_lavd'', []))"
  by (simp add: schedulerCommandFromConfig_def exScxConfig_load exScxConfig_def exScx_trim exScx_binary exScx_valid)

lemma exNodeOk: "nodeOk exDaemonEnv exDaemon DefaultConfig"
proof -
  have "daemonInv exDaemonEnv exDaemon DefaultConfig"
    using exFile survives_Default by (simp add: daemonInv_def exDaemon_def exNodeFiles_def)
  then show ?thesis
    using exYaml_law exTmp by (simp add: nodeOk_def exDaemon_def laterThan_def exNodeFiles_def)
qed

lemma exNotAt: "\<not> atVersion exDaemon v"
  by (simp add: atVersion_def exDaemon_def)

lemma exWrite: "\<exists>fs'. writeConfigFile exYaml exOs ''/run/c'' cfg exNodeFiles = (None, fs')"
proof -
  obtain r states where a: "atomicWriteConfigFile exOs ''/run/c'' (Join (configFields cfg) ''|'') exNodeFiles = (r, states)"
    by (metis surj_pair)
  have "r = None" using atomicWrite_cases(4) [OF exTmp a] by simp
  then show ?thesis by (simp add: writeConfigFile_def exYaml_def a)
qed


section \<open>A manager\<close>

definition exNodeDM :: DecisionMakerPod where
  "exNodeDM = \<lparr>dmp_NodeID = ''n1'', dmp_Port = 8080, dmp_Host = ''h1'', dmp_State = NodeStateOnline\<rparr>"

definition exRtNet :: rt_net where
  "exRtNet = \<lparr>rt_daemonEnv = (\<lambda>_. exDaemonEnv), rt_reach = (\<lambda>_. True), rt_tokenOk = (\<lambda>_. True), rt_delivery = (\<lambda>_. Delivered),
     rt_at = (\<lambda>_. \<lparr>rn_config = None, rn_daemon = exDaemon\<rparr>)\<rparr>"

lemma exReachable: "reachable exRtNet exNodeDM"
  by (simp add: reachable_def exRtNet_def exNodeDM_def)

text \<open>A request to switch the watchdog off.\<close>

definition exNoWatchdog :: RuntimeSchedulerConfig where
  "exNoWatchdog = \<lparr>rc_ConfigVersion = ''v1'', rc_Mode = SchedulerModeGthulhu, rc_SchedulerName = [], rc_SliceNsDefault = 0,
     rc_SliceNsMin = 0, rc_KernelMode = False, rc_MaxTimeWatchdog = False, rc_EarlyProcessing = False, rc_BuiltinIdle = False,
     rc_SchedulerEnabled = True, rc_MonitoringEnabled = False\<rparr>"

lemma exNoWatchdog_ok: "normalForm exNoWatchdog" "Validate exNoWatchdog = None" "rc_ConfigVersion exNoWatchdog = ''v1''"
  using modes_distinct by (auto simp: normalForm_def exNoWatchdog_def TrimSpace_modes Validate_def)

lemma exApplyFile: "\<exists>fs'. applyRuntimeConfigToFile exYaml exOs ''/run/c'' ''/bin/gthulhu'' (marshalConfig exNoWatchdog) exNodeFiles = ((True, None), fs')"
proof -
  have l: "LoadConfig exYaml exOs ''/run/c'' exNodeFiles = Inr DefaultConfig" using exFile by (simp add: fileHolds_def)
  let ?cfg = "mergeRequest (marshalConfig exNoWatchdog) DefaultConfig"
  obtain fs' where w: "writeConfigFile exYaml exOs ''/run/c'' (mergeMonitor (marshalConfig exNoWatchdog) ?cfg) exNodeFiles = (None, fs')"
    using exWrite by blast
  have m: "sc_Mode (cf_Scheduler ?cfg) = SchedulerModeGthulhu"
    using modes_distinct by (simp add: mergeRequest_def Let_def marshalConfig_def exNoWatchdog_def)
  have v: "validateScheduler SchedulerModeGthulhu n = None" for n
    using TrimSpace_modes(2) by (simp add: validateScheduler_def Let_def SchedulerModeGthulhu_def)
  have c: "configChanged DefaultConfig (mergeMonitor (marshalConfig exNoWatchdog) ?cfg)"
    by (simp add: configChanged_def mergeMonitor_def marshalConfig_def exNoWatchdog_def DefaultConfig_def)
  show ?thesis
    by (simp add: applyRuntimeConfigToFile_def l Let_def m v c w) (simp add: SchedulerModeGthulhu_def)
qed

lemma exApplies: "\<exists>net'. ApplyRuntimeConfigClient exNodeDM exNoWatchdog exRtNet = (None, net')"
proof -
  obtain fs' where a: "applyRuntimeConfigToFile exYaml exOs ''/run/c'' ''/bin/gthulhu'' (marshalConfig exNoWatchdog) exNodeFiles = ((True, None), fs')"
    using exApplyFile by blast
  have v: "rr_ConfigVersion (marshalConfig exNoWatchdog) = ''v1''" by (simp add: marshalConfig_def exNoWatchdog_def)
  have p: "\<exists>d'. postRuntimeConfig exDaemonEnv (marshalConfig exNoWatchdog) exDaemon = (ReplyApplied False, d')"
    by (simp add: postRuntimeConfig_def v) (simp add: exDaemon_def a)
  have N: "Normalize exNoWatchdog = exNoWatchdog" by (rule Normalize_id [OF exNoWatchdog_ok(1)])
  show ?thesis
    using p exNoWatchdog_ok(2,3)
    by (auto simp: ApplyRuntimeConfigClient_def exRtNet_def Let_def ApplyRuntimeConfigHandler_def ApplyRuntimeConfigDM_def N
        handleRuntimeConfig_def)
qed

definition exColl :: "NodeRuntimeConfig list rt_coll" where
  "exColl = \<lparr>rp_replaceOne = (\<lambda>n c w. (None, c # filter (\<lambda>x. nr_NodeID x \<noteq> n) w)),
     rp_find = (\<lambda>sel w. if distinct (map nr_NodeID w)
       then Inr (filter (\<lambda>c. case sel of None \<Rightarrow> True | Some ns \<Rightarrow> nr_NodeID c \<in> set ns) w) else Inl ''duplicate key'')\<rparr>"

definition exRtView :: "NodeRuntimeConfig list rt_view" where
  "exRtView w n = find (\<lambda>c. nr_NodeID c = n) w"

lemma rtView_filter: "m \<noteq> n \<Longrightarrow> find (\<lambda>c. nr_NodeID c = m) (filter (\<lambda>x. nr_NodeID x \<noteq> n) w) = find (\<lambda>c. nr_NodeID c = m) w"
  by (induction w) auto

lemma rtView_distinct: "distinct (map nr_NodeID w) \<Longrightarrow> find (\<lambda>c. nr_NodeID c = n) w = Some c \<longleftrightarrow> c \<in> set w \<and> nr_NodeID c = n"
  by (induction w) auto

lemma exColl_laws: "rt_laws exColl exRtView"
  unfolding rt_laws_def
proof (intro conjI allI impI)
  show "exRtView (snd (rp_replaceOne exColl (nr_NodeID c) c w)) =
      (case fst (rp_replaceOne exColl (nr_NodeID c) c w) of None \<Rightarrow> (exRtView w)(nr_NodeID c \<mapsto> c) | Some e \<Rightarrow> exRtView w)" for c w
    by (auto simp: exColl_def exRtView_def rtView_filter)
next
  fix sel w found
  assume "rp_find exColl sel w = Inr found"
  then have d: "distinct (map nr_NodeID w)"
    and f: "found = filter (\<lambda>c. case sel of None \<Rightarrow> True | Some ns \<Rightarrow> nr_NodeID c \<in> set ns) w"
    by (auto simp: exColl_def split: if_splits)
  show "distinct (map nr_NodeID found)" using d by (simp add: f distinct_map_filter)
  show "c \<in> set found \<and> nr_NodeID c = n \<longleftrightarrow> exRtView w n = Some c \<and> (case sel of None \<Rightarrow> True | Some ns \<Rightarrow> n \<in> set ns)" for n c
    using rtView_distinct [OF d] by (auto simp: f exRtView_def split: option.splits)
qed

definition exRtEnv :: "NodeRuntimeConfig list rt_env" where
  "exRtEnv = \<lparr>rv_k8s = True, rv_dmAdapter = True, rv_repo = Some exColl, rv_dms = (\<lambda>_. Inr []), rv_now = 7, rv_range = id,
     rv_errText = (\<lambda>_. ''error'')\<rparr>"

end
