(* ===== verification/Classifier.thy ===== *)
theory Classifier
  imports Go_Strings "HOL-Library.Product_Lexorder"
begin

text \<open>
  The adaptive pod classifier (\<open>src/api/manager/rest/classifier_engine.go\<close>): moving averages of
  six scheduling features per pod, a tiered sample buffer, a k-means model shared by all pods,
  the phase machine of a pod, its tags and recommendation, and the bounded table of pods.

  The float64 operations of Go are the fields of an argument, a decimal constant being
  \<open>fl_dec m e\<close> for \<open>m * 10 ^ (- e)\<close>; what is proved holds for every such arithmetic, hence also for
  IEEE 754 doubles.  A Go map keyed by pod is a list of pairs, in the order in which \<open>range\<close>
  happens to visit it.
\<close>

section \<open>float64\<close>

record 'f float64 =
  fl_dec :: "int \<Rightarrow> nat \<Rightarrow> 'f"
  fl_of_nat :: "nat \<Rightarrow> 'f"
  fl_add :: "'f \<Rightarrow> 'f \<Rightarrow> 'f"
  fl_sub :: "'f \<Rightarrow> 'f \<Rightarrow> 'f"
  fl_mul :: "'f \<Rightarrow> 'f \<Rightarrow> 'f"
  fl_div :: "'f \<Rightarrow> 'f \<Rightarrow> 'f"
  fl_sqrt :: "'f \<Rightarrow> 'f"
  fl_abs :: "'f \<Rightarrow> 'f"
  fl_max :: "'f \<Rightarrow> 'f \<Rightarrow> 'f"
  fl_min :: "'f \<Rightarrow> 'f \<Rightarrow> 'f"
  fl_less :: "'f \<Rightarrow> 'f \<Rightarrow> bool"
  fl_leq :: "'f \<Rightarrow> 'f \<Rightarrow> bool"
  fl_MaxFloat64 :: 'f

definition fl_zero :: "'f float64 \<Rightarrow> 'f" where "fl_zero fl = fl_dec fl 0 0"

type_synonym 'f featureVector = "'f list"

definition featureCount :: nat where "featureCount = 6"

abbreviation feats :: "(nat \<Rightarrow> 'f) \<Rightarrow> 'f featureVector" where
  "feats g \<equiv> map g [0..<featureCount]"


section \<open>Features\<close>

record metricsPayload =
  mp_VolCtxSW :: "64 word"
  mp_InvolCtxSW :: "64 word"
  mp_CPUTime :: "64 word"
  mp_WaitTime :: "64 word"
  mp_RunCount :: "64 word"
  mp_SMTMigr :: "64 word"
  mp_L3Migr :: "64 word"
  mp_NUMAMigr :: "64 word"

record classificationInput =
  ci_Timestamp :: int
  ci_Namespace :: string
  ci_Pod :: string
  ci_Node :: string
  ci_Metrics :: metricsPayload

definition computeFeatures :: "'f float64 \<Rightarrow> metricsPayload \<Rightarrow> 'f featureVector" where
  "computeFeatures fl m =
     (let run = fl_max fl (fl_of_nat fl (unat (mp_RunCount m))) (fl_dec fl 1 0);
          cpu = fl_of_nat fl (unat (mp_CPUTime m));
          wait = fl_of_nat fl (unat (mp_WaitTime m));
          crossCache = fl_of_nat fl (unat (mp_L3Migr m + mp_NUMAMigr m))
      in [fl_div fl (fl_of_nat fl (unat (mp_VolCtxSW m))) run,
          fl_div fl (fl_of_nat fl (unat (mp_InvolCtxSW m))) run,
          fl_div fl cpu run,
          fl_div fl wait (fl_max fl (fl_add fl cpu wait) (fl_dec fl 1 0)),
          fl_div fl crossCache run,
          fl_div fl (fl_of_nat fl (unat (mp_NUMAMigr m))) (fl_max fl crossCache (fl_dec fl 1 9))])"


section \<open>Moving averages\<close>

definition ewmaShortAlpha :: "'f float64 \<Rightarrow> 'f" where "ewmaShortAlpha fl = fl_dec fl 3 1"
definition ewmaLongAlpha :: "'f float64 \<Rightarrow> 'f" where "ewmaLongAlpha fl = fl_dec fl 5 2"
definition ewmaEpsilon :: "'f float64 \<Rightarrow> 'f" where "ewmaEpsilon fl = fl_dec fl 1 9"

record 'f ewmaState =
  ew_initialized :: bool
  ew_shortMean :: "'f featureVector"
  ew_shortVar :: "'f featureVector"
  ew_longMean :: "'f featureVector"
  ew_longVar :: "'f featureVector"
  ew_updateCount :: nat

definition ewmaZero :: "'f float64 \<Rightarrow> 'f ewmaState" where
  "ewmaZero fl =
     (let z = feats (\<lambda>_. fl_zero fl) in
      \<lparr>ew_initialized = False, ew_shortMean = z, ew_shortVar = z, ew_longMean = z, ew_longVar = z, ew_updateCount = 0\<rparr>)"

definition ewmaNormalize :: "'f float64 \<Rightarrow> 'f ewmaState \<Rightarrow> 'f featureVector \<Rightarrow> 'f featureVector" where
  "ewmaNormalize fl e x =
     (if \<not> ew_initialized e then x
      else feats (\<lambda>i. fl_div fl (fl_sub fl (x ! i) (ew_longMean e ! i))
                     (fl_sqrt fl (fl_add fl (ew_longVar e ! i) (ewmaEpsilon fl)))))"

text \<open>\<open>mean + alpha * diff\<close> and \<open>(1 - alpha) * (var + alpha * diff * diff)\<close>; the constant
  \<open>1 - alpha\<close> is computed exactly by the compiler.\<close>

definition ewmaMean :: "'f float64 \<Rightarrow> 'f \<Rightarrow> 'f \<Rightarrow> 'f \<Rightarrow> 'f" where
  "ewmaMean fl alpha mean x = fl_add fl mean (fl_mul fl alpha (fl_sub fl x mean))"

definition ewmaVar :: "'f float64 \<Rightarrow> 'f \<Rightarrow> 'f \<Rightarrow> 'f \<Rightarrow> 'f \<Rightarrow> 'f \<Rightarrow> 'f" where
  "ewmaVar fl alpha coalpha mean var x =
     (let d = fl_sub fl x mean in
      fl_mul fl coalpha (fl_add fl var (fl_mul fl (fl_mul fl alpha d) d)))"

definition ewmaUpdate :: "'f float64 \<Rightarrow> 'f ewmaState \<Rightarrow> 'f featureVector \<Rightarrow> 'f ewmaState" where
  "ewmaUpdate fl e x =
     (if \<not> ew_initialized e then
        \<lparr>ew_initialized = True, ew_shortMean = x, ew_shortVar = feats (\<lambda>_. fl_dec fl 1 6),
         ew_longMean = x, ew_longVar = feats (\<lambda>_. fl_dec fl 1 6), ew_updateCount = 1\<rparr>
      else
        \<lparr>ew_initialized = True,
         ew_shortMean = feats (\<lambda>i. ewmaMean fl (ewmaShortAlpha fl) (ew_shortMean e ! i) (x ! i)),
         ew_shortVar = feats (\<lambda>i. ewmaVar fl (ewmaShortAlpha fl) (fl_dec fl 7 1) (ew_shortMean e ! i) (ew_shortVar e ! i) (x ! i)),
         ew_longMean = feats (\<lambda>i. ewmaMean fl (ewmaLongAlpha fl) (ew_longMean e ! i) (x ! i)),
         ew_longVar = feats (\<lambda>i. ewmaVar fl (ewmaLongAlpha fl) (fl_dec fl 95 2) (ew_longMean e ! i) (ew_longVar e ! i) (x ! i)),
         ew_updateCount = ew_updateCount e + 1\<rparr>)"

definition DriftScore :: "'f float64 \<Rightarrow> 'f ewmaState \<Rightarrow> 'f" where
  "DriftScore fl e =
     (if \<not> ew_initialized e then fl_zero fl
      else fl_div fl
        (foldl (\<lambda>total i. fl_add fl total
            (fl_div fl (fl_abs fl (fl_sub fl (ew_shortMean e ! i) (ew_longMean e ! i)))
               (fl_sqrt fl (fl_add fl (ew_longVar e ! i) (ewmaEpsilon fl)))))
          (fl_zero fl) [0..<featureCount])
        (fl_dec fl 6 0))"


section \<open>The tiered buffer\<close>

record 'f tieredSummary =
  ts_Mean :: "'f featureVector"
  ts_Std :: "'f featureVector"
  ts_Timestamp :: int
  ts_Count :: nat

record 'f tieredBuffer =
  tb_raw :: "'f tieredSummary list"
  tb_tier1 :: "'f tieredSummary list"
  tb_tier2 :: "'f tieredSummary list"
  tb_tier3 :: "'f tieredSummary list"
  tb_pending1 :: "'f tieredSummary list"
  tb_pending2 :: "'f tieredSummary list"
  tb_pending3 :: "'f tieredSummary list"

definition emptyBuffer :: "'f tieredBuffer" where
  "emptyBuffer = \<lparr>tb_raw = [], tb_tier1 = [], tb_tier2 = [], tb_tier3 = [], tb_pending1 = [], tb_pending2 = [], tb_pending3 = []\<rparr>"

definition appendBoundedSummary :: "'a list \<Rightarrow> 'a \<Rightarrow> nat \<Rightarrow> 'a list" where
  "appendBoundedSummary items item mx = (if length items \<ge> mx then tl items @ [item] else items @ [item])"

definition summarizeTiered :: "'f float64 \<Rightarrow> 'f tieredSummary list \<Rightarrow> 'f tieredSummary" where
  "summarizeTiered fl items =
     (if items = [] then
        \<lparr>ts_Mean = feats (\<lambda>_. fl_zero fl), ts_Std = feats (\<lambda>_. fl_zero fl), ts_Timestamp = 0, ts_Count = 0\<rparr>
      else
        (let count = sum_list (map ts_Count items);
             totalCount = (if count = 0 then length items else count);
             mean = feats (\<lambda>i. fl_div fl
                      (foldl (\<lambda>s item. fl_add fl s (fl_mul fl (ts_Mean item ! i) (fl_of_nat fl (ts_Count item))))
                         (fl_zero fl) items)
                      (fl_of_nat fl totalCount));
             std = feats (\<lambda>i. fl_sqrt fl (fl_div fl
                      (foldl (\<lambda>s item. (let d = fl_sub fl (ts_Mean item ! i) (mean ! i) in fl_add fl s (fl_mul fl d d)))
                         (fl_zero fl) items)
                      (fl_of_nat fl (length items))))
         in \<lparr>ts_Mean = mean, ts_Std = std,
             ts_Timestamp = foldl (\<lambda>m item. if ts_Timestamp item > m then ts_Timestamp item else m) 0 items,
             ts_Count = totalCount\<rparr>))"

definition bufferPush :: "'f float64 \<Rightarrow> 'f featureVector \<Rightarrow> int \<Rightarrow> 'f tieredBuffer \<Rightarrow> 'f tieredBuffer" where
  "bufferPush fl v ts b =
     (let rawSample = \<lparr>ts_Mean = v, ts_Std = feats (\<lambda>_. fl_zero fl), ts_Timestamp = ts, ts_Count = 1\<rparr>;
          b1 = b\<lparr>tb_raw := appendBoundedSummary (tb_raw b) rawSample 10, tb_pending1 := tb_pending1 b @ [rawSample]\<rparr>;
          b2 = (if length (tb_pending1 b1) \<ge> 2 then
                  (let s1 = summarizeTiered fl (tb_pending1 b1) in
                   b1\<lparr>tb_pending1 := [], tb_tier1 := appendBoundedSummary (tb_tier1 b1) s1 10,
                      tb_pending2 := tb_pending2 b1 @ [s1]\<rparr>)
                else b1);
          b3 = (if length (tb_pending2 b2) \<ge> 5 then
                  (let s2 = summarizeTiered fl (tb_pending2 b2) in
                   b2\<lparr>tb_pending2 := [], tb_tier2 := appendBoundedSummary (tb_tier2 b2) s2 6,
                      tb_pending3 := tb_pending3 b2 @ [s2]\<rparr>)
                else b2)
      in if length (tb_pending3 b3) \<ge> 6 then
           (let s3 = summarizeTiered fl (tb_pending3 b3) in
            b3\<lparr>tb_pending3 := [], tb_tier3 := appendBoundedSummary (tb_tier3 b3) s3 6\<rparr>)
         else b3)"


section \<open>Clustering\<close>

definition maxClusterBufferSamples :: nat where "maxClusterBufferSamples = 1000"

record 'f clusteringModel =
  cm_nClusters :: int
  cm_dataBuffer :: "'f featureVector list"
  cm_clusterCenters :: "'f featureVector list"
  cm_clusterSemantics :: "string list list"
  cm_isFitted :: bool

definition newAdaptiveClusteringModel :: "int \<Rightarrow> 'f clusteringModel" where
  "newAdaptiveClusteringModel n =
     \<lparr>cm_nClusters = n, cm_dataBuffer = [], cm_clusterCenters = [], cm_clusterSemantics = [], cm_isFitted = False\<rparr>"

definition squaredDistance :: "'f float64 \<Rightarrow> 'f featureVector \<Rightarrow> 'f featureVector \<Rightarrow> 'f" where
  "squaredDistance fl a b =
     foldl (\<lambda>total i. (let d = fl_sub fl (a ! i) (b ! i) in fl_add fl total (fl_mul fl d d)))
       (fl_zero fl) [0..<featureCount]"

text \<open>The scan for the closest centre, from \<open>(0, MaxFloat64)\<close>.\<close>

definition nearest :: "'f float64 \<Rightarrow> 'f featureVector list \<Rightarrow> 'f featureVector \<Rightarrow> nat" where
  "nearest fl centers x =
     fst (foldl (\<lambda>(best, bestDist) (ci, c).
         (let d = squaredDistance fl x c in if fl_less fl d bestDist then (ci, d) else (best, bestDist)))
       (0, fl_MaxFloat64 fl) (enumerate 0 centers))"

definition Predict :: "'f float64 \<Rightarrow> 'f clusteringModel \<Rightarrow> 'f featureVector \<Rightarrow> int" where
  "Predict fl m x =
     (if \<not> cm_isFitted m \<or> cm_clusterCenters m = [] then - 1 else int (nearest fl (cm_clusterCenters m) x))"

definition recenter :: "'f float64 \<Rightarrow> 'f featureVector list \<Rightarrow> nat list \<Rightarrow> 'f featureVector list \<Rightarrow> 'f featureVector list" where
  "recenter fl data assign centers =
     map (\<lambda>(ci, c).
         (let members = map snd (filter (\<lambda>(a, x). a = ci) (zip assign data)) in
          if members = [] then c
          else feats (\<lambda>fi. fl_div fl (foldl (\<lambda>s x. fl_add fl s (x ! fi)) (fl_zero fl) members)
                            (fl_of_nat fl (length members)))))
       (enumerate 0 centers)"

fun kmeansLoop :: "'f float64 \<Rightarrow> 'f featureVector list \<Rightarrow> nat \<Rightarrow> nat \<Rightarrow> 'f featureVector list \<Rightarrow> nat list \<Rightarrow> 'f featureVector list" where
  "kmeansLoop fl data 0 t centers assign = centers"
| "kmeansLoop fl data (Suc left) t centers assign =
     (let assign' = map (nearest fl centers) data in
      if assign' = assign \<and> t > 0 then centers
      else kmeansLoop fl data left (t + 1) (recenter fl data assign' centers) assign')"

definition kmeans :: "'f float64 \<Rightarrow> 'f featureVector list \<Rightarrow> int \<Rightarrow> nat \<Rightarrow> 'f featureVector list" where
  "kmeans fl data k iter =
     (if data = [] \<or> k \<le> 0 then []
      else
        (let k' = (if k > int (length data) then length data else nat k) in
         kmeansLoop fl data iter 0 (take k' data) (replicate (length data) 0)))"

text \<open>The first centre with the largest value of a feature.\<close>

definition maxIdx :: "'f float64 \<Rightarrow> 'f featureVector list \<Rightarrow> nat \<Rightarrow> nat" where
  "maxIdx fl centers f =
     fst (foldl (\<lambda>(best, bestV) (i, c). if fl_less fl bestV (c ! f) then (i, c ! f) else (best, bestV))
       (0, hd centers ! f) (enumerate 1 (tl centers)))"

definition inferSemantics :: "'f float64 \<Rightarrow> 'f featureVector list \<Rightarrow> string list list" where
  "inferSemantics fl centers =
     (if centers = [] then []
      else map (\<lambda>i.
          (let tags = (if maxIdx fl centers 2 = i then [''cpu_heavy''] else []) @
                      (if maxIdx fl centers 1 = i then [''needs_higher_priority''] else []) @
                      (if maxIdx fl centers 0 = i then [''interactive''] else []) @
                      (if maxIdx fl centers 4 = i then [''cache_unfriendly''] else []) @
                      (if maxIdx fl centers 5 = i then [''numa_unfriendly''] else []) @
                      (if maxIdx fl centers 3 = i then [''scheduling_latency''] else [])
           in if tags = [] then [''balanced''] else tags))
        [0..<length centers])"

definition PartialFit :: "'f float64 \<Rightarrow> 'f featureVector \<Rightarrow> 'f clusteringModel \<Rightarrow> 'f clusteringModel" where
  "PartialFit fl x m =
     (let m1 = m\<lparr>cm_dataBuffer := (if length (cm_dataBuffer m) \<ge> maxClusterBufferSamples
                                  then tl (cm_dataBuffer m) @ [x] else cm_dataBuffer m @ [x])\<rparr> in
      if \<not> cm_isFitted m1 \<or> cm_clusterCenters m1 = [] then m1
      else
        (let cid = Predict fl m1 x in
         if cid < 0 \<or> cid \<ge> int (length (cm_clusterCenters m1)) then m1
         else
           (let c = cm_clusterCenters m1 ! nat cid in
            m1\<lparr>cm_clusterCenters := (cm_clusterCenters m1)[nat cid :=
                 feats (\<lambda>i. fl_add fl (c ! i) (fl_mul fl (fl_dec fl 5 2) (fl_sub fl (x ! i) (c ! i))))]\<rparr>)))"

definition SnapshotAndRelabel :: "'f float64 \<Rightarrow> 'f clusteringModel \<Rightarrow> 'f clusteringModel" where
  "SnapshotAndRelabel fl m =
     (if length (cm_dataBuffer m) < 2 then m
      else
        (let k = (if cm_nClusters m > int (length (cm_dataBuffer m)) then int (length (cm_dataBuffer m)) else cm_nClusters m) in
         if k \<le> 0 then m
         else
           (let centers = kmeans fl (cm_dataBuffer m) k 10 in
            if centers = [] then m
            else m\<lparr>cm_clusterCenters := centers, cm_clusterSemantics := inferSemantics fl centers, cm_isFitted := True\<rparr>)))"

definition semanticsOf :: "'f clusteringModel \<Rightarrow> int \<Rightarrow> string list" where
  "semanticsOf m cid =
     (if 0 \<le> cid \<and> cid < int (length (cm_clusterSemantics m)) then cm_clusterSemantics m ! nat cid else [])"


section \<open>Tags\<close>

definition appendTag :: "string list \<Rightarrow> string \<Rightarrow> string list" where
  "appendTag tags tag = (if tag \<in> set tags then tags else tags @ [tag])"

definition removeTag :: "string list \<Rightarrow> string \<Rightarrow> string list" where
  "removeTag tags tag = filter (\<lambda>t. t \<noteq> tag) tags"

definition tagIf :: "bool \<Rightarrow> string \<Rightarrow> string list \<Rightarrow> string list" where
  "tagIf b tag tags = (if b then appendTag tags tag else tags)"

text \<open>The absolute thresholds, in the order of the checks.\<close>

definition thresholdTags :: "'f float64 \<Rightarrow> 'f featureVector \<Rightarrow> (bool \<times> string) list" where
  "thresholdTags fl x =
     [(fl_leq fl (fl_dec fl 10000000 0) (x ! 2), ''cpu_heavy''),
      (fl_leq fl (fl_dec fl 5 1) (x ! 0), ''interactive''),
      (fl_leq fl (fl_dec fl 5 1) (x ! 1), ''needs_higher_priority''),
      (fl_leq fl (fl_dec fl 5 1) (x ! 3), ''scheduling_latency''),
      (fl_leq fl (fl_dec fl 5 1) (x ! 4), ''cache_unfriendly''),
      (fl_leq fl (fl_dec fl 5 1) (x ! 5), ''numa_unfriendly'')]"

definition applyProfileTags :: "'f float64 \<Rightarrow> string list \<Rightarrow> 'f featureVector \<Rightarrow> string list" where
  "applyProfileTags fl clusterTags x =
     (let tags = foldl (\<lambda>ts (b, tag). tagIf b tag ts) clusterTags (thresholdTags fl x);
          tags1 = (if tags \<noteq> [] then removeTag tags ''balanced'' else tags)
      in if tags1 = [] then [''balanced''] else tags1)"


section \<open>The state of a pod\<close>

datatype PodPhase = PodPhaseColdStart | PodPhaseWarmingUp | PodPhaseStable | PodPhaseDrifting | PodPhaseTransitioning

fun phaseText :: "PodPhase \<Rightarrow> string" where
  "phaseText PodPhaseColdStart = ''cold_start''"
| "phaseText PodPhaseWarmingUp = ''warming_up''"
| "phaseText PodPhaseStable = ''stable''"
| "phaseText PodPhaseDrifting = ''drifting''"
| "phaseText PodPhaseTransitioning = ''transitioning''"

definition warmupMinSamples :: nat where "warmupMinSamples = 10"
definition stableMinSamples :: nat where "stableMinSamples = 30"
definition driftConfirmThreshold :: nat where "driftConfirmThreshold = 3"
definition driftThreshold :: "'f float64 \<Rightarrow> 'f" where "driftThreshold fl = fl_dec fl 15 1"

record 'f podState =
  ps_namespace :: string
  ps_pod :: string
  ps_node :: string
  ps_ewma :: "'f ewmaState"
  ps_buffer :: "'f tieredBuffer"
  ps_phase :: PodPhase
  ps_currentCluster :: int
  ps_previousCluster :: int
  ps_driftConfirmed :: nat
  ps_lastDriftScore :: 'f
  ps_currentTypes :: "string list"
  ps_previousTypes :: "string list"
  ps_lastTimestamp :: int

definition newPodState :: "'f float64 \<Rightarrow> string \<Rightarrow> string \<Rightarrow> 'f podState" where
  "newPodState fl namespace pod =
     \<lparr>ps_namespace = namespace, ps_pod = pod, ps_node = [], ps_ewma = ewmaZero fl, ps_buffer = emptyBuffer,
      ps_phase = PodPhaseColdStart, ps_currentCluster = - 1, ps_previousCluster = - 1, ps_driftConfirmed = 0,
      ps_lastDriftScore = fl_zero fl, ps_currentTypes = [''collecting''], ps_previousTypes = [], ps_lastTimestamp = 0\<rparr>"

text \<open>The three regimes of \<open>podState.Update\<close>, by the number of samples; \<open>norm\<close> is the sample
  normalised against the averages before it.\<close>

definition updateCold :: "'f float64 \<Rightarrow> 'f podState \<Rightarrow> 'f podState" where
  "updateCold fl p =
     p\<lparr>ps_phase := PodPhaseColdStart, ps_currentTypes := [''collecting''], ps_lastDriftScore := DriftScore fl (ps_ewma p)\<rparr>"

definition updateWarming ::
  "'f float64 \<Rightarrow> 'f featureVector \<Rightarrow> 'f featureVector \<Rightarrow> 'f podState \<times> 'f clusteringModel \<Rightarrow> 'f podState \<times> 'f clusteringModel" where
  "updateWarming fl x norm pm =
     (let (p, m) = pm;
          p1 = p\<lparr>ps_phase := PodPhaseWarmingUp\<rparr>;
          m1 = (if \<not> cm_isFitted m \<and> length (cm_dataBuffer m) \<ge> stableMinSamples then SnapshotAndRelabel fl m else m);
          p2 = (if cm_isFitted m1 then
                  (let cid = Predict fl m1 norm in
                   if cid \<ge> 0 then p1\<lparr>ps_currentCluster := cid, ps_currentTypes := applyProfileTags fl (semanticsOf m1 cid) x\<rparr>
                   else p1)
                else p1\<lparr>ps_currentTypes := applyProfileTags fl [] x\<rparr>)
      in (p2\<lparr>ps_lastDriftScore := DriftScore fl (ps_ewma p2)\<rparr>, m1))"

definition updateStable ::
  "'f float64 \<Rightarrow> 'f featureVector \<Rightarrow> 'f featureVector \<Rightarrow> 'f podState \<times> 'f clusteringModel \<Rightarrow> 'f podState \<times> 'f clusteringModel" where
  "updateStable fl x norm pm =
     (let (p, m) = pm;
          m1 = (if \<not> cm_isFitted m then SnapshotAndRelabel fl m else m);
          drift = DriftScore fl (ps_ewma p);
          p1 = p\<lparr>ps_lastDriftScore := drift\<rparr>
      in if fl_less fl (driftThreshold fl) drift then
           (let p2 = p1\<lparr>ps_driftConfirmed := ps_driftConfirmed p1 + 1\<rparr> in
            if ps_driftConfirmed p2 \<ge> driftConfirmThreshold then
              (let p3 = p2\<lparr>ps_phase := PodPhaseTransitioning, ps_previousCluster := ps_currentCluster p2\<rparr>;
                   p4 = (if ps_previousCluster p3 \<ge> 0
                         then p3\<lparr>ps_previousTypes := semanticsOf m1 (ps_previousCluster p3)\<rparr> else p3);
                   m2 = SnapshotAndRelabel fl m1;
                   newCID = Predict fl m2 norm
               in (p4\<lparr>ps_currentCluster := newCID, ps_currentTypes := applyProfileTags fl (semanticsOf m2 newCID) x,
                      ps_driftConfirmed := 0\<rparr>, m2))
            else (p2\<lparr>ps_phase := PodPhaseDrifting\<rparr>, m1))
         else
           (let p2 = p1\<lparr>ps_driftConfirmed := 0, ps_phase := PodPhaseStable\<rparr>;
                cid = Predict fl m1 norm
            in (if cid \<ge> 0
                then p2\<lparr>ps_currentCluster := cid, ps_currentTypes := applyProfileTags fl (semanticsOf m1 cid) x\<rparr>
                else p2, m1)))"

definition podUpdate ::
  "'f float64 \<Rightarrow> int \<Rightarrow> string \<Rightarrow> 'f featureVector \<Rightarrow> 'f podState \<times> 'f clusteringModel \<Rightarrow> 'f podState \<times> 'f clusteringModel" where
  "podUpdate fl ts node x pm =
     (let (p, m) = pm;
          norm = ewmaNormalize fl (ps_ewma p) x;
          p1 = p\<lparr>ps_node := node, ps_lastTimestamp := ts, ps_ewma := ewmaUpdate fl (ps_ewma p) x,
                 ps_buffer := bufferPush fl x ts (ps_buffer p)\<rparr>;
          m1 = PartialFit fl norm m
      in if ew_updateCount (ps_ewma p1) < warmupMinSamples then (updateCold fl p1, m1)
         else if ew_updateCount (ps_ewma p1) < stableMinSamples then updateWarming fl x norm (p1, m1)
         else updateStable fl x norm (p1, m1))"

definition Confidence :: "'f float64 \<Rightarrow> 'f podState \<Rightarrow> 'f" where
  "Confidence fl p =
     (case ps_phase p of
        PodPhaseColdStart \<Rightarrow> fl_zero fl
      | PodPhaseWarmingUp \<Rightarrow>
          (let v = fl_add fl (fl_dec fl 2 1)
                     (fl_mul fl (fl_div fl (fl_of_nat fl (ew_updateCount (ps_ewma p))) (fl_of_nat fl stableMinSamples)) (fl_dec fl 4 1))
           in if fl_less fl (fl_dec fl 6 1) v then fl_dec fl 6 1 else v)
      | PodPhaseDrifting \<Rightarrow> fl_dec fl 55 2
      | PodPhaseTransitioning \<Rightarrow> fl_dec fl 7 1
      | PodPhaseStable \<Rightarrow>
          (let v = fl_sub fl (fl_dec fl 95 2) (fl_mul fl (fl_min fl (ps_lastDriftScore p) (fl_dec fl 15 1)) (fl_dec fl 1 1))
           in if fl_less fl v (fl_dec fl 75 2) then fl_dec fl 75 2 else v))"

record classifyRecommendation =
  cr_Action :: string
  cr_PriorityClass :: string
  cr_Reason :: string

definition Recommendation :: "'f podState \<Rightarrow> classifyRecommendation" where
  "Recommendation p =
     (let tags = set (ps_currentTypes p) in
      if ''cpu_heavy'' \<in> tags then
        \<lparr>cr_Action = ''increase_cpu_limit'', cr_PriorityClass = ''default'',
         cr_Reason = ''CPU per run exceeds heavy threshold; consider increasing CPU limit.''\<rparr>
      else if ''needs_higher_priority'' \<in> tags then
        \<lparr>cr_Action = ''raise_priority'', cr_PriorityClass = ''high-priority'',
         cr_Reason = ''Involuntary context switch ratio remains high and indicates CPU contention.''\<rparr>
      else if ''numa_unfriendly'' \<in> tags \<or> ''cache_unfriendly'' \<in> tags then
        \<lparr>cr_Action = ''enable_cpu_pinning'', cr_PriorityClass = ''default'',
         cr_Reason = ''Cross-core/NUMA migration pattern suggests topology-unaware placement.''\<rparr>
      else
        \<lparr>cr_Action = ''keep_current'', cr_PriorityClass = ''default'',
         cr_Reason = ''Current profile is stable and does not require immediate tuning.''\<rparr>)"

record 'f classifyResponseItem =
  ri_Pod :: string
  ri_Namespace :: string
  ri_Node :: string
  ri_Phase :: PodPhase
  ri_CurrentType :: "string list"
  ri_PreviousType :: "string list"
  ri_Confidence :: 'f
  ri_DriftScore :: 'f
  ri_DriftConfirmedPeriods :: nat
  ri_ShortTerm :: "(string \<times> 'f) list"
  ri_LongTermBaseline :: "(string \<times> 'f) list"
  ri_Recommendation :: classifyRecommendation
  ri_UpdatedAt :: int

definition profileNames :: "string list" where
  "profileNames = [''vol_ctx_ratio'', ''invol_ctx_ratio'', ''cpu_per_run'', ''wait_ratio'', ''cache_migr_per_run'', ''numa_migr_ratio'']"

definition buildClassifyItem :: "'f float64 \<Rightarrow> 'f podState \<Rightarrow> 'f classifyResponseItem" where
  "buildClassifyItem fl st =
     \<lparr>ri_Pod = ps_pod st, ri_Namespace = ps_namespace st, ri_Node = ps_node st, ri_Phase = ps_phase st,
      ri_CurrentType = ps_currentTypes st, ri_PreviousType = ps_previousTypes st, ri_Confidence = Confidence fl st,
      ri_DriftScore = ps_lastDriftScore st, ri_DriftConfirmedPeriods = ps_driftConfirmed st,
      ri_ShortTerm = map (\<lambda>i. (profileNames ! i, ew_shortMean (ps_ewma st) ! i)) [0..<featureCount],
      ri_LongTermBaseline = map (\<lambda>i. (profileNames ! i, ew_longMean (ps_ewma st) ! i)) [0..<featureCount],
      ri_Recommendation = Recommendation st, ri_UpdatedAt = ps_lastTimestamp st\<rparr>"


section \<open>The table of pods\<close>

record 'f classifier =
  ac_pods :: "(string \<times> 'f podState) list"
  ac_model :: "'f clusteringModel"
  ac_podTTL :: int
  ac_maxPods :: int

definition classifierPodTTLSeconds :: int where "classifierPodTTLSeconds = 30 * 60"
definition classifierMaxPods :: int where "classifierMaxPods = 20000"

definition NewAdaptiveClassifier :: "int \<Rightarrow> 'f classifier" where
  "NewAdaptiveClassifier nClusters =
     \<lparr>ac_pods = [], ac_model = newAdaptiveClusteringModel (if nClusters \<le> 0 then 5 else nClusters),
      ac_podTTL = classifierPodTTLSeconds, ac_maxPods = classifierMaxPods\<rparr>"

text \<open>Expired entries go first; if too many remain, the oldest go.  The sort is not stable, which
  an arbitrary order of the list covers.\<close>

definition dropExpired :: "int \<Rightarrow> int \<Rightarrow> (string \<times> 'f podState) list \<Rightarrow> (string \<times> 'f podState) list" where
  "dropExpired ttl nowUnix pods =
     (if ttl > 0 then
        filter (\<lambda>(key, st). ps_lastTimestamp st \<le> 0 \<or> \<not> ps_lastTimestamp st < nowUnix - ttl) pods
      else pods)"

definition dropOldest :: "int \<Rightarrow> (string \<times> 'f podState) list \<Rightarrow> (string \<times> 'f podState) list" where
  "dropOldest maxPods pods =
     (if maxPods \<le> 0 \<or> int (length pods) \<le> maxPods then pods
      else
        (let entries = sort_key (\<lambda>(key, st). ps_lastTimestamp st) pods;
             toDelete = length entries - nat maxPods;
             gone = map fst (take toDelete entries)
         in filter (\<lambda>(key, st). key \<notin> set gone) pods))"

definition cleanupLocked :: "int \<Rightarrow> 'f classifier \<Rightarrow> 'f classifier" where
  "cleanupLocked nowUnix c =
     c\<lparr>ac_pods := dropOldest (ac_maxPods c) (dropExpired (ac_podTTL c) nowUnix (ac_pods c))\<rparr>"

definition podKey :: "string \<Rightarrow> string \<Rightarrow> string" where
  "podKey namespace pod = namespace @ ''/'' @ pod"

definition putPod :: "string \<Rightarrow> 'f podState \<Rightarrow> (string \<times> 'f podState) list \<Rightarrow> (string \<times> 'f podState) list" where
  "putPod key st pods =
     (if key \<in> fst ` set pods then map (\<lambda>(k, s). (k, if k = key then st else s)) pods else pods @ [(key, st)])"

definition Ingest :: "'f float64 \<Rightarrow> int \<Rightarrow> classificationInput \<Rightarrow> 'f classifier \<Rightarrow> 'f classifyResponseItem \<times> 'f classifier" where
  "Ingest fl nowUnix inp c =
     (let ts = (if ci_Timestamp inp \<le> 0 then nowUnix else ci_Timestamp inp);
          c1 = cleanupLocked nowUnix c;
          key = podKey (ci_Namespace inp) (ci_Pod inp);
          st = (case map_of (ac_pods c1) key of
                  Some s \<Rightarrow> s
                | None \<Rightarrow> newPodState fl (ci_Namespace inp) (ci_Pod inp));
          fv = computeFeatures fl (ci_Metrics inp);
          (st1, m1) = podUpdate fl ts (ci_Node inp) fv (st, ac_model c1)
      in (buildClassifyItem fl st1, c1\<lparr>ac_pods := putPod key st1 (ac_pods c1), ac_model := m1\<rparr>))"

definition Get :: "'f float64 \<Rightarrow> string \<Rightarrow> string \<Rightarrow> 'f classifier \<Rightarrow> 'f classifyResponseItem option" where
  "Get fl namespace pod c =
     map_option (buildClassifyItem fl) (map_of (ac_pods c) (podKey (TrimSpace namespace) (TrimSpace pod)))"

text \<open>\<open>strings.ToLower\<close> as far as a comparison with an ASCII tag can see: ASCII letters and the two
  other runes whose lower case is ASCII, U+0130 and U+212A.\<close>

definition lowerChar :: "char \<Rightarrow> char" where
  "lowerChar ch = (let n = of_char ch :: nat in if 65 \<le> n \<and> n \<le> 90 then char_of (n + 32) else ch)"

function ToLower :: "string \<Rightarrow> string" where
  "ToLower s =
     (case s of
        [] \<Rightarrow> []
      | ch # cs \<Rightarrow>
          (if prefix [CHR 0xE2, CHR 0x84, CHR 0xAA] s then CHR ''k'' # ToLower (drop 3 s)
           else if prefix [CHR 0xC4, CHR 0xB0] s then CHR ''i'' # ToLower (drop 2 s)
           else lowerChar ch # ToLower cs))"
  by pat_completeness auto
termination
  by (relation "measure length") auto

declare ToLower.simps [simp del]

definition containsTag :: "string list \<Rightarrow> string \<Rightarrow> bool" where
  "containsTag tags target =
     (let t = TrimSpace (ToLower target) in list_ex (\<lambda>x. ToLower x = t) tags)"

definition ListClassified ::
  "'f float64 \<Rightarrow> string \<Rightarrow> string \<Rightarrow> string \<Rightarrow> 'f classifier \<Rightarrow> 'f classifyResponseItem list" where
  "ListClassified fl namespace phase t c =
     sort_key (\<lambda>i. (ri_Namespace i, ri_Pod i))
       (map (\<lambda>(key, st). buildClassifyItem fl st)
         (filter (\<lambda>(key, st). (namespace = [] \<or> ps_namespace st = namespace) \<and>
                     (phase = [] \<or> phaseText (ps_phase st) = phase) \<and>
                     (t = [] \<or> containsTag (ps_currentTypes st) t)) (ac_pods c)))"


section \<open>Facts: the tiered buffer\<close>

text \<open>The complete groups of \<open>n\<close> consecutive elements, the incomplete rest, and the last \<open>k\<close>
  elements of a sequence.\<close>

definition groups :: "nat \<Rightarrow> 'a list \<Rightarrow> 'a list list" where
  "groups n xs = map (\<lambda>i. take n (drop (n * i) xs)) [0..<length xs div n]"

definition rest :: "nat \<Rightarrow> 'a list \<Rightarrow> 'a list" where
  "rest n xs = drop (n * (length xs div n)) xs"

definition lastN :: "nat \<Rightarrow> 'a list \<Rightarrow> 'a list" where
  "lastN k xs = drop (length xs - k) xs"

lemma length_rest: "length (rest n xs) = length xs mod n"
  by (simp add: rest_def minus_mult_div_eq_mod)

lemma rest_snoc:
  assumes "0 < n"
  shows "rest n (xs @ [x]) = (if length (rest n xs) + 1 = n then [] else rest n xs @ [x])"
proof (cases "length xs mod n + 1 = n")
  case True
  then have "Suc (length xs) div n = Suc (length xs div n)" "n * Suc (length xs div n) = Suc (length xs)"
    using assms by (simp_all add: div_Suc mod_Suc) (metis Suc_eq_plus1 add.commute add_Suc_right mult_div_mod_eq)
  then show ?thesis using True by (simp add: rest_def minus_mult_div_eq_mod)
next
  case False
  then have "Suc (length xs) div n = length xs div n"
    using assms by (simp add: div_Suc mod_Suc)
  moreover have "n * (length xs div n) \<le> length xs" by simp
  ultimately show ?thesis using False by (simp add: rest_def minus_mult_div_eq_mod)
qed

lemma groups_snoc:
  assumes "0 < n"
  shows "groups n (xs @ [x]) = (if length (rest n xs) + 1 = n then groups n xs @ [rest n xs @ [x]] else groups n xs)"
proof -
  have old: "map (\<lambda>i. take n (drop (n * i) (xs @ [x]))) [0..<length xs div n] = groups n xs"
  proof -
    have "take n (drop (n * i) (xs @ [x])) = take n (drop (n * i) xs)" if "i < length xs div n" for i
    proof -
      have "n * i + n \<le> n * (length xs div n)" using that by (metis Suc_leI mult_Suc_right add.commute mult_le_mono2)
      also have "\<dots> \<le> length xs" by simp
      finally show ?thesis by simp
    qed
    then show ?thesis by (simp add: groups_def)
  qed
  show ?thesis
  proof (cases "length xs mod n + 1 = n")
    case True
    then have d: "Suc (length xs) div n = Suc (length xs div n)"
      using assms by (simp add: div_Suc mod_Suc)
    have "length (drop (n * (length xs div n)) (xs @ [x])) = n"
      using True by (simp add: Suc_diff_le minus_mult_div_eq_mod)
    then have "take n (drop (n * (length xs div n)) (xs @ [x])) = rest n xs @ [x]"
      by (simp add: rest_def)
    then show ?thesis using True d old by (simp add: groups_def length_rest)
  next
    case False
    then have "Suc (length xs) div n = length xs div n"
      using assms by (simp add: div_Suc mod_Suc)
    then show ?thesis using False old by (simp add: groups_def length_rest)
  qed
qed

lemma lastN_snoc: "0 < k \<Longrightarrow> appendBoundedSummary (lastN k xs) x k = lastN k (xs @ [x])"
  by (cases "length xs \<ge> k") (auto simp: appendBoundedSummary_def lastN_def drop_Suc tl_drop Suc_diff_le)

lemma length_lastN: "length (lastN k xs) \<le> k"
  by (simp add: lastN_def)

definition rawSample :: "'f float64 \<Rightarrow> 'f featureVector \<times> int \<Rightarrow> 'f tieredSummary" where
  "rawSample fl s = \<lparr>ts_Mean = fst s, ts_Std = feats (\<lambda>_. fl_zero fl), ts_Timestamp = snd s, ts_Count = 1\<rparr>"

definition bufferOf ::
  "'f tieredSummary list \<Rightarrow> 'f tieredSummary list \<Rightarrow> 'f tieredSummary list \<Rightarrow> 'f tieredSummary list \<Rightarrow> 'f tieredBuffer" where
  "bufferOf rs t1 t2 t3 =
     \<lparr>tb_raw = lastN 10 rs, tb_tier1 = lastN 10 t1, tb_tier2 = lastN 6 t2, tb_tier3 = lastN 6 t3,
      tb_pending1 = rest 2 rs, tb_pending2 = rest 5 t1, tb_pending3 = rest 6 t2\<rparr>"

definition tieredSpec :: "'f float64 \<Rightarrow> 'f tieredSummary list \<Rightarrow> 'f tieredBuffer" where
  "tieredSpec fl rs =
     (let t1 = map (summarizeTiered fl) (groups 2 rs);
          t2 = map (summarizeTiered fl) (groups 5 t1);
          t3 = map (summarizeTiered fl) (groups 6 t2)
      in bufferOf rs t1 t2 t3)"

lemma bufferPush_bufferOf:
  fixes fl :: "'f float64"
  defines "s \<equiv> summarizeTiered fl"
  shows "bufferPush fl v ts (bufferOf rs t1 t2 t3) =
    (let r = rawSample fl (v, ts); s1 = s (rest 2 rs @ [r]); s2 = s (rest 5 t1 @ [s1]); s3 = s (rest 6 t2 @ [s2]) in
     if length (rest 2 rs) + 1 \<noteq> 2 then bufferOf (rs @ [r]) t1 t2 t3
     else if length (rest 5 t1) + 1 \<noteq> 5 then bufferOf (rs @ [r]) (t1 @ [s1]) t2 t3
     else if length (rest 6 t2) + 1 \<noteq> 6 then bufferOf (rs @ [r]) (t1 @ [s1]) (t2 @ [s2]) t3
     else bufferOf (rs @ [r]) (t1 @ [s1]) (t2 @ [s2]) (t3 @ [s3]))"
proof -
  have lens: "length (rest 2 rs) < 2" "length (rest 5 t1) < 5" "length (rest 6 t2) < 6" by (simp_all add: length_rest)
  have r: "\<lparr>ts_Mean = v, ts_Std = feats (\<lambda>_. fl_zero fl), ts_Timestamp = ts, ts_Count = 1\<rparr> = rawSample fl (v, ts)"
    by (simp add: rawSample_def)
  consider "length (rest 2 rs) = 0" | "length (rest 2 rs) = 1" "length (rest 5 t1) < 4"
    | "length (rest 2 rs) = 1" "length (rest 5 t1) = 4" "length (rest 6 t2) < 5"
    | "length (rest 2 rs) = 1" "length (rest 5 t1) = 4" "length (rest 6 t2) = 5"
    using lens by linarith
  then show ?thesis
  proof cases
    case 1
    then show ?thesis using lens unfolding bufferPush_def Let_def r
      by (simp add: bufferOf_def lastN_snoc rest_snoc)
  next
    case 2
    then show ?thesis using lens unfolding bufferPush_def Let_def r
      by (simp add: bufferOf_def lastN_snoc rest_snoc s_def)
  next
    case 3
    then show ?thesis using lens unfolding bufferPush_def Let_def r
      by (simp add: bufferOf_def lastN_snoc rest_snoc s_def)
  next
    case 4
    then show ?thesis using lens unfolding bufferPush_def Let_def r
      by (simp add: bufferOf_def lastN_snoc rest_snoc s_def)
  qed
qed

lemma bufferPush_spec: "bufferPush fl v ts (tieredSpec fl rs) = tieredSpec fl (rs @ [rawSample fl (v, ts)])"
  by (simp add: tieredSpec_def Let_def bufferPush_bufferOf groups_snoc)

lemma emptyBuffer_spec: "emptyBuffer = tieredSpec fl []"
  by (simp add: emptyBuffer_def tieredSpec_def bufferOf_def Let_def groups_def rest_def lastN_def)

lemma buffer_run: "foldl (\<lambda>b (v, ts). bufferPush fl v ts b) (tieredSpec fl rs) vs = tieredSpec fl (rs @ map (rawSample fl) vs)"
  by (induction vs arbitrary: rs) (auto simp: bufferPush_spec)


section \<open>Facts: the phase machine\<close>

text \<open>A pod is fed samples while other pods change the shared model in between, so every sample
  comes with the model it meets.\<close>

type_synonym 'f feed = "int \<times> string \<times> 'f featureVector \<times> 'f clusteringModel"

definition feedPod :: "'f float64 \<Rightarrow> 'f podState \<Rightarrow> 'f feed list \<Rightarrow> 'f podState" where
  "feedPod fl p fs = foldl (\<lambda>p (ts, node, x, m). fst (podUpdate fl ts node x (p, m))) p fs"

definition sampleOf :: "'f feed \<Rightarrow> 'f featureVector" where
  "sampleOf f = fst (snd (snd f))"

definition ewmaOf :: "'f float64 \<Rightarrow> 'f featureVector list \<Rightarrow> 'f ewmaState" where
  "ewmaOf fl xs = foldl (ewmaUpdate fl) (ewmaZero fl) xs"

text \<open>Whether sample number \<open>i\<close> drifts, and for how many samples in a row the latest ones do,
  counting from the first sample that is looked at.\<close>

definition drifts :: "'f float64 \<Rightarrow> 'f featureVector list \<Rightarrow> nat \<Rightarrow> bool" where
  "drifts fl xs i \<longleftrightarrow> fl_less fl (driftThreshold fl) (DriftScore fl (ewmaOf fl (take i xs)))"

definition driftRun :: "'f float64 \<Rightarrow> 'f featureVector list \<Rightarrow> nat" where
  "driftRun fl xs = length (takeWhile (drifts fl xs) (rev [stableMinSamples..<Suc (length xs)]))"

definition phaseSpec :: "nat \<Rightarrow> nat \<Rightarrow> PodPhase" where
  "phaseSpec n r =
     (if n < 10 then PodPhaseColdStart else if n < 30 then PodPhaseWarmingUp
      else if r = 0 then PodPhaseStable else if r mod 3 = 0 then PodPhaseTransitioning else PodPhaseDrifting)"

lemma ewmaUpdate_count: "ew_updateCount (ewmaUpdate fl e x) = (if ew_initialized e then ew_updateCount e + 1 else 1)"
  "ew_initialized (ewmaUpdate fl e x)"
  by (simp_all add: ewmaUpdate_def)

lemma ewmaOf_count: "ew_updateCount (ewmaOf fl xs) = length xs \<and> ew_initialized (ewmaOf fl xs) = (xs \<noteq> [])"
proof (induction xs rule: rev_induct)
  case Nil
  then show ?case by (simp add: ewmaOf_def ewmaZero_def Let_def)
next
  case (snoc x xs)
  then show ?case by (cases "xs = []") (auto simp: ewmaOf_def ewmaUpdate_count)
qed

lemma podUpdate_ewma: "ps_ewma (fst (podUpdate fl ts node x (p, m))) = ewmaUpdate fl (ps_ewma p) x"
  by (simp add: podUpdate_def updateCold_def updateWarming_def updateStable_def Let_def split: if_split)

lemma podUpdate_phase:
  fixes p :: "'f podState"
  defines "e \<equiv> \<lambda>fl x. ewmaUpdate fl (ps_ewma p) x"
  assumes "(p', m') = podUpdate fl ts node x (p, m)"
  shows "ps_phase p' =
      (if ew_updateCount (e fl x) < 10 then PodPhaseColdStart else if ew_updateCount (e fl x) < 30 then PodPhaseWarmingUp
       else if \<not> fl_less fl (driftThreshold fl) (DriftScore fl (e fl x)) then PodPhaseStable
       else if ps_driftConfirmed p + 1 \<ge> 3 then PodPhaseTransitioning else PodPhaseDrifting)"
    and "ps_driftConfirmed p' =
      (if ew_updateCount (e fl x) < 30 then ps_driftConfirmed p
       else if \<not> fl_less fl (driftThreshold fl) (DriftScore fl (e fl x)) \<or> ps_driftConfirmed p + 1 \<ge> 3 then 0
       else ps_driftConfirmed p + 1)"
  using assms(2)
  by (auto simp: e_def podUpdate_def updateCold_def updateWarming_def updateStable_def Let_def
      warmupMinSamples_def stableMinSamples_def driftConfirmThreshold_def split: if_splits)

lemma drifts_take: "i \<le> length xs \<Longrightarrow> drifts fl (xs @ [x]) i = drifts fl xs i"
  by (simp add: drifts_def)

lemma driftRun_snoc:
  "driftRun fl (xs @ [x]) =
     (if length xs + 1 < stableMinSamples then 0
      else if drifts fl (xs @ [x]) (length xs + 1) then Suc (driftRun fl xs) else 0)"
proof (cases "length xs + 1 < stableMinSamples")
  case True
  then show ?thesis by (simp add: driftRun_def)
next
  case False
  have "takeWhile (drifts fl (xs @ [x])) (rev [stableMinSamples..<Suc (length xs)]) =
      takeWhile (drifts fl xs) (rev [stableMinSamples..<Suc (length xs)])"
    by (rule takeWhile_cong) (auto simp: drifts_take)
  then show ?thesis using False by (simp add: driftRun_def)
qed

lemma feedPod_machine:
  assumes p0: "p0 = newPodState fl ns pod"
  shows "ps_ewma (feedPod fl p0 fs) = ewmaOf fl (map sampleOf fs) \<and>
    ps_phase (feedPod fl p0 fs) = phaseSpec (length fs) (driftRun fl (map sampleOf fs)) \<and>
    ps_driftConfirmed (feedPod fl p0 fs) = driftRun fl (map sampleOf fs) mod 3"
proof (induction fs rule: rev_induct)
  case Nil
  then show ?case
    by (simp add: feedPod_def p0 newPodState_def ewmaOf_def phaseSpec_def driftRun_def stableMinSamples_def)
next
  case (snoc f fs)
  let ?xs = "map sampleOf fs"
  obtain ts node x m where f: "f = (ts, node, x, m)" by (cases f) auto
  let ?p = "feedPod fl p0 fs"
  obtain p' m' where p': "podUpdate fl ts node x (?p, m) = (p', m')" by fastforce
  have e: "ps_ewma p' = ewmaOf fl (?xs @ [x])"
    using podUpdate_ewma [of fl ts node x ?p m] snoc by (simp add: p' ewmaOf_def)
  have n: "ew_updateCount (ewmaUpdate fl (ps_ewma ?p) x) = length fs + 1"
    using ewmaOf_count [of fl "?xs @ [x]"] snoc by (simp add: ewmaOf_def)
  have d: "drifts fl (?xs @ [x]) (length fs + 1) \<longleftrightarrow>
      fl_less fl (driftThreshold fl) (DriftScore fl (ewmaUpdate fl (ps_ewma ?p) x))"
    using snoc by (simp add: drifts_def ewmaOf_def)
  note ph = podUpdate_phase [OF p' [symmetric]]
  have run: "driftRun fl (?xs @ [x]) = (if length fs + 1 < 30 then 0
      else if drifts fl (?xs @ [x]) (length fs + 1) then Suc (driftRun fl ?xs) else 0)"
    using driftRun_snoc [of fl ?xs x] by (simp add: stableMinSamples_def)
  have r0: "length fs < 30 \<Longrightarrow> driftRun fl ?xs = 0" by (simp add: driftRun_def stableMinSamples_def)
  have "ps_driftConfirmed p' = driftRun fl (?xs @ [x]) mod 3"
    using ph(2) n d run snoc r0 by (auto simp: mod_Suc)
  moreover have "ps_phase p' = phaseSpec (length fs + 1) (driftRun fl (?xs @ [x]))"
    using ph(1) n d run snoc by (auto simp: phaseSpec_def mod_Suc)
  moreover have "feedPod fl p0 (fs @ [f]) = p'" "map sampleOf (fs @ [f]) = ?xs @ [x]"
    using p' by (simp_all add: f feedPod_def) (simp add: sampleOf_def)
  ultimately show ?case using e by simp
qed


section \<open>Facts: the model\<close>

lemma scan_bound:
  fixes g :: "nat \<times> 'f \<Rightarrow> nat \<times> 'a \<Rightarrow> nat \<times> 'f"
  assumes "\<And>b p. fst (g b p) = fst b \<or> fst (g b p) = fst p"
    and "fst b < k + length xs \<or> xs = []" "fst b < n" "\<And>i. i < length xs \<Longrightarrow> k + i < n"
  shows "fst (foldl g b (enumerate k xs)) < n"
  using assms(2-)
proof (induction xs arbitrary: b k)
  case (Cons x xs)
  have "fst (g b (k, x)) < n" using assms(1) [of b "(k, x)"] Cons.prems(2,3) by fastforce
  moreover have "Suc k + i < n" if "i < length xs" for i using Cons.prems(3) [of "Suc i"] that by simp
  moreover have "fst (g b (k, x)) < Suc k + length xs \<or> xs = []"
    using assms(1) [of b "(k, x)"] Cons.prems(1) by auto
  ultimately show ?case using Cons.IH [of "g b (k, x)" "Suc k"] by simp
qed simp

lemma nearest_bound: "centers \<noteq> [] \<Longrightarrow> nearest fl centers x < length centers"
  unfolding nearest_def by (rule scan_bound) (auto simp: Let_def split: if_splits)

lemma Predict_bound:
  "cm_isFitted m \<Longrightarrow> cm_clusterCenters m \<noteq> [] \<Longrightarrow> 0 \<le> Predict fl m x \<and> Predict fl m x < int (length (cm_clusterCenters m))"
  using nearest_bound [of "cm_clusterCenters m" fl x] by (simp add: Predict_def)

lemma length_recenter [simp]: "length (recenter fl data assign centers) = length centers"
  by (simp add: recenter_def)

lemma length_kmeansLoop [simp]: "length (kmeansLoop fl data n t centers assign) = length centers"
  by (induction fl data n t centers assign rule: kmeansLoop.induct) (simp_all add: Let_def)

lemma length_kmeans: "data \<noteq> [] \<Longrightarrow> 0 < k \<Longrightarrow> int (length (kmeans fl data k iter)) = min k (int (length data))"
  by (auto simp: kmeans_def Let_def)

definition profileTags :: "string set" where
  "profileTags = {''cpu_heavy'', ''needs_higher_priority'', ''interactive'', ''cache_unfriendly'', ''numa_unfriendly'', ''scheduling_latency''}"

definition goodTags :: "string list \<Rightarrow> bool" where
  "goodTags ts \<longleftrightarrow> ts = [''balanced''] \<or> ts \<noteq> [] \<and> distinct ts \<and> set ts \<subseteq> profileTags"

lemma inferSemantics_good: "length (inferSemantics fl centers) = length centers" "ts \<in> set (inferSemantics fl centers) \<Longrightarrow> goodTags ts"
  by (auto simp: inferSemantics_def goodTags_def profileTags_def Let_def split: if_splits)

lemma foldl_tags:
  "distinct ts \<Longrightarrow> set ts \<subseteq> A \<Longrightarrow> snd ` set bs \<subseteq> A \<Longrightarrow>
     distinct (foldl (\<lambda>ts (b, tag). tagIf b tag ts) ts bs) \<and> set (foldl (\<lambda>ts (b, tag). tagIf b tag ts) ts bs) \<subseteq> A"
proof (induction bs arbitrary: ts)
  case (Cons b bs)
  have "distinct (tagIf (fst b) (snd b) ts)" "set (tagIf (fst b) (snd b) ts) \<subseteq> A"
    using Cons.prems by (auto simp: tagIf_def appendTag_def)
  then show ?case using Cons.IH [of "tagIf (fst b) (snd b) ts"] Cons.prems(3) by (simp add: case_prod_beta)
qed simp

lemma applyProfileTags_good:
  assumes "ts = [] \<or> goodTags ts"
  shows "goodTags (applyProfileTags fl ts x)"
proof -
  let ?r = "foldl (\<lambda>ts (b, tag). tagIf b tag ts) ts (thresholdTags fl x)"
  have "distinct ts" "set ts \<subseteq> insert ''balanced'' profileTags"
    using assms by (auto simp: goodTags_def)
  moreover have "snd ` set (thresholdTags fl x) \<subseteq> insert ''balanced'' profileTags"
    by (simp add: thresholdTags_def profileTags_def)
  ultimately have r: "distinct ?r" "set ?r \<subseteq> insert ''balanced'' profileTags"
    using foldl_tags by blast+
  have "distinct (removeTag ?r ''balanced'')" "set (removeTag ?r ''balanced'') \<subseteq> profileTags"
    using r by (auto simp: removeTag_def)
  then show ?thesis by (auto simp: applyProfileTags_def Let_def goodTags_def)
qed

definition modelInv :: "'f clusteringModel \<Rightarrow> bool" where
  "modelInv m \<longleftrightarrow>
     0 < cm_nClusters m \<and> length (cm_dataBuffer m) \<le> maxClusterBufferSamples \<and>
     (cm_isFitted m \<longleftrightarrow> cm_clusterCenters m \<noteq> []) \<and> int (length (cm_clusterCenters m)) \<le> cm_nClusters m \<and>
     length (cm_clusterSemantics m) = length (cm_clusterCenters m) \<and> (\<forall>ts \<in> set (cm_clusterSemantics m). goodTags ts)"

lemma modelInv_PartialFit [intro]: "modelInv m \<Longrightarrow> modelInv (PartialFit fl x m)"
  by (auto simp: modelInv_def PartialFit_def Let_def maxClusterBufferSamples_def)

lemma modelInv_Snapshot [intro]: "modelInv m \<Longrightarrow> modelInv (SnapshotAndRelabel fl m)"
proof -
  assume m: "modelInv m"
  let ?n = "int (length (cm_dataBuffer m))"
  let ?k = "if cm_nClusters m > ?n then ?n else cm_nClusters m"
  let ?c = "kmeans fl (cm_dataBuffer m) ?k 10"
  have "int (length ?c) \<le> cm_nClusters m" if "2 \<le> length (cm_dataBuffer m)"
  proof -
    have "cm_dataBuffer m \<noteq> []" "0 < ?k" "?k \<le> cm_nClusters m" using m that by (auto simp: modelInv_def)
    then show ?thesis using length_kmeans [of "cm_dataBuffer m" ?k fl 10] by simp
  qed
  then show ?thesis
    using m inferSemantics_good(1) [of fl ?c] inferSemantics_good(2) [where fl = fl and centers = ?c] by (auto simp: SnapshotAndRelabel_def modelInv_def Let_def)
qed

lemma Snapshot_fits: "modelInv m \<Longrightarrow> 2 \<le> length (cm_dataBuffer m) \<Longrightarrow> cm_isFitted (SnapshotAndRelabel fl m)"
proof -
  assume m: "modelInv m" and n: "2 \<le> length (cm_dataBuffer m)"
  let ?n = "int (length (cm_dataBuffer m))"
  let ?k = "if cm_nClusters m > ?n then ?n else cm_nClusters m"
  have "cm_dataBuffer m \<noteq> []" "0 < ?k" using m n by (auto simp: modelInv_def)
  then have "0 < int (length (kmeans fl (cm_dataBuffer m) ?k 10))"
    using length_kmeans [of "cm_dataBuffer m" ?k fl 10] by simp
  then have "kmeans fl (cm_dataBuffer m) ?k 10 \<noteq> []" by auto
  then show ?thesis using n \<open>0 < ?k\<close> by (auto simp: SnapshotAndRelabel_def Let_def)
qed

lemma semanticsOf_good: "modelInv m \<Longrightarrow> semanticsOf m cid = [] \<or> goodTags (semanticsOf m cid)"
  by (auto simp: modelInv_def semanticsOf_def)

end
