(* ===== verification/Classifier_Table.thy ===== *)
theory Classifier_Table
  imports Classifier
begin

text \<open>
  Invariants of the classifier's table of pods under any sequence of samples: buffers and
  table stay bounded, keys name their pods, cluster indices are valid and tags well formed; what
  an eviction removes; and reading back what was ingested.
\<close>

section \<open>A pod\<close>

definition bufferBounds :: "'f tieredBuffer \<Rightarrow> bool" where
  "bufferBounds b \<longleftrightarrow>
     length (tb_raw b) \<le> 10 \<and> length (tb_tier1 b) \<le> 10 \<and> length (tb_tier2 b) \<le> 6 \<and> length (tb_tier3 b) \<le> 6 \<and>
     length (tb_pending1 b) < 2 \<and> length (tb_pending2 b) < 5 \<and> length (tb_pending3 b) < 6"

lemma length_appendBounded: "0 < k \<Longrightarrow> length xs \<le> k \<Longrightarrow> length (appendBoundedSummary xs x k) \<le> k"
  by (auto simp: appendBoundedSummary_def)

lemma bufferBounds_push: "bufferBounds b \<Longrightarrow> bufferBounds (bufferPush fl v ts b)"
  by (simp add: bufferBounds_def bufferPush_def Let_def length_appendBounded Suc_le_eq)

definition podInv :: "'f podState \<Rightarrow> bool" where
  "podInv p \<longleftrightarrow>
     bufferBounds (ps_buffer p) \<and> ps_driftConfirmed p < 3 \<and>
     (ew_updateCount (ps_ewma p) < 10 \<longrightarrow> ps_currentTypes p = [''collecting'']) \<and>
     (10 \<le> ew_updateCount (ps_ewma p) \<longrightarrow> goodTags (ps_currentTypes p)) \<and>
     (ps_previousTypes p = [] \<or> goodTags (ps_previousTypes p)) \<and>
     (ew_initialized (ps_ewma p) \<or> ew_updateCount (ps_ewma p) = 0)"

lemma podInv_new: "podInv (newPodState fl ns pod)"
  by (simp add: podInv_def newPodState_def bufferBounds_def emptyBuffer_def ewmaZero_def Let_def)

lemma Predict_good:
  assumes "modelInv m"
  shows "cm_isFitted m \<Longrightarrow> 0 \<le> Predict fl m x" "goodTags (applyProfileTags fl (semanticsOf m c) x)"
  using assms Predict_bound [of m fl x] applyProfileTags_good [OF semanticsOf_good [OF assms]]
  by (auto simp: modelInv_def)

text \<open>The regimes, from a pod whose averages and buffer have taken the sample in.\<close>

definition midPod :: "'f podState \<Rightarrow> bool" where
  "midPod p \<longleftrightarrow>
     bufferBounds (ps_buffer p) \<and> ps_driftConfirmed p < 3 \<and> ew_initialized (ps_ewma p) \<and>
     (30 \<le> ew_updateCount (ps_ewma p) \<longrightarrow> goodTags (ps_currentTypes p)) \<and>
     (ps_previousTypes p = [] \<or> goodTags (ps_previousTypes p))"

lemma updateCold_inv: "midPod p \<Longrightarrow> ew_updateCount (ps_ewma p) < 10 \<Longrightarrow> podInv (updateCold fl p)"
  by (simp add: midPod_def podInv_def updateCold_def)

lemma updateWarming_inv:
  assumes p: "midPod p" and m: "modelInv m" and run: "updateWarming fl x norm (p, m) = (p', m')"
    and n: "10 \<le> ew_updateCount (ps_ewma p)"
  shows "podInv p'" "modelInv m'"
proof -
  define m1 where "m1 = (if \<not> cm_isFitted m \<and> length (cm_dataBuffer m) \<ge> stableMinSamples then SnapshotAndRelabel fl m else m)"
  have m1: "modelInv m1" using m by (auto simp: m1_def)
  have "m' = m1" using run by (auto simp: updateWarming_def Let_def m1_def split: if_splits)
  then show "modelInv m'" using m1 by simp
  note g = Predict_good [OF m1, of fl]
  have "p' = (if cm_isFitted m1
      then p\<lparr>ps_phase := PodPhaseWarmingUp, ps_currentCluster := Predict fl m1 norm,
             ps_currentTypes := applyProfileTags fl (semanticsOf m1 (Predict fl m1 norm)) x,
             ps_lastDriftScore := DriftScore fl (ps_ewma p)\<rparr>
      else p\<lparr>ps_phase := PodPhaseWarmingUp, ps_currentTypes := applyProfileTags fl [] x,
             ps_lastDriftScore := DriftScore fl (ps_ewma p)\<rparr>)"
    using run g(1) unfolding updateWarming_def Let_def prod.case m1_def [symmetric] by (auto split: if_splits)
  then show "podInv p'"
    using p n g(2) applyProfileTags_good [of "[]" fl x] by (auto simp: midPod_def podInv_def)
qed

lemma updateStable_inv:
  assumes p: "midPod p" and m: "modelInv m" and run: "updateStable fl x norm (p, m) = (p', m')"
    and n: "30 \<le> ew_updateCount (ps_ewma p)"
  shows "podInv p'" "modelInv m'"
proof -
  define m1 where "m1 = (if \<not> cm_isFitted m then SnapshotAndRelabel fl m else m)"
  have m1: "modelInv m1" "modelInv (SnapshotAndRelabel fl m1)" using m by (auto simp: m1_def)
  show "modelInv m'"
    using run m1 unfolding updateStable_def Let_def prod.case m1_def [symmetric] by (auto split: if_splits)
  have good: "goodTags (applyProfileTags fl (semanticsOf m1 c) x)" "goodTags (applyProfileTags fl (semanticsOf (SnapshotAndRelabel fl m1) c) x)" for c
    using Predict_good(2) [OF m1(1)] Predict_good(2) [OF m1(2)] by auto
  show "podInv p'"
    using run p n good semanticsOf_good [OF m1(1), of "ps_currentCluster p"] unfolding updateStable_def Let_def prod.case m1_def [symmetric]
    by (auto simp: midPod_def podInv_def driftConfirmThreshold_def split: if_splits)
qed

lemma podUpdate_inv:
  assumes m: "modelInv m" and p: "podInv p" and run: "podUpdate fl ts node x (p, m) = (p', m')"
  shows "podInv p'" "modelInv m'"
proof -
  define p1 where "p1 = p\<lparr>ps_node := node, ps_lastTimestamp := ts, ps_ewma := ewmaUpdate fl (ps_ewma p) x,
                 ps_buffer := bufferPush fl x ts (ps_buffer p)\<rparr>"
  define m1 where "m1 = PartialFit fl (ewmaNormalize fl (ps_ewma p) x) m"
  have n: "ew_updateCount (ewmaUpdate fl (ps_ewma p) x) = ew_updateCount (ps_ewma p) + 1"
    using p by (auto simp: ewmaUpdate_count podInv_def)
  have mid: "midPod p1"
    using p n bufferBounds_push [of "ps_buffer p" fl x ts] by (auto simp: midPod_def podInv_def p1_def ewmaUpdate_count(2))
  have m1: "modelInv m1" using m by (auto simp: m1_def)
  let ?norm = "ewmaNormalize fl (ps_ewma p) x"
  have run': "(p', m') = (if ew_updateCount (ps_ewma p1) < 10 then (updateCold fl p1, m1)
      else if ew_updateCount (ps_ewma p1) < 30 then updateWarming fl x ?norm (p1, m1) else updateStable fl x ?norm (p1, m1))"
    using run [symmetric]
    unfolding podUpdate_def Let_def prod.case warmupMinSamples_def stableMinSamples_def p1_def m1_def .
  consider "ew_updateCount (ps_ewma p1) < 10" | "10 \<le> ew_updateCount (ps_ewma p1)" "ew_updateCount (ps_ewma p1) < 30"
    | "30 \<le> ew_updateCount (ps_ewma p1)" by linarith
  then have "podInv p' \<and> modelInv m'"
  proof cases
    case 1
    then show ?thesis using run' m1 updateCold_inv [OF mid] by simp
  next
    case 2
    then have "updateWarming fl x ?norm (p1, m1) = (p', m')" using run' by simp
    then show ?thesis using updateWarming_inv [OF mid m1 _ 2(1)] by blast
  next
    case 3
    then have "updateStable fl x ?norm (p1, m1) = (p', m')" using run' by simp
    then show ?thesis using updateStable_inv [OF mid m1 _ 3] by blast
  qed
  then show "podInv p'" "modelInv m'" by simp_all
qed

lemma podUpdate_names:
  "podUpdate fl ts node x (p, m) = (p', m') \<Longrightarrow>
     ps_namespace p' = ps_namespace p \<and> ps_pod p' = ps_pod p \<and> ps_lastTimestamp p' = ts \<and> ps_node p' = node"
  by (auto simp: podUpdate_def updateCold_def updateWarming_def updateStable_def Let_def split: if_splits)


section \<open>The table\<close>

definition tableInv :: "'f classifier \<Rightarrow> bool" where
  "tableInv c \<longleftrightarrow>
     distinct (map fst (ac_pods c)) \<and>
     (\<forall>(key, st) \<in> set (ac_pods c). key = podKey (ps_namespace st) (ps_pod st) \<and> podInv st) \<and>
     modelInv (ac_model c) \<and> (0 < ac_maxPods c \<longrightarrow> int (length (ac_pods c)) \<le> ac_maxPods c + 1)"

lemma tableInv_new: "tableInv (NewAdaptiveClassifier n)"
  by (simp add: tableInv_def NewAdaptiveClassifier_def modelInv_def newAdaptiveClusteringModel_def classifierMaxPods_def)

lemma set_dropExpired: "set (dropExpired ttl t pods) \<subseteq> set pods"
  by (auto simp: dropExpired_def)

lemma set_dropOldest: "set (dropOldest mx pods) \<subseteq> set pods"
  by (auto simp: dropOldest_def Let_def)

lemma distinct_drop:
  "distinct (map fst pods) \<Longrightarrow> distinct (map fst (dropExpired ttl t pods))"
  "distinct (map fst pods) \<Longrightarrow> distinct (map fst (dropOldest mx pods))"
  by (auto simp: dropExpired_def dropOldest_def Let_def distinct_map_filter)

abbreviation podTime :: "string \<times> 'f podState \<Rightarrow> int" where
  "podTime e \<equiv> ps_lastTimestamp (snd e)"

lemma filter_not_taken:
  assumes "distinct (map f xs)"
  shows "filter (\<lambda>x. f x \<notin> f ` set (take d xs)) xs = drop d xs"
proof -
  have "distinct (map f (take d xs @ drop d xs))" using assms by simp
  then have "f ` set (take d xs) \<inter> f ` set (drop d xs) = {}" unfolding map_append distinct_append by simp
  then have "filter (\<lambda>x. f x \<notin> f ` set (take d xs)) (take d xs @ drop d xs) = drop d xs"
    unfolding filter_append by (auto simp: filter_empty_conv intro!: filter_True)
  then show ?thesis by simp
qed

lemma dropOldest_perm:
  assumes d: "distinct (map fst pods)" and big: "0 < mx" "mx < int (length pods)"
  shows "mset (dropOldest mx pods) = mset (drop (length pods - nat mx) (sort_key podTime pods))"
proof -
  let ?es = "sort_key podTime pods"
  let ?d = "length pods - nat mx"
  have es: "distinct (map fst ?es)"
    using d by (simp add: distinct_map)
  have "mset (dropOldest mx pods) = mset (filter (\<lambda>e. fst e \<notin> fst ` set (take ?d ?es)) ?es)"
    using big by (simp add: dropOldest_def Let_def case_prod_beta')
  also have "filter (\<lambda>e. fst e \<notin> fst ` set (take ?d ?es)) ?es = drop ?d ?es"
    by (rule filter_not_taken [OF es])
  finally show ?thesis .
qed

lemma length_dropOldest:
  assumes "distinct (map fst pods)" "0 < mx"
  shows "int (length (dropOldest mx pods)) \<le> mx"
proof (cases "mx < int (length pods)")
  case True
  have "length (dropOldest mx pods) = length (drop (length pods - nat mx) (sort_key podTime pods))"
    using arg_cong [OF dropOldest_perm [OF assms True], of size] by simp
  then show ?thesis using True assms(2) by simp
qed (simp add: dropOldest_def)

text \<open>Only the oldest go.\<close>

lemma dropOldest_oldest:
  assumes d: "distinct (map fst pods)" and x: "x \<in> set pods" "x \<notin> set (dropOldest mx pods)" and y: "y \<in> set (dropOldest mx pods)"
  shows "podTime x \<le> podTime y"
proof -
  have big: "0 < mx" "mx < int (length pods)" using x by (auto simp: dropOldest_def split: if_splits)
  let ?es = "sort_key podTime pods"
  let ?d = "length pods - nat mx"
  have s: "set (dropOldest mx pods) = set (drop ?d ?es)"
    using arg_cong [OF dropOldest_perm [OF d big], of set_mset] by simp
  obtain as bs where ab: "as = take ?d ?es" "bs = drop ?d ?es" by simp
  have es: "?es = as @ bs" unfolding ab by simp
  have sb: "set (dropOldest mx pods) = set bs" using s ab(2) by simp
  have "x \<in> set ?es" using x(1) by simp
  then have "x \<in> set as" using x(2) unfolding es sb by auto
  moreover have "y \<in> set bs" using y unfolding sb .
  moreover have "sorted (map podTime (as @ bs))" using sorted_sort_key [of podTime pods] unfolding es .
  ultimately show ?thesis unfolding map_append sorted_append by auto
qed

lemma cleanup_bound: "tableInv c \<Longrightarrow> 0 < ac_maxPods c \<Longrightarrow> int (length (ac_pods (cleanupLocked t c))) \<le> ac_maxPods c"
  by (simp add: cleanupLocked_def tableInv_def length_dropOldest distinct_drop)

lemma cleanup_inv: "tableInv c \<Longrightarrow> tableInv (cleanupLocked t c)"
proof -
  assume c: "tableInv c"
  have "set (ac_pods (cleanupLocked t c)) \<subseteq> set (ac_pods c)"
    using set_dropExpired set_dropOldest by (fastforce simp: cleanupLocked_def)
  then have "\<forall>(key, st) \<in> set (ac_pods (cleanupLocked t c)). key = podKey (ps_namespace st) (ps_pod st) \<and> podInv st"
    using c by (auto simp: tableInv_def)
  moreover have "distinct (map fst (ac_pods (cleanupLocked t c)))"
    using c by (simp add: cleanupLocked_def tableInv_def distinct_drop)
  ultimately show ?thesis
    using c cleanup_bound [OF c, of t] by (auto simp: tableInv_def cleanupLocked_def)
qed

lemma putPod_facts:
  assumes "distinct (map fst pods)"
  shows "distinct (map fst (putPod key st pods))" "length (putPod key st pods) \<le> Suc (length pods)"
    "set (putPod key st pods) \<subseteq> insert (key, st) (set pods)" "map_of (putPod key st pods) key = Some st"
proof -
  have "map fst (map (\<lambda>(k, s). (k, if k = key then st else s)) pods) = map fst pods" by auto
  then show "distinct (map fst (putPod key st pods))"
    using assms by (auto simp: putPod_def simp del: map_map)
  show "length (putPod key st pods) \<le> Suc (length pods)" by (simp add: putPod_def)
  show "set (putPod key st pods) \<subseteq> insert (key, st) (set pods)" by (auto simp: putPod_def split: if_splits)
  have "map_of (map (\<lambda>(k, s). (k, if k = key then st else s)) ps) key = (if key \<in> fst ` set ps then Some st else None)" for ps :: "(string \<times> 'a podState) list"
    by (induction ps) auto
  then show "map_of (putPod key st pods) key = Some st"
    by (cases "key \<in> fst ` set pods") (simp_all add: putPod_def map_add_def map_of_eq_None_iff [THEN iffD2])
qed


section \<open>Ingesting\<close>

lemma Ingest_unfold:
  assumes "Ingest fl t inp c = (item, c')"
  obtains st st1 m1 where
    "st = (case map_of (ac_pods (cleanupLocked t c)) (podKey (ci_Namespace inp) (ci_Pod inp)) of
             Some s \<Rightarrow> s | None \<Rightarrow> newPodState fl (ci_Namespace inp) (ci_Pod inp))"
    "podUpdate fl (if ci_Timestamp inp \<le> 0 then t else ci_Timestamp inp) (ci_Node inp)
       (computeFeatures fl (ci_Metrics inp)) (st, ac_model (cleanupLocked t c)) = (st1, m1)"
    "item = buildClassifyItem fl st1"
    "c' = (cleanupLocked t c)\<lparr>ac_pods := putPod (podKey (ci_Namespace inp) (ci_Pod inp)) st1 (ac_pods (cleanupLocked t c)), ac_model := m1\<rparr>"
proof -
  let ?st = "case map_of (ac_pods (cleanupLocked t c)) (podKey (ci_Namespace inp) (ci_Pod inp)) of
             Some s \<Rightarrow> s | None \<Rightarrow> newPodState fl (ci_Namespace inp) (ci_Pod inp)"
  obtain st1 m1 where u: "podUpdate fl (if ci_Timestamp inp \<le> 0 then t else ci_Timestamp inp) (ci_Node inp)
       (computeFeatures fl (ci_Metrics inp)) (?st, ac_model (cleanupLocked t c)) = (st1, m1)" by fastforce
  have "(item, c') = (buildClassifyItem fl st1, (cleanupLocked t c)\<lparr>ac_pods := putPod (podKey (ci_Namespace inp) (ci_Pod inp)) st1
      (ac_pods (cleanupLocked t c)), ac_model := m1\<rparr>)"
    using assms unfolding Ingest_def Let_def u prod.case by simp
  then show thesis using that [OF refl u] by simp
qed

lemma podKey_new: "podKey (ps_namespace (newPodState fl a b)) (ps_pod (newPodState fl a b)) = podKey a b"
  by (simp add: newPodState_def)

lemma Ingest_inv:
  assumes inv: "tableInv c" and run: "Ingest fl t inp c = (item, c')"
  shows "tableInv c'"
proof -
  let ?key = "podKey (ci_Namespace inp) (ci_Pod inp)"
  let ?c = "cleanupLocked t c"
  obtain st st1 m1 where i: "st = (case map_of (ac_pods ?c) ?key of Some s \<Rightarrow> s | None \<Rightarrow> newPodState fl (ci_Namespace inp) (ci_Pod inp))"
    "podUpdate fl (if ci_Timestamp inp \<le> 0 then t else ci_Timestamp inp) (ci_Node inp)
       (computeFeatures fl (ci_Metrics inp)) (st, ac_model ?c) = (st1, m1)"
    "c' = ?c\<lparr>ac_pods := putPod ?key st1 (ac_pods ?c), ac_model := m1\<rparr>"
    by (rule Ingest_unfold [OF run])
  have c: "tableInv ?c" by (rule cleanup_inv [OF inv])
  then have d: "distinct (map fst (ac_pods ?c))" and m: "modelInv (ac_model ?c)"
    and all: "\<And>k s. (k, s) \<in> set (ac_pods ?c) \<Longrightarrow> k = podKey (ps_namespace s) (ps_pod s) \<and> podInv s"
    by (auto simp: tableInv_def)
  have st: "?key = podKey (ps_namespace st) (ps_pod st)" "podInv st"
    using i(1) all by (auto simp: podInv_new podKey_new split: option.splits dest!: map_of_SomeD)
  have st1: "?key = podKey (ps_namespace st1) (ps_pod st1)" "podInv st1" "modelInv m1"
    using podUpdate_inv [OF m st(2) i(2)] podUpdate_names [OF i(2)] st(1) by simp_all
  note put = putPod_facts [OF d, of ?key st1]
  have mx: "ac_maxPods ?c = ac_maxPods c" "ac_maxPods c' = ac_maxPods c" by (simp_all add: cleanupLocked_def i(3))
  have "int (length (ac_pods c')) \<le> ac_maxPods c + 1" if "0 < ac_maxPods c"
    using cleanup_bound [OF inv that, of t] put(2) by (simp add: i(3))
  moreover have "\<forall>(k, s) \<in> set (putPod ?key st1 (ac_pods ?c)). k = podKey (ps_namespace s) (ps_pod s) \<and> podInv s"
    using put(3) st1(1,2) all by blast
  ultimately show ?thesis using put(1) st1(3) mx by (simp add: tableInv_def i(3))
qed

text \<open>What was ingested is what is read, and a full table grows by one.\<close>

lemma Get_Ingest:
  assumes inv: "tableInv c" and run: "Ingest fl t inp c = (item, c')"
    and trim: "TrimSpace (ci_Namespace inp) = ci_Namespace inp" "TrimSpace (ci_Pod inp) = ci_Pod inp"
  shows "Get fl (ci_Namespace inp) (ci_Pod inp) c' = Some item"
proof -
  let ?key = "podKey (ci_Namespace inp) (ci_Pod inp)"
  obtain st1 m1 where i: "item = buildClassifyItem fl st1"
    "c' = (cleanupLocked t c)\<lparr>ac_pods := putPod ?key st1 (ac_pods (cleanupLocked t c)), ac_model := m1\<rparr>"
    by (rule Ingest_unfold [OF run])
  have "distinct (map fst (ac_pods (cleanupLocked t c)))"
    using cleanup_inv [OF inv] by (simp add: tableInv_def)
  from putPod_facts(4) [OF this] show ?thesis by (simp add: Get_def trim i)
qed

fun ingestAll :: "'f float64 \<Rightarrow> (int \<times> classificationInput) list \<Rightarrow> 'f classifier \<Rightarrow> 'f classifier" where
  "ingestAll fl [] c = c"
| "ingestAll fl ((t, inp) # ins) c = ingestAll fl ins (snd (Ingest fl t inp c))"

lemma ingestAll_inv: "tableInv c \<Longrightarrow> tableInv (ingestAll fl ins c)"
proof (induction fl ins c rule: ingestAll.induct)
  case (2 fl t inp ins c)
  then show ?case using Ingest_inv [OF "2.prems", of fl t inp] by (simp add: prod_eq_iff)
qed simp

lemma Ingest_config: "ac_maxPods (snd (Ingest fl t inp c)) = ac_maxPods c" "ac_podTTL (snd (Ingest fl t inp c)) = ac_podTTL c"
  by (simp_all add: Ingest_def Let_def cleanupLocked_def case_prod_beta)

lemma ingestAll_config: "ac_maxPods (ingestAll fl ins c) = ac_maxPods c"
  by (induction fl ins c rule: ingestAll.induct) (simp_all add: Ingest_config)

lemma Ingest_overfills:
  assumes full: "int (length (ac_pods c)) = ac_maxPods c" "0 < ac_maxPods c"
    and live: "\<And>k s. (k, s) \<in> set (ac_pods c) \<Longrightarrow> t - ac_podTTL c \<le> ps_lastTimestamp s"
    and new: "podKey (ci_Namespace inp) (ci_Pod inp) \<notin> fst ` set (ac_pods c)"
  shows "int (length (ac_pods (snd (Ingest fl t inp c)))) = ac_maxPods c + 1"
proof -
  have "dropExpired (ac_podTTL c) t (ac_pods c) = ac_pods c"
    using live by (force simp: dropExpired_def intro!: filter_True)
  then have c: "ac_pods (cleanupLocked t c) = ac_pods c"
    using full by (simp add: cleanupLocked_def dropOldest_def)
  obtain item c' where run: "Ingest fl t inp c = (item, c')" by fastforce
  obtain st1 m1 where "c' = (cleanupLocked t c)\<lparr>ac_pods := putPod (podKey (ci_Namespace inp) (ci_Pod inp)) st1
      (ac_pods (cleanupLocked t c)), ac_model := m1\<rparr>"
    by (rule Ingest_unfold [OF run])
  then show ?thesis using full new run by (simp add: c putPod_def)
qed

end
