(* ===== verification/Sched_Loop.thy ===== *)
theory Sched_Loop
  imports Prelude
begin

text \<open>
  The user-space scheduling loop (\<open>runSchedulerLoop\<close> of
  \<open>src/internal/scheduler/dispatch_loop.go\<close>) and the arithmetic helpers of \<open>src/util/util.go\<close>,
  at their width of 64 bits.

  The BPF module of the qumun library is an argument: \<open>bpf\<close> bundles its calls over an opaque
  state.  The loop may run forever, so it is a partial function whose value is \<open>None\<close> then.
\<close>

unbundle bit_operations_syntax

section \<open>Helpers\<close>

definition CalcAvg :: "64 word \<Rightarrow> 64 word \<Rightarrow> 64 word" where
  "CalcAvg oldVal newVal = (oldVal - drop_bit 2 oldVal) + drop_bit 2 newVal"

definition SaturatingSub :: "64 word \<Rightarrow> 64 word \<Rightarrow> 64 word" where
  "SaturatingSub a b = (if a > b then a - b else 0)"


section \<open>The loop\<close>

record QueuedTask =
  qt_Vtime :: "64 word"
  qt_SumExecRuntime :: "64 word"
  qt_StartTs :: "64 word"
  qt_StopTs :: "64 word"
  qt_Weight :: "64 word"

record 'd DispatchedTask =
  dt_base :: 'd
  dt_Vtime :: "64 word"
  dt_SliceNs :: "64 word"
  dt_Cpu :: int

record ('b, 'd) bpf =
  b_ctxDone :: "'b \<Rightarrow> bool"
  b_DrainQueuedTask :: "'b \<Rightarrow> int \<times> 'b"
  b_DecNrQueued :: "int \<Rightarrow> 'b \<Rightarrow> string option \<times> 'b"
  b_SelectQueuedTask :: "'b \<Rightarrow> QueuedTask option \<times> 'b"
  b_BlockTilReady :: "'b \<Rightarrow> 'b"
  b_NewDispatchedTask :: "QueuedTask \<Rightarrow> 'd DispatchedTask"
  b_DetermineTimeSlice :: "QueuedTask \<Rightarrow> 'b \<Rightarrow> 64 word \<times> 'b"
  b_SelectCPU :: "QueuedTask \<Rightarrow> 'b \<Rightarrow> (string option \<times> int) \<times> 'b"
  b_DispatchTask :: "'d DispatchedTask \<Rightarrow> 'b \<Rightarrow> string option \<times> 'b"
  b_GetPoolCount :: "'b \<Rightarrow> int \<times> 'b"
  b_NotifyComplete :: "int \<Rightarrow> 'b \<Rightarrow> string option \<times> 'b"

text \<open>The fields of the dispatched task.\<close>

definition taskVtime :: "64 word \<Rightarrow> QueuedTask \<Rightarrow> 64 word" where
  "taskVtime sliceNsDefault t =
     (if qt_Vtime t \<noteq> 0 then qt_Vtime t + min (qt_SumExecRuntime t) (sliceNsDefault * 100) else qt_Vtime t)"

definition taskSlice :: "64 word \<Rightarrow> 64 word \<Rightarrow> QueuedTask \<Rightarrow> 64 word" where
  "taskSlice sliceNsMin customTime t =
     (if customTime > 0 then min customTime ((qt_StopTs t - qt_StartTs t) * 11 div 10)
      else sliceNsMin * qt_Weight t div 100)"

text \<open>One task: the error that ends the loop, or the next state.\<close>

definition dispatchOne ::
  "('b, 'd) bpf \<Rightarrow> 64 word \<Rightarrow> 64 word \<Rightarrow> QueuedTask \<Rightarrow> 'b \<Rightarrow> string option \<times> 'b" where
  "dispatchOne m sliceNsDefault sliceNsMin t b =
     (case b_DetermineTimeSlice m t b of
        (customTime, b1) \<Rightarrow>
          (let task = (b_NewDispatchedTask m t)
                 \<lparr>dt_Vtime := taskVtime sliceNsDefault t, dt_SliceNs := taskSlice sliceNsMin customTime t\<rparr>
           in case b_SelectCPU m t b1 of
                ((Some e, cpu), b2) \<Rightarrow> (Some e, b2)
              | ((None, cpu), b2) \<Rightarrow>
                  (case b_DispatchTask m (task\<lparr>dt_Cpu := cpu\<rparr>) b2 of
                     (Some e, b3) \<Rightarrow> (Some e, b3)
                   | (None, b3) \<Rightarrow>
                       (case b_GetPoolCount m b3 of
                          (n, b4) \<Rightarrow> if n = 0 then b_NotifyComplete m 0 b4 else (None, b4)))))"

datatype loop_end = LoopDone | LoopError string

definition loopBody ::
  "('b, 'd) bpf \<Rightarrow> 64 word \<Rightarrow> 64 word \<Rightarrow> 'b \<Rightarrow> (loop_end \<times> 'b) + 'b" where
  "loopBody m sliceNsDefault sliceNsMin b =
     (if b_ctxDone m b then Inl (LoopDone, b)
      else
        (case b_DrainQueuedTask m b of
           (cnt, b1) \<Rightarrow>
             (case (if cnt > 0 then b_DecNrQueued m cnt b1 else (None, b1)) of
                (Some e, b2) \<Rightarrow> Inl (LoopError e, b2)
              | (None, b2) \<Rightarrow>
                  (case b_SelectQueuedTask m b2 of
                     (None, b3) \<Rightarrow> Inr (b_BlockTilReady m b3)
                   | (Some t, b3) \<Rightarrow>
                       (case dispatchOne m sliceNsDefault sliceNsMin t b3 of
                          (Some e, b4) \<Rightarrow> Inl (LoopError e, b4)
                        | (None, b4) \<Rightarrow> Inr b4)))))"

partial_function (option) runSchedulerLoop ::
  "('b, 'd) bpf \<Rightarrow> 64 word \<Rightarrow> 64 word \<Rightarrow> 'b \<Rightarrow> (loop_end \<times> 'b) option" where
  "runSchedulerLoop m sliceNsDefault sliceNsMin b =
     (case loopBody m sliceNsDefault sliceNsMin b of
        Inl r \<Rightarrow> Some r
      | Inr b' \<Rightarrow> runSchedulerLoop m sliceNsDefault sliceNsMin b')"


section \<open>Facts on the helpers\<close>

lemma unat_quarter: "unat (drop_bit 2 (w :: 64 word)) = unat w div 4"
  by (simp add: drop_bit_eq_div unat_div)

lemma CalcAvg_exact: "unat (CalcAvg a b) = unat a - unat a div 4 + unat b div 4"
proof -
  have "drop_bit 2 a \<le> a" by (simp add: word_le_nat_alt unat_quarter)
  then have s: "unat (a - drop_bit 2 a) = unat a - unat a div 4"
    by (simp add: unat_sub unat_quarter)
  have "unat a < 2 ^ LENGTH(64)" "unat b < 2 ^ LENGTH(64)" by (rule unsigned_less)+
  then have "unat (a - drop_bit 2 a) + unat (drop_bit 2 b) < 2 ^ LENGTH(64)"
    unfolding s unat_quarter by simp
  then show ?thesis unfolding CalcAvg_def by (simp add: unat_add_lem [THEN iffD1] s unat_quarter)
qed

lemma CalcAvg_bounds: "min (unat a) (unat b) \<le> unat (CalcAvg a b)" "unat (CalcAvg a b) \<le> max (unat a) (unat b)"
  unfolding CalcAvg_exact by linarith+

lemma SaturatingSub_exact: "unat (SaturatingSub a b) = unat a - unat b"
  by (auto simp: SaturatingSub_def unat_sub word_less_nat_alt word_le_nat_alt)

lemma taskSlice_custom: "customTime > 0 \<Longrightarrow> taskSlice sliceNsMin customTime t \<le> customTime"
  by (simp add: taskSlice_def)

lemma taskSlice_weight:
  assumes "unat sliceNsMin * unat (qt_Weight t) < 2 ^ 64"
  shows "unat (taskSlice sliceNsMin 0 t) = unat sliceNsMin * unat (qt_Weight t) div 100"
proof -
  have "unat (sliceNsMin * qt_Weight t) = unat sliceNsMin * unat (qt_Weight t)"
    using assms by (simp add: unat_mult_lem [THEN iffD1])
  then show ?thesis by (simp add: taskSlice_def unat_div)
qed

lemma unat_times11: "unat (d :: 64 word) * 11 < 2 ^ 64 \<Longrightarrow> unat (d * 11) = unat d * 11"
  using unat_mult_lem [of d 11] by simp

lemma taskSlice_measured:
  assumes "customTime > 0" "qt_StartTs t \<le> qt_StopTs t" "(unat (qt_StopTs t) - unat (qt_StartTs t)) * 11 < 2 ^ 64"
  shows "unat (taskSlice sliceNsMin customTime t) = min (unat customTime) ((unat (qt_StopTs t) - unat (qt_StartTs t)) * 11 div 10)"
proof -
  define d where "d = qt_StopTs t - qt_StartTs t"
  have d: "unat d = unat (qt_StopTs t) - unat (qt_StartTs t)" using assms(2) by (simp add: d_def unat_sub)
  then have "unat (d * 11 div 10) = unat d * 11 div 10" using assms(3) by (simp add: unat_div unat_times11)
  then show ?thesis using assms(1) by (simp add: taskSlice_def d_def [symmetric] min_def word_le_nat_alt d [symmetric])
qed


section \<open>When the loop ends\<close>

fun afterRounds :: "('b, 'd) bpf \<Rightarrow> 64 word \<Rightarrow> 64 word \<Rightarrow> nat \<Rightarrow> 'b \<Rightarrow> 'b option" where
  "afterRounds m sd sm 0 b = Some b"
| "afterRounds m sd sm (Suc n) b = (case loopBody m sd sm b of Inl r \<Rightarrow> None | Inr b' \<Rightarrow> afterRounds m sd sm n b')"

lemma loop_returns:
  assumes "afterRounds m sd sm n b = Some b'" "loopBody m sd sm b' = Inl r"
  shows "runSchedulerLoop m sd sm b = Some r"
  using assms
proof (induction n arbitrary: b)
  case 0
  then show ?case by (subst runSchedulerLoop.simps) simp
next
  case (Suc n)
  then show ?case by (subst runSchedulerLoop.simps) (auto split: sum.splits)
qed

lemma loop_returned:
  assumes "runSchedulerLoop m sd sm b = Some r"
  shows "\<exists>n b'. afterRounds m sd sm n b = Some b' \<and> loopBody m sd sm b' = Inl r"
proof (induction rule: runSchedulerLoop.raw_induct [of "\<lambda>m sd sm b r. \<exists>n b'. afterRounds m sd sm n b = Some b' \<and> loopBody m sd sm b' = Inl r", OF _ assms])
  case (1 run m sd sm b r)
  show ?case
  proof (cases "loopBody m sd sm b")
    case (Inl x)
    with 1(2) show ?thesis by (intro exI [of _ 0] exI [of _ b]) simp
  next
    case (Inr b1)
    with 1(2) have "run m sd sm b1 = Some r" by simp
    from 1(1) [OF this] obtain n b' where "afterRounds m sd sm n b1 = Some b'" "loopBody m sd sm b' = Inl r" by blast
    with Inr show ?thesis by (intro exI [of _ "Suc n"] exI [of _ b']) simp
  qed
qed

lemma loop_iff:
  "runSchedulerLoop m sd sm b = Some r \<longleftrightarrow> (\<exists>n b'. afterRounds m sd sm n b = Some b' \<and> loopBody m sd sm b' = Inl r)"
  using loop_returns loop_returned by metis

end
