(* ===== verification/Further_Facts.thy ===== *)
theory Further_Facts
  imports Mgr_NodePolicy Mgr_Access K8s_Adapter
begin

text \<open>
  Properties of single operations that complement those of the root theory.
\<close>


text \<open>If InsertStrategyAndIntents succeeds, the server additionally holds the strategy and all its
  intents under fresh IDs, every intent refers to the strategy, and nothing else changed.\<close>

lemma insert_stores_all:
  assumes "cr_laws c view" "validOID fromHex (be_ID (stampOwner now (fresh 0) s))"
    and "InsertStrategyAndIntents c fromHex ns now fresh (Some s) (Some ins) w = (Inr (s', outs), w')"
  shows "s' = stampOwner now (fresh 0) s \<and> view w StrategyCR (be_ID s') = None \<and>
    distinct (map be_ID outs) \<and> (\<forall>i \<in> set outs. si_StrategyID i = be_ID s' \<and> view w IntentCR (be_ID i) = None) \<and>
    view w' = (view w)(StrategyCR := (view w StrategyCR)(be_ID s' \<mapsto> strategyContent s'),
                       IntentCR := view w IntentCR ++ objectsOf intentContent outs)"
  using assms by (rule InsertStrategyAndIntents_ok)

text \<open>When no node intent is stored, resyncNodeIntentsToDMs returns at once, so a decision maker
  that still holds node policies keeps them.\<close>

lemma node_resync_ignores_empty:
  assumes "QueryNodeIntents (me_client env) (me_fromHex env) allNodeIntents (ms_store st) = Inr []"
  shows "resyncNodeIntentsToDMs env st = (None, st)"
  using assms by (simp add: resyncNodeIntentsToDMs_def)

text \<open>The Merkle root of a list of intents does not depend on its order, when the names contain no
  bar.\<close>

lemma intent_root_order:
  assumes "mset xs = mset ys" "\<forall>i \<in> set xs. barFreeIntent (wireIntent i)"
  shows "buildScheduleIntentMerkleRoot sha (map Some xs) = buildScheduleIntentMerkleRoot sha (map Some ys)"
proof -
  have "\<forall>x \<in> set xs. \<forall>y \<in> set xs. scheduleIntentSortKey x = scheduleIntentSortKey y \<longrightarrow>
      serializeScheduleIntent x = serializeScheduleIntent y"
    using assms(2) intentSortKey_det by (metis wireIntent_key wireIntent_ser)
  from mgi.root_perm [OF this assms(1)] show ?thesis by (simp add: buildScheduleIntentMerkleRoot_def)
qed

text \<open>A query without IDs returns every stored intent that matches the filter, and no other, each
  once, although the server is asked with a label selector only.\<close>

lemma query_intents_exact:
  assumes "cr_laws c view" "intentStore fromHex view w db" "QueryIntents c fromHex opt w = Inr is" "qi_IDs opt = []"
  shows "(\<forall>i. i \<in> set is \<longleftrightarrow> db (be_ID i) = Some i \<and> matchesIntentFilter i opt) \<and> distinct (map be_ID is)"
  using QueryIntents_exact [OF assms] by blast

text \<open>A successful DeleteIntentsByStrategyID removes exactly the intents of the strategy.\<close>

lemma delete_by_strategy_exact:
  assumes "cr_laws c view" "intentStore fromHex view w db" "DeleteIntentsByStrategyID c sid w = (None, w')"
  shows "intentStore fromHex view w' (\<lambda>n. case db n of Some i \<Rightarrow> if si_StrategyID i = sid then None else Some i | None \<Rightarrow> None)"
  using assms by (rule DeleteIntentsByStrategyID_store)

text \<open>A successful BatchUpdateIntentsState sets state and update time of exactly the named intents
  that exist and changes nothing else in them.\<close>

lemma batch_state_update:
  assumes "cr_laws c view" "- 128 \<le> state" "state < 128" "intentStore fromHex view w db"
    and "BatchUpdateIntentsState c now ids state w = (None, w')"
  shows "intentStore fromHex view w' (\<lambda>n. if n \<in> set ids
    then map_option (\<lambda>i. i\<lparr>si_State := state, be_UpdatedTime := now\<rparr>) (db n) else db n)"
  using BatchUpdateIntentsState_store [OF assms]
  by (simp add: restateAll_def restateIntent_def [abs_def])

text \<open>Strategies, intents, node policies and node intents with valid IDs and an int8 state are read
  back from their custom-resource form unchanged.\<close>

lemma entity_roundtrips:
  assumes "validStrategy fromHex s" "validIntent fromHex i" "validNodePolicy fromHex p" "validNodeIntent fromHex j"
  shows "unstructuredToDomainStrategy fromHex (domainStrategyToUnstructured ns s) = Some s \<and>
    unstructuredToDomainIntent fromHex (domainIntentToUnstructured ns i) = Some i \<and>
    unstructuredToDomainNodePolicy fromHex (domainNodePolicyToUnstructured ns p) = Some p \<and>
    unstructuredToDomainNodeIntent fromHex (domainNodeIntentToUnstructured ns j) = Some j"
  using assms by (simp add: strategies.roundtrip intents.roundtrip nodePolicies.roundtrip nodeIntents.roundtrip)

text \<open>Deleting the intents of a pod removes exactly the cached intents of the pod and exactly the
  map entries whose key has the pod's prefix, and the reported root is the root of the intents
  that remain.\<close>

lemma delete_pod:
  assumes "dmReach sha compile machineID s"
  shows "somes (svc_intentCache (DeleteIntentByPodID sha podID s)) = filter (\<lambda>i. int_PodID i \<noteq> podID) (somes (svc_intentCache s)) \<and>
    Load (svc_schedulingIntentsMap (DeleteIntentByPodID sha podID s)) key =
       (if HasPrefix key (podID @ ''-'') then None else Load (svc_schedulingIntentsMap s) key) \<and>
    reportedRoot sha (DeleteIntentByPodID sha podID s) = Hash (BuildMerkleTree sha (map (hashIntent sha)
           (sortIntentsByKey (filter (\<lambda>i. int_PodID i \<noteq> podID) (somes (svc_intentCache s))))))"
  using DeleteIntentByPodID_cache [of sha podID s] DeleteIntentByPodID_map [of s sha podID key]
    dmInv_wfMap [OF dmReach_inv [OF assms]]
  by (simp add: DeleteIntentByPodID_root)

text \<open>DeleteIntentByPID has no effect on what the scheduler is told: the listing rebuilds the map
  from the cached intents, so it returns the same with and without the deletion.\<close>

lemma delete_by_pid_is_forgotten:
  "fst (ListAllSchedulingIntents compile fs snapshot (DeleteIntentByPID podID pid s)) =
     fst (ListAllSchedulingIntents compile fs snapshot s)"
  by (rule ListAll_ignores_map)

text \<open>The order in which node policies are pushed affects neither the scheduling intents resolved
  from them nor the Merkle root, when policy and node IDs contain no bar.\<close>

lemma node_policy_order:
  assumes "mset ps = mset qs" "\<forall>p. Some p \<in> set ps \<longrightarrow> barFreePolicy p"
  shows "resolveNodeSchedulingIntents compile snapshot (ProcessNodePolicies sha ps s) =
         resolveNodeSchedulingIntents compile snapshot (ProcessNodePolicies sha qs s) \<and>
         GetNodePolicyMerkleRootHash (ProcessNodePolicies sha ps s) = GetNodePolicyMerkleRootHash (ProcessNodePolicies sha qs s)"
proof
  show "resolveNodeSchedulingIntents compile snapshot (ProcessNodePolicies sha ps s) =
      resolveNodeSchedulingIntents compile snapshot (ProcessNodePolicies sha qs s)"
    using assms by (rule resolveNode_perm_somes)
  show "GetNodePolicyMerkleRootHash (ProcessNodePolicies sha ps s) = GetNodePolicyMerkleRootHash (ProcessNodePolicies sha qs s)"
    using nodePolicyLeaves_perm [OF assms, of sha]
    by (simp add: GetNodePolicyMerkleRootHash_def ProcessNodePolicies_def nodePolicyLeaves_def Let_def)
qed

text \<open>Because a last node without neighbour is paired with itself, a list of three leaves has the
  root of the list in which the last leaf is repeated; the root binds the leaves only for a
  given length.\<close>

lemma merkle_odd_duplicate:
  "Hash (BuildMerkleTree sha [a, b, c]) = Hash (BuildMerkleTree sha [a, b, c, c])"
  by (simp add: Hash_BuildMerkleTree hashLevel_def)

text \<open>FindMerkleNode returns the first node with the hash in pre-order, truncation keeps the root
  hash and bounds the height by the depth, and truncating at the height is the identity.\<close>

lemma merkle_search_and_truncation:
  "FindMerkleNode t h = find (\<lambda>n. Hash n = h) (subnodes t) \<and>
   height (TruncateMerkleTree t d) \<le> Suc (nat d) \<and>
   map_option Hash (TruncateMerkleTree t d) = map_option Hash t \<and>
   TruncateMerkleTree t (int (height t)) = t"
  by (simp add: FindMerkleNode_spec height_Truncate Hash_Truncate Truncate_id)

text \<open>UpdateUserPermissions replaces the roles of a user exactly when every name given is the name
  of a role.\<close>

lemma role_assignment_exact:
  assumes "db_laws (ae_db env) v" "healthy env" "inj_on ro_Name (ran (dv_roles v (as_world st)))"
    and "ae_fromHex env (cl_UID operator) = Some op" "ae_fromHex env i = Some uid"
    and "dv_users v (as_world st) uid = Some u" "ran (dv_roles v (as_world st)) \<noteq> {}"
  shows "fst (UpdateUserPermissions env now operator i \<lparr>uo_Roles = Some names, uo_Status = s\<rparr> st) =
        Some (HTTPError 400 ''Some roles not found'') \<longleftrightarrow>
      \<not> (names \<noteq> [] \<and> distinct names \<and> set names \<subseteq> ro_Name ` ran (dv_roles v (as_world st)))"
proof -
  obtain rs where rs: "QueryRoles (ae_db env) (Some \<lparr>qr_IDs = [], qr_Names = names\<rparr>) (as_world st) = Inr rs"
    using QueryRoles_healthy [OF assms(2)] by blast
  note q = QueryRoles_set [OF assms(1) rs]
  have len: "length rs = card (set rs)" using q(1) by (simp add: distinct_card)
  have iff: "length names = length rs \<longleftrightarrow> names \<noteq> [] \<and> distinct names \<and> set names \<subseteq> ro_Name ` ran (dv_roles v (as_world st))"
  proof (cases "names = []")
    case True
    then show ?thesis using q(2) assms(7) by auto
  next
    case False
    then show ?thesis using card_named [OF assms(3), of names] q(2) len by simp
  qed
  have no400: "fst (outcome (repoUpdateUser env now u' st)) \<noteq> Some (HTTPError n m)" for u' n m
    by (auto simp: outcome_def repoUpdateUser_def map_sum_def split: prod.splits sum.splits)
  have user: "getUserByID env uid st = Inr u" using getUserByID_healthy [OF assms(2,1)] assms(6) by simp
  show ?thesis
  proof (cases "length names = length rs")
    case True
    then have "rolesChecked env (Some names) u st = Inr (u\<lparr>us_Roles := names\<rparr>)"
      using rs by (simp add: rolesChecked_def svcQueryRoles_def)
    then have "fst (UpdateUserPermissions env now operator i \<lparr>uo_Roles = Some names, uo_Status = s\<rparr> st) \<noteq>
        Some (HTTPError 400 ''Some roles not found'')"
      using assms(4,5) user no400 by (simp add: UpdateUserPermissions_def GetBsonObjectUID_def Let_def)
    then show ?thesis using True iff by simp
  next
    case False
    then have "rolesChecked env (Some names) u st = Inl (HTTPError 400 ''Some roles not found'')"
      using rs by (simp add: rolesChecked_def svcQueryRoles_def)
    then show ?thesis
      using False iff assms(4,5) user by (simp add: UpdateUserPermissions_def GetBsonObjectUID_def)
  qed
qed

text \<open>VerifyJWTToken and RefreshToken do not depend on the status of the user.\<close>

lemma status_not_consulted:
  assumes "db_laws (ae_db env) v" "healthy env"
    and "ae_fromHex env (cl_UID operator) = Some op" "ae_fromHex env i = Some uid"
    and "dv_users v (as_world st) uid = Some u" "uid \<noteq> zeroOID" "storedPassword u"
    and "plainKey key" "VerifyJWTToken env now' t key st = Inr (c, p)"
  shows "\<exists>st1 p'. UpdateUserPermissions env now operator i \<lparr>uo_Roles = None, uo_Status = Some UserStatusInactive\<rparr> st = (None, st1) \<and>
      VerifyJWTToken env now' t key st1 = Inr (c, p')"
proof -
  let ?u = "u\<lparr>us_Status := UserStatusInactive, be_UpdatedTime := now, be_UpdaterID := op\<rparr>"
  have id: "be_ID u = uid" by (rule ud.view_id [OF db_lawsD(1) [OF assms(1)] assms(5)])
  have m: "marshalUser (ae_argon2 env) (ae_params env) (ae_salt env (as_salts st)) (?u\<lparr>be_UpdatedTime := now\<rparr>) = Inr ?u"
    using assms(7) by (simp add: marshalUser_stored storedPassword_def)
  have pre: "be_ID ?u \<noteq> zeroOID" "dv_users v (as_world st) (be_ID ?u) \<noteq> None" using id assms(5,6) by simp_all
  obtain st1 where st1: "repoUpdateUser env now ?u st = (Inr (?u\<lparr>be_UpdatedTime := now\<rparr>), st1)"
    "userWritten v ?u (as_world st) (as_world st1)" "dv_roles v (as_world st1) = dv_roles v (as_world st)"
    by (rule repoUpdateUser_healthy [OF assms(2,1) pre m])
  obtain w where w: "validAccess env v now' t st c w" "\<not> cl_NeedChangePassword c" "grants v (as_world st) w key p"
    by (rule Verify_sound [OF assms(1,9,8)])
  have users: "dv_users v (as_world st1) = (dv_users v (as_world st))(uid \<mapsto> ?u)" using st1(2) id by (simp add: userWritten_def)
  obtain uw where uw: "ae_fromHex env (cl_UID c) = Some uw" "dv_users v (as_world st) uw = Some w"
    using w(1) by (auto simp: validAccess_def)
  have "dv_users v (as_world st1) uw = Some (if w = u then ?u else w)"
    using uw(2) assms(5) id ud.view_id [OF db_lawsD(1) [OF assms(1)] uw(2)] by (cases "uw = uid") (auto simp: users)
  then have "validAccess env v now' t st1 c (if w = u then ?u else w)"
    using w(1) uw(1) by (auto simp: validAccess_def)
  moreover have "grants v (as_world st1) (if w = u then ?u else w) key p"
    using w(3) st1(3) by (auto simp: grants_def)
  ultimately obtain p' where "VerifyJWTToken env now' t key st1 = Inr (c, p')"
    using Verify_complete [OF assms(1,2,8) _ w(2)] by metis
  moreover have "UpdateUserPermissions env now operator i \<lparr>uo_Roles = None, uo_Status = Some UserStatusInactive\<rparr> st = (None, st1)"
    using assms(3,4,5) getUserByID_healthy [OF assms(2,1)] st1(1)
    by (simp add: UpdateUserPermissions_def GetBsonObjectUID_def rolesChecked_def outcome_def)
  ultimately show ?thesis by blast
qed

text \<open>The names of decisionMakerPortNames have no priority among each other: of two matching ports
  the first one in the pod wins.\<close>

lemma port_priority_ignored:
  "firstContainerPort (pod\<lparr>k_Containers :=
     [\<lparr>kc_Name = n, kc_Command = [], kc_Args = [],
       kc_Ports = [\<lparr>kp_Name = ''dm'', kp_ContainerPort = p\<rparr>, \<lparr>kp_Name = ''http'', kp_ContainerPort = q\<rparr>]\<rparr>]\<rparr>) = p"
  by (simp add: firstContainerPort_def excludedPortNames_def decisionMakerPortNames_def)

end
