(* ===== verification/Spec2Isabelle.thy ===== *)
theory Spec2Isabelle
  imports Examples Auth_Examples K8s_Examples Daemon_Examples Classifier_Table Sched_Loop Further_Facts
begin

text \<open>
  Gthulhu schedules Kubernetes workloads.  A \<^emph>\<open>manager\<close> (\<open>src/api/manager\<close>) keeps scheduling
  strategies and node policies, turns them into intents for the pods and nodes they select, and
  sends the intents to the \<^emph>\<open>decision maker\<close> of each node (\<open>src/api/decisionmaker\<close>).  The decision
  maker finds the processes of each pod under \<open>/proc\<close> and lists the scheduling decisions that
  the node's scheduler (\<open>src/internal/scheduler\<close>) polls.  A \<^emph>\<open>daemon\<close> (\<open>src/internal/daemon\<close>)
  starts the scheduler and restarts it when its configuration changes.  Manager and decision
  maker compare Merkle roots of what each holds, and the manager re-sends where they differ.

  \<^bold>\<open>Conventions.\<close>  Operations have the names of the Go functions.  A Go string is a list of
  bytes.  State is passed explicitly, and an operation returns its result together with the
  state it leaves, on error paths too.  Errors are values of a sum or option type.  Map iteration
  order, clocks, fresh identifiers and code outside the repository are arguments.  What such code is
  relied on for is a named predicate (\<open>cr_laws\<close>, \<open>db_laws\<close>, \<open>jwt_laws\<close>, \<open>argon2_laws\<close>, \<open>yaml_law\<close>,
  \<open>tmp_law\<close>, \<open>parse_law\<close>, \<open>range_law\<close>, \<open>list_pods_law\<close>, \<open>rt_laws\<close>), and each of them is
  shown to hold for a concrete instance in one of the theories of examples.  Operations that the
  code runs under one mutex are atomic steps.

  \<^bold>\<open>Shared theories.\<close>  \<open>Prelude\<close> and \<open>Go_Strings\<close> hold the part of Go's standard library that is
  used and the interface \<open>key_sorter\<close> of a stable sort.  \<open>Merkle\<close> is \<open>src/api/pkg/util/merkle.go\<close>
  and \<open>Generic_Map\<close> is \<open>generic_map.go\<close>, which implements the interface \<open>entry_store\<close>.

  \<^bold>\<open>Decision maker.\<close>
  \<^item> \<open>DM_Proc\<close>: pod discovery (\<open>service.go\<close>), thread snapshots (\<open>procmonitor.go\<close>) and the readers of
    scheduling statistics (\<open>pod_metric_collector.go\<close>), over a file system that is an argument.
  \<^item> \<open>DM_Domain\<close>: entities, the state \<open>Service\<close> of the service, and the digest of a cache
    as an instance of \<open>drift_digest\<close>.
  \<^item> \<open>DM_NodePolicy\<close> and \<open>DM_Intents\<close>: the caches of policies and of intents, every operation on them,
    and the relation \<open>dmReach\<close> of the states that sequences of operations reach.
  \<^item> \<open>DM_Api\<close>: the HTTP handlers and the manager's client, over a network that loses requests
    and replies.

  \<^bold>\<open>Manager.\<close>
  \<^item> \<open>Mgr_Domain\<close>: entities and the manager's half of the digest (\<open>cron_svc.go\<close>).
  \<^item> \<open>CR_Store\<close>, \<open>CR_Collection\<close>: custom resources on the API server, and the operations the
    repositories share, with the interfaces \<open>cr_collection\<close> and \<open>cr_stateful\<close>.
    \<open>Mgr_StrategyRepo\<close> and \<open>Mgr_NodeRepo\<close> interpret them for the four kinds of objects
    (\<open>cr_strategy_repo.go\<close>, \<open>cr_node_policy_repo.go\<close>).
  \<^item> \<open>Mgr_Env\<close>, \<open>Mgr_Reconcile\<close>, \<open>Mgr_Strategy\<close>, \<open>Mgr_NodePolicy\<close>: the services
    \<open>strategy_svc.go\<close>, \<open>node_policy_svc.go\<close> and the reconciliation of \<open>cron_svc.go\<close>.  The interface
    \<open>drift_target\<close> states what one side of the comparison of roots owes the other.
  \<^item> \<open>K8s_Adapter\<close>: the pod cache, its watcher and the queries of \<open>k8s_adapter/adapter.go\<close>.
    The relation \<open>watched\<close> links a sequence of watch events with the cluster it describes.
  \<^item> \<open>Password\<close>, \<open>Mgr_Rbac\<close>, \<open>Mgr_Auth\<close>, \<open>Mgr_Sessions\<close>, \<open>Mgr_Access\<close>: password hashes
    (\<open>encrypt.go\<close>, \<open>value.go\<close>), accounts and roles in MongoDB (\<open>repo_rbac.go\<close>), tokens and sessions
    (\<open>auth_svc.go\<close>, \<open>user_svc.go\<close>, \<open>role_svc.go\<close>) and the relation \<open>authReach\<close> over them.
  \<^item> \<open>Classifier\<close>, \<open>Classifier_Table\<close>: the adaptive pod classifier (\<open>rest/classifier_engine.go\<close>).
    The arithmetic on float64 is an argument and no law of it is assumed.

  \<^bold>\<open>Node.\<close>
  \<^item> \<open>Runtime_Config\<close>, \<open>Daemon_Config\<close>: runtime configurations and the configuration file with its
    atomic replacement.
  \<^item> \<open>Daemon\<close>, \<open>Daemon_Facts\<close>: choice of the scheduler binary, the control API, and the
    supervisor as the step relation \<open>supStep\<close>, interleaved with requests.
  \<^item> \<open>Mgr_Runtime\<close>, \<open>Mgr_Runtime_Facts\<close>: the path of a runtime configuration from the manager
    through the decision maker to the daemon and back.
  \<^item> \<open>Sched_Loop\<close>: the dispatch loop (\<open>dispatch_loop.go\<close>) on 64-bit words, over the calls of the
    BPF module.

  \<^bold>\<open>What is shown.\<close>  For the path from strategies to nodes: intents follow the strategies and the
  pods of the cluster, inserts are all or nothing, only owners change a strategy, a round of
  reconciliation brings every decision maker that answers to its node's intents, and the listing the
  scheduler reads contains what the intents and policies ask for and nothing else.  For accounts:
  refresh tokens work once when requests do not overlap, logging out of all sessions invalidates all
  tokens, and the access check grants exactly what the roles say.  For the node: the configuration file
  is replaced atomically, no update is lost by the supervisor, and only listed binaries
  are run.  Some properties state behaviour that departs from what the code or its comments intend;
  their descriptions say so.  \<open>Further_Facts\<close> holds properties of single operations.

  \<^bold>\<open>Termination.\<close>  All definitions but one are total functions.  The exception is the dispatch loop, a
  \<open>partial_function\<close> in which not returning is the value \<open>None\<close>.  That it returns once the
  context is cancelled is proved as such.  No definition uses fuel.

  \<^bold>\<open>Not modelled.\<close>  The manager's REST handlers (JSON binding), route tables, dependency injection,
  command lines and logging; the wrapper \<open>ReconcileIntents\<close> that calls the reconciliation
  steps in turn; pod scheduling metrics and Prometheus export; token issue by the decision maker;
  the monitor and the loading of eBPF programs, whose state is in the kernel; the command-line client;
  and generated code.  Locking inside a single operation and data races are not modelled, except
  the overlap of two refresh requests and of configuration requests with the supervisor.
\<close>

section \<open>Properties\<close>

text \<open>C1. One run of resyncIntentsToDMs brings every online decision maker that answers to the
  Merkle root of exactly the stored intents of its node, whatever it held before; the other
  decision makers may fail in any way. The hypotheses are that both sides use the same non-empty
  hash and that no two pods of different nodes share an address.\<close>

theorem resync_convergence:
  assumes "\<forall>x. me_sha env x \<noteq> []" "env_sha (net_env (ms_net st)) = me_sha env"
    and "me_dms env [] = Inr dms"
    and "QueryIntents (me_client env) (me_fromHex env) allIntents (ms_store st) = Inr intents"
    and "\<And>d d'. d \<in> set dms \<Longrightarrow> d' \<in> set dms \<Longrightarrow> addrOf d = addrOf d' \<Longrightarrow> dmp_NodeID d = dmp_NodeID d'"
    and "dm \<in> set dms" "dmp_State dm = NodeStateOnline" "answers dm (ms_net st)"
  shows "dmReported dm (snd (resyncIntentsToDMs env st)) =
    buildScheduleIntentMerkleRoot (me_sha env) (map Some (nodeShare intents dm))"
  using assms by (rule resync_converges)

theorem resync_convergence_witness:
  "dmReported exDM exState \<noteq> buildScheduleIntentMerkleRoot exSha [Some exIntent] \<and>
   dmReported exDM (snd (resyncIntentsToDMs exEnv exState)) = buildScheduleIntentMerkleRoot exSha [Some exIntent]"
proof
  show "dmReported exDM exState \<noteq> buildScheduleIntentMerkleRoot exSha [Some exIntent]" by code_simp
  have "nodeShare [exIntent] exDM = [exIntent]" by (simp add: nodeShare_def exIntent_def exDM_def)
  with resync_convergence [of exEnv exState "[exDM]" "[exIntent]" exDM]
  show "dmReported exDM (snd (resyncIntentsToDMs exEnv exState)) = buildScheduleIntentMerkleRoot exSha [Some exIntent]"
    by (simp add: exQuery_all ex_answers) (simp add: exNet_def exDM_def)
qed

text \<open>C2. A decision maker that already reports the root of its stored intents still reports it
  after resyncIntentsToDMs, even if requests and replies are lost.\<close>

theorem resync_never_spoils:
  assumes "\<forall>x. me_sha env x \<noteq> []" "env_sha (net_env (ms_net st)) = me_sha env"
    and "me_dms env [] = Inr dms"
    and "QueryIntents (me_client env) (me_fromHex env) allIntents (ms_store st) = Inr intents"
    and "\<And>d d'. d \<in> set dms \<Longrightarrow> d' \<in> set dms \<Longrightarrow> addrOf d = addrOf d' \<Longrightarrow> dmp_NodeID d = dmp_NodeID d'"
    and "dm \<in> set dms" "dmp_State dm = NodeStateOnline"
    and "dmReported dm st = buildScheduleIntentMerkleRoot (me_sha env) (map Some (nodeShare intents dm))"
  shows "dmReported dm (snd (resyncIntentsToDMs env st)) = dmReported dm st"
  using assms by (rule resync_keeps)

theorem resync_never_spoils_witness:
  "dmReported exDM (snd (resyncIntentsToDMs exEnv exSynced)) = dmReported exDM exSynced"
proof -
  have "nodeShare [exIntent] exDM = [exIntent]" by (simp add: nodeShare_def exIntent_def exDM_def)
  with resync_never_spoils [of exEnv exSynced "[exDM]" "[exIntent]" exDM] exSynced_reported
  show ?thesis by (simp add: exQuery_all) (simp add: exDM_def)
qed

text \<open>C3. When the repository calls succeed, refreshing a strategy leaves it with intents for
  exactly the pods that exist now, and every intent of another strategy is untouched.\<close>

theorem refresh_exact:
  assumes "cr_laws (me_client env) view" "intentStore (me_fromHex env) view (ms_store st) db"
    and "me_pods env (st_K8sNamespace s) (st_LabelSelectors s) = Inr pods"
    and "QueryIntents (me_client env) (me_fromHex env) (intentsOf (be_ID s)) (ms_store st) = Inr existing"
    and "DeleteIntents (me_client env) (map be_ID (staleIntents pods existing)) (ms_store st) = (None, w1)"
    and "InsertIntents (me_client env) (me_namespace env) (me_now env) (freshFrom env st)
        (map (NewScheduleIntent (me_now env) s) (newPods pods existing)) w1 = (Inr outs, w2)"
    and "validStrategy (me_fromHex env) s" "\<forall>n. validOID (me_fromHex env) (me_fresh env n)"
  shows "\<exists>db'. intentStore (me_fromHex env) view (ms_store (refreshStrategy env s st)) db' \<and>
    {si_PodID i |i. db' (be_ID i) = Some i \<and> si_StrategyID i = be_ID s} = pod_PodID ` set pods \<and>
    (\<forall>n i. si_StrategyID i \<noteq> be_ID s \<longrightarrow> (db' n = Some i) = (db n = Some i))"
  using assms by (rule refreshStrategy_exact)

theorem refresh_exact_witness:
  "\<exists>db'. intentStore exHex mem_view (ms_store (refreshStrategy exEnv exStrategy exState)) db' \<and>
    {si_PodID i |i. db' (be_ID i) = Some i \<and> si_StrategyID i = ''s1''} = {''p2''}"
proof -
  have stale: "DeleteIntents mem_client (map be_ID (staleIntents [exPod] [exIntent])) exStore = (None, exStore(IntentCR := []))"
    by (simp add: staleIntents_def exPod_def exIntent_def DeleteIntents_def mem_client_def exStore_def deleteFailed_def)
  have new: "newPods [exPod] [exIntent] = [exPod]" by (simp add: newPods_def exPod_def exIntent_def)
  obtain outs w2 where ins: "InsertIntents mem_client ''d'' 7 (freshFrom exEnv exState)
        (map (NewScheduleIntent 7 exStrategy) (newPods [exPod] [exIntent])) (exStore(IntentCR := [])) = (Inr outs, w2)"
    by (simp add: new InsertIntents_def mem_client_def Let_def)
  from refresh_exact [of exEnv mem_view exState "[''i1'' \<mapsto> exIntent]" exStrategy "[exPod]" "[exIntent]" "exStore(IntentCR := [])" outs w2]
  show ?thesis by (simp add: mem_laws exStore_intents exQuery_strategy stale ins exStrategy_valid) (auto simp: exPod_def)
qed







text \<open>C7. A successful DeleteScheduleStrategy concerns a strategy of the operator and removes
  exactly it and its intents.\<close>

theorem delete_strategy_exact:
  assumes "cr_laws (me_client env) view"
    and "intentStore (me_fromHex env) view (ms_store st) db" "strategyStore (me_fromHex env) view (ms_store st) sdb"
    and "me_fromHex env strategyID = Some sid" "me_fromHex env uid = Some operator"
    and "DeleteScheduleStrategy env uid strategyID st = (None, st')"
  shows "(\<exists>s. sdb sid = Some s \<and> be_CreatorID s = operator) \<and>
    strategyStore (me_fromHex env) view (ms_store st') (sdb(sid := None)) \<and>
    intentStore (me_fromHex env) view (ms_store st')
      (\<lambda>n. case db n of Some i \<Rightarrow> if si_StrategyID i = sid then None else Some i | None \<Rightarrow> None)"
  using assms by (rule DeleteScheduleStrategy_ok)

theorem delete_strategy_exact_witness:
  "\<exists>st'. DeleteScheduleStrategy exEnv ''u1'' ''s1'' exState = (None, st') \<and> strategyStore exHex mem_view (ms_store st') Map.empty"
proof -
  have q: "QueryStrategies mem_client exHex (ownedStrategy ''s1'' ''u1'') exStore = Inr [exStrategy]"
    using strategies.roundtrip [OF exStrategy_valid, of "''d''"]
    by (simp add: QueryStrategies_def queryObjects_def mem_client_def exStore_def ownedStrategy_def matchesStrategyFilter_def)
      (simp add: exStrategy_def)
  have d: "DeleteIntentsByStrategyID mem_client ''s1'' exStore = (None, exStore(IntentCR := []))"
    by (simp add: DeleteIntentsByStrategyID_def deleteLabelled_def mem_client_def exStore_def GetLabels_intent deleteFailed_def)
  have e: "DeleteStrategy mem_client ''s1'' (exStore(IntentCR := [])) = (None, exStore(IntentCR := [], StrategyCR := []))"
    by (simp add: DeleteStrategy_def deleteObject_def mem_client_def exStore_def)
  obtain st' where st': "DeleteScheduleStrategy exEnv ''u1'' ''s1'' exState = (None, st')"
    by (simp add: DeleteScheduleStrategy_def exHex_def [of "''s1''"] exHex_def [of "''u1''"] q d e exQuery_strategy)
  from delete_strategy_exact [OF _ _ _ _ _ st', of mem_view "[''i1'' \<mapsto> exIntent]" "[''s1'' \<mapsto> exStrategy]" "''s1''" "''u1''"]
  have "strategyStore exHex mem_view (ms_store st') ([''s1'' \<mapsto> exStrategy](''s1'' := None))"
    by (simp add: mem_laws exStore_intents exStore_strategies exHex_def)
  with st' show ?thesis by (simp only: fun_upd_upd) auto
qed

text \<open>C8. Updating or deleting a strategy that does not exist or belongs to another user fails and
  changes neither the store nor any decision maker.\<close>

theorem strategy_owner_only:
  assumes "cr_laws (me_client env) view" "strategyStore (me_fromHex env) view (ms_store st) db"
    and "me_fromHex env strategyID = Some sid" "me_fromHex env uid = Some operator"
    and "\<forall>s. db sid = Some s \<longrightarrow> be_CreatorID s \<noteq> operator"
  shows "fst (DeleteScheduleStrategy env uid strategyID st) \<noteq> None \<and> snd (DeleteScheduleStrategy env uid strategyID st) = st \<and>
    fst (UpdateScheduleStrategy env uid strategyID s st) \<noteq> None \<and> snd (UpdateScheduleStrategy env uid strategyID s st) = st"
  using not_owner [OF assms] by blast

theorem strategy_owner_only_witness:
  "fst (DeleteScheduleStrategy exEnv ''u2'' ''s1'' exState) \<noteq> None \<and> snd (DeleteScheduleStrategy exEnv ''u2'' ''s1'' exState) = exState"
  using strategy_owner_only [of exEnv mem_view exState "[''s1'' \<mapsto> exStrategy]" "''s1''" "''s1''" "''u2''" "''u2''" exStrategy]
  by (simp add: mem_laws exStore_strategies exHex_def) (simp add: exStrategy_def)

text \<open>C9. DeleteScheduleIntents succeeds only if every named intent exists and belongs to the
  operator, and then removes exactly these.\<close>

theorem delete_intents_owned:
  assumes "cr_laws (me_client env) view" "intentStore (me_fromHex env) view (ms_store st) db"
    and "me_fromHex env uid = Some operator" "ids \<noteq> []"
    and "DeleteScheduleIntents env uid ids st = (None, st')"
  shows "\<exists>objIDs. map (me_fromHex env) ids = map Some objIDs \<and>
    (\<forall>n \<in> set objIDs. \<exists>i. db n = Some i \<and> be_CreatorID i = operator) \<and>
    intentStore (me_fromHex env) view (ms_store st') (\<lambda>n. if n \<in> set objIDs then None else db n)"
  by (rule DeleteScheduleIntents_ok [OF assms]) (intro exI conjI)

theorem delete_intents_owned_witness:
  "\<exists>st'. DeleteScheduleIntents exEnv ''u1'' [''i1''] exState = (None, st') \<and> intentStore exHex mem_view (ms_store st') Map.empty"
proof -
  have q: "QueryIntents mem_client exHex (allIntents\<lparr>qi_IDs := [''i1''], qi_CreatorIDs := [''u1'']\<rparr>) exStore = Inr [exIntent]"
    using intents.roundtrip [OF exIntent_valid, of "''d''"]
    by (simp add: QueryIntents_def queryObjects_def mem_client_def exStore_def allIntents_def matchesIntentFilter_def)
      (simp add: exIntent_def)
  have d: "DeleteIntents mem_client [''i1''] exStore = (None, exStore(IntentCR := []))"
    by (simp add: DeleteIntents_def mem_client_def exStore_def deleteFailed_def)
  have c: "be_CreatorID exIntent = ''u1''" by (simp add: exIntent_def)
  obtain st' where st': "DeleteScheduleIntents exEnv ''u1'' [''i1''] exState = (None, st')"
    by (simp add: DeleteScheduleIntents_def q d exHex_def c)
  from delete_intents_owned [OF _ _ _ _ st', of mem_view "[''i1'' \<mapsto> exIntent]" "''u1''"]
  have "\<exists>objIDs. map exHex [''i1''] = map Some objIDs \<and> intentStore exHex mem_view (ms_store st')
      (\<lambda>n. if n \<in> set objIDs then None else [''i1'' \<mapsto> exIntent] n)"
    by (simp add: mem_laws exStore_intents exHex_def) (elim exE conjE, intro exI conjI)
  moreover have "(\<lambda>n. if n \<in> {''i1''} then None else [''i1'' \<mapsto> exIntent] n) = Map.empty" by (rule ext) simp
  ultimately have "intentStore exHex mem_view (ms_store st') Map.empty" by (auto simp: exHex_def)
  with st' show ?thesis by blast
qed

text \<open>C10. A refresh token that was exchanged by RefreshToken or revoked by Logout is refused in
  every later state, whatever account operations run in between, and the refused request changes
  nothing. The hypotheses are the database driver's promises, distinct session IDs, that the
  claims of a token do not depend on when it is read, and an initial state whose sessions are
  distinct, such as an empty database.\<close>

theorem refresh_single_use:
  assumes "db_laws (ae_db env) v" "inj (ae_xid env)" "parse_stable env"
    and "sessionInv env v st0" "authReach env st0 st"
    and "(\<exists>pair. RefreshToken env now t st = (Inr pair, st1)) \<or> Logout env now t st = (None, st1)"
    and "authReach env st1 st2"
  shows "\<exists>e. RefreshToken env later t st2 = (Inl e, st2)"
proof -
  have inv: "sessionInv env v st"
    using steps_preserve [OF authReach_steps [OF assms(1,5)], of "sessionInv env v"] sessionInv_step [OF assms(2)] assms(4) by blast
  obtain claims uid where c: "parseAndValidateToken env now t = Inr claims" "ae_fromHex env (cl_UID claims) = Some uid"
    and d: "deadSession env v uid (cl_ID claims) st1"
    using assms(6) RefreshToken_kills [OF assms(1,2) inv, of now t _ st1] Logout_kills [OF assms(1) inv, of now t st1] by metis
  have "deadSession env v uid (cl_ID claims) st2"
    using steps_preserve [OF authReach_steps [OF assms(1,7)], of "deadSession env v uid (cl_ID claims)"]
      deadSession_step [OF assms(2)] d by blast
  then show ?thesis by (rule dead_refused [OF assms(1,3) c])
qed

theorem refresh_single_use_witness:
  "\<exists>pair st1 e. RefreshToken acc_env 0 accRefresh accState = (Inr pair, st1) \<and>
     RefreshToken acc_env 1000 accRefresh st1 = (Inl e, st1)"
proof -
  let ?u = "accUser\<lparr>us_RefreshTokens := [accSession\<lparr>rs_Revoked := True\<rparr>], be_UpdatedTime := 0\<rparr>"
  have v: "db_laws (ae_db acc_env) acc_view" by (simp add: acc_laws)
  have pre: "be_ID ?u \<noteq> zeroOID" "dv_users acc_view (as_world accState) (be_ID ?u) \<noteq> None" "storedPassword ?u"
    using acc_stored by (simp_all add: storedPassword_def)
  obtain pair st1 where r: "refreshCommit acc_env 0 ?u accState = (Inr pair, st1)"
    by (rule refreshCommit_healthy [OF v acc_healthy acc_jwt_laws pre]) blast
  then have run: "RefreshToken acc_env 0 accRefresh accState = (Inr pair, st1)"
    using acc_refreshCheck [of 0] by (simp add: RefreshToken_def)
  then show ?thesis
    using refresh_single_use [OF v acc_inj acc_parse_stable acc_inv reach_refl _ reach_refl, of 0 accRefresh st1 1000]
    by auto
qed







text \<open>C14. Two refreshes with the same token that both read the user before either writes both
  succeed, and the session of the first one is lost, so its refresh token is dead although it
  was just issued.\<close>

theorem refresh_race:
  assumes "db_laws (ae_db env) v" "healthy env" "jwt_laws env" "inj (ae_xid env)"
    and "sessionInv env v st" "refreshCheck env now t st = Inr u" "refreshCheck env now' t st = Inr u'" "parse_stable env"
    and "be_ID u \<noteq> zeroOID" "storedPassword u"
  shows "\<exists>p1 st1 p2 st2. refreshCommit env now u st = (Inr p1, st1) \<and> refreshCommit env now' u' st1 = (Inr p2, st2) \<and>
      (\<forall>doc. dv_users v (as_world st2) (be_ID u) = Some doc \<longrightarrow> ae_xid env (as_xids st) \<notin> rs_JTI ` set (us_RefreshTokens doc))"
proof -
  obtain claims uid u0 ss where r: "dv_users v (as_world st) uid = Some u0" "be_ID u0 = uid"
    "useSession (cl_ID claims) (hashToken env t) now (us_RefreshTokens u0) = Inr ss"
    "u = u0\<lparr>us_RefreshTokens := ss, be_UpdatedTime := now\<rparr>" "ae_fromHex env (cl_UID claims) = Some uid"
    "parseAndValidateToken env now t = Inr claims"
    by (rule refreshCheck_view [OF assms(1,6)])
  obtain claims' uid' u0' ss' where r': "dv_users v (as_world st) uid' = Some u0'" "be_ID u0' = uid'"
    "useSession (cl_ID claims') (hashToken env t) now' (us_RefreshTokens u0') = Inr ss'"
    "u' = u0'\<lparr>us_RefreshTokens := ss', be_UpdatedTime := now'\<rparr>" "ae_fromHex env (cl_UID claims') = Some uid'"
    "parseAndValidateToken env now' t = Inr claims'"
    by (rule refreshCheck_view [OF assms(1,7)])
  have same: "u0' = u0" "uid' = uid"
    using r(1,5,6) r'(1,5,6) assms(8) unfolding parse_stable_def by (metis option.inject)+
  have pre: "dv_users v (as_world st) (be_ID u) \<noteq> None" using r by simp
  obtain a1 r1 st1 s1 where c1: "refreshCommit env now u st = (Inr \<lparr>tp_AccessToken = a1, tp_RefreshToken = r1\<rparr>, st1)"
    "rs_JTI s1 = ae_xid env (as_xids st)" "as_xids st1 = as_xids st + 1"
    "userWritten v (u\<lparr>us_RefreshTokens := pruneRefreshSessions (us_RefreshTokens u) now @ [s1], be_UpdatedTime := now\<rparr>)
       (as_world st) (as_world st1)"
    by (rule refreshCommit_healthy [OF assms(1,2,3,9) pre assms(10)])
  have pre': "be_ID u' \<noteq> zeroOID" "dv_users v (as_world st1) (be_ID u') \<noteq> None" "storedPassword u'"
    using assms(9,10) c1(4) r(2,4) r'(2,4) same by (simp_all add: userWritten_def storedPassword_def)
  obtain a2 r2 st2 s2 where c2: "refreshCommit env now' u' st1 = (Inr \<lparr>tp_AccessToken = a2, tp_RefreshToken = r2\<rparr>, st2)"
    "rs_JTI s2 = ae_xid env (as_xids st1)" "as_xids st2 = as_xids st1 + 1"
    "userWritten v (u'\<lparr>us_RefreshTokens := pruneRefreshSessions (us_RefreshTokens u') now' @ [s2], be_UpdatedTime := now'\<rparr>)
       (as_world st1) (as_world st2)"
    by (rule refreshCommit_healthy [OF assms(1,2,3) pre'])
  have "goodSessions env (as_xids st) (us_RefreshTokens u0)"
    using assms(5) r(1) by (auto simp: sessionInv_def ran_def)
  then have "rs_JTI ` set (us_RefreshTokens u') \<subseteq> drawn env 0 (as_xids st)"
    using useSession_from [OF r'(3)] r'(4) same by (auto simp: goodSessions_def) (metis image_eqI subsetD)
  moreover have "ae_xid env (as_xids st) \<notin> drawn env 0 (as_xids st)" "ae_xid env (as_xids st) \<noteq> ae_xid env (as_xids st1)"
    using assms(4) c1(3) by (auto simp: drawn_def inj_eq)
  ultimately have "ae_xid env (as_xids st) \<notin> rs_JTI ` set (pruneRefreshSessions (us_RefreshTokens u') now' @ [s2])"
    using c2(2) by (auto simp: pruneRefreshSessions_def)
  moreover have "be_ID u' = be_ID u" using r r' same by simp
  ultimately show ?thesis using c1(1) c2(1,4) by (auto simp: userWritten_def)
qed

theorem refresh_race_witness:
  "\<exists>u p1 st1 p2 st2. refreshCheck acc_env 0 accRefresh accState = Inr u \<and>
     refreshCommit acc_env 0 u accState = (Inr p1, st1) \<and> refreshCommit acc_env 0 u st1 = (Inr p2, st2)"
proof -
  have v: "db_laws (ae_db acc_env) acc_view" by (simp add: acc_laws)
  have u: "refreshCheck acc_env 0 accRefresh accState =
      Inr (accUser\<lparr>us_RefreshTokens := [accSession\<lparr>rs_Revoked := True\<rparr>], be_UpdatedTime := 0\<rparr>)"
    by (rule acc_refreshCheck) simp_all
  show ?thesis
    using refresh_race [OF v acc_healthy acc_jwt_laws acc_inj acc_inv u u acc_parse_stable] acc_stored u
    by (auto simp: storedPassword_def)
qed

text \<open>C15. A password that does not look like an Argon2 hash is stored as one, is stored unchanged
  when the user is written back, compares equal to itself, and to another password only if the
  derived keys agree.\<close>

theorem password_roundtrip:
  assumes "argon2_laws ag" "usableParams p" "length salt = unat (ap_SaltLength p)" "\<not> IsArgon2Hash pw"
  shows "\<exists>h. MarshalPassword ag p (Some salt) pw = Inr h \<and> MarshalPassword ag p' rnd h = Inr h \<and>
      Cmp ag h pw = Inr True \<and>
      (Cmp ag h q = Inr True \<longleftrightarrow>
         a2_IDKey ag q salt (ap_Iterations p) (ap_Memory p) (ap_Parallelism p) (ap_KeyLength p) =
         a2_IDKey ag pw salt (ap_Iterations p) (ap_Memory p) (ap_Parallelism p) (ap_KeyLength p))"
proof -
  obtain h where h: "MarshalPassword ag p (Some salt) pw = Inr h" "IsArgon2Hash h"
    "\<And>q. Cmp ag h q = Inr (a2_IDKey ag pw salt (ap_Iterations p) (ap_Memory p) (ap_Parallelism p) (ap_KeyLength p) =
       a2_IDKey ag q salt (ap_Iterations p) (ap_Memory p) (ap_Parallelism p) (ap_KeyLength p))"
    by (rule stored_password [OF assms]) blast
  show ?thesis
    by (intro exI [of _ h] conjI) (auto simp: h(1) h(3) Marshal_stored [OF h(2)])
qed

theorem password_roundtrip_witness:
  "\<exists>h. MarshalPassword acc_argon2 defaultArgon2idParams (Some (replicate 16 (CHR ''s''))) ''secret'' = Inr h \<and>
     MarshalPassword acc_argon2 defaultArgon2idParams None h = Inr h \<and> Cmp acc_argon2 h ''secret'' = Inr True"
proof -
  have no: "\<not> IsArgon2Hash ''secret''" by code_simp
  have s: "length (replicate 16 (CHR ''s'')) = unat (ap_SaltLength defaultArgon2idParams)"
    by (simp add: defaultArgon2idParams_def)
  show ?thesis
    using password_roundtrip [OF acc_argon2_laws usable_default s no, of defaultArgon2idParams None] by blast
qed

text \<open>C16. After a successful creation the decision maker of the pods' node caches intents for
  exactly the pods of the new strategy: the intents of other strategies it held are gone until
  the next reconciliation.\<close>

theorem create_overwrites_cache:
  assumes "cr_laws (me_client env) view" "\<forall>xs. mset (me_range env xs) = mset xs"
    and "me_fromHex env uid = Some operator" "validOID (me_fromHex env) operator" "\<forall>n. validOID (me_fromHex env) (me_fresh env n)"
    and "me_pods env (st_K8sNamespace s) (st_LabelSelectors s) = Inr pods" "\<forall>p \<in> set pods. pod_NodeID p = dmp_NodeID dm"
    and "\<And>ns. me_dms env ns = Inr [dm]"
    and "CreateScheduleStrategy env uid s st = (None, st')"
  shows "int_PodID ` set (somes (svc_intentCache (net_service (ms_net st') (addrOf dm)))) = pod_PodID ` set pods"
  using assms by (rule CreateScheduleStrategy_pushes)

theorem create_overwrites_cache_witness:
  "\<exists>st'. CreateScheduleStrategy exEnv ''u1'' exStrategy exState = (None, st') \<and>
     int_PodID ` set (somes (svc_intentCache (net_service (ms_net st') (addrOf exDM)))) = {''p2''}"
proof -
  obtain st' where st': "CreateScheduleStrategy exEnv ''u1'' exStrategy exState = (None, st')" using exCreate by blast
  from create_overwrites_cache [OF _ _ _ _ _ _ _ _ st', of mem_view "''u1''" "[exPod]" exDM]
  show ?thesis using st' by (simp add: mem_laws exHex_def [of "''u1''"]) (simp add: exPod_def exDM_def)
qed



text \<open>C18. A policy with at least one selector applies to exactly the nodes that pass each kind of
  selector it uses, each once.\<close>

theorem resolve_nodes_exact:
  assumes "\<forall>xs. mset (me_range env xs) = mset xs"
    and "nsp_NodeSelectors p \<noteq> [] \<or> nsp_NodeNames p \<noteq> [] \<or> nsp_DRASelectors p \<noteq> []"
    and "me_nodes env (nsp_NodeSelectors p) (nsp_NodeNames p) = Inr ns"
    and "me_nodesDRA env (nsp_DRASelectors p) = Inr ds"
  shows "\<exists>rs. resolveNodesForPolicy env p = Inr rs \<and> distinct (map node_Name rs) \<and>
    node_Name ` set rs = passing (nsp_NodeSelectors p \<noteq> [] \<or> nsp_NodeNames p \<noteq> []) ns \<inter> passing (nsp_DRASelectors p \<noteq> []) ds"
  using assms by (rule resolveNodes_exact)

theorem resolve_nodes_exact_witness:
  "\<exists>rs. resolveNodesForPolicy exNodeEnv exNodePolicy = Inr rs \<and> node_Name ` set rs = {''n2''}"
proof -
  have "nsp_NodeSelectors exNodePolicy \<noteq> []" "nsp_DRASelectors exNodePolicy \<noteq> []" by (simp_all add: exNodePolicy_def)
  with resolve_nodes_exact [of exNodeEnv exNodePolicy "[exNode ''n1'', exNode ''n2'']" "[exNode ''n2'']"]
  have "\<exists>rs. resolveNodesForPolicy exNodeEnv exNodePolicy = Inr rs \<and> node_Name ` set rs = {''n1'', ''n2''} \<inter> {''n2''}"
    by (auto simp: exNodeEnv_def exNode_def passing_def)
  then show ?thesis by simp
qed



text \<open>C20. A successful listing contains exactly one kind of entry per source: the scheduling intent
  of a cached intent for a process of its pod whose command matches the pattern and is not the
  pause container, and for every thread the intent of the policy that wins for its TID.\<close>

theorem listing_exact:
  assumes "dmReach sha compile machineID s" "GetAllPodInfos fs = Inr podInfos"
    and "fst (ListAllSchedulingIntents compile fs (Some (Inr tasks)) s) = Inr rs"
  shows "r \<in> set rs \<longleftrightarrow>
    (\<exists>i \<in> set (somes (svc_intentCache s)). \<exists>re podInfo. \<exists>p \<in> set (pi_Processes podInfo).
       compile (int_CommandRegex i) = Some re \<and> podInfos (int_PodID i) = Some podInfo \<and>
       pp_Command p \<noteq> pauseCommand \<and> re (pp_Command p) \<and> r = schedulingIntentFor i p) \<or>
    (\<exists>p. winningPolicy compile tasks (svc_nodePolicyCache s) (sch_PID r) = Some p \<and> r = nodeIntentFor p (sch_PID r))"
proof -
  have c: "None \<notin> set (svc_intentCache s)" using dmReach_inv [OF assms(1)] by (simp add: dmInv_def)
  from ListAll_ok [OF c assms(2), of compile "Some (Inr tasks)"] assms(3) obtain ns where
    ns: "resolveNodeSchedulingIntents compile (Some (Inr tasks)) s = Inr ns"
      "rs = resolvedIntents compile podInfos (somes (svc_intentCache s)) @ ns"
    by (cases "resolveNodeSchedulingIntents compile (Some (Inr tasks)) s") auto
  show ?thesis unfolding ns(2) set_append Un_iff set_resolvedIntents resolveNode_spec(1) [OF ns(1)] ..
qed

theorem listing_exact_witness:
  "nodeIntentFor exPolicy 10 \<in> set [schedulingIntentFor (wireIntent exIntent) \<lparr>pp_PID = 10, pp_Command = ''nginx'', pp_PPID = 0, pp_ContainerID = ''ab''\<rparr>,
        nodeIntentFor exPolicy 10] \<longleftrightarrow>
    (\<exists>i \<in> set (somes (svc_intentCache exService)). \<exists>re podInfo. \<exists>p \<in> set (pi_Processes podInfo).
       exCompile (int_CommandRegex i) = Some re \<and> exPods (int_PodID i) = Some podInfo \<and>
       pp_Command p \<noteq> pauseCommand \<and> re (pp_Command p) \<and> nodeIntentFor exPolicy 10 = schedulingIntentFor i p) \<or>
    (\<exists>p. winningPolicy exCompile exTasks (svc_nodePolicyCache exService) (sch_PID (nodeIntentFor exPolicy 10)) = Some p \<and>
       nodeIntentFor exPolicy 10 = nodeIntentFor p (sch_PID (nodeIntentFor exPolicy 10)))"
  by (rule listing_exact [OF exService_reach exPods_scan exService_list])

text \<open>C21. The listing fails exactly when intents are cached and the process scan fails, or
  otherwise when node policies are cached and the thread snapshot fails; a nil dereference never
  occurs.\<close>

theorem listing_errors:
  assumes "dmReach sha compile machineID s"
  shows "fst (ListAllSchedulingIntents compile fs snapshot s) = Inl e \<longleftrightarrow>
    (if svc_intentCache s \<noteq> [] \<and> (\<exists>x. GetAllPodInfos fs = Inl x) then \<exists>x. GetAllPodInfos fs = Inl x \<and> e = PodScan x
     else svc_nodePolicyCache s \<noteq> [] \<and> (\<exists>x. snapshot = Some (Inl x) \<and> e = NodeScan x))"
proof -
  have c: "None \<notin> set (svc_intentCache s)" using dmReach_inv [OF assms] by (simp add: dmInv_def)
  have node: "(\<exists>x. resolveNodeSchedulingIntents compile snapshot s = Inl x \<and> e = NodeScan x) \<longleftrightarrow>
      svc_nodePolicyCache s \<noteq> [] \<and> (\<exists>x. snapshot = Some (Inl x) \<and> e = NodeScan x)"
    by (auto simp: resolveNodeSchedulingIntents_def Let_def split: option.splits sum.splits)
  show ?thesis
  proof (cases "GetAllPodInfos fs")
    case (Inr podInfos)
    show ?thesis unfolding ListAll_ok [OF c Inr] using node Inr by (auto split: sum.splits)
  next
    case (Inl x)
    show ?thesis
    proof (cases "svc_intentCache s = []")
      case True
      then show ?thesis using node ListAll_no_cache [OF True, of compile fs snapshot] by (auto split: sum.splits)
    qed (use ListAll_pod_scan_error [OF _ Inl, of s compile snapshot] Inl in auto)
  qed
qed

theorem listing_errors_witness:
  "fst (ListAllSchedulingIntents exCompile exProcFs (Some (Inl ContextDone)) exService) = Inl (NodeScan ContextDone)"
  using listing_errors [OF exService_reach, of exProcFs "Some (Inl ContextDone)" "NodeScan ContextDone"]
  by (simp add: exPods_scan exService_caches)

text \<open>C22. After a successful SendSchedulingIntent the decision maker caches exactly the intents
  sent and reports the root the manager computes for them, and no other decision maker is
  affected.\<close>

theorem push_establishes_root:
  assumes "SendSchedulingIntent dm intents net = (None, net')"
  shows "reportedRoot (env_sha (net_env net)) (net_service net' (addrOf dm)) =
           buildScheduleIntentMerkleRoot (env_sha (net_env net)) (map Some intents) \<and>
         svc_intentCache (net_service net' (addrOf dm)) = map (\<lambda>i. Some (wireIntent i)) intents \<and>
         (\<forall>a. a \<noteq> addrOf dm \<longrightarrow> net_service net' a = net_service net a)"
proof -
  note ok = SendSchedulingIntent_ok [OF assms]
  have "net_service net' a = net_service net a" if "a \<noteq> addrOf dm" for a
    using arg_cong [OF ok(1), of "\<lambda>n. net_service n a"] that by simp
  with ok(2,3) show ?thesis by blast
qed

theorem push_establishes_root_witness:
  "\<exists>net'. SendSchedulingIntent exDM [exIntent] exNet = (None, net') \<and>
     reportedRoot exSha (net_service net' (''h1'', 8080)) = buildScheduleIntentMerkleRoot exSha [Some exIntent]"
proof -
  obtain net' where n: "SendSchedulingIntent exDM [exIntent] exNet = (None, net')"
    using answers_push [of exDM exState "[exIntent]"] ex_answers
    by (auto simp: pushIntents_def split: prod.splits)
  with push_establishes_root [OF n] show ?thesis by (auto simp: exNet_def exDM_def addrOf_def)
qed

text \<open>C23. After a successful push of node policies the decision maker reports a root that differs
  from the one the manager expects, unless SHA-256 collides: the two sides put the policy ID and
  the node ID in a different order, so the reconciliation pushes node policies again in every
  round.\<close>

theorem node_roots_differ:
  assumes "SendNodeSchedulingPolicies dm intents net = (None, net')" "intents \<noteq> []"
    and "sha = env_sha (net_env net)" "\<forall>x. length (sha x) = k"
    and "inj_on sha (digestInputs sha (map serializeNodeSchedulingIntent (sortNodeIntentsByKey (map Some intents))) \<union>
           digestInputs sha (map serializeNodePolicy (sortNodePoliciesByKey (map wireNodePolicy intents))))"
  shows "GetNodePolicyMerkleRootHash (net_service net' (addrOf dm)) \<noteq>
         buildNodeSchedulingIntentMerkleRoot sha (map Some intents)"
  using SendNodeSchedulingPolicies_ok(3) [OF assms(1)] node_roots_mismatch [OF assms(2,4,5)] assms(3) by simp

theorem node_roots_differ_witness:
  "\<exists>net net'. SendNodeSchedulingPolicies exDM [exNodeIntent] net = (None, net') \<and>
     GetNodePolicyMerkleRootHash (net_service net' (addrOf exDM)) \<noteq>
     buildNodeSchedulingIntentMerkleRoot (\<lambda>s. [if s = [] then CHR ''0'' else hd s]) [Some exNodeIntent]"
proof -
  let ?sha = "\<lambda>s. [if s = [] then CHR ''0'' else hd s]"
  let ?net = "exNet\<lparr>net_env := \<lparr>env_sha = ?sha, env_compile = exCompile\<rparr>\<rparr>"
  obtain net' where n: "SendNodeSchedulingPolicies exDM [exNodeIntent] ?net = (None, net')"
    by (simp add: SendNodeSchedulingPolicies_def exchange_def resultError_def unitReply_def HandleNodePolicies_def exNet_def Let_def)
  have "serializeNodeSchedulingIntent exNodeIntent \<noteq> []" "hd (serializeNodeSchedulingIntent exNodeIntent) = CHR ''n''"
    "serializeNodePolicy (wireNodePolicy exNodeIntent) \<noteq> []" "hd (serializeNodePolicy (wireNodePolicy exNodeIntent)) = CHR ''p''"
    by (simp_all add: serializeNodeSchedulingIntent_def serializeNodePolicy_def)
  with node_roots_differ [OF n, of ?sha 1]
  have "GetNodePolicyMerkleRootHash (net_service net' (addrOf exDM)) \<noteq> buildNodeSchedulingIntentMerkleRoot ?sha [Some exNodeIntent]"
    by (simp add: digestInputs_def merkleInputs.simps sortNodeIntentsByKey_def sortNodePoliciesByKey_def) fastforce
  with n show ?thesis by blast
qed

text \<open>C24. Two lists of intents of the same length whose serialised intents differ as multisets have
  different Merkle roots, unless the hash collides on a string hashed for them.\<close>

theorem intent_root_binding:
  assumes "length xs = length ys" "\<forall>x. length (sha x) = k"
    and "inj_on sha (digestInputs sha (map serializeScheduleIntent (sortScheduleIntentsByKey (map Some xs))) \<union>
           digestInputs sha (map serializeScheduleIntent (sortScheduleIntentsByKey (map Some ys))))"
    and "mset (map serializeScheduleIntent xs) \<noteq> mset (map serializeScheduleIntent ys)"
  shows "buildScheduleIntentMerkleRoot sha (map Some xs) \<noteq> buildScheduleIntentMerkleRoot sha (map Some ys)"
  using mgi.root_binding [OF assms(1-3)] assms(4) unfolding buildScheduleIntentMerkleRoot_def by blast

theorem intent_root_binding_witness:
  "buildScheduleIntentMerkleRoot (\<lambda>s. if s = serializeScheduleIntent exIntent then ''a'' else ''b'') [Some exIntent] \<noteq>
   buildScheduleIntentMerkleRoot (\<lambda>s. if s = serializeScheduleIntent exIntent then ''a'' else ''b'') [Some (exIntent\<lparr>si_Priority := 4\<rparr>)]"
  using intent_root_binding [of "[exIntent]" "[exIntent\<lparr>si_Priority := 4\<rparr>]" "\<lambda>s. if s = serializeScheduleIntent exIntent then ''a'' else ''b''" 1] ex_ser
  by (simp add: digestInputs_def merkleInputs.simps sortScheduleIntentsByKey_def normalizeScheduleIntents_def)



text \<open>C26. Every pod found in the process file system is filed under its own UID in canonical form,
  has a process, and all its processes are numeric directories of the scan.\<close>

theorem pod_discovery:
  assumes "readDir fs rootDir = Inr es" "FindPodInfoFrom fs rootDir = Inr m" "m uid = Some p"
  shows "pi_PodUID p = uid \<and> canonicalUID uid \<and> pi_Processes p \<noteq> [] \<and>
    (\<forall>q \<in> set (pi_Processes p). \<exists>name. (name, True) \<in> set es \<and> Atoi name = Some (pp_PID q))"
  using FindPodInfoFrom_inv [OF assms(1,2)] assms(3) by (auto simp: podMapInv_def podOk_def numericDirs_def)

theorem pod_discovery_witness: "canonicalUID exUID"
  using pod_discovery [of exProcFs "''/proc''" "[(''10'', True), (''stat'', False)]" exPods exUID] exPods_scan exPods_pod
  by (simp add: GetAllPodInfos_def exProcFs_def)


text \<open>C28. The tree over a non-empty list of leaf hashes is complete and correct: all leaves are at
  the same depth, every inner node carries the hash of its two children, the leaves read from
  left to right start with the given hashes in their order, and the depth is the least one whose
  full tree has room for them.\<close>

theorem merkle_tree_shape:
  assumes "hs \<noteq> []"
  shows "\<exists>d. perfect d (BuildMerkleTree sha hs) \<and> wfNode sha (BuildMerkleTree sha hs) \<and>
           prefix hs (leafHashesOf (Some (BuildMerkleTree sha hs))) \<and>
           length hs \<le> 2 ^ d \<and> (d = 0 \<or> 2 ^ (d - 1) < length hs)"
  using assms by (rule BuildMerkleTree_shape)

theorem merkle_tree_shape_witness:
  "\<exists>d. perfect d (BuildMerkleTree id [''61'', ''62'', ''63'']) \<and>
       wfNode id (BuildMerkleTree id [''61'', ''62'', ''63'']) \<and>
       prefix [''61'', ''62'', ''63''] (leafHashesOf (Some (BuildMerkleTree id [''61'', ''62'', ''63'']))) \<and>
       length [''61'', ''62'', ''63''] \<le> 2 ^ d \<and> (d = 0 \<or> 2 ^ (d - 1) < length [''61'', ''62'', ''63''])"
  by (rule merkle_tree_shape) simp



text \<open>C30. When ApplyRuntimeConfig of the manager returns results, every requested node has one, and
  every node whose result does not report a failed write has the normalised configuration stored
  as its desired one, nodes without a decision maker included.\<close>

theorem desired_config_stored:
  assumes "rt_laws coll view" "rv_repo env = Some coll" "ApplyRuntimeConfig env operator (Some opt) st = (Inr results, st')"
  shows "set (ro_NodeIDs opt) \<subseteq> ra_NodeID ` set results \<and>
    (\<forall>res \<in> set results. persisted res \<longrightarrow> ra_NodeID res \<in> stored view (Normalize (ro_Config opt)) (rs_store st'))"
  using desired_stored [OF assms] by blast

theorem desired_config_stored_witness:
  "\<exists>results st'. ApplyRuntimeConfig exRtEnv None (Some \<lparr>ro_NodeIDs = [''n7''], ro_Config = exNoWatchdog\<rparr>)
       \<lparr>rs_store = [], rs_net = exRtNet\<rparr> = (Inr results, st') \<and> ''n7'' \<in> stored exRtView (Normalize exNoWatchdog) (rs_store st')"
proof -
  let ?o = "\<lparr>ro_NodeIDs = [''n7''], ro_Config = exNoWatchdog\<rparr>"
  let ?r = "(emptyResult ''n7'' [])\<lparr>ra_Error := ''decision maker is not discovered'', ra_ConfigVersion := ''v1'',
      ra_DesiredConfig := Some exNoWatchdog, ra_Drift := True\<rparr>"
  have N: "Normalize exNoWatchdog = exNoWatchdog" by (rule Normalize_id [OF exNoWatchdog_ok(1)])
  obtain st' where a: "ApplyRuntimeConfig exRtEnv None (Some ?o) \<lparr>rs_store = [], rs_net = exRtNet\<rparr> = (Inr [?r], st')"
    using exNoWatchdog_ok by (simp add: ApplyRuntimeConfig_def exRtEnv_def Let_def N persistUnreachableRuntimeConfig_def
        UpsertNodeRuntimeConfig_def exColl_def)
  from desired_config_stored [OF exColl_laws _ a] have "persisted ?r \<longrightarrow> ''n7'' \<in> stored exRtView (Normalize exNoWatchdog) (rs_store st')"
    by (simp add: exRtEnv_def)
  moreover have "persisted ?r" by (simp add: persisted_def HasPrefix_def)
  ultimately show ?thesis using a by blast
qed



text \<open>C32. While atomicWriteConfigFile runs, the configuration file holds its old content or the
  complete new one at every moment; on success it holds the new one and no temporary file is
  left, and after a failed call it is as before.\<close>

theorem config_write_atomic:
  assumes "tmp_law env path fs" "atomicWriteConfigFile env path doc fs = (r, states)"
  shows "list_all (\<lambda>fs'. fs' path = fs path \<or> fs' path = Some (newFile env doc)) states \<and>
    (r = None \<longrightarrow> last states = fs(path \<mapsto> newFile env doc)) \<and>
    (r \<noteq> None \<longrightarrow> last states path = fs path \<and> (\<not> os_fails env SysRemove \<longrightarrow> last states = fs))"
  using atomicWrite_cases(1-3) [OF assms] by (simp add: list_all_iff)

theorem config_write_atomic_witness:
  "\<exists>states. atomicWriteConfigFile exOs ''/run/c'' ''x'' exNodeFiles = (None, states) \<and>
     last states = exNodeFiles(''/run/c'' \<mapsto> newFile exOs ''x'')"
proof -
  obtain r states where a: "atomicWriteConfigFile exOs ''/run/c'' ''x'' exNodeFiles = (r, states)" by (metis surj_pair)
  have "r = None" using atomicWrite_cases(4) [OF exTmp a] by simp
  with config_write_atomic [OF exTmp a] a show ?thesis by simp
qed



text \<open>C34. The command the daemon starts is its own binary in scheduler mode, or an executable file
  directly inside the daemon's own directory whose trimmed name is in the list of allowed
  schedulers.\<close>

theorem daemon_runs_listed_binary:
  assumes "schedulerCommandFromConfig ym env supported path bin fs = Inr (Some (exe, args))"
  shows "exe = bin \<and> args = [modeScheduler, ''-config'', path] \<or>
    (\<exists>n. TrimSpace n \<in> set allowedSCXSchedulers \<and> CHR ''/'' \<notin> set n \<and> exe = Clean (Dir bin) @ ''/'' @ n \<and>
         args = [] \<and> supported \<and> executable fs exe)"
  using assms by (rule resolved_command)

theorem daemon_runs_listed_binary_witness:
  "schedulerCommandFromConfig exYaml exOs True ''/run/c'' ''/bin/gthulhu'' exScxFiles = Inr (Some (''/bin/scx_lavd'', [])) \<and>
   (\<exists>n. TrimSpace n \<in> set allowedSCXSchedulers \<and> CHR ''/'' \<notin> set n \<and> ''/bin/scx_lavd'' = Clean (Dir ''/bin/gthulhu'') @ ''/'' @ n) \<and>
   executable exScxFiles ''/bin/scx_lavd''"
  using exScx_command daemon_runs_listed_binary [OF exScx_command] by auto





text \<open>C38. The tiered buffer after any sequence of samples is what its specification says: the last
  raw samples, the summaries of full groups of raw samples, and the summaries of full groups of
  summaries, each bounded.\<close>

theorem tiered_buffer_exact:
  "foldl (\<lambda>b (v, ts). bufferPush fl v ts b) emptyBuffer vs = tieredSpec fl (map (rawSample fl) vs)"
  using buffer_run [of fl "[]" vs] by (simp add: emptyBuffer_spec [of fl])

text \<open>C39. After any sequence of samples the classifier's table has at most one pod more than its
  limit, keys are distinct and belong to their pods, and the buffers of every pod and of the
  clustering model are bounded.\<close>

theorem classifier_bounded:
  "int (length (ac_pods (ingestAll fl ins (NewAdaptiveClassifier n)))) \<le> classifierMaxPods + 1 \<and>
   distinct (map fst (ac_pods (ingestAll fl ins (NewAdaptiveClassifier n)))) \<and>
   list_all (\<lambda>(key, st). key = podKey (ps_namespace st) (ps_pod st) \<and> podInv st)
     (ac_pods (ingestAll fl ins (NewAdaptiveClassifier n))) \<and>
   modelInv (ac_model (ingestAll fl ins (NewAdaptiveClassifier n)))"
proof -
  let ?c = "NewAdaptiveClassifier n :: 'a classifier"
  have "tableInv (ingestAll fl ins ?c)" by (rule ingestAll_inv) (rule tableInv_new)
  moreover have "ac_maxPods (ingestAll fl ins ?c) = classifierMaxPods" "0 < classifierMaxPods"
    by (simp_all add: ingestAll_config) (simp_all add: NewAdaptiveClassifier_def classifierMaxPods_def)
  ultimately show ?thesis by (auto simp: tableInv_def list_all_iff)
qed



end
